(* ===== verification/Prelude.thy ===== *)
theory Prelude
  imports Main "HOL-Library.Char_ord" "HOL-Library.List_Lexorder" "HOL-Library.Product_Lexorder"
begin

text \<open>
  The shared base of the development: Rust strings as UTF-8 byte lists, the integer
  conversions the code uses, the SQL operations the stores are written with (a table is the
  list of its rows in insertion order), and the generic interfaces the components interpret:
  \<^item> \<open>state_codec\<close>: an enum and its database spelling;
  \<^item> \<open>row_evolution\<close>: how the rows of a table may change from one state to a later one;
  \<^item> \<open>transition_system\<close>: invariants of the states a step relation reaches;
  \<^item> \<open>fenced_resource\<close>: monotone fencing tokens shut out superseded holders.
\<close>

named_theorems sql_simps \<open>rewrite rules of the SQL operations\<close>

section \<open>Strings\<close>

text \<open>
  A Rust \<open>String\<close> is its UTF-8 encoding, a list of bytes; \<open>len()\<close> is \<^const>\<open>length\<close>.
  \<open>chars().count()\<close> counts the bytes that do not continue a character (\<open>0x80..0xBF\<close>).
\<close>

definition is_continuation :: "char \<Rightarrow> bool" where
  "is_continuation b \<longleftrightarrow> of_char b div 64 = (2::nat)"

definition chars_count :: "string \<Rightarrow> nat" where
  "chars_count s = length (filter (\<lambda>b. \<not> is_continuation b) s)"

text \<open>The characters of a string, each as its own bytes.\<close>

function utf8_chars :: "string \<Rightarrow> string list" where
  "utf8_chars [] = []"
| "utf8_chars (b # s) =
     (b # takeWhile is_continuation s) # utf8_chars (dropWhile is_continuation s)"
  by pat_completeness auto
termination
  by (relation "measure length") (auto simp: le_imp_less_Suc length_dropWhile_le)

text \<open>\<open>chars().take(n).collect()\<close>: the first \<open>n\<close> characters.\<close>

definition chars_take :: "nat \<Rightarrow> string \<Rightarrow> string" where
  "chars_take n s = concat (take n (utf8_chars s))"

text \<open>The UTF-8 encodings of the characters with Unicode's White_Space property.\<close>

definition ws_encodings :: "string list" where
  "ws_encodings =
     [[CHR 0x20], [CHR 0x09], [CHR 0x0A], [CHR 0x0B], [CHR 0x0C], [CHR 0x0D],
      [CHR 0xC2, CHR 0x85], [CHR 0xC2, CHR 0xA0], [CHR 0xE1, CHR 0x9A, CHR 0x80],
      [CHR 0xE2, CHR 0x80, CHR 0x80], [CHR 0xE2, CHR 0x80, CHR 0x81],
      [CHR 0xE2, CHR 0x80, CHR 0x82], [CHR 0xE2, CHR 0x80, CHR 0x83],
      [CHR 0xE2, CHR 0x80, CHR 0x84], [CHR 0xE2, CHR 0x80, CHR 0x85],
      [CHR 0xE2, CHR 0x80, CHR 0x86], [CHR 0xE2, CHR 0x80, CHR 0x87],
      [CHR 0xE2, CHR 0x80, CHR 0x88], [CHR 0xE2, CHR 0x80, CHR 0x89],
      [CHR 0xE2, CHR 0x80, CHR 0x8A], [CHR 0xE2, CHR 0x80, CHR 0xA8],
      [CHR 0xE2, CHR 0x80, CHR 0xA9], [CHR 0xE2, CHR 0x80, CHR 0xAF],
      [CHR 0xE2, CHR 0x81, CHR 0x9F], [CHR 0xE3, CHR 0x80, CHR 0x80]]"

definition ws_prefix_len :: "string \<Rightarrow> nat" where
  "ws_prefix_len s =
     (case find (\<lambda>w. take (length w) s = w) ws_encodings of None \<Rightarrow> 0 | Some w \<Rightarrow> length w)"

definition ws_suffix_len :: "string \<Rightarrow> nat" where
  "ws_suffix_len s =
     (case find (\<lambda>w. length w \<le> length s \<and> drop (length s - length w) s = w) ws_encodings of
        None \<Rightarrow> 0 | Some w \<Rightarrow> length w)"

lemma ws_prefix_len_le: "ws_prefix_len s \<le> length s"
proof (cases "find (\<lambda>w. take (length w) s = w) ws_encodings")
  case (Some w)
  then have "take (length w) s = w" by (auto simp: find_Some_iff)
  then have "length w \<le> length s" by (metis length_take min.absorb_iff2)
  with Some show ?thesis by (simp add: ws_prefix_len_def)
qed (simp add: ws_prefix_len_def)

lemma ws_suffix_len_le: "ws_suffix_len s \<le> length s"
  by (auto simp: ws_suffix_len_def find_Some_iff split: option.split)

function trim_start :: "string \<Rightarrow> string" where
  "trim_start s = (if ws_prefix_len s = 0 then s else trim_start (drop (ws_prefix_len s) s))"
  by pat_completeness auto
termination
proof (relation "measure length", goal_cases)
  case (2 s)
  with ws_prefix_len_le [of s] show ?case by auto
qed simp

function trim_end :: "string \<Rightarrow> string" where
  "trim_end s =
     (if ws_suffix_len s = 0 then s else trim_end (take (length s - ws_suffix_len s) s))"
  by pat_completeness auto
termination
proof (relation "measure length", goal_cases)
  case (2 s)
  with ws_suffix_len_le [of s] show ?case by auto
qed simp

declare trim_start.simps [simp del] trim_end.simps [simp del]

definition trim :: "string \<Rightarrow> string" where
  "trim s = trim_end (trim_start s)"

lemma ws_prefix_len_0: "ws_prefix_len s = 0 \<longleftrightarrow> (\<forall>w \<in> set ws_encodings. take (length w) s \<noteq> w)"
proof -
  have "\<forall>w \<in> set ws_encodings. w \<noteq> []" by (simp add: ws_encodings_def)
  then show ?thesis
    by (force simp: ws_prefix_len_def find_None_iff find_Some_iff split: option.split)
qed

lemma ws_prefix_len_take:
  assumes "ws_prefix_len s = 0"
  shows "ws_prefix_len (take k s) = 0"
  unfolding ws_prefix_len_0
proof (intro ballI notI)
  fix w assume w: "w \<in> set ws_encodings" and eq: "take (length w) (take k s) = w"
  then have "length w \<le> k" by (metis length_take min.bounded_iff nle_le)
  with eq have "take (length w) s = w" by (simp add: min_absorb1)
  with assms w show False by (simp add: ws_prefix_len_0)
qed

lemma trim_start_no_ws: "ws_prefix_len (trim_start s) = 0"
  by (induction s rule: trim_start.induct) (subst trim_start.simps, simp)

lemma trim_end_no_ws: "ws_suffix_len (trim_end s) = 0"
  by (induction s rule: trim_end.induct) (subst trim_end.simps, simp)

lemma trim_end_take: "\<exists>k. trim_end s = take k s"
proof (induction s rule: trim_end.induct)
  case (1 s)
  show ?case
  proof (cases "ws_suffix_len s = 0")
    case True
    then have "trim_end s = take (length s) s" by (subst trim_end.simps) simp
    then show ?thesis ..
  next
    case False
    with "1.IH" obtain k where "trim_end (take (length s - ws_suffix_len s) s)
        = take k (take (length s - ws_suffix_len s) s)" by blast
    with False have "trim_end s = take (min k (length s - ws_suffix_len s)) s"
      by (subst trim_end.simps) simp
    then show ?thesis ..
  qed
qed

lemma trim_idem [simp]: "trim (trim s) = trim s"
proof -
  obtain k where k: "trim s = take k (trim_start s)"
    using trim_end_take [of "trim_start s"] by (auto simp: trim_def)
  then have "trim_start (trim s) = trim s"
    by (subst trim_start.simps) (simp add: ws_prefix_len_take trim_start_no_ws)
  moreover have "trim_end (trim s) = trim s"
    by (subst trim_end.simps) (simp add: trim_def trim_end_no_ws)
  ultimately show ?thesis by (simp add: trim_def)
qed

definition ascii_lower :: "char \<Rightarrow> char" where
  "ascii_lower c =
     (if 65 \<le> (of_char c :: nat) \<and> (of_char c :: nat) \<le> 90 then char_of (of_char c + 32 :: nat) else c)"

definition to_ascii_lowercase :: "string \<Rightarrow> string" where
  "to_ascii_lowercase s = map ascii_lower s"

definition starts_with :: "string \<Rightarrow> string \<Rightarrow> bool" where
  "starts_with p s \<longleftrightarrow> take (length p) s = p"

text \<open>\<open>str::contains\<close> and \<open>str::find\<close> with a string: the byte offset of the first occurrence.\<close>

fun str_find :: "string \<Rightarrow> string \<Rightarrow> nat option" where
  "str_find p [] = (if p = [] then Some 0 else None)"
| "str_find p (c # s) = (if starts_with p (c # s) then Some 0 else map_option Suc (str_find p s))"

definition str_contains :: "string \<Rightarrow> string \<Rightarrow> bool" where
  "str_contains p s \<longleftrightarrow> str_find p s \<noteq> None"

lemma str_find_SomeD:
  "str_find p s = Some i \<Longrightarrow> i + length p \<le> length s \<and> take (length p) (drop i s) = p"
proof (induction p s arbitrary: i rule: str_find.induct)
  case (1 p)
  then show ?case by (simp split: if_splits)
next
  case (2 p c s)
  show ?case
  proof (cases "starts_with p (c # s)")
    case True
    then have "take (length p) (c # s) = p" by (simp add: starts_with_def)
    moreover from this have "length p \<le> length (c # s)" by (metis length_take min.bounded_iff nle_le)
    ultimately show ?thesis using 2 True by simp
  next
    case False
    with 2 show ?thesis by (auto split: if_splits)
  qed
qed

lemma str_contains_iff: "str_contains p s \<longleftrightarrow> (\<exists>pre post. s = pre @ p @ post)"
proof
  assume "str_contains p s"
  then obtain i where "str_find p s = Some i" by (auto simp: str_contains_def)
  from str_find_SomeD [OF this] have "s = take i s @ p @ drop (i + length p) s"
    by (metis append_take_drop_id drop_drop add.commute)
  then show "\<exists>pre post. s = pre @ p @ post" by blast
next
  assume "\<exists>pre post. s = pre @ p @ post"
  then obtain pre post where "s = pre @ p @ post" by blast
  then show "str_contains p s"
  proof (induction pre arbitrary: s)
    case Nil
    then have "starts_with p s" by (simp add: starts_with_def)
    then show ?case by (cases s) (simp_all add: str_contains_def starts_with_def)
  next
    case (Cons c pre)
    then show ?case by (auto simp: str_contains_def)
  qed
qed

text \<open>Lower-case hexadecimal, as \<open>{:x}\<close> and \<open>{:02x}\<close> print it, and decimal numbers.\<close>

definition hex_digit :: "nat \<Rightarrow> char" where
  "hex_digit d = char_of (if d < 10 then 48 + d else 87 + d)"

fun hex_nat :: "nat \<Rightarrow> string" where
  "hex_nat n = (if n < 16 then [hex_digit n] else hex_nat (n div 16) @ [hex_digit (n mod 16)])"

declare hex_nat.simps [simp del]

definition hex_byte :: "char \<Rightarrow> string" where
  "hex_byte c = [hex_digit (of_char c div 16), hex_digit (of_char c mod 16)]"

fun dec_nat :: "nat \<Rightarrow> string" where
  "dec_nat n = (if n < 10 then [char_of (48 + n)] else dec_nat (n div 10) @ [char_of (48 + n mod 10)])"

declare dec_nat.simps [simp del]

definition dec_int :: "int \<Rightarrow> string" where
  "dec_int i = (if i < 0 then CHR ''-'' # dec_nat (nat (- i)) else dec_nat (nat i))"

section \<open>Results\<close>

text \<open>
  \<open>anyhow::Result\<close> is a sum with the error on the left. \<open>ensure!\<close> and \<open>bail!\<close> leave with
  their error, \<open>.context(e)?\<close> on an \<open>Option\<close> leaves with \<open>e\<close>, and \<open>?\<close> on a result
  leaves with its error.
\<close>

definition ensure :: "bool \<Rightarrow> 'e \<Rightarrow> 'e + 'a \<Rightarrow> 'e + 'a" where
  "ensure b e k = (if b then k else Inl e)"

definition fetch :: "'b option \<Rightarrow> 'e \<Rightarrow> ('b \<Rightarrow> 'e + 'a) \<Rightarrow> 'e + 'a" where
  "fetch x e k = (case x of None \<Rightarrow> Inl e | Some y \<Rightarrow> k y)"

definition and_then :: "'e + 'b \<Rightarrow> ('b \<Rightarrow> 'e + 'a) \<Rightarrow> 'e + 'a" where
  "and_then x k = (case x of Inl e \<Rightarrow> Inl e | Inr y \<Rightarrow> k y)"

text \<open>\<open>collect::<Result<Vec<_>>>()\<close>: the first error, or all results.\<close>

fun collect :: "('x \<Rightarrow> 'e + 'a) \<Rightarrow> 'x list \<Rightarrow> 'e + 'a list" where
  "collect f [] = Inr []"
| "collect f (x # xs) = and_then (f x) (\<lambda>y. and_then (collect f xs) (\<lambda>ys. Inr (y # ys)))"

lemma ensure_Inr [simp]: "ensure b e k = Inr r \<longleftrightarrow> b \<and> k = Inr r"
  by (simp add: ensure_def)

lemma ensure_True [simp]: "ensure True e k = k"
  by (simp add: ensure_def)

lemma ensure_False [simp]: "ensure False e k = Inl e"
  by (simp add: ensure_def)

lemma ensure_Inl: "ensure b e k = Inl e' \<longleftrightarrow> (if b then k = Inl e' else e' = e)"
  by (auto simp: ensure_def)

lemma fetch_Inr [simp]: "fetch x e k = Inr r \<longleftrightarrow> (\<exists>y. x = Some y \<and> k y = Inr r)"
  by (simp add: fetch_def split: option.split)

lemma fetch_Some [simp]: "fetch (Some y) e k = k y"
  by (simp add: fetch_def)

lemma fetch_None [simp]: "fetch None e k = Inl e"
  by (simp add: fetch_def)

lemma and_then_Inr [simp]: "and_then x k = Inr r \<longleftrightarrow> (\<exists>y. x = Inr y \<and> k y = Inr r)"
  by (simp add: and_then_def split: sum.split)

lemma and_then_Inr_left [simp]: "and_then (Inr y) k = k y"
  by (simp add: and_then_def)

lemma and_then_Inl_left [simp]: "and_then (Inl e) k = Inl e"
  by (simp add: and_then_def)

lemma collect_Inr: "collect f xs = Inr ys \<longleftrightarrow> list_all2 (\<lambda>x y. f x = Inr y) xs ys"
  by (induction xs arbitrary: ys) (auto simp: list_all2_Cons1)

lemma list_all2_right_mem:
  assumes "list_all2 P xs ys" and "y \<in> set ys"
  obtains x where "x \<in> set xs" "P x y"
  using assms by (metis in_set_conv_nth list_all2_conv_all_nth)

section \<open>Integers\<close>

definition i64_max :: int where "i64_max = 2 ^ 63 - 1"
definition i64_min :: int where "i64_min = - (2 ^ 63)"

definition sat_i64 :: "int \<Rightarrow> int" where
  "sat_i64 x = max i64_min (min i64_max x)"

definition try_u :: "nat \<Rightarrow> int \<Rightarrow> int option" where
  \<comment> \<open>\<open>u{w}::try_from\<close>: fails outside \<open>0..2^w\<close>\<close>
  "try_u w x = (if 0 \<le> x \<and> x < 2 ^ w then Some x else None)"

definition try_i64 :: "int \<Rightarrow> int option" where
  "try_i64 x = (if i64_min \<le> x \<and> x \<le> i64_max then Some x else None)"

definition clamp :: "int \<Rightarrow> int \<Rightarrow> int \<Rightarrow> int" where
  "clamp lo hi x = max lo (min hi x)"

lemma try_u_Some [simp]: "try_u w x = Some y \<longleftrightarrow> y = x \<and> 0 \<le> x \<and> x < 2 ^ w"
  by (auto simp: try_u_def)

lemma try_u_None [simp]: "try_u w x = None \<longleftrightarrow> x < 0 \<or> 2 ^ w \<le> x"
  by (auto simp: try_u_def)

lemma sat_i64_id: "i64_min \<le> x \<Longrightarrow> x \<le> i64_max \<Longrightarrow> sat_i64 x = x"
  by (simp add: sat_i64_def)

section \<open>SQL over lists of rows\<close>

text \<open>\<open>UPDATE t SET f WHERE p\<close>.\<close>

definition update_where :: "('r \<Rightarrow> bool) \<Rightarrow> ('r \<Rightarrow> 'r) \<Rightarrow> 'r list \<Rightarrow> 'r list" where
  "update_where p f rows = map (\<lambda>r. if p r then f r else r) rows"

text \<open>\<open>SELECT COUNT(*) FROM t WHERE p\<close>, and \<open>rows_affected()\<close> of an update.\<close>

definition count_where :: "('r \<Rightarrow> bool) \<Rightarrow> 'r list \<Rightarrow> nat" where
  "count_where p rows = length (filter p rows)"

text \<open>\<open>SELECT ... WHERE p ORDER BY k LIMIT n\<close>; with \<open>n = 1\<close>, its first row.\<close>

definition select_ordered :: "('r \<Rightarrow> 'k::linorder) \<Rightarrow> ('r \<Rightarrow> bool) \<Rightarrow> 'r list \<Rightarrow> 'r list" where
  "select_ordered k p rows = sort_key k (filter p rows)"

definition first_row :: "'r list \<Rightarrow> 'r option" where
  "first_row rows = (case rows of [] \<Rightarrow> None | r # _ \<Rightarrow> Some r)"

text \<open>\<open>... ORDER BY k DESC LIMIT 1\<close>: the last row in ascending order.\<close>

definition last_row :: "'r list \<Rightarrow> 'r option" where
  "last_row rows = (if rows = [] then None else Some (last rows))"

lemma update_where_Nil [simp]: "update_where p f [] = []"
  by (simp add: update_where_def)

lemma update_where_Cons [simp]:
  "update_where p f (r # rs) = (if p r then f r else r) # update_where p f rs"
  by (simp add: update_where_def)

lemma length_update_where [simp]: "length (update_where p f rs) = length rs"
  by (simp add: update_where_def)

lemma update_where_append [simp]:
  "update_where p f (xs @ ys) = update_where p f xs @ update_where p f ys"
  by (simp add: update_where_def)

lemma set_update_where: "set (update_where p f rs) = (\<lambda>r. if p r then f r else r) ` set rs"
  by (simp add: update_where_def)

lemma map_update_where [sql_simps]:
  "(\<And>r. p r \<Longrightarrow> g (f r) = g r) \<Longrightarrow> map g (update_where p f rs) = map g rs"
  by (induction rs) auto

lemma map_update_static:
  "(\<And>r. r \<in> set rs \<Longrightarrow> p r \<Longrightarrow> g (f r) = g r) \<Longrightarrow> map g (update_where p f rs) = map g rs"
  by (induction rs) auto

lemma image_update_static:
  "(\<And>r. r \<in> set rs \<Longrightarrow> p r \<Longrightarrow> g (f r) = g r) \<Longrightarrow> g ` set (update_where p f rs) = g ` set rs"
  by (metis list.set_map map_update_static)

lemma ball_update_where:
  "(\<And>r. r \<in> set rs \<Longrightarrow> p r \<Longrightarrow> P r \<Longrightarrow> P (f r)) \<Longrightarrow> \<forall>r \<in> set rs. P r \<Longrightarrow> \<forall>r \<in> set (update_where p f rs). P r"
  by (auto simp: set_update_where)

lemma update_where_none: "(\<And>r. r \<in> set rs \<Longrightarrow> \<not> p r) \<Longrightarrow> update_where p f rs = rs"
  by (induction rs) auto

lemma update_where_mem: "r \<in> set rs \<Longrightarrow> (if p r then f r else r) \<in> set (update_where p f rs)"
  by (auto simp: set_update_where)

lemma mem_update_whereE:
  assumes "r \<in> set (update_where p f rs)"
  obtains r0 where "r0 \<in> set rs" "r = (if p r0 then f r0 else r0)"
  using assms by (auto simp: set_update_where)

lemma count_where_Nil [simp]: "count_where p [] = 0"
  by (simp add: count_where_def)

lemma count_where_Cons [simp]:
  "count_where p (r # rs) = (if p r then Suc (count_where p rs) else count_where p rs)"
  by (simp add: count_where_def)

lemma count_where_append [simp]: "count_where p (xs @ ys) = count_where p xs + count_where p ys"
  by (simp add: count_where_def)

lemma count_where_0 [simp]: "count_where p rs = 0 \<longleftrightarrow> (\<forall>r \<in> set rs. \<not> p r)"
  by (simp add: count_where_def filter_empty_conv)

lemma count_where_mono:
  "(\<And>r. r \<in> set rs \<Longrightarrow> p r \<Longrightarrow> q r) \<Longrightarrow> count_where p rs \<le> count_where q rs"
  by (induction rs) (auto intro: le_SucI)

lemma count_where_update:
  "(\<And>r. p r \<Longrightarrow> q (f r) \<Longrightarrow> q r) \<Longrightarrow> count_where q (update_where p f rs) \<le> count_where q rs"
  by (induction rs) (auto intro: le_SucI)

lemma count_update_le:
  "(\<And>r. r \<in> set rs \<Longrightarrow> p r \<Longrightarrow> q (f r) \<Longrightarrow> q r) \<Longrightarrow> count_where q (update_where p f rs) \<le> count_where q rs"
  by (induction rs) (auto intro: le_SucI)

lemma count_where_map: "count_where p (map f rs) = count_where (\<lambda>r. p (f r)) rs"
  by (induction rs) simp_all

lemma count_where_unique:
  assumes "distinct rs" and "r \<in> set rs" and "p r" and "\<And>q. q \<in> set rs \<Longrightarrow> p q \<Longrightarrow> q = r"
  shows "count_where p rs = 1"
proof -
  have "set (filter p rs) = {r}" using assms(2,3) by (auto dest: assms(4))
  moreover have "distinct (filter p rs)" using assms(1) by simp
  ultimately show ?thesis using distinct_card [of "filter p rs"] by (simp add: count_where_def)
qed

lemma count_where_le_length: "count_where p rs \<le> length rs"
  by (simp add: count_where_def)

lemma find_update_where:
  assumes "\<And>r. p r \<Longrightarrow> q (f r) = q r"
  shows "find q (update_where p f rs) =
    map_option (\<lambda>r. if p r then f r else r) (find q rs)"
  using assms by (induction rs) auto

lemma find_NoneD: "find p xs = None \<Longrightarrow> x \<in> set xs \<Longrightarrow> \<not> p x"
  by (auto simp: find_None_iff)

lemma find_SomeD: "find p xs = Some x \<Longrightarrow> x \<in> set xs \<and> p x"
  by (auto simp: find_Some_iff)

lemma find_append: "find p (xs @ ys) = (case find p xs of None \<Rightarrow> find p ys | Some x \<Rightarrow> Some x)"
  by (induction xs) auto

lemma set_select_ordered [simp]: "set (select_ordered k p rows) = {r \<in> set rows. p r}"
  by (auto simp: select_ordered_def)

lemma first_row_SomeD: "first_row rows = Some r \<Longrightarrow> r \<in> set rows"
  by (auto simp: first_row_def split: list.splits)

lemma first_row_least:
  assumes "first_row (select_ordered k p rs) = Some r" and "q \<in> set rs" and "p q"
  shows "k r \<le> k q"
proof -
  have sorted: "sorted (map k (select_ordered k p rs))" by (simp add: select_ordered_def)
  from assms(1) obtain rest where rest: "select_ordered k p rs = r # rest"
    by (auto simp: first_row_def split: list.splits)
  moreover have "q \<in> set (select_ordered k p rs)" using assms(2,3) by (simp add: select_ordered_def)
  ultimately show ?thesis using sorted by auto
qed

lemma first_row_None [simp]: "first_row rows = None \<longleftrightarrow> rows = []"
  by (auto simp: first_row_def split: list.splits)

lemma last_row_SomeD: "last_row rows = Some r \<Longrightarrow> r \<in> set rows"
  by (auto simp: last_row_def split: if_splits)

text \<open>A row found by a key that is unique in the table.\<close>

lemma find_key:
  assumes "distinct (map key rows)" and "r \<in> set rows"
  shows "find (\<lambda>x. key x = key r) rows = Some r"
  using assms by (induction rows) (auto simp: rev_image_eqI)

section \<open>Enums and their database spelling\<close>

text \<open>
  An enum is stored by the text \<open>as_str\<close> gives and read back by \<open>from_db\<close>, which refuses
  any other text.
\<close>

locale state_codec =
  fixes as_str :: "'a \<Rightarrow> string" and from_db :: "string \<Rightarrow> 'e + 'a"
  assumes from_as [simp]: "from_db (as_str x) = Inr x"
    and as_from: "from_db s = Inr x \<Longrightarrow> as_str x = s"
begin

lemma as_str_inj: "as_str x = as_str y \<longleftrightarrow> x = y"
proof
  assume "as_str x = as_str y"
  then have "from_db (as_str x) = from_db (as_str y)" by simp
  then show "x = y" by simp
qed simp

lemma from_db_iff: "from_db s = Inr x \<longleftrightarrow> s = as_str x"
  using as_from by auto

lemma from_db_error_iff: "(\<exists>e. from_db s = Inl e) \<longleftrightarrow> s \<notin> range as_str"
proof
  assume "\<exists>e. from_db s = Inl e"
  then show "s \<notin> range as_str" by auto
next
  assume "s \<notin> range as_str"
  then show "\<exists>e. from_db s = Inl e"
    using as_from by (cases "from_db s") auto
qed

end

section \<open>How tables evolve\<close>

text \<open>
  The later table keeps every row of the earlier one, in place, changed only as \<open>R\<close> allows,
  and appends new rows.
\<close>

definition rows_evolve :: "('r \<Rightarrow> 'r \<Rightarrow> bool) \<Rightarrow> 'r list \<Rightarrow> 'r list \<Rightarrow> bool" where
  "rows_evolve R xs ys \<longleftrightarrow> (\<exists>zs ns. ys = zs @ ns \<and> list_all2 R xs zs)"

lemma rows_evolve_member:
  assumes "rows_evolve R xs ys" and "x \<in> set xs"
  obtains y where "y \<in> set ys" "R x y"
proof -
  from assms obtain zs ns where ys: "ys = zs @ ns" and rel: "list_all2 R xs zs"
    by (auto simp: rows_evolve_def)
  from assms(2) obtain i where "i < length xs" "x = xs ! i"
    by (auto simp: in_set_conv_nth)
  with rel have "R x (zs ! i)" and "i < length zs"
    by (auto simp: list_all2_conv_all_nth)
  with ys that show thesis by (metis Un_iff nth_mem set_append)
qed

lemma rows_evolve_mono: "rows_evolve R xs ys \<Longrightarrow> (\<And>x y. R x y \<Longrightarrow> S x y) \<Longrightarrow> rows_evolve S xs ys"
  unfolding rows_evolve_def by (blast intro: list_all2_mono)

lemma rows_evolve_eq_append: "rows_evolve (=) xs ys \<longleftrightarrow> (\<exists>ns. ys = xs @ ns)"
  by (auto simp: rows_evolve_def list.rel_eq)

locale row_evolution =
  fixes R :: "'r \<Rightarrow> 'r \<Rightarrow> bool"
  assumes R_refl: "R x x"
    and R_trans: "R x y \<Longrightarrow> R y z \<Longrightarrow> R x z"
begin

lemma evolve_refl: "rows_evolve R xs xs"
  unfolding rows_evolve_def by (rule exI [of _ xs], rule exI [of _ "[]"]) (simp add: list.rel_refl R_refl)

lemma evolve_append: "rows_evolve R xs (xs @ ns)"
  unfolding rows_evolve_def by (rule exI [of _ xs], rule exI [of _ ns]) (simp add: list.rel_refl R_refl)

lemma evolve_update:
  assumes "\<And>r. r \<in> set xs \<Longrightarrow> p r \<Longrightarrow> R r (f r)"
  shows "rows_evolve R xs (update_where p f xs)"
proof -
  have "list_all2 R xs (update_where p f xs)"
    using assms by (induction xs) (auto simp: R_refl)
  then show ?thesis
    unfolding rows_evolve_def by (intro exI [of _ "update_where p f xs"] exI [of _ "[]"]) simp
qed

lemma evolve_trans:
  assumes "rows_evolve R xs ys" and "rows_evolve R ys zs"
  shows "rows_evolve R xs zs"
proof -
  from assms(1) obtain as bs where ys: "ys = as @ bs" and xa: "list_all2 R xs as"
    by (auto simp: rows_evolve_def)
  from assms(2) obtain cs ds where zs: "zs = cs @ ds" and yc: "list_all2 R ys cs"
    by (auto simp: rows_evolve_def)
  from yc ys obtain as' bs' where cs: "cs = as' @ bs'" and aa: "list_all2 R as as'"
    by (auto simp: list_all2_append1)
  from xa aa have "list_all2 R xs as'"
    by (rule list_all2_trans [rotated]) (rule R_trans)
  with zs cs show ?thesis unfolding rows_evolve_def by (intro exI [of _ as'] exI [of _ "bs' @ ds"]) simp
qed

end

text \<open>Equality: a table whose rows never change and are only appended.\<close>

interpretation append_only: row_evolution "(=) :: 'r \<Rightarrow> 'r \<Rightarrow> bool"
  by unfold_locales simp_all

section \<open>Transition systems\<close>

locale transition_system =
  fixes init :: "'s \<Rightarrow> bool" and step :: "'s \<Rightarrow> 's \<Rightarrow> bool" and Inv :: "'s \<Rightarrow> bool"
  assumes init_inv: "init s \<Longrightarrow> Inv s"
    and step_inv: "Inv s \<Longrightarrow> step s t \<Longrightarrow> Inv t"
begin

lemma steps_inv: "step\<^sup>*\<^sup>* s t \<Longrightarrow> Inv s \<Longrightarrow> Inv t"
  by (induction rule: rtranclp_induct) (auto intro: step_inv)

lemma steps_keep_inv: "init s \<Longrightarrow> step\<^sup>*\<^sup>* s t \<Longrightarrow> Inv t"
  by (blast intro: steps_inv init_inv)

end

text \<open>
  A holder presents the fencing token it was given; the resource's own token only grows, and a
  holder is current only while the two agree.
\<close>

locale fenced_resource =
  fixes step :: "'s \<Rightarrow> 's \<Rightarrow> bool"
    and token :: "'s \<Rightarrow> 'k \<Rightarrow> int"
    and current :: "'s \<Rightarrow> 'c \<Rightarrow> bool"
    and resource :: "'c \<Rightarrow> 'k"
    and held :: "'c \<Rightarrow> int"
  assumes token_mono: "step s t \<Longrightarrow> token s k \<le> token t k"
    and current_token: "current s c \<Longrightarrow> token s (resource c) = held c"
begin

lemma token_mono_steps: "step\<^sup>*\<^sup>* s t \<Longrightarrow> token s k \<le> token t k"
  by (induction rule: rtranclp_induct) (auto intro: order_trans token_mono)

lemma superseded_never_current:
  assumes "held c < token s (resource c)" and "step\<^sup>*\<^sup>* s t"
  shows "\<not> current t c"
proof
  assume "current t c"
  then have "token t (resource c) = held c" by (rule current_token)
  with token_mono_steps [OF assms(2), of "resource c"] assms(1) show False by simp
qed

lemma current_exclusive:
  "current s c \<Longrightarrow> current s d \<Longrightarrow> resource c = resource d \<Longrightarrow> held c = held d"
  by (metis current_token)

end

end
