(* ===== verification/Workflow_Graph.thy ===== *)
theory Workflow_Graph
  imports Prelude
begin

text \<open>
  The acyclicity check of \<open>WorkflowSpec::validate_with_policy\<close>: in-degrees in a map kept in key
  order, outgoing targets per step, a queue of the steps without open predecessors. Popping a
  step counts it and decrements the in-degree of its targets; the graph is accepted when every
  step was counted. Where the code would panic (a missing map entry, a \<open>usize\<close> underflow) the
  model returns \<open>None\<close>.
\<close>

type_synonym edge = "string \<times> string"
type_synonym degrees = "(string \<times> nat) list"

fun inc_degree :: "string \<Rightarrow> degrees \<Rightarrow> degrees option" where
  "inc_degree t [] = None"
| "inc_degree t ((k, d) # m) =
     (if k = t then Some ((k, Suc d) # m) else map_option (\<lambda>m'. (k, d) # m') (inc_degree t m))"

fun indegrees :: "edge list \<Rightarrow> degrees \<Rightarrow> degrees option" where
  "indegrees [] m = Some m"
| "indegrees ((u, v) # es) m = Option.bind (inc_degree v m) (indegrees es)"

definition outgoing :: "edge list \<Rightarrow> string \<Rightarrow> string list" where
  "outgoing es u = map snd (filter (\<lambda>e. fst e = u) es)"

fun dec_degree :: "string \<Rightarrow> degrees \<Rightarrow> (nat \<times> degrees) option" where
  "dec_degree t [] = None"
| "dec_degree t ((k, d) # m) =
     (if k = t then (case d of 0 \<Rightarrow> None | Suc d' \<Rightarrow> Some (d', (k, d') # m))
      else map_option (\<lambda>(d', m'). (d', (k, d) # m')) (dec_degree t m))"

fun relax :: "string list \<Rightarrow> degrees \<Rightarrow> string list \<Rightarrow> (degrees \<times> string list) option" where
  "relax [] m q = Some (m, q)"
| "relax (t # ts) m q =
     (case dec_degree t m of
        None \<Rightarrow> None
      | Some (d, m') \<Rightarrow> relax ts m' (if d = 0 then q @ [t] else q))"

lemma dec_degree_sum:
  "dec_degree t m = Some (d, m') \<Longrightarrow> Suc (sum_list (map snd m')) = sum_list (map snd m)"
  by (induction t m arbitrary: d m' rule: dec_degree.induct) (auto split: if_splits nat.splits)

lemma relax_measure:
  "relax ts m q = Some (m', q') \<Longrightarrow>
   sum_list (map snd m') + length q' \<le> sum_list (map snd m) + length q"
proof (induction ts m q arbitrary: m' q' rule: relax.induct)
  case (2 t ts m q)
  then show ?case
    by (fastforce split: option.splits prod.splits if_splits dest: dec_degree_sum)
qed simp

function kahn_visit :: "(string \<Rightarrow> string list) \<Rightarrow> string list \<Rightarrow> degrees \<Rightarrow> nat \<Rightarrow> nat option" where
  "kahn_visit out [] m v = Some v"
| "kahn_visit out (x # q) m v =
     (case relax (out x) m q of
        None \<Rightarrow> None
      | Some (m', q') \<Rightarrow> kahn_visit out q' m' (Suc v))"
  by pat_completeness auto
termination
  by (relation "measure (\<lambda>(out, q, m, v). sum_list (map snd m) + length q)")
     (auto dest!: relax_measure)

definition kahn :: "string list \<Rightarrow> edge list \<Rightarrow> nat option" where
  "kahn ids es =
     (case indegrees es (map (\<lambda>x. (x, 0)) (sort ids)) of
        None \<Rightarrow> None
      | Some m \<Rightarrow> kahn_visit (outgoing es) (map fst (filter (\<lambda>(x, d). d = 0) m)) m 0)"

section \<open>Degrees as functions\<close>

definition deg :: "degrees \<Rightarrow> string \<Rightarrow> nat" where
  "deg m x = (case map_of m x of None \<Rightarrow> 0 | Some d \<Rightarrow> d)"

definition indeg :: "edge list \<Rightarrow> string \<Rightarrow> nat" where
  "indeg es x = count_list (map snd es) x"

lemma deg_Cons: "deg ((k, d) # m) x = (if k = x then d else deg m x)"
  by (simp add: deg_def)

lemma inc_degree_Some:
  assumes "x \<in> fst ` set m"
  obtains m' where "inc_degree x m = Some m'" "map fst m' = map fst m"
    "\<And>y. deg m' y = (if y = x then Suc (deg m y) else deg m y)"
  using assms
proof (induction m arbitrary: thesis)
  case (Cons p m)
  obtain k d where p: "p = (k, d)" by (cases p)
  show ?case
  proof (cases "k = x")
    case True
    then show ?thesis
      by (intro Cons.prems(1) [of "(k, Suc d) # m"]) (auto simp: p deg_Cons)
  next
    case False
    with Cons.prems(2) p have "x \<in> fst ` set m" by auto
    then obtain m' where "inc_degree x m = Some m'" "map fst m' = map fst m"
        "\<And>y. deg m' y = (if y = x then Suc (deg m y) else deg m y)"
      using Cons.IH by blast
    with False show ?thesis
      by (intro Cons.prems(1) [of "(k, d) # m'"]) (auto simp: p deg_Cons)
  qed
qed simp

lemma dec_degree_Some:
  assumes "x \<in> fst ` set m" and "0 < deg m x"
  obtains m' where "dec_degree x m = Some (deg m x - 1, m')" "map fst m' = map fst m"
    "\<And>y. deg m' y = (if y = x then deg m y - 1 else deg m y)"
  using assms
proof (induction m arbitrary: thesis)
  case (Cons p m)
  obtain k d where p: "p = (k, d)" by (cases p)
  show ?case
  proof (cases "k = x")
    case True
    with Cons.prems(3) p obtain d' where "d = Suc d'" by (cases d) (auto simp: deg_Cons)
    with True show ?thesis
      by (intro Cons.prems(1) [of "(k, d - 1) # m"]) (auto simp: p deg_Cons)
  next
    case False
    with Cons.prems p have "x \<in> fst ` set m" "0 < deg m x" by (auto simp: deg_Cons)
    then obtain m' where "dec_degree x m = Some (deg m x - 1, m')" "map fst m' = map fst m"
        "\<And>y. deg m' y = (if y = x then deg m y - 1 else deg m y)"
      using Cons.IH by blast
    with False show ?thesis
      by (intro Cons.prems(1) [of "(k, d) # m'"]) (auto simp: p deg_Cons)
  qed
qed simp

lemma indegrees_Some:
  assumes "snd ` set es \<subseteq> fst ` set m"
  obtains m' where "indegrees es m = Some m'" "map fst m' = map fst m"
    "\<And>y. deg m' y = deg m y + indeg es y"
  using assms
proof (induction es arbitrary: m thesis)
  case Nil
  then show ?case by (simp add: indeg_def)
next
  case (Cons e es)
  obtain u v where e: "e = (u, v)" by (cases e)
  with Cons.prems(2) have "v \<in> fst ` set m" by simp
  then obtain m1 where m1: "inc_degree v m = Some m1" "map fst m1 = map fst m"
      "\<And>y. deg m1 y = (if y = v then Suc (deg m y) else deg m y)"
    by (rule inc_degree_Some) blast
  from m1(2) have "fst ` set m1 = fst ` set m" by (metis list.set_map)
  with Cons.prems(2) have "snd ` set es \<subseteq> fst ` set m1" by auto
  then obtain m' where "indegrees es m1 = Some m'"
      "map fst m' = map fst m1" "\<And>y. deg m' y = deg m1 y + indeg es y"
    using Cons.IH by blast
  with m1 e show ?case
    by (intro Cons.prems(1) [of m']) (auto simp: indeg_def)
qed

section \<open>The loop invariant\<close>

text \<open>
  \<open>P\<close> are the steps popped so far. An in-degree counts the edges from steps not yet popped, a
  step is popped or queued exactly when that count is zero, and \<open>f\<close> numbers the popped steps so
  that every edge into a popped step goes up.
\<close>

definition kahn_inv ::
  "string set \<Rightarrow> edge list \<Rightarrow> string set \<Rightarrow> string list \<Rightarrow> degrees \<Rightarrow> nat \<Rightarrow> bool" where
  "kahn_inv N es P q m v \<longleftrightarrow>
     distinct q \<and> set q \<inter> P = {} \<and> P \<union> set q \<subseteq> N \<and> fst ` set m = N \<and> card P = v \<and>
     (\<forall>x \<in> N. deg m x = indeg (filter (\<lambda>e. fst e \<notin> P) es) x) \<and>
     (\<forall>x \<in> N. x \<in> P \<union> set q \<longleftrightarrow> deg m x = 0) \<and>
     (\<exists>f. (\<forall>x \<in> P. f x < v) \<and> (\<forall>(a, b) \<in> set es. b \<in> P \<longrightarrow> a \<in> P \<and> (f a :: nat) < f b))"

lemma kahn_inv_deg:
  "kahn_inv N es P q m v \<Longrightarrow> y \<in> N \<Longrightarrow> deg m y = indeg (filter (\<lambda>e. fst e \<notin> P) es) y"
  unfolding kahn_inv_def by (elim conjE) (rule bspec [of N "\<lambda>y. deg m y = _ y"])

lemma kahn_inv_zero:
  "kahn_inv N es P q m v \<Longrightarrow> y \<in> N \<Longrightarrow> y \<in> P \<union> set q \<longleftrightarrow> deg m y = 0"
  unfolding kahn_inv_def by (elim conjE) (rule bspec [of N "\<lambda>y. y \<in> _ \<longleftrightarrow> _ y"])

lemma indeg_0: "indeg es x = 0 \<longleftrightarrow> x \<notin> snd ` set es"
  by (simp add: indeg_def count_list_0_iff)

lemma count_list_distinct: "distinct xs \<Longrightarrow> count_list xs x = (if x \<in> set xs then 1 else 0)"
  by (induction xs) auto

lemma indeg_edge: "(a, b) \<in> set es \<Longrightarrow> a \<notin> P \<Longrightarrow> indeg (filter (\<lambda>e. fst e \<notin> P) es) b \<noteq> 0"
  unfolding indeg_0 by (metis (mono_tags, lifting) fst_conv imageI mem_Collect_eq set_filter snd_conv)

lemma indeg_split:
  assumes "a \<notin> P"
  shows "indeg (filter (\<lambda>e. fst e \<notin> P) es) x =
         indeg (filter (\<lambda>e. fst e \<notin> insert a P) es) x + count_list (outgoing es a) x"
  using assms by (induction es) (auto simp: indeg_def outgoing_def)

text \<open>Relaxing the targets of a popped step: in-degrees drop by the targets' multiplicity.\<close>

lemma relax_Some:
  assumes "set ts \<subseteq> fst ` set m" and "distinct ts"
    and "\<And>x. x \<in> set ts \<Longrightarrow> 0 < deg m x"
  obtains m' where "relax ts m q = Some (m', q @ filter (\<lambda>t. deg m t = 1) ts)"
    "map fst m' = map fst m"
    "\<And>y. deg m' y = (if y \<in> set ts then deg m y - 1 else deg m y)"
  using assms
proof (induction ts arbitrary: m q thesis)
  case Nil
  then show ?case by simp
next
  case (Cons t ts)
  from Cons.prems(2,4) have "t \<in> fst ` set m" "0 < deg m t" by auto
  then obtain m1 where
      m1: "dec_degree t m = Some (deg m t - 1, m1)" "map fst m1 = map fst m"
      "\<And>y. deg m1 y = (if y = t then deg m y - 1 else deg m y)"
    by (rule dec_degree_Some) blast
  from m1(2) have dom: "fst ` set m1 = fst ` set m" by (metis list.set_map)
  have "set ts \<subseteq> fst ` set m1" and dts: "distinct ts" "t \<notin> set ts"
    and "\<And>x. x \<in> set ts \<Longrightarrow> 0 < deg m1 x"
    using Cons.prems(2-4) dom m1(3) by auto
  then obtain m' where m': "relax ts m1 (if deg m t - 1 = 0 then q @ [t] else q)
        = Some (m', (if deg m t - 1 = 0 then q @ [t] else q) @ filter (\<lambda>t. deg m1 t = 1) ts)"
      "map fst m' = map fst m1"
      "\<And>y. deg m' y = (if y \<in> set ts then deg m1 y - 1 else deg m1 y)"
    using Cons.IH by blast
  have "filter (\<lambda>t. deg m1 t = 1) ts = filter (\<lambda>t. deg m t = 1) ts"
    using dts m1(3) by (intro filter_cong) auto
  with m1 m' dts \<open>0 < deg m t\<close> show ?case
    by (intro Cons.prems(1) [of m']) (auto split: if_splits)
qed

lemma kahn_inv_pop:
  assumes inv: "kahn_inv N es P (x # q) m v" and dist: "distinct es"
    and ends: "\<And>a b. (a, b) \<in> set es \<Longrightarrow> a \<in> N \<and> b \<in> N" and fin: "finite N"
  obtains m' q' where "relax (outgoing es x) m q = Some (m', q')"
    "kahn_inv N es (insert x P) q' m' (Suc v)"
proof -
  note inv' = inv [unfolded kahn_inv_def]
  from inv' have x: "x \<in> N" "x \<notin> P" "x \<notin> set q" and q: "distinct q" "set q \<inter> P = {}"
    and PN: "P \<union> set q \<subseteq> N" and mN: "fst ` set m = N" and cP: "card P = v"
    by simp_all
  note dg = kahn_inv_deg [OF inv] and zero = kahn_inv_zero [OF inv]
  from zero [OF x(1)] have dx: "deg m x = 0" by simp
  from zero PN have dq: "y \<in> P \<union> set q \<Longrightarrow> deg m y = 0" for y by auto
  from inv' obtain f :: "string \<Rightarrow> nat" where "\<forall>y \<in> P. f y < v"
      "\<forall>(a, b) \<in> set es. b \<in> P \<longrightarrow> a \<in> P \<and> f a < f b"
    by (elim conjE exE)
  then have f: "\<And>y. y \<in> P \<Longrightarrow> f y < v"
      "\<And>a b. (a, b) \<in> set es \<Longrightarrow> b \<in> P \<Longrightarrow> a \<in> P \<and> f a < f b"
    by blast+
  let ?out = "outgoing es x"
  have out: "t \<in> set ?out \<longleftrightarrow> (x, t) \<in> set es" for t
    by (force simp: outgoing_def)
  have dout: "distinct ?out"
    using dist unfolding outgoing_def
    by (induction es) (auto simp: image_iff)
  have pos: "0 < deg m t" if "t \<in> set ?out" for t
  proof -
    from that out have "indeg (filter (\<lambda>e. fst e \<notin> P) es) t \<noteq> 0" using x(2) by (simp add: indeg_edge)
    with that out ends dg show ?thesis by fastforce
  qed
  have outN: "set ?out \<subseteq> fst ` set m" using out ends mN by blast
  obtain m' where m': "relax ?out m q = Some (m', q @ filter (\<lambda>t. deg m t = 1) ?out)"
      "map fst m' = map fst m"
      "\<And>y. deg m' y = (if y \<in> set ?out then deg m y - 1 else deg m y)"
    by (rule relax_Some [OF outN dout pos]) blast+
  from m'(2) have m'N: "fst ` set m' = N" using mN by (metis list.set_map)
  have dg': "deg m' y = indeg (filter (\<lambda>e. fst e \<notin> insert x P) es) y" if "y \<in> N" for y
    using m'(3) [of y] dg [OF that] indeg_split [OF x(2), of es y] dout
    by (simp add: count_list_distinct)
  have num: "\<exists>g :: string \<Rightarrow> nat. (\<forall>y \<in> insert x P. g y < Suc v) \<and>
      (\<forall>(a, b) \<in> set es. b \<in> insert x P \<longrightarrow> a \<in> insert x P \<and> g a < g b)"
  proof (intro exI [of _ "f(x := v)"] conjI ballI)
    show "(f(x := v)) y < Suc v" if "y \<in> insert x P" for y
      using that f(1) by (auto intro: less_SucI)
    have "a \<in> P" if "(a, x) \<in> set es" for a
    proof (rule ccontr)
      assume "a \<notin> P"
      with that have "indeg (filter (\<lambda>e. fst e \<notin> P) es) x \<noteq> 0" by (rule indeg_edge)
      with dg [OF x(1)] dx show False by simp
    qed
    then show "case e of (a, b) \<Rightarrow> b \<in> insert x P \<longrightarrow>
        a \<in> insert x P \<and> (f(x := v)) a < (f(x := v)) b" if "e \<in> set es" for e
      using that f x(2) by (cases e) force
  qed
  have "kahn_inv N es (insert x P) (q @ filter (\<lambda>t. deg m t = 1) ?out) m' (Suc v)"
    unfolding kahn_inv_def
  proof (intro conjI)
    show "distinct (q @ filter (\<lambda>t. deg m t = 1) ?out)"
      using q dout dq by fastforce
    show "set (q @ filter (\<lambda>t. deg m t = 1) ?out) \<inter> insert x P = {}"
      using q x(3) dq dx by fastforce
    show "insert x P \<union> set (q @ filter (\<lambda>t. deg m t = 1) ?out) \<subseteq> N"
      using PN x(1) outN mN by auto
    show "card (insert x P) = Suc v"
      using cP x(2) PN fin finite_subset by (metis card_insert_disjoint le_sup_iff)
    show "\<forall>y \<in> N. y \<in> insert x P \<union> set (q @ filter (\<lambda>t. deg m t = 1) ?out) \<longleftrightarrow> deg m' y = 0"
      using m'(3) zero pos by (auto simp: le_Suc_eq)
  qed (use m'N dg' num in auto)
  with m'(1) that show thesis by blast
qed

text \<open>When the queue is empty, the popped steps are all steps exactly for an acyclic graph.\<close>

lemma kahn_inv_done:
  assumes inv: "kahn_inv N es P [] m v" and fin: "finite N"
    and ends: "\<And>a b. (a, b) \<in> set es \<Longrightarrow> a \<in> N \<and> b \<in> N"
  shows "v = card N \<longleftrightarrow> acyclic (set es)"
proof
  from inv have PN: "P \<subseteq> N" and "card P = v" by (auto simp: kahn_inv_def)
  from inv obtain f :: "string \<Rightarrow> nat" where
    "\<forall>(a, b) \<in> set es. b \<in> P \<longrightarrow> a \<in> P \<and> f a < f b"
    unfolding kahn_inv_def by (elim conjE exE)
  then have f: "\<And>a b. (a, b) \<in> set es \<Longrightarrow> b \<in> P \<Longrightarrow> a \<in> P \<and> f a < f b" by blast
  assume "v = card N"
  with PN \<open>card P = v\<close> fin have "P = N" by (simp add: card_subset_eq)
  with f ends have "set es \<subseteq> measure f" by fastforce
  then have "wf (set es)" by (rule wf_subset [OF wf_measure])
  then show "acyclic (set es)" by (rule wf_acyclic)
next
  from inv have PN: "P \<subseteq> N" and cP: "card P = v" by (auto simp: kahn_inv_def)
  assume "acyclic (set es)"
  then have wf: "wf (set es)" by (simp add: finite_acyclic_wf)
  have "N - P = {}"
  proof (rule ccontr)
    assume "N - P \<noteq> {}"
    with wf obtain z where z: "z \<in> N - P" "\<And>y. (y, z) \<in> set es \<Longrightarrow> y \<notin> N - P"
      by (rule wfE_min') blast
    with kahn_inv_zero [OF inv, of z] kahn_inv_deg [OF inv, of z]
    have "indeg (filter (\<lambda>e. fst e \<notin> P) es) z \<noteq> 0" by simp
    then obtain y where "(y, z) \<in> set es" "y \<notin> P" by (auto simp: indeg_0)
    with z ends show False by blast
  qed
  with PN cP show "v = card N" by auto
qed

lemma kahn_visit_correct:
  assumes "kahn_inv N es P q m v" and "distinct es" and "finite N"
    and "\<And>a b. (a, b) \<in> set es \<Longrightarrow> a \<in> N \<and> b \<in> N"
  shows "\<exists>v'. kahn_visit (outgoing es) q m v = Some v' \<and> (v' = card N \<longleftrightarrow> acyclic (set es))"
  using assms
proof (induction "outgoing es" q m v arbitrary: P rule: kahn_visit.induct)
  case (1 m v)
  then show ?case using kahn_inv_done [of N es P m v] by auto
next
  case (2 x q m v)
  obtain m' q' where r: "relax (outgoing es x) m q = Some (m', q')"
      and inv: "kahn_inv N es (insert x P) q' m' (Suc v)"
    using kahn_inv_pop [OF "2.prems"(1,2,4,3)] by blast
  from "2.hyps" [OF r refl inv "2.prems"(2-4)] r show ?case by simp
qed

lemma kahn_correct:
  assumes "distinct ids" and "distinct es" and "\<And>a b. (a, b) \<in> set es \<Longrightarrow> a \<in> set ids \<and> b \<in> set ids"
  obtains v where "kahn ids es = Some v" "v = length ids \<longleftrightarrow> acyclic (set es)"
proof -
  let ?m0 = "map (\<lambda>x. (x, 0::nat)) (sort ids)"
  have m0: "deg (map (\<lambda>x. (x, 0)) xs) y = 0" for xs y
    by (induction xs) (auto simp: deg_def)
  have "snd ` set es \<subseteq> fst ` set ?m0" using assms(3) by force
  then obtain m where m: "indegrees es ?m0 = Some m" "map fst m = map fst ?m0"
      "\<And>y. deg m y = deg ?m0 y + indeg es y"
    by (rule indegrees_Some) blast
  have mf: "map fst m = sort ids" using m(2) by (simp add: o_def)
  then have dm: "distinct (map fst m)" using assms(1) by simp
  from mf have fm: "fst ` set m = set ids" by (metis list.set_map set_sort)
  let ?q = "map fst (filter (\<lambda>(x, d). d = 0) m)"
  have q: "y \<in> set ?q \<longleftrightarrow> y \<in> set ids \<and> deg m y = 0" for y
  proof -
    have "y \<in> set ?q \<longleftrightarrow> map_of m y = Some 0"
      using dm by (force simp: map_of_eq_Some_iff)
    also have "\<dots> \<longleftrightarrow> y \<in> set ids \<and> deg m y = 0"
      unfolding fm [symmetric] deg_def by (cases "map_of m y") 
        (auto simp: map_of_eq_None_iff dest: map_of_SomeD intro: rev_image_eqI)
    finally show ?thesis .
  qed
  have "kahn_inv (set ids) es {} ?q m 0"
    unfolding kahn_inv_def
  proof (intro conjI)
    show "distinct ?q" using dm by (simp add: distinct_map_filter)
    show "\<forall>x \<in> set ids. deg m x = indeg (filter (\<lambda>e. fst e \<notin> {}) es) x" using m(3) m0 by simp
  qed (use fm q in auto)
  then obtain v where "kahn_visit (outgoing es) ?q m 0 = Some v"
      "v = card (set ids) \<longleftrightarrow> acyclic (set es)"
    using kahn_visit_correct [OF _ assms(2)] assms(3) by blast
  with assms(1) show thesis by (intro that [of v]) (simp_all add: kahn_def m(1) distinct_card)
qed

end
