(* ===== verification/Loop_Status.thy ===== *)
theory Loop_Status
  imports Prelude
begin

text \<open>
  The errors of the loop engine as values, its status enums with their database spelling
  (\<open>src/harness/loop_engine/domain.rs\<close>) and the derived order of effect classes. Every enum
  with \<open>as_str\<close> and \<open>from_db\<close> interprets the interface \<open>state_codec\<close>.
\<close>

section \<open>Errors\<close>

text \<open>One constructor per message, grouped by the code that raises it.\<close>

datatype domain_error =
    UnknownGoalStatus string | UnknownWorkItemStatus string | UnknownAttemptStatus string
  | UnknownCheckpointPhase string | UnknownEffectClass string | UnknownEffectCeiling string
  | UnknownResolution string | AutoApprovalEffect string string | AutoApprovalCalls nat nat
  | StepIdLength | DuplicateStepId | UnregisteredHandler string
  | ExternalWriteRefused string | MaxAttemptsRange | BackoffRange | StepInputSize
  | CriterionValue | CriteriaCount | ObjectiveEmpty | ObjectiveLength
  | SourceSignalCount | SourceSignalId | RequestIdLength | ContinuationPhase
  | ContinuationState | ContinuationDelay | SleepAndContinuation | SummaryLength
  | ArtifactCount | ArtifactIdLength | EvidenceSize | ActorLength

datatype workflow_error =
    WorkflowStepCount | WorkflowEdgeCount | ProviderCallCeiling | WorkflowDeadline
  | ResponseByteCeiling | EdgeSourceMissing | EdgeTargetMissing | SelfDependency
  | DuplicateEdge | CyclicWorkflow | WorkflowSize | GraphPanic

datatype goal_error =
    InvalidId string | GoalNotFound | ConstraintFailed string | GoalRevisionRange
  | EventCursorNegative | GoalAlreadyTerminal string
  | CancelReason | RejectReason | RejectStatus string | ReplanReason | ReplanStatus string
  | PauseReason | PauseStatus string | VerifyNotReady | ManualLabel | ManualNotReady
  | ManualLabelUnknown | WorkflowRowMissing | BudgetMissing | DeadlineExhausted
  | CallBudgetExhausted | RemainingCallsRange | RemainingBytesRange | ByteBudgetExhausted
  | PlanStatus string | GoalChangedPlanning | PlanHashNotSha | NotReviewReady
  | RevisionChanged | ReviewedWorkflowMissing | PlanHashMismatch | GoalChangedApproving
  | ApprovePanic

datatype work_error =
    GoalNotDispatchable | GoalInternalOnly | ClaimWorkflowMissing | AttemptNumberRange
  | FencingTokenRange | WorkItemRange | ClaimStale | IdempotencyKeyLength
  | IdempotencyKeyTaken | LeaseDuration | RenewStale | CheckpointNotFound
  | CheckpointOfOther | CommittedDifferently | CheckpointNotPrepared | CheckpointChanged
  | NoCommittedCheckpoint | NotCommitted | WorkItemNotFound | ConfirmationReason
  | NotAwaitingConfirmation | NoParkedAttempt | NoPreparedCheckpoint | EffectNotAmbiguous
  | WorkItemNotRunning | ReasonPrefixLength | HandlerListLength | DeferTime
  | PhaseBudgetExhausted | ContinuedNotRunning | ExtendActor | ExtendStepCount
  | NotExtensible | NoWorkflowToExtend | NoExpansionMarker | NoMaxNodes | ExpansionBudget
  | EffectOutsideManifest | TooManyDependencies | UnknownDependency string
  | SelfDependencyExtended | WorkerIdLength

datatype record_error =
    SignalInvalid string | SignalNotFound | SignalStatusRefused string
  | ArtifactInvalid string | ArtifactConflict | FrameInvalid string | FrameConflict
  | ReplayNoFrames | SuiteUnknown string

datatype loop_error =
    Domain domain_error | Workflow workflow_error | Goal goal_error | Work work_error
  | Records record_error

section \<open>Statuses\<close>

datatype goal_status =
  Proposed | Planning | ReviewReady | Approved | Active | Verifying | Achieved | Rejected
  | GoalCanceled | Paused | GoalBlocked | GoalFailed | Replan

fun goal_status_as_str :: "goal_status \<Rightarrow> string" where
  "goal_status_as_str Proposed = ''proposed''"
| "goal_status_as_str Planning = ''planning''"
| "goal_status_as_str ReviewReady = ''review_ready''"
| "goal_status_as_str Approved = ''approved''"
| "goal_status_as_str Active = ''active''"
| "goal_status_as_str Verifying = ''verifying''"
| "goal_status_as_str Achieved = ''achieved''"
| "goal_status_as_str Rejected = ''rejected''"
| "goal_status_as_str GoalCanceled = ''canceled''"
| "goal_status_as_str Paused = ''paused''"
| "goal_status_as_str GoalBlocked = ''blocked''"
| "goal_status_as_str GoalFailed = ''failed''"
| "goal_status_as_str Replan = ''replan''"

definition goal_status_from_db :: "string \<Rightarrow> loop_error + goal_status" where
  "goal_status_from_db s =
    (if s = ''proposed'' then Inr Proposed else if s = ''planning'' then Inr Planning
     else if s = ''review_ready'' then Inr ReviewReady else if s = ''approved'' then Inr Approved
     else if s = ''active'' then Inr Active else if s = ''verifying'' then Inr Verifying
     else if s = ''achieved'' then Inr Achieved else if s = ''rejected'' then Inr Rejected
     else if s = ''canceled'' then Inr GoalCanceled else if s = ''paused'' then Inr Paused
     else if s = ''blocked'' then Inr GoalBlocked else if s = ''failed'' then Inr GoalFailed
     else if s = ''replan'' then Inr Replan else Inl (Domain (UnknownGoalStatus s)))"

datatype work_item_status =
  Pending | Ready | Running | WaitingConfirmation | Succeeded | Failed | Canceled | Blocked

fun work_item_status_as_str :: "work_item_status \<Rightarrow> string" where
  "work_item_status_as_str Pending = ''pending''"
| "work_item_status_as_str Ready = ''ready''"
| "work_item_status_as_str Running = ''running''"
| "work_item_status_as_str WaitingConfirmation = ''waiting_confirmation''"
| "work_item_status_as_str Succeeded = ''succeeded''"
| "work_item_status_as_str Failed = ''failed''"
| "work_item_status_as_str Canceled = ''canceled''"
| "work_item_status_as_str Blocked = ''blocked''"

definition work_item_status_from_db :: "string \<Rightarrow> loop_error + work_item_status" where
  "work_item_status_from_db s =
    (if s = ''pending'' then Inr Pending else if s = ''ready'' then Inr Ready
     else if s = ''running'' then Inr Running
     else if s = ''waiting_confirmation'' then Inr WaitingConfirmation
     else if s = ''succeeded'' then Inr Succeeded else if s = ''failed'' then Inr Failed
     else if s = ''canceled'' then Inr Canceled else if s = ''blocked'' then Inr Blocked
     else Inl (Domain (UnknownWorkItemStatus s)))"

datatype attempt_status =
  AttemptRunning | Committing | AttemptSucceeded | AttemptFailed | Abandoned
  | AttemptWaiting | Void

fun attempt_status_as_str :: "attempt_status \<Rightarrow> string" where
  "attempt_status_as_str AttemptRunning = ''running''"
| "attempt_status_as_str Committing = ''committing''"
| "attempt_status_as_str AttemptSucceeded = ''succeeded''"
| "attempt_status_as_str AttemptFailed = ''failed''"
| "attempt_status_as_str Abandoned = ''abandoned''"
| "attempt_status_as_str AttemptWaiting = ''waiting_confirmation''"
| "attempt_status_as_str Void = ''void''"

definition attempt_status_from_db :: "string \<Rightarrow> loop_error + attempt_status" where
  "attempt_status_from_db s =
    (if s = ''running'' then Inr AttemptRunning else if s = ''committing'' then Inr Committing
     else if s = ''succeeded'' then Inr AttemptSucceeded
     else if s = ''failed'' then Inr AttemptFailed
     else if s = ''abandoned'' then Inr Abandoned
     else if s = ''waiting_confirmation'' then Inr AttemptWaiting
     else if s = ''void'' then Inr Void else Inl (Domain (UnknownAttemptStatus s)))"

datatype checkpoint_phase = Prepared | Committed | Reconciled | Voided

fun checkpoint_phase_as_str :: "checkpoint_phase \<Rightarrow> string" where
  "checkpoint_phase_as_str Prepared = ''prepared''"
| "checkpoint_phase_as_str Committed = ''committed''"
| "checkpoint_phase_as_str Reconciled = ''reconciled''"
| "checkpoint_phase_as_str Voided = ''voided''"

definition checkpoint_phase_from_db :: "string \<Rightarrow> loop_error + checkpoint_phase" where
  "checkpoint_phase_from_db s =
    (if s = ''prepared'' then Inr Prepared else if s = ''committed'' then Inr Committed
     else if s = ''reconciled'' then Inr Reconciled else if s = ''voided'' then Inr Voided
     else Inl (Domain (UnknownCheckpointPhase s)))"

datatype effect_class = Pure | Read | LocalWrite | ExternalWrite

fun effect_class_as_str :: "effect_class \<Rightarrow> string" where
  "effect_class_as_str Pure = ''pure''"
| "effect_class_as_str Read = ''read''"
| "effect_class_as_str LocalWrite = ''local_write''"
| "effect_class_as_str ExternalWrite = ''external_write''"

definition effect_class_from_db :: "string \<Rightarrow> loop_error + effect_class" where
  "effect_class_from_db s =
    (if s = ''pure'' then Inr Pure else if s = ''read'' then Inr Read
     else if s = ''local_write'' then Inr LocalWrite
     else if s = ''external_write'' then Inr ExternalWrite
     else Inl (Domain (UnknownEffectClass s)))"

text \<open>The derived order: \<open>Pure < Read < LocalWrite < ExternalWrite\<close>.\<close>

fun effect_rank :: "effect_class \<Rightarrow> nat" where
  "effect_rank Pure = 0"
| "effect_rank Read = 1"
| "effect_rank LocalWrite = 2"
| "effect_rank ExternalWrite = 3"

instantiation effect_class :: linorder
begin

definition less_eq_effect_class :: "effect_class \<Rightarrow> effect_class \<Rightarrow> bool" where
  "less_eq_effect_class a b \<longleftrightarrow> effect_rank a \<le> effect_rank b"

definition less_effect_class :: "effect_class \<Rightarrow> effect_class \<Rightarrow> bool" where
  "less_effect_class a b \<longleftrightarrow> effect_rank a < effect_rank b"

instance
proof
  fix x y :: effect_class
  show "x \<le> y \<Longrightarrow> y \<le> x \<Longrightarrow> x = y"
    by (cases x; cases y) (simp_all add: less_eq_effect_class_def)
qed (auto simp: less_eq_effect_class_def less_effect_class_def)

end

datatype confirmation_resolution = Confirmed | Retry | ResolveAbandoned

fun resolution_as_str :: "confirmation_resolution \<Rightarrow> string" where
  "resolution_as_str Confirmed = ''confirmed''"
| "resolution_as_str Retry = ''retry''"
| "resolution_as_str ResolveAbandoned = ''abandoned''"

definition resolution_parse :: "string \<Rightarrow> loop_error + confirmation_resolution" where
  "resolution_parse value =
    (let s = to_ascii_lowercase (trim value)
     in if s = ''confirmed'' then Inr Confirmed else if s = ''retry'' then Inr Retry
        else if s = ''abandoned'' then Inr ResolveAbandoned else Inl (Domain (UnknownResolution s)))"

interpretation goal_status: state_codec goal_status_as_str goal_status_from_db
proof
  show "goal_status_from_db (goal_status_as_str x) = Inr x" for x
    by (cases x) (simp_all add: goal_status_from_db_def)
  show "goal_status_from_db s = Inr x \<Longrightarrow> goal_status_as_str x = s" for s x
    by (auto simp: goal_status_from_db_def split: if_splits)
qed

interpretation work_item_status: state_codec work_item_status_as_str work_item_status_from_db
proof
  show "work_item_status_from_db (work_item_status_as_str x) = Inr x" for x
    by (cases x) (simp_all add: work_item_status_from_db_def)
  show "work_item_status_from_db s = Inr x \<Longrightarrow> work_item_status_as_str x = s" for s x
    by (auto simp: work_item_status_from_db_def split: if_splits)
qed

interpretation attempt_status: state_codec attempt_status_as_str attempt_status_from_db
proof
  show "attempt_status_from_db (attempt_status_as_str x) = Inr x" for x
    by (cases x) (simp_all add: attempt_status_from_db_def)
  show "attempt_status_from_db s = Inr x \<Longrightarrow> attempt_status_as_str x = s" for s x
    by (auto simp: attempt_status_from_db_def split: if_splits)
qed

interpretation checkpoint_phase: state_codec checkpoint_phase_as_str checkpoint_phase_from_db
proof
  show "checkpoint_phase_from_db (checkpoint_phase_as_str x) = Inr x" for x
    by (cases x) (simp_all add: checkpoint_phase_from_db_def)
  show "checkpoint_phase_from_db s = Inr x \<Longrightarrow> checkpoint_phase_as_str x = s" for s x
    by (auto simp: checkpoint_phase_from_db_def split: if_splits)
qed

interpretation effect_class: state_codec effect_class_as_str effect_class_from_db
proof
  show "effect_class_from_db (effect_class_as_str x) = Inr x" for x
    by (cases x) (simp_all add: effect_class_from_db_def)
  show "effect_class_from_db s = Inr x \<Longrightarrow> effect_class_as_str x = s" for s x
    by (auto simp: effect_class_from_db_def split: if_splits)
qed

end
