(* ===== verification/Loop_Domain.thy ===== *)
theory Loop_Domain
  imports Json Workflow_Graph Loop_Status
begin

text \<open>
  The domain types of the loop engine (\<open>src/harness/loop_engine/domain.rs\<close>): workflow specifications and their validation, plan and goal requests,
  continuations and outcomes, the internal approval policy and the external-write gate.

  Unsigned integers of requests are \<^typ>\<open>nat\<close>, columns and decoded values are \<^typ>\<open>int\<close>.
  \<open>serde_json\<close>'s printer and SHA-256 are third-party code: the record \<open>crates\<close> carries them
  as parameters, and the JSON value each type serializes to is written out here.
\<close>

text \<open>Where an arbitrary message text is checked (\<open>ensure_valid_id\<close> and its relatives).\<close>

definition text_ok :: "nat \<Rightarrow> string \<Rightarrow> bool" where
  "text_ok n s \<longleftrightarrow> trim s \<noteq> [] \<and> length s \<le> n"

section \<open>Workflows\<close>

record retry_policy =
  max_attempts :: nat
  backoff_secs :: nat

record execution_budget =
  max_provider_calls :: nat
  deadline_secs :: nat
  max_response_bytes :: nat

record workflow_step =
  step_id :: string
  step_handler :: string
  step_effect :: effect_class
  step_input :: json
  step_retry :: retry_policy

record workflow_edge =
  edge_from :: string
  edge_to :: string

record workflow_spec =
  wf_steps :: "workflow_step list"
  wf_edges :: "workflow_edge list"
  wf_budget :: execution_budget

text \<open>The JSON value the derived \<open>Serialize\<close> of each type produces, fields in declared order.\<close>

definition budget_to_json :: "execution_budget \<Rightarrow> json" where
  "budget_to_json b = JObj
     [(''max_provider_calls'', JInt (int (max_provider_calls b))),
      (''deadline_secs'', JInt (int (deadline_secs b))),
      (''max_response_bytes'', JInt (int (max_response_bytes b)))]"

definition effect_to_json :: "effect_class \<Rightarrow> json" where
  "effect_to_json e = JStr (effect_class_as_str e)"

definition step_to_json :: "workflow_step \<Rightarrow> json" where
  "step_to_json s = JObj
     [(''id'', JStr (step_id s)), (''handler'', JStr (step_handler s)),
      (''effect'', effect_to_json (step_effect s)), (''input'', step_input s),
      (''retry'', JObj [(''max_attempts'', JInt (int (max_attempts (step_retry s)))),
                         (''backoff_secs'', JInt (int (backoff_secs (step_retry s))))])]"

definition edge_to_json :: "workflow_edge \<Rightarrow> json" where
  "edge_to_json e = JObj [(''from'', JStr (edge_from e)), (''to'', JStr (edge_to e))]"

definition workflow_to_json :: "workflow_spec \<Rightarrow> json" where
  "workflow_to_json w = JObj
     [(''steps'', JArr (map step_to_json (wf_steps w))),
      (''edges'', JArr (map edge_to_json (wf_edges w))),
      (''budget'', budget_to_json (wf_budget w))]"

text \<open>Third-party code: \<open>serde_json\<close>'s printer and the SHA-256 digest.\<close>

record crates =
  json_text :: "json \<Rightarrow> string"
  sha256 :: "string \<Rightarrow> string"

definition hash_serializable :: "crates \<Rightarrow> json \<Rightarrow> string" where
  "hash_serializable c v = ''sha256:'' @ concat (map hex_byte (sha256 c (json_text c v)))"

definition allowed_workflow_handlers :: "string list" where
  "allowed_workflow_handlers =
     [''goal_planner'', ''provider_analysis'', ''session_replay'', ''self_test_suite'',
      ''evolution_evaluate'', ''manual_gate'', ''channel_send'', ''wait'', ''swarm_node'']"

definition internal_actor_prefix :: string where
  "internal_actor_prefix = ''internal:''"

definition internal_auto_actor :: string where
  "internal_auto_actor = ''internal:auto''"

record external_write_policy =
  ew_enabled :: bool
  ew_allowed_handlers :: "string list"

definition ew_allows :: "external_write_policy \<Rightarrow> string \<Rightarrow> bool" where
  "ew_allows p handler \<longleftrightarrow> ew_enabled p \<and> handler \<in> set (ew_allowed_handlers p)"

text \<open>The per-step checks; \<open>seen\<close> are the step ids of the earlier steps.\<close>

definition check_step ::
  "crates \<Rightarrow> external_write_policy \<Rightarrow> string list \<Rightarrow> workflow_step \<Rightarrow> loop_error + unit" where
  "check_step c p seen s =
     ensure (text_ok 96 (step_id s)) (Domain StepIdLength)
     (ensure (step_id s \<notin> set seen) (Domain DuplicateStepId)
     (ensure (step_handler s \<in> set allowed_workflow_handlers)
        (Domain (UnregisteredHandler (step_handler s)))
     (ensure (step_effect s \<noteq> ExternalWrite \<or> ew_allows p (step_handler s))
        (Domain (ExternalWriteRefused (step_handler s)))
     (ensure (1 \<le> max_attempts (step_retry s) \<and> max_attempts (step_retry s) \<le> 10)
        (Domain MaxAttemptsRange)
     (ensure (backoff_secs (step_retry s) \<le> 3600) (Domain BackoffRange)
     (ensure (length (json_text c (step_input s)) \<le> 8192) (Domain StepInputSize)
     (Inr ())))))))"

fun check_steps ::
  "crates \<Rightarrow> external_write_policy \<Rightarrow> string list \<Rightarrow> workflow_step list \<Rightarrow> loop_error + string list" where
  "check_steps c p seen [] = Inr seen"
| "check_steps c p seen (s # ss) =
     and_then (check_step c p seen s) (\<lambda>_. check_steps c p (seen @ [step_id s]) ss)"

fun check_edges ::
  "string list \<Rightarrow> edge list \<Rightarrow> workflow_edge list \<Rightarrow> loop_error + edge list" where
  "check_edges ids seen [] = Inr seen"
| "check_edges ids seen (e # es) =
     ensure (edge_from e \<in> set ids) (Workflow EdgeSourceMissing)
     (ensure (edge_to e \<in> set ids) (Workflow EdgeTargetMissing)
     (ensure (edge_from e \<noteq> edge_to e) (Workflow SelfDependency)
     (ensure ((edge_from e, edge_to e) \<notin> set seen) (Workflow DuplicateEdge)
     (check_edges ids (seen @ [(edge_from e, edge_to e)]) es))))"

text \<open>The edge loop and the traversal that counts the steps it can order.\<close>

definition check_graph :: "string list \<Rightarrow> workflow_spec \<Rightarrow> loop_error + unit" where
  "check_graph ids w =
     and_then (check_edges ids [] (wf_edges w)) (\<lambda>es.
     fetch (kahn ids es) (Workflow GraphPanic) (\<lambda>visited.
     ensure (visited = length (wf_steps w)) (Workflow CyclicWorkflow) (Inr ())))"

definition validate_workflow ::
  "crates \<Rightarrow> external_write_policy \<Rightarrow> workflow_spec \<Rightarrow> loop_error + unit" where
  "validate_workflow c p w =
     ensure (wf_steps w \<noteq> [] \<and> length (wf_steps w) \<le> 32) (Workflow WorkflowStepCount)
     (ensure (length (wf_edges w) \<le> 64) (Workflow WorkflowEdgeCount)
     (ensure (max_provider_calls (wf_budget w) \<le> 64) (Workflow ProviderCallCeiling)
     (ensure (1 \<le> deadline_secs (wf_budget w) \<and> deadline_secs (wf_budget w) \<le> 86400)
        (Workflow WorkflowDeadline)
     (ensure (1 \<le> max_response_bytes (wf_budget w) \<and> max_response_bytes (wf_budget w) \<le> 10485760)
        (Workflow ResponseByteCeiling)
     (and_then (check_steps c p [] (wf_steps w)) (\<lambda>ids.
      and_then (check_graph ids w) (\<lambda>_.
      ensure (length (json_text c (workflow_to_json w)) \<le> 32768) (Workflow WorkflowSize)
     (Inr ()))))))))"

text \<open>What validation promises, without reference to how it checks it.\<close>

definition edge_pairs :: "workflow_spec \<Rightarrow> edge list" where
  "edge_pairs w = map (\<lambda>e. (edge_from e, edge_to e)) (wf_edges w)"

definition step_ok :: "crates \<Rightarrow> external_write_policy \<Rightarrow> workflow_step \<Rightarrow> bool" where
  "step_ok c p s \<longleftrightarrow>
     text_ok 96 (step_id s) \<and> step_handler s \<in> set allowed_workflow_handlers \<and>
     (step_effect s = ExternalWrite \<longrightarrow> ew_allows p (step_handler s)) \<and>
     max_attempts (step_retry s) \<in> {1..10} \<and> backoff_secs (step_retry s) \<le> 3600 \<and>
     length (json_text c (step_input s)) \<le> 8192"

definition graph_ok :: "workflow_spec \<Rightarrow> bool" where
  "graph_ok w \<longleftrightarrow>
     distinct (map step_id (wf_steps w)) \<and> distinct (edge_pairs w) \<and>
     (\<forall>(a, b) \<in> set (edge_pairs w).
        a \<in> step_id ` set (wf_steps w) \<and> b \<in> step_id ` set (wf_steps w)) \<and>
     acyclic (set (edge_pairs w))"

definition workflow_ok :: "crates \<Rightarrow> external_write_policy \<Rightarrow> workflow_spec \<Rightarrow> bool" where
  "workflow_ok c p w \<longleftrightarrow>
     length (wf_steps w) \<in> {1..32} \<and> length (wf_edges w) \<le> 64 \<and>
     max_provider_calls (wf_budget w) \<le> 64 \<and> deadline_secs (wf_budget w) \<in> {1..86400} \<and>
     max_response_bytes (wf_budget w) \<in> {1..10485760} \<and>
     (\<forall>s \<in> set (wf_steps w). step_ok c p s) \<and> graph_ok w \<and>
     length (json_text c (workflow_to_json w)) \<le> 32768"

lemma check_step_Inr:
  "check_step c p seen s = Inr u \<longleftrightarrow> step_ok c p s \<and> step_id s \<notin> set seen"
  by (auto simp: check_step_def step_ok_def)

lemma check_steps_Inr:
  "check_steps c p seen ss = Inr ids \<longleftrightarrow>
     ids = seen @ map step_id ss \<and> (\<forall>s \<in> set ss. step_ok c p s) \<and>
     distinct (map step_id ss) \<and> set seen \<inter> step_id ` set ss = {}"
  by (induction ss arbitrary: seen) (auto simp: check_step_Inr)

lemma check_edges_Inr:
  "check_edges ids seen es = Inr ps \<longleftrightarrow>
     (let new = map (\<lambda>e. (edge_from e, edge_to e)) es
      in ps = seen @ new \<and> distinct new \<and> set seen \<inter> set new = {} \<and>
         (\<forall>(a, b) \<in> set new. a \<in> set ids \<and> b \<in> set ids \<and> a \<noteq> b))"
proof (induction es arbitrary: seen)
  case (Cons e es)
  then show ?case by (auto simp: Let_def)
qed (auto simp: Let_def)

lemma acyclic_irrefl: "acyclic r \<Longrightarrow> (a, a) \<notin> r"
  by (auto simp: acyclic_def)

text \<open>The graph part of the validation accepts exactly the well-formed acyclic graphs.\<close>

lemma check_graph_Inr:
  assumes "ids = map step_id (wf_steps w)" and "distinct ids"
  shows "check_graph ids w = Inr u \<longleftrightarrow> graph_ok w" (is "?L \<longleftrightarrow> ?R")
proof -
  let ?es = "edge_pairs w"
  have endp: "(\<forall>(a, b) \<in> set ?es. a \<in> set ids \<and> b \<in> set ids) \<longleftrightarrow>
      (\<forall>(a, b) \<in> set ?es. a \<in> step_id ` set (wf_steps w) \<and> b \<in> step_id ` set (wf_steps w))"
    by (simp add: assms(1))
  have edges: "check_edges ids [] (wf_edges w) = Inr es \<longleftrightarrow> es = ?es \<and> distinct ?es \<and>
      (\<forall>(a, b) \<in> set ?es. a \<in> set ids \<and> b \<in> set ids \<and> a \<noteq> b)" for es
    by (simp add: check_edges_Inr Let_def edge_pairs_def)
  have kahn: "\<exists>v. kahn ids ?es = Some v \<and> (v = length (wf_steps w) \<longleftrightarrow> acyclic (set ?es))"
    if d: "distinct ?es" and e: "\<forall>(a, b) \<in> set ?es. a \<in> set ids \<and> b \<in> set ids"
  proof -
    from e have ep: "\<And>a b. (a, b) \<in> set ?es \<Longrightarrow> a \<in> set ids \<and> b \<in> set ids" by blast
    obtain v where v: "kahn ids ?es = Some v" "v = length ids \<longleftrightarrow> acyclic (set ?es)"
      by (rule kahn_correct [OF assms(2) d ep]) blast+
    then show ?thesis by (intro exI [of _ v]) (simp add: assms(1))
  qed
  show ?thesis
  proof
    assume ?L
    then obtain v where d: "distinct ?es"
        and e: "\<forall>(a, b) \<in> set ?es. a \<in> set ids \<and> b \<in> set ids \<and> a \<noteq> b"
        and v: "kahn ids ?es = Some v" "v = length (wf_steps w)"
      by (auto simp: check_graph_def edges)
    from e have e': "\<forall>(a, b) \<in> set ?es. a \<in> set ids \<and> b \<in> set ids" by blast
    from kahn [OF d e'] v have "acyclic (set ?es)" by auto
    with d e' assms endp show ?R by (simp add: graph_ok_def)
  next
    assume r: ?R
    then have d: "distinct ?es" and ac: "acyclic (set ?es)"
      and e: "\<forall>(a, b) \<in> set ?es. a \<in> set ids \<and> b \<in> set ids"
      using endp by (auto simp: graph_ok_def)
    from kahn [OF d e] ac obtain v where v: "kahn ids ?es = Some v" "v = length (wf_steps w)" by blast
    have "\<forall>(a, b) \<in> set ?es. a \<in> set ids \<and> b \<in> set ids \<and> a \<noteq> b"
      using e ac by (auto dest: acyclic_irrefl)
    with d v show ?L by (auto simp: check_graph_def edges)
  qed
qed

lemma validate_workflow_Inr: "validate_workflow c p w = Inr u \<longleftrightarrow> workflow_ok c p w"
proof (cases "distinct (map step_id (wf_steps w))")
  case True
  then show ?thesis
    by (simp add: validate_workflow_def workflow_ok_def check_steps_Inr check_graph_Inr Suc_le_eq)
next
  case False
  then show ?thesis
    by (simp add: validate_workflow_def workflow_ok_def graph_ok_def check_steps_Inr)
qed

section \<open>Plans\<close>

datatype acceptance_criterion =
    SelfTestSuite string
  | ArtifactExists string
  | ManualApproval string

definition criterion_validate :: "acceptance_criterion \<Rightarrow> loop_error + unit" where
  "criterion_validate a =
     (let value = (case a of SelfTestSuite suite \<Rightarrow> suite
                           | ArtifactExists artifact_type \<Rightarrow> artifact_type
                           | ManualApproval label \<Rightarrow> label)
      in ensure (text_ok 160 value) (Domain CriterionValue) (Inr ()))"

definition criterion_to_json :: "acceptance_criterion \<Rightarrow> json" where
  "criterion_to_json a =
     (case a of
        SelfTestSuite suite \<Rightarrow> JObj [(''kind'', JStr ''self_test_suite''), (''suite'', JStr suite)]
      | ArtifactExists t \<Rightarrow> JObj [(''kind'', JStr ''artifact_exists''), (''artifact_type'', JStr t)]
      | ManualApproval l \<Rightarrow> JObj [(''kind'', JStr ''manual_approval''), (''label'', JStr l)])"

record plan_goal_request =
  pg_workflow :: workflow_spec
  pg_acceptance :: "acceptance_criterion list"

definition validate_plan ::
  "crates \<Rightarrow> external_write_policy \<Rightarrow> plan_goal_request \<Rightarrow> loop_error + unit" where
  "validate_plan c p r =
     and_then (validate_workflow c p (pg_workflow r)) (\<lambda>_.
     ensure (pg_acceptance r \<noteq> [] \<and> length (pg_acceptance r) \<le> 16) (Domain CriteriaCount)
     (and_then (collect criterion_validate (pg_acceptance r)) (\<lambda>_. Inr ())))"

definition acceptance_to_json :: "acceptance_criterion list \<Rightarrow> json" where
  "acceptance_to_json cs = JArr (map criterion_to_json cs)"

definition plan_to_json :: "plan_goal_request \<Rightarrow> json" where
  "plan_to_json r = JObj
     [(''workflow'', workflow_to_json (pg_workflow r)),
      (''acceptance_criteria'', acceptance_to_json (pg_acceptance r))]"

definition plan_hash :: "crates \<Rightarrow> plan_goal_request \<Rightarrow> string" where
  "plan_hash c r = hash_serializable c (plan_to_json r)"

text \<open>A \<open>BTreeSet\<close> of the steps' effects, read in order.\<close>

definition effect_manifest :: "plan_goal_request \<Rightarrow> effect_class list" where
  "effect_manifest r = sort (remdups (map step_effect (wf_steps (pg_workflow r))))"

definition effects_to_json :: "effect_class list \<Rightarrow> json" where
  "effects_to_json es = JArr (map effect_to_json es)"

lemma set_effect_manifest:
  "set (effect_manifest r) = step_effect ` set (wf_steps (pg_workflow r))"
  by (simp add: effect_manifest_def)

record internal_approval_policy =
  ip_max_effect :: effect_class
  ip_max_provider_calls :: nat

definition default_internal_policy :: internal_approval_policy where
  "default_internal_policy = \<lparr>ip_max_effect = Read, ip_max_provider_calls = 16\<rparr>"

definition effect_class_from_name :: "string \<Rightarrow> loop_error + effect_class" where
  "effect_class_from_name name =
     (let s = to_ascii_lowercase (trim name)
      in if s = ''pure'' then Inr Pure else if s = ''read'' then Inr Read
         else if s = ''local_write'' then Inr LocalWrite
         else if s = ''external_write'' then Inr ExternalWrite
         else Inl (Domain (UnknownEffectCeiling s)))"

fun check_effects :: "internal_approval_policy \<Rightarrow> effect_class list \<Rightarrow> loop_error + unit" where
  "check_effects p [] = Inr ()"
| "check_effects p (e # es) =
     ensure (e \<le> ip_max_effect p)
       (Domain (AutoApprovalEffect (effect_class_as_str e) (effect_class_as_str (ip_max_effect p))))
     (check_effects p es)"

definition check_plan ::
  "internal_approval_policy \<Rightarrow> workflow_spec \<Rightarrow> effect_class list \<Rightarrow> loop_error + unit" where
  "check_plan p w manifest =
     and_then (check_effects p manifest) (\<lambda>_.
     ensure (max_provider_calls (wf_budget w) \<le> ip_max_provider_calls p)
       (Domain (AutoApprovalCalls (max_provider_calls (wf_budget w)) (ip_max_provider_calls p)))
     (Inr ()))"

lemma check_plan_Inr:
  "check_plan p w manifest = Inr u \<longleftrightarrow>
     (\<forall>e \<in> set manifest. e \<le> ip_max_effect p) \<and>
     max_provider_calls (wf_budget w) \<le> ip_max_provider_calls p"
proof -
  have "check_effects p manifest = Inr v \<longleftrightarrow> (\<forall>e \<in> set manifest. e \<le> ip_max_effect p)" for v
    by (induction manifest) auto
  then show ?thesis by (auto simp: check_plan_def)
qed

record approve_goal_request =
  expected_goal_revision :: nat
  expected_plan_hash :: string

record create_goal_request =
  cg_objective :: string
  cg_source_signal_ids :: "string list"
  cg_request_id :: "string option"
  cg_internal_only :: bool

fun check_signal_ids :: "string list \<Rightarrow> loop_error + unit" where
  "check_signal_ids [] = Inr ()"
| "check_signal_ids (x # xs) = ensure (text_ok 160 x) (Domain SourceSignalId) (check_signal_ids xs)"

definition create_goal_validate :: "create_goal_request \<Rightarrow> loop_error + unit" where
  "create_goal_validate r =
     (let objective = trim (cg_objective r)
      in ensure (objective \<noteq> []) (Domain ObjectiveEmpty)
        (ensure (chars_count objective \<le> 4096) (Domain ObjectiveLength)
        (ensure (length (cg_source_signal_ids r) \<le> 64) (Domain SourceSignalCount)
        (and_then (check_signal_ids (cg_source_signal_ids r)) (\<lambda>_.
           case cg_request_id r of
             None \<Rightarrow> Inr ()
           | Some rid \<Rightarrow> ensure (text_ok 160 rid) (Domain RequestIdLength) (Inr ()))))))"

section \<open>Outcomes and continuations\<close>

record work_continuation =
  co_phase :: string
  co_state :: json
  co_delay_secs :: "nat option"

record work_phase_progress =
  pr_phase :: string
  pr_state :: json
  pr_continues :: nat

definition max_phase_continues :: nat where
  "max_phase_continues = 64"

definition continuation_validate :: "crates \<Rightarrow> work_continuation \<Rightarrow> loop_error + unit" where
  "continuation_validate c k =
     ensure (trim (co_phase k) \<noteq> [] \<and> chars_count (co_phase k) \<le> 64) (Domain ContinuationPhase)
     (ensure (length (json_text c (co_state k)) \<le> 16384) (Domain ContinuationState)
     (ensure (case co_delay_secs k of None \<Rightarrow> True | Some d \<Rightarrow> 1 \<le> d \<and> d \<le> 86400)
        (Domain ContinuationDelay)
     (Inr ())))"

record work_outcome =
  wo_summary :: string
  wo_artifact_ids :: "string list"
  wo_evidence :: json
  wo_sleep_until :: "int option"
  wo_continuation :: "work_continuation option"

fun check_artifact_ids :: "string list \<Rightarrow> loop_error + unit" where
  "check_artifact_ids [] = Inr ()"
| "check_artifact_ids (x # xs) =
     ensure (text_ok 160 x) (Domain ArtifactIdLength) (check_artifact_ids xs)"

definition outcome_validate :: "crates \<Rightarrow> work_outcome \<Rightarrow> loop_error + unit" where
  "outcome_validate c w =
     ensure (\<not> (wo_sleep_until w \<noteq> None \<and> wo_continuation w \<noteq> None)) (Domain SleepAndContinuation)
     (and_then (case wo_continuation w of None \<Rightarrow> Inr () | Some k \<Rightarrow> continuation_validate c k) (\<lambda>_.
      ensure (chars_count (wo_summary w) \<le> 8192) (Domain SummaryLength)
     (ensure (length (wo_artifact_ids w) \<le> 64) (Domain ArtifactCount)
     (and_then (check_artifact_ids (wo_artifact_ids w)) (\<lambda>_.
      ensure (length (json_text c (wo_evidence w)) \<le> 16384) (Domain EvidenceSize)
     (Inr ()))))))"

definition validate_actor :: "string \<Rightarrow> loop_error + unit" where
  "validate_actor actor = ensure (text_ok 160 actor) (Domain ActorLength) (Inr ())"

section \<open>Records\<close>

record goal_record =
  gr_id :: string
  gr_objective :: string
  gr_status :: goal_status
  gr_revision :: int
  gr_source_signal_ids :: "string list"
  gr_created_by :: string
  gr_created_at :: int
  gr_updated_at :: int
  gr_internal_only :: bool

record work_item_record =
  wr_id :: string
  wr_goal_id :: string
  wr_status :: work_item_status
  wr_step_id :: string
  wr_handler :: string
  wr_effect :: effect_class
  wr_input :: json
  wr_max_attempts :: int
  wr_ordinal :: int
  wr_dependency_ids :: "string list"
  wr_created_at :: int
  wr_progress :: "work_phase_progress option"

record attempt_record =
  ar_id :: string
  ar_goal_id :: string
  ar_work_item_id :: string
  ar_attempt_number :: int
  ar_status :: attempt_status
  ar_worker_id :: string
  ar_lease_token :: string
  ar_fencing_token :: int
  ar_started_at :: int
  ar_finished_at :: "int option"
  ar_error :: "string option"

record work_claim =
  cl_work_item :: work_item_record
  cl_attempt :: attempt_record
  cl_lease_until :: int
  cl_budget :: execution_budget

record checkpoint_record =
  cr_id :: string
  cr_goal_id :: string
  cr_work_item_id :: string
  cr_attempt_id :: string
  cr_phase :: checkpoint_phase
  cr_idempotency_key :: string
  cr_replay_safe :: bool
  cr_outcome :: "work_outcome option"
  cr_created_at :: int
  cr_updated_at :: int

record resume_report =
  rr_goal :: goal_record
  rr_work_items :: "work_item_record list"
  rr_attempts :: "attempt_record list"
  rr_latest_checkpoint :: "checkpoint_record option"

record planned_goal =
  pl_goal :: goal_record
  pl_plan_hash :: string
  pl_workflow :: workflow_spec
  pl_acceptance :: "acceptance_criterion list"
  pl_effects :: "effect_class list"

record loop_event_record =
  er_sequence :: int
  er_goal_id :: "string option"
  er_event_type :: string
  er_actor :: string
  er_details :: json
  er_created_at :: int

record goal_verification_report =
  vr_goal :: goal_record
  vr_achieved :: bool
  vr_unmet :: "string list"

record provider_budget_reservation =
  pb_deadline_at :: int
  pb_remaining_calls :: int
  pb_remaining_bytes :: int

end
