(* ===== verification/Float64.thy ===== *)
theory Float64
  imports Complex_Main "HOL-Library.Log_Nat"
begin

text \<open>
  Rust's \<open>f64\<close>: a finite value is the rational number it stands for, and an operation is the
  exact one followed by rounding to the nearest representable value, ties to even (IEEE 754
  binary64, subnormals included). The sign of a zero is not kept; the sources never divide by zero
  and compare and add zeros only. The lemmas are what the scores need: rounding is monotone, keeps
  representable values, and so sums of positive weights never shrink.
\<close>

section \<open>Rounding\<close>

definition round_even :: "rat \<Rightarrow> int" where
  "round_even x =
     (let f = \<lfloor>x\<rfloor>; d = x - of_int f
      in if d < 1 / 2 then f else if 1 / 2 < d then f + 1 else if even f then f else f + 1)"

text \<open>The exponent of the leading bit of a positive rational.\<close>

definition lead_exp :: "rat \<Rightarrow> int" where
  "lead_exp q =
     (let (n, d) = quotient_of q; k = bitlen n - bitlen d
      in if 2 powi k \<le> q then k else k - 1)"

text \<open>The exponent of the last place: 53 significant bits, and no less than \<open>2^-1074\<close>.\<close>

definition last_place :: "rat \<Rightarrow> int" where
  "last_place q = max (- 1074) (lead_exp q - 52)"

definition round_pos :: "rat \<Rightarrow> rat" where
  "round_pos q = (if q = 0 then 0 else of_int (round_even (q / 2 powi last_place q)) * 2 powi last_place q)"

definition round_rat :: "rat \<Rightarrow> rat" where
  "round_rat q = (if q < 0 then - round_pos (- q) else round_pos q)"

section \<open>Values and operations\<close>

datatype f64 = Fin rat | Inf bool | NaN \<comment> \<open>\<open>Inf True\<close> is negative\<close>

definition round_f64 :: "rat \<Rightarrow> f64" where
  "round_f64 q = (let r = round_rat q in if \<bar>r\<bar> < of_int (2 ^ 1024) then Fin r else Inf (q < 0))"

fun f64_neg :: "f64 \<Rightarrow> f64" where
  "f64_neg (Fin a) = Fin (- a)"
| "f64_neg (Inf s) = Inf (\<not> s)"
| "f64_neg NaN = NaN"

fun f64_add :: "f64 \<Rightarrow> f64 \<Rightarrow> f64" where
  "f64_add (Fin a) (Fin b) = round_f64 (a + b)"
| "f64_add (Inf s) (Inf t) = (if s = t then Inf s else NaN)"
| "f64_add (Inf s) (Fin b) = Inf s"
| "f64_add (Fin a) (Inf t) = Inf t"
| "f64_add NaN y = NaN"
| "f64_add x NaN = NaN"

definition f64_sub :: "f64 \<Rightarrow> f64 \<Rightarrow> f64" where
  "f64_sub x y = f64_add x (f64_neg y)"

fun f64_div :: "f64 \<Rightarrow> f64 \<Rightarrow> f64" where
  "f64_div (Fin a) (Fin b) = (if b = 0 then (if a = 0 then NaN else Inf (a < 0)) else round_f64 (a / b))"
| "f64_div (Inf s) (Fin b) = Inf (s \<noteq> (b < 0))"
| "f64_div (Fin a) (Inf t) = Fin 0"
| "f64_div (Inf s) (Inf t) = NaN"
| "f64_div NaN y = NaN"
| "f64_div x NaN = NaN"

fun f64_lt :: "f64 \<Rightarrow> f64 \<Rightarrow> bool" where
  "f64_lt (Fin a) (Fin b) \<longleftrightarrow> a < b"
| "f64_lt (Inf s) (Inf t) \<longleftrightarrow> s \<and> \<not> t"
| "f64_lt (Inf s) (Fin b) \<longleftrightarrow> s"
| "f64_lt (Fin a) (Inf t) \<longleftrightarrow> \<not> t"
| "f64_lt NaN y \<longleftrightarrow> False"
| "f64_lt x NaN \<longleftrightarrow> False"

fun f64_le :: "f64 \<Rightarrow> f64 \<Rightarrow> bool" where
  "f64_le (Fin a) (Fin b) \<longleftrightarrow> a \<le> b"
| "f64_le (Inf s) (Inf t) \<longleftrightarrow> s \<or> \<not> t"
| "f64_le (Inf s) (Fin b) \<longleftrightarrow> s"
| "f64_le (Fin a) (Inf t) \<longleftrightarrow> \<not> t"
| "f64_le NaN y \<longleftrightarrow> False"
| "f64_le x NaN \<longleftrightarrow> False"

fun is_finite :: "f64 \<Rightarrow> bool" where
  "is_finite (Fin _) \<longleftrightarrow> True"
| "is_finite _ \<longleftrightarrow> False"

text \<open>\<open>as f64\<close> of an integer.\<close>

definition f64_of_int :: "int \<Rightarrow> f64" where
  "f64_of_int i = round_f64 (of_int i)"

text \<open>The finite values that are representable; every operation yields one.\<close>

definition f64_ok :: "f64 \<Rightarrow> bool" where
  "f64_ok x = (case x of Fin q \<Rightarrow> round_rat q = q \<and> \<bar>q\<bar> < of_int (2 ^ 1024) | _ \<Rightarrow> True)"

text \<open>The bit pattern of a value, as the JSON documents keep it.\<close>

definition f64_bits :: "f64 \<Rightarrow> int" where
  "f64_bits x = (case x of
     NaN \<Rightarrow> 0x7FF8000000000000
   | Inf s \<Rightarrow> (if s then 2 ^ 63 else 0) + 0x7FF * 2 ^ 52
   | Fin q \<Rightarrow>
       if q = 0 then 0
       else let e = last_place \<bar>q\<bar>; m = \<lfloor>\<bar>q\<bar> / 2 powi e\<rfloor>
         in (if q < 0 then 2 ^ 63 else 0)
            + (if m < 2 ^ 52 then m else (e + 1075) * 2 ^ 52 + (m - 2 ^ 52)))"

section \<open>Rounding is monotone and keeps representable values\<close>

lemma round_even_le: "x \<le> of_int n \<Longrightarrow> round_even x \<le> n"
proof -
  assume le: "x \<le> of_int n"
  show ?thesis
  proof (cases "\<lfloor>x\<rfloor> < n")
    case True
    then show ?thesis by (simp add: round_even_def Let_def)
  next
    case False
    with le have "x = of_int n" by linarith
    then show ?thesis by (simp add: round_even_def)
  qed
qed

lemma round_even_int [simp]: "round_even (of_int n) = n"
  by (simp add: round_even_def)

lemma round_even_ge: "of_int n \<le> x \<Longrightarrow> n \<le> round_even x"
proof -
  assume "of_int n \<le> x"
  then have "n \<le> \<lfloor>x\<rfloor>" by (simp add: le_floor_iff)
  then show ?thesis by (simp add: round_even_def Let_def)
qed

lemma round_even_mono: "x \<le> y \<Longrightarrow> round_even x \<le> round_even y"
proof -
  assume le: "x \<le> y"
  then have fl: "\<lfloor>x\<rfloor> \<le> \<lfloor>y\<rfloor>" by (rule floor_mono)
  show ?thesis
  proof (cases "\<lfloor>x\<rfloor> = \<lfloor>y\<rfloor>")
    case True
    with le show ?thesis by (auto simp: round_even_def Let_def)
  next
    case False
    with fl have lt: "\<lfloor>x\<rfloor> + 1 \<le> \<lfloor>y\<rfloor>" by simp
    have "x \<le> of_int (\<lfloor>x\<rfloor> + 1)" by linarith
    then have "round_even x \<le> \<lfloor>x\<rfloor> + 1" by (rule round_even_le)
    moreover have "\<lfloor>y\<rfloor> \<le> round_even y" by (rule round_even_ge) simp
    ultimately show ?thesis using lt by simp
  qed
qed

lemma two_powi_pos [simp]: "0 < (2::rat) powi k"
  by (simp add: power_int_def)

lemma two_powi_mono: "k \<le> l \<Longrightarrow> (2::rat) powi k \<le> 2 powi l"
  by (simp add: power_int_increasing)

lemma two_powi_add: "(2::rat) powi (k + l) = 2 powi k * 2 powi l"
  by (simp add: power_int_add)

lemma two_powi_int: "0 \<le> k \<Longrightarrow> (2::rat) powi k = of_int (2 ^ nat k)"
  by (simp add: power_int_def)

lemma lead_exp_bounds:
  assumes "0 < q"
  shows "2 powi lead_exp q \<le> q" and "q < 2 powi (lead_exp q + 1)"
proof -
  obtain n d where nd: "quotient_of q = (n, d)" by fastforce
  have q: "q = of_int n / of_int d" using nd by (rule quotient_of_div)
  have d: "0 < d" using nd by (rule quotient_of_denom_pos)
  have n: "0 < n" using assms d by (simp add: q zero_less_divide_iff)
  let ?a = "bitlen n" and ?b = "bitlen d"
  have bn: "2 ^ nat (?a - 1) \<le> n" "n < 2 ^ nat ?a" using bitlen_bounds [OF n] by auto
  have bd: "2 ^ nat (?b - 1) \<le> d" "d < 2 ^ nat ?b" using bitlen_bounds [OF d] by auto
  have "floorlog 2 (nat n) \<noteq> 0" and "floorlog 2 (nat d) \<noteq> 0"
    using n d by (simp_all add: floorlog_eq_zero_iff)
  then have a1: "1 \<le> ?a" and b1: "1 \<le> ?b" by (simp_all add: bitlen_def)
  have n_lo: "2 powi (?a - 1) \<le> (of_int n :: rat)" and n_hi: "(of_int n :: rat) < 2 powi ?a"
    using bn a1 by (simp_all add: two_powi_int del: of_int_power)
  have d_lo: "2 powi (?b - 1) \<le> (of_int d :: rat)" and d_hi: "(of_int d :: rat) < 2 powi ?b"
    using bd b1 by (simp_all add: two_powi_int del: of_int_power)
  have dpos: "(0 :: rat) < of_int d" using d by simp
  have "2 powi (?a - ?b - 1) * of_int d \<le> 2 powi (?a - ?b - 1) * (2::rat) powi ?b"
    using d_hi by simp
  also have "\<dots> = 2 powi (?a - 1)" by (simp add: power_int_add [symmetric])
  finally have lo: "2 powi (?a - ?b - 1) \<le> q"
    using n_lo dpos by (simp add: q le_divide_eq)
  have "(2::rat) powi ?a = 2 powi (?a - ?b + 1) * 2 powi (?b - 1)"
    by (simp add: power_int_add [symmetric])
  also have "\<dots> \<le> 2 powi (?a - ?b + 1) * of_int d" using d_lo by simp
  finally have hi: "q < 2 powi (?a - ?b + 1)"
    using n_hi dpos by (simp add: q divide_less_eq)
  show "2 powi lead_exp q \<le> q" "q < 2 powi (lead_exp q + 1)"
    using lo hi by (simp_all add: lead_exp_def nd Let_def)
qed

lemma lead_exp_less:
  assumes "0 < q" and "q < 2 powi k"
  shows "lead_exp q < k"
proof (rule ccontr)
  assume "\<not> lead_exp q < k"
  then have "(2::rat) powi k \<le> 2 powi lead_exp q" by (intro two_powi_mono) simp
  with lead_exp_bounds(1) [OF assms(1)] assms(2) show False by simp
qed

lemma lead_exp_ge:
  assumes "0 < q" and "2 powi k \<le> q"
  shows "k \<le> lead_exp q"
proof (rule ccontr)
  assume "\<not> k \<le> lead_exp q"
  then have "(2::rat) powi (lead_exp q + 1) \<le> 2 powi k" by (intro two_powi_mono) simp
  with lead_exp_bounds(2) [OF assms(1)] assms(2) show False by simp
qed

lemma lead_exp_mono: "0 < q \<Longrightarrow> q \<le> r \<Longrightarrow> lead_exp q \<le> lead_exp r"
  by (meson lead_exp_bounds(1) lead_exp_ge order.strict_trans2 order_trans)

text \<open>A grid of step \<open>2^e\<close> and the values on it.\<close>

lemma grid_le:
  assumes "q \<le> 2 powi k" and "e \<le> k"
  shows "of_int (round_even (q / 2 powi e)) * 2 powi e \<le> (2::rat) powi k"
proof -
  have eq: "(2::rat) powi k = of_int (2 ^ nat (k - e)) * 2 powi e"
    using assms(2) by (simp add: two_powi_int [symmetric] power_int_add [symmetric] del: of_int_power)
  have "q / 2 powi e \<le> of_int (2 ^ nat (k - e))"
    using assms(1) unfolding eq by (simp add: divide_le_eq del: of_int_power)
  then have "round_even (q / 2 powi e) \<le> 2 ^ nat (k - e)" by (rule round_even_le)
  then have "(of_int (round_even (q / 2 powi e)) :: rat) \<le> of_int (2 ^ nat (k - e))"
    by (simp only: of_int_le_iff)
  then show ?thesis unfolding eq by (simp del: of_int_power)
qed

lemma grid_ge:
  assumes "2 powi k \<le> q" and "e \<le> k"
  shows "(2::rat) powi k \<le> of_int (round_even (q / 2 powi e)) * 2 powi e"
proof -
  have eq: "(2::rat) powi k = of_int (2 ^ nat (k - e)) * 2 powi e"
    using assms(2) by (simp add: two_powi_int [symmetric] power_int_add [symmetric] del: of_int_power)
  have "of_int (2 ^ nat (k - e)) \<le> q / 2 powi e"
    using assms(1) unfolding eq by (simp add: le_divide_eq del: of_int_power)
  then have "2 ^ nat (k - e) \<le> round_even (q / 2 powi e)" by (rule round_even_ge)
  then have "(of_int (2 ^ nat (k - e)) :: rat) \<le> of_int (round_even (q / 2 powi e))"
    by (simp only: of_int_le_iff)
  then show ?thesis unfolding eq by (simp del: of_int_power)
qed

lemma round_pos_nonneg: "0 \<le> q \<Longrightarrow> 0 \<le> round_pos q"
  using round_even_ge [of 0 "q / 2 powi last_place q"] by (simp add: round_pos_def)

lemma round_pos_mono:
  assumes "0 \<le> q" and "q \<le> r"
  shows "round_pos q \<le> round_pos r"
proof (cases "q = 0")
  case True
  with assms show ?thesis using round_pos_nonneg [of r] by (simp add: round_pos_def)
next
  case False
  with assms have q: "0 < q" and r: "0 < r" by simp_all
  let ?d = "last_place q" and ?e = "last_place r"
  have de: "?d \<le> ?e" using lead_exp_mono [OF q assms(2)] by (simp add: last_place_def)
  show ?thesis
  proof (cases "?d = ?e")
    case True
    have "q / 2 powi ?e \<le> r / 2 powi ?e" using assms(2) by (simp add: divide_right_mono)
    then have "round_even (q / 2 powi ?e) \<le> round_even (r / 2 powi ?e)" by (rule round_even_mono)
    with q r True show ?thesis by (simp add: round_pos_def)
  next
    case False
    with de have lt: "?d < ?e" by simp
    then have e: "?e = lead_exp r - 52" by (auto simp: last_place_def max_def split: if_splits)
    have "lead_exp q < lead_exp r" using lt unfolding e by (simp add: last_place_def)
    then have "q \<le> 2 powi lead_exp r"
      using lead_exp_bounds(2) [OF q] two_powi_mono [of "lead_exp q + 1" "lead_exp r"] by simp
    then have "round_pos q \<le> 2 powi lead_exp r"
      using q lt e grid_le [of q "lead_exp r" ?d] by (simp add: round_pos_def)
    also have "\<dots> \<le> round_pos r"
      using r e grid_ge [OF lead_exp_bounds(1) [OF r], of ?e] by (simp add: round_pos_def)
    finally show ?thesis .
  qed
qed

lemma round_rat_nonneg: "0 \<le> q \<Longrightarrow> 0 \<le> round_rat q"
  by (simp add: round_rat_def round_pos_nonneg)

lemma round_rat_mono: "q \<le> r \<Longrightarrow> round_rat q \<le> round_rat r"
  using round_pos_mono [of q r] round_pos_mono [of "- r" "- q"]
    round_pos_nonneg [of "- q"] round_pos_nonneg [of r]
  by (auto simp: round_rat_def)

lemma round_pos_grid:
  assumes "0 \<le> n" and "of_int n \<le> (2::rat) ^ 53" and "- 1074 \<le> e"
  shows "round_pos (of_int n * 2 powi e) = of_int n * 2 powi e"
proof (cases "n = 0")
  case True
  then show ?thesis by (simp add: round_pos_def)
next
  case False
  let ?q = "of_int n * 2 powi e :: rat"
  have q: "0 < ?q" using False assms(1) by simp
  let ?d = "last_place ?q"
  show ?thesis
  proof (cases "of_int n = (2::rat) ^ 53")
    case True
    have qk: "?q = 2 powi (e + 53)" by (simp add: True power_int_add)
    have lead: "lead_exp ?q = e + 53"
    proof (rule antisym)
      have "?q < 2 powi (e + 54)" unfolding qk by (simp add: power_int_strict_increasing)
      from lead_exp_less [OF q this] show "lead_exp ?q \<le> e + 53" by simp
      show "e + 53 \<le> lead_exp ?q" by (rule lead_exp_ge [OF q]) (simp add: qk)
    qed
    have d: "?d \<le> e + 53" using assms(3) by (simp add: last_place_def lead)
    have "of_int (round_even (?q / 2 powi ?d)) * 2 powi ?d = (2::rat) powi (e + 53)"
      by (rule antisym) (rule grid_le [OF _ d], simp add: qk, rule grid_ge [OF _ d], simp add: qk)
    with q show ?thesis by (simp add: round_pos_def qk)
  next
    case False
    with assms(2) have lt: "of_int n < (2::rat) ^ 53" by simp
    have "?q < 2 powi 53 * 2 powi e" using mult_strict_right_mono [OF lt two_powi_pos [of e]] by simp
    then have "?q < 2 powi (e + 53)" by (simp add: two_powi_add mult.commute)
    from lead_exp_less [OF q this] have d: "?d \<le> e" using assms(3) by (simp add: last_place_def)
    have "?q / 2 powi ?d = of_int n * 2 powi (e - ?d)"
      by (simp add: power_int_diff)
    also have "\<dots> = of_int (n * 2 ^ nat (e - ?d))" using d by (simp add: two_powi_int)
    finally have on_grid: "round_even (?q / 2 powi ?d) = n * 2 ^ nat (e - ?d)" by (simp del: of_int_mult)
    have "(2::rat) powi e = 2 powi (e - ?d) * 2 powi ?d" by (simp add: power_int_add [symmetric])
    then have "?q = of_int (n * 2 ^ nat (e - ?d)) * 2 powi ?d" using d by (simp add: two_powi_int)
    moreover have "round_pos ?q = of_int (round_even (?q / 2 powi ?d)) * 2 powi ?d"
      using q unfolding round_pos_def by (metis less_irrefl)
    ultimately show ?thesis by (simp only: on_grid)
  qed
qed

lemma round_pos_idem:
  assumes "0 \<le> q"
  shows "round_pos (round_pos q) = round_pos q"
proof (cases "q = 0")
  case True
  then show ?thesis by (simp add: round_pos_def)
next
  case False
  with assms have q: "0 < q" by simp
  let ?e = "last_place q" and ?n = "round_even (q / 2 powi last_place q)"
  have "lead_exp q + 1 \<le> ?e + 53" by (simp add: last_place_def)
  with lead_exp_bounds(2) [OF q] two_powi_mono [of "lead_exp q + 1" "?e + 53"]
  have "q \<le> 2 powi (?e + 53)" by linarith
  from grid_le [OF this, of ?e] have "of_int ?n * 2 powi ?e \<le> (2::rat) ^ 53 * 2 powi ?e"
    by (simp add: two_powi_add mult.commute)
  then have n: "of_int ?n \<le> (2::rat) ^ 53" by simp
  have "0 \<le> ?n" using assms by (intro round_even_ge) simp
  from round_pos_grid [OF this n, of ?e] show ?thesis
    using False by (simp add: round_pos_def last_place_def)
qed

lemma round_rat_idem [simp]: "round_rat (round_rat q) = round_rat q"
proof (cases "q < 0")
  case True
  then have "round_pos (round_pos (- q)) = round_pos (- q)" by (intro round_pos_idem) simp
  moreover have "0 \<le> round_pos (- q)" using True by (intro round_pos_nonneg) simp
  ultimately show ?thesis using True by (auto simp: round_rat_def round_pos_def [of 0])
next
  case False
  then show ?thesis by (simp add: round_rat_def round_pos_idem round_pos_nonneg not_less leD)
qed

lemma round_rat_0 [simp]: "round_rat 0 = 0"
  by (simp add: round_rat_def round_pos_def)

lemma round_rat_nat:
  assumes "n \<le> 2 ^ 53"
  shows "round_rat (of_nat n) = of_nat n"
proof -
  have "of_int (int n) \<le> (2::rat) ^ 53" using assms by (metis of_int_of_nat_eq of_nat_le_iff of_nat_numeral of_nat_power)
  from round_pos_grid [OF _ this, of 0] show ?thesis by (simp add: round_rat_def)
qed

lemma round_rat_1 [simp]: "round_rat 1 = 1"
  using round_rat_nat [of 1] by simp

lemma round_f64_ok: "f64_ok (round_f64 q)"
  by (simp add: round_f64_def f64_ok_def Let_def)

text \<open>Small integers are exact, which the evaluation of definitions uses.\<close>

lemma round_rat_int:
  assumes "\<bar>n\<bar> \<le> 2 ^ 53"
  shows "round_rat (of_int n) = of_int n"
proof (cases "n < 0")
  case True
  with assms have "nat (- n) \<le> 2 ^ 53" by simp
  from round_rat_nat [OF this] True show ?thesis by (simp add: round_rat_def)
next
  case False
  with assms have "nat n \<le> 2 ^ 53" by simp
  from round_rat_nat [OF this] False show ?thesis by simp
qed

lemma round_f64_int:
  assumes "\<bar>n\<bar> \<le> 9007199254740992"
  shows "round_f64 (of_int n) = Fin (of_int n)"
proof -
  have "\<bar>n\<bar> < 2 ^ 1024" using assms by simp
  then have "(of_int \<bar>n\<bar> :: rat) < of_int (2 ^ 1024)" by (simp only: of_int_less_iff)
  with assms show ?thesis by (simp add: round_f64_def round_rat_int Let_def)
qed

lemma round_f64_code [code]:
  "round_f64 q = (case quotient_of q of (n, d) \<Rightarrow>
     if d = 1 \<and> \<bar>n\<bar> \<le> 9007199254740992 then Fin q
     else let r = round_rat q in if \<bar>r\<bar> < of_int (2 ^ 1024) then Fin r else Inf (q < 0))"
proof -
  obtain n d where nd: "quotient_of q = (n, d)" by fastforce
  have "q = of_int n" if "d = 1" using quotient_of_div [OF nd] that by simp
  then show ?thesis by (auto simp: nd round_f64_int) (simp add: round_f64_def)+
qed

end
