(* ===== verification/Evolution_Domain.thy ===== *)
theory Evolution_Domain
  imports Loop_Domain Float64
begin

text \<open>
  The values of the self-evolution harness (\<open>harness/evolution.rs\<close>): prompt patches, eval cases,
  benchmark suites, the scorer, the promotion gate, candidate statuses, drafts and actors, each
  with its validation. An error is the constructor of its message; the context a caller adds to an
  error is not kept.
\<close>

datatype cand_status = CandDraft | CandEvaluating | CandReady | CandRejected | CandApproved | CandFailed

datatype patch_error =
    PatchEmpty | PatchTooLong int | PatchReserved string

datatype case_error =
    CaseIdEmpty | CaseIdTooLong | CaseNameEmpty | CaseNameTooLong | CaseInputEmpty | CaseInputTooLong
  | CaseWeight | CaseNoAssertion | CaseMaxOutput | CaseTooManyAssertions | CaseSubstring

datatype score_error =
    SuiteId | SuiteVersion | SuiteSize | SuiteDuplicate | NoEnabledCases | TooManyEnabledCases
  | MissingBaselineOutput string | MissingCandidateOutput string

datatype gate_error =
    GateMinCasesZero | GateMinCasesHigh | GateMinScore | GateMinDelta | GatePatchChars

datatype draft_error =
    CandidateIdEmpty | RationaleEmpty | RationaleTooLong | ParentIdEmpty | BadFingerprint
  | SourceIdEmpty | TooManySources | SourceIdTooLong | FeedbackIdEmpty | FeedbackIdTooLong
  | FeedbackScore | FeedbackTags | FeedbackTag | FeedbackComment

datatype audit_error =
    ActorIdEmpty | ActorIdInvalid | ActorEmpty | ActorInvalid | EventType | ReasonEmpty | ReasonTooLong
  | AuditTooLarge | HumanRequired

datatype evo_store_error =
    OwnParent | ParentMissing | DuplicateKey | ForeignKey | CandidateMissing
  | BadTransition cand_status cand_status | StatusConflict cand_status | EvaluationIds | NoEvaluation
  | NotReadyEvaluation | StaleBaseline | MustBeApproved cand_status | TrajectoryMissing
  | NoActiveDeployment | AlreadyRolledBack | PreviousUnavailable

datatype evo_run_error =
    NotEvaluable cand_status | CaseCollision string | EmptySuite | IndexOutOfRange | ProviderFailed
  | DeadlineExceeded | BytesOverflow | BytesBudget | BudgetZero | TooManySourceTrajectories
  | NoHarnessStore | NoTrajectoryInput | SeedNoAssertion | CycleSkipped string | ProposalTooLong
  | ProposalInvalid

datatype evo_error =
    EPatch patch_error
  | ECase case_error
  | EScore score_error
  | EGate gate_error
  | EDraft draft_error
  | EAudit audit_error
  | EStore evo_store_error
  | ERun evo_run_error
  | UnknownStatus string

section \<open>Third-party code\<close>

text \<open>Next to \<open>serde_json\<close>'s printer and SHA-256: does a text parse as JSON?\<close>

record evo_lib = crates +
  json_valid :: "string \<Rightarrow> bool"

definition sha256_hex :: "'a crates_scheme \<Rightarrow> string \<Rightarrow> string" where
  "sha256_hex c s = concat (map hex_byte (sha256 c s))"

section \<open>Texts\<close>

definition ellipsis :: string where
  "ellipsis = [CHR 0xE2, CHR 0x80, CHR 0xA6]"

definition truncate_chars :: "string \<Rightarrow> nat \<Rightarrow> string" where
  "truncate_chars value max_chars =
     chars_take max_chars value @ (if length (utf8_chars value) > max_chars then ellipsis else [])"

text \<open>\<open>char::is_control\<close>: U+0000 to U+001F and U+007F to U+009F.\<close>

definition is_control_char :: "string \<Rightarrow> bool" where
  "is_control_char ch = (case ch of
     [b] \<Rightarrow> of_char b < (32::nat) \<or> of_char b = (127::nat)
   | [a, b] \<Rightarrow> of_char a = (0xC2::nat) \<and> of_char b \<ge> (0x80::nat) \<and> of_char b \<le> (0x9F::nat)
   | _ \<Rightarrow> False)"

definition has_control :: "string \<Rightarrow> bool" where
  "has_control s \<longleftrightarrow> list_ex is_control_char (utf8_chars s)"

definition is_ascii_hexdigit :: "char \<Rightarrow> bool" where
  "is_ascii_hexdigit b \<longleftrightarrow>
     (let n = (of_char b :: nat) in 48 \<le> n \<and> n \<le> 57 \<or> 65 \<le> n \<and> n \<le> 70 \<or> 97 \<le> n \<and> n \<le> 102)"

text \<open>\<open>{:.n}\<close> of a float: the exact value rounded to \<open>n\<close> decimals, ties to even.\<close>

definition pad_zeros :: "nat \<Rightarrow> string \<Rightarrow> string" where
  "pad_zeros n s = replicate (n - length s) (CHR ''0'') @ s"

definition f64_fixed :: "nat \<Rightarrow> f64 \<Rightarrow> string" where
  "f64_fixed n x = (case x of
     NaN \<Rightarrow> ''NaN''
   | Inf s \<Rightarrow> if s then ''-inf'' else ''inf''
   | Fin q \<Rightarrow>
       let m = nat (round_even (\<bar>q\<bar> * 10 ^ n))
       in (if q < 0 then ''-'' else []) @ dec_nat (m div 10 ^ n) @ ''.'' @ pad_zeros n (dec_nat (m mod 10 ^ n)))"

definition JF64 :: "f64 \<Rightarrow> json" where
  "JF64 x = JFloat (word_of_int (f64_bits x))"

section \<open>Prompt patches\<close>

definition absolute_max_prompt_patch_chars :: int where
  "absolute_max_prompt_patch_chars = 16000"

definition max_enabled_eval_cases :: nat where
  "max_enabled_eval_cases = 50"

definition reserved_harness_markers :: "string list" where
  "reserved_harness_markers =
     [''MCP_TOOL_RESULT_JSON'', ''MCP_TOOL_VERIFICATION_FAILED_JSON'',
      ''CODE_MODE_TOOL_RESULT_JSON'', ''MCP_TOOLS_JSON'']"

definition prompt_patch_new :: "string \<Rightarrow> int \<Rightarrow> evo_error + string" where
  "prompt_patch_new value max_chars =
     (let trimmed = trim value; effective_max = min max_chars absolute_max_prompt_patch_chars
      in ensure (trimmed \<noteq> []) (EPatch PatchEmpty)
        (ensure (int (chars_count trimmed) \<le> effective_max) (EPatch (PatchTooLong effective_max))
          (case find (\<lambda>marker. str_contains marker trimmed) reserved_harness_markers of
             Some marker \<Rightarrow> Inl (EPatch (PatchReserved marker))
           | None \<Rightarrow> Inr trimmed)))"

section \<open>Eval cases\<close>

record case_assertions =
  ca_required :: "string list"
  ca_forbidden :: "string list"
  ca_require_json :: bool
  ca_max_output_chars :: "nat option"

record eval_case =
  vc_id :: string
  vc_name :: string
  vc_input :: string
  vc_assertions :: case_assertions
  vc_weight :: f64
  vc_enabled :: bool

definition validate_eval_case :: "eval_case \<Rightarrow> evo_error + unit" where
  "validate_eval_case c =
     (let a = vc_assertions c in
      ensure (trim (vc_id c) \<noteq> []) (ECase CaseIdEmpty)
      (ensure (length (vc_id c) \<le> 128) (ECase CaseIdTooLong)
      (ensure (trim (vc_name c) \<noteq> []) (ECase CaseNameEmpty)
      (ensure (chars_count (vc_name c) \<le> 256) (ECase CaseNameTooLong)
      (ensure (trim (vc_input c) \<noteq> []) (ECase CaseInputEmpty)
      (ensure (chars_count (vc_input c) \<le> 8000) (ECase CaseInputTooLong)
      (ensure (\<not> (\<not> is_finite (vc_weight c) \<or> f64_le (vc_weight c) (Fin 0) \<or> f64_lt (Fin 100) (vc_weight c)))
         (ECase CaseWeight)
      (ensure (\<not> (ca_required a = [] \<and> ca_forbidden a = [] \<and> \<not> ca_require_json a \<and> ca_max_output_chars a = None))
         (ECase CaseNoAssertion)
      (ensure (case ca_max_output_chars a of None \<Rightarrow> True | Some m \<Rightarrow> 1 \<le> m \<and> int m \<le> 1048576) (ECase CaseMaxOutput)
      (ensure (length (ca_required a) + length (ca_forbidden a) \<le> 64) (ECase CaseTooManyAssertions)
      (ensure (\<not> list_ex (\<lambda>v. trim v = [] \<or> chars_count v > 512) (ca_required a @ ca_forbidden a)) (ECase CaseSubstring)
      (Inr ()))))))))))))"

record case_result =
  kr_case_id :: string
  kr_case_name :: string
  kr_input :: string
  kr_weight :: f64
  kr_assertions :: case_assertions
  kr_baseline_passed :: bool
  kr_candidate_passed :: bool
  kr_baseline_issues :: "string list"
  kr_candidate_issues :: "string list"
  kr_baseline_excerpt :: string
  kr_candidate_excerpt :: string
  kr_baseline_sha256 :: string
  kr_candidate_sha256 :: string
  kr_benchmark :: bool

record benchmark_suite =
  bs_id :: string
  bs_version :: string
  bs_cases :: "eval_case list"

definition suite_label :: "benchmark_suite \<Rightarrow> string" where
  "suite_label b = bs_id b @ ''@'' @ bs_version b"

fun validate_suite_cases :: "string list \<Rightarrow> eval_case list \<Rightarrow> evo_error + unit" where
  "validate_suite_cases ids [] = Inr ()"
| "validate_suite_cases ids (c # cs) =
     and_then (validate_eval_case c) (\<lambda>_.
       ensure (vc_id c \<notin> set ids) (EScore SuiteDuplicate) (validate_suite_cases (vc_id c # ids) cs))"

definition validate_benchmark_suite :: "benchmark_suite \<Rightarrow> evo_error + unit" where
  "validate_benchmark_suite b =
     ensure (trim (bs_id b) \<noteq> [] \<and> length (bs_id b) \<le> 64) (EScore SuiteId)
     (ensure (trim (bs_version b) \<noteq> [] \<and> length (bs_version b) \<le> 64) (EScore SuiteVersion)
     (ensure (bs_cases b \<noteq> [] \<and> length (bs_cases b) \<le> 16) (EScore SuiteSize)
     (validate_suite_cases [] (bs_cases b))))"

section \<open>Scoring\<close>

definition evaluate_assertions :: "evo_lib \<Rightarrow> case_assertions \<Rightarrow> string \<Rightarrow> string list" where
  "evaluate_assertions lib a output =
     map (\<lambda>r. ''missing required substring '' @ [CHR 0x27] @ r @ [CHR 0x27])
       (filter (\<lambda>r. \<not> str_contains r output) (ca_required a))
     @ map (\<lambda>f. ''contains forbidden substring '' @ [CHR 0x27] @ f @ [CHR 0x27])
       (filter (\<lambda>f. str_contains f output) (ca_forbidden a))
     @ (if ca_require_json a \<and> \<not> json_valid lib output then [''output is not valid JSON''] else [])
     @ (case ca_max_output_chars a of
          None \<Rightarrow> []
        | Some m \<Rightarrow> if chars_count output > m
            then [''output exceeds '' @ dec_nat m @ '' characters''] else [])"

record scorecard =
  sc_baseline_score :: f64
  sc_candidate_score :: f64
  sc_score_delta :: f64
  sc_regressions :: nat
  sc_benchmark_regressions :: nat
  sc_benchmark_suite :: "string option"
  sc_baseline_passed_cases :: nat
  sc_candidate_passed_cases :: nat
  sc_total_cases :: nat
  sc_case_results :: "case_result list"

text \<open>The local variables of the scorer's loop.\<close>

record tally =
  ta_baseline_weight :: f64
  ta_candidate_weight :: f64
  ta_total_weight :: f64
  ta_baseline_passed :: nat
  ta_candidate_passed :: nat
  ta_regressions :: nat
  ta_benchmark_regressions :: nat
  ta_results :: "case_result list"

definition empty_tally :: tally where
  "empty_tally =
     \<lparr> ta_baseline_weight = Fin 0, ta_candidate_weight = Fin 0, ta_total_weight = Fin 0,
       ta_baseline_passed = 0, ta_candidate_passed = 0, ta_regressions = 0,
       ta_benchmark_regressions = 0, ta_results = [] \<rparr>"

definition tally_case ::
  "evo_lib \<Rightarrow> eval_case \<Rightarrow> bool \<Rightarrow> string \<Rightarrow> string \<Rightarrow> tally \<Rightarrow> tally" where
  "tally_case lib c benchmark baseline_output candidate_output t =
     (let baseline_issues = evaluate_assertions lib (vc_assertions c) baseline_output;
          candidate_issues = evaluate_assertions lib (vc_assertions c) candidate_output;
          bp = (baseline_issues = []); cp = (candidate_issues = []);
          regressed = (bp \<and> \<not> cp)
      in \<lparr> ta_baseline_weight =
             (if bp then f64_add (ta_baseline_weight t) (vc_weight c) else ta_baseline_weight t),
           ta_candidate_weight =
             (if cp then f64_add (ta_candidate_weight t) (vc_weight c) else ta_candidate_weight t),
           ta_total_weight = f64_add (ta_total_weight t) (vc_weight c),
           ta_baseline_passed = ta_baseline_passed t + (if bp then 1 else 0),
           ta_candidate_passed = ta_candidate_passed t + (if cp then 1 else 0),
           ta_regressions = ta_regressions t + (if regressed then 1 else 0),
           ta_benchmark_regressions = ta_benchmark_regressions t + (if regressed \<and> benchmark then 1 else 0),
           ta_results = ta_results t @
             [\<lparr> kr_case_id = vc_id c, kr_case_name = vc_name c, kr_input = vc_input c,
                kr_weight = vc_weight c, kr_assertions = vc_assertions c,
                kr_baseline_passed = bp, kr_candidate_passed = cp,
                kr_baseline_issues = baseline_issues, kr_candidate_issues = candidate_issues,
                kr_baseline_excerpt = truncate_chars baseline_output 2000,
                kr_candidate_excerpt = truncate_chars candidate_output 2000,
                kr_baseline_sha256 = sha256_hex lib baseline_output,
                kr_candidate_sha256 = sha256_hex lib candidate_output,
                kr_benchmark = benchmark \<rparr>] \<rparr>)"

type_synonym outputs = "string \<rightharpoonup> string"

fun score_cases ::
  "evo_lib \<Rightarrow> outputs \<Rightarrow> outputs \<Rightarrow> (eval_case \<times> bool) list \<Rightarrow> tally \<Rightarrow> evo_error + tally" where
  "score_cases lib bo co [] t = Inr t"
| "score_cases lib bo co ((c, benchmark) # cs) t =
     and_then (validate_eval_case c) (\<lambda>_.
     fetch (bo (vc_id c)) (EScore (MissingBaselineOutput (vc_id c))) (\<lambda>b.
     fetch (co (vc_id c)) (EScore (MissingCandidateOutput (vc_id c))) (\<lambda>o'.
       score_cases lib bo co cs (tally_case lib c benchmark b o' t))))"

definition scorecard_of :: "benchmark_suite option \<Rightarrow> tally \<Rightarrow> scorecard" where
  "scorecard_of suite t =
     (let baseline_score = f64_div (ta_baseline_weight t) (ta_total_weight t);
          candidate_score = f64_div (ta_candidate_weight t) (ta_total_weight t)
      in \<lparr> sc_baseline_score = baseline_score, sc_candidate_score = candidate_score,
           sc_score_delta = f64_sub candidate_score baseline_score,
           sc_regressions = ta_regressions t,
           sc_benchmark_regressions = ta_benchmark_regressions t,
           sc_benchmark_suite = map_option suite_label suite,
           sc_baseline_passed_cases = ta_baseline_passed t,
           sc_candidate_passed_cases = ta_candidate_passed t,
           sc_total_cases = length (ta_results t), sc_case_results = ta_results t \<rparr>)"

definition score_with_benchmark ::
  "evo_lib \<Rightarrow> eval_case list \<Rightarrow> benchmark_suite option \<Rightarrow> outputs \<Rightarrow> outputs \<Rightarrow> evo_error + scorecard" where
  "score_with_benchmark lib cases suite bo co =
     (let enabled = filter vc_enabled cases
      in and_then (case suite of
             None \<Rightarrow> Inr []
           | Some b \<Rightarrow> and_then (validate_benchmark_suite b) (\<lambda>_. Inr (filter vc_enabled (bs_cases b))))
         (\<lambda>bench.
           ensure (\<not> (enabled = [] \<and> bench = [])) (EScore NoEnabledCases)
           (ensure (length enabled \<le> max_enabled_eval_cases) (EScore TooManyEnabledCases)
           (and_then (score_cases lib bo co (map (\<lambda>c. (c, False)) enabled @ map (\<lambda>c. (c, True)) bench) empty_tally)
             (\<lambda>t. Inr (scorecard_of suite t))))))"

section \<open>The promotion gate\<close>

record gate_config =
  gc_min_eval_cases :: nat
  gc_min_candidate_score :: f64
  gc_min_score_delta :: f64
  gc_max_regressions :: nat
  gc_max_prompt_patch_chars :: nat
  gc_require_human_approval :: bool

definition default_gate_config :: gate_config where
  "default_gate_config =
     \<lparr> gc_min_eval_cases = 3, gc_min_candidate_score = round_f64 (8 / 10),
       gc_min_score_delta = round_f64 (5 / 100), gc_max_regressions = 0,
       gc_max_prompt_patch_chars = 4000, gc_require_human_approval = True \<rparr>"

definition validate_gate_config :: "gate_config \<Rightarrow> evo_error + unit" where
  "validate_gate_config g =
     ensure (gc_min_eval_cases g \<noteq> 0) (EGate GateMinCasesZero)
     (ensure (gc_min_eval_cases g \<le> max_enabled_eval_cases) (EGate GateMinCasesHigh)
     (ensure (is_finite (gc_min_candidate_score g) \<and> f64_le (Fin 0) (gc_min_candidate_score g)
              \<and> f64_le (gc_min_candidate_score g) (Fin 1)) (EGate GateMinScore)
     (ensure (is_finite (gc_min_score_delta g) \<and> f64_le (Fin (- 1)) (gc_min_score_delta g)
              \<and> f64_le (gc_min_score_delta g) (Fin 1)) (EGate GateMinDelta)
     (ensure (gc_max_prompt_patch_chars g \<noteq> 0
              \<and> int (gc_max_prompt_patch_chars g) \<le> absolute_max_prompt_patch_chars) (EGate GatePatchChars)
     (Inr ())))))"

datatype promotion_decision = DecisionReady | DecisionRejected "string list"

definition decide_reasons :: "gate_config \<Rightarrow> scorecard \<Rightarrow> string list" where
  "decide_reasons g s =
     (if sc_total_cases s < gc_min_eval_cases g
      then [''minimum eval cases not met: '' @ dec_nat (sc_total_cases s) @ '' < '' @ dec_nat (gc_min_eval_cases g)]
      else [])
     @ (if f64_lt (sc_candidate_score s) (gc_min_candidate_score g)
        then [''candidate score '' @ f64_fixed 6 (sc_candidate_score s) @ '' is below minimum ''
              @ f64_fixed 6 (gc_min_candidate_score g)] else [])
     @ (if f64_lt (sc_score_delta s) (gc_min_score_delta g)
        then [''score delta '' @ f64_fixed 6 (sc_score_delta s) @ '' is below minimum ''
              @ f64_fixed 6 (gc_min_score_delta g)] else [])
     @ (if sc_regressions s > gc_max_regressions g
        then [''regressions '' @ dec_nat (sc_regressions s) @ '' exceed maximum '' @ dec_nat (gc_max_regressions g)]
        else [])
     @ (if sc_benchmark_regressions s > 0
        then [''benchmark scenario regressions are not tolerated: '' @ dec_nat (sc_benchmark_regressions s)]
        else [])"

definition gate_decide :: "gate_config \<Rightarrow> scorecard \<Rightarrow> promotion_decision" where
  "gate_decide g s = (let reasons = decide_reasons g s
     in if reasons = [] then DecisionReady else DecisionRejected reasons)"

section \<open>Candidates\<close>

fun cand_status_str :: "cand_status \<Rightarrow> string" where
  "cand_status_str CandDraft = ''draft''"
| "cand_status_str CandEvaluating = ''evaluating''"
| "cand_status_str CandReady = ''ready''"
| "cand_status_str CandRejected = ''rejected''"
| "cand_status_str CandApproved = ''approved''"
| "cand_status_str CandFailed = ''failed''"

definition cand_status_parse :: "string \<Rightarrow> evo_error + cand_status" where
  "cand_status_parse v =
     (if v = ''draft'' then Inr CandDraft
      else if v = ''evaluating'' then Inr CandEvaluating
      else if v = ''ready'' then Inr CandReady
      else if v = ''rejected'' then Inr CandRejected
      else if v = ''approved'' then Inr CandApproved
      else if v = ''failed'' then Inr CandFailed
      else Inl (UnknownStatus v))"

interpretation cand_codec: state_codec cand_status_str cand_status_parse
proof
  fix x show "cand_status_parse (cand_status_str x) = Inr x"
    by (cases x) (simp_all add: cand_status_parse_def)
next
  fix s x assume "cand_status_parse s = Inr x"
  then show "cand_status_str x = s"
    by (auto simp: cand_status_parse_def split: if_splits)
qed

fun can_transition_to :: "cand_status \<Rightarrow> cand_status \<Rightarrow> bool" where
  "can_transition_to CandDraft s \<longleftrightarrow> s \<in> {CandEvaluating, CandRejected, CandFailed}"
| "can_transition_to CandEvaluating s \<longleftrightarrow> s \<in> {CandReady, CandRejected, CandFailed}"
| "can_transition_to CandReady s \<longleftrightarrow> s \<in> {CandApproved, CandRejected, CandEvaluating}"
| "can_transition_to CandRejected s \<longleftrightarrow> s = CandEvaluating"
| "can_transition_to CandFailed s \<longleftrightarrow> s = CandEvaluating"
| "can_transition_to CandApproved s \<longleftrightarrow> s = CandEvaluating"

record candidate_draft =
  cd_id :: string
  cd_parent :: "string option"
  cd_fingerprint :: "string option"
  cd_patch :: string
  cd_rationale :: string
  cd_sources :: "string list"

definition validate_candidate_draft :: "candidate_draft \<Rightarrow> evo_error + unit" where
  "validate_candidate_draft d =
     ensure (trim (cd_id d) \<noteq> []) (EDraft CandidateIdEmpty)
     (ensure (trim (cd_rationale d) \<noteq> []) (EDraft RationaleEmpty)
     (ensure (chars_count (trim (cd_rationale d)) \<le> 4000) (EDraft RationaleTooLong)
     (ensure (case cd_parent d of None \<Rightarrow> True | Some p \<Rightarrow> trim p \<noteq> []) (EDraft ParentIdEmpty)
     (ensure (case cd_fingerprint d of None \<Rightarrow> True
              | Some f \<Rightarrow> \<not> (length f \<noteq> 64 \<or> \<not> list_all is_ascii_hexdigit f)) (EDraft BadFingerprint)
     (ensure (\<not> list_ex (\<lambda>i. trim i = []) (cd_sources d)) (EDraft SourceIdEmpty)
     (ensure (length (cd_sources d) \<le> 100) (EDraft TooManySources)
     (ensure (\<not> list_ex (\<lambda>i. length i > 256) (cd_sources d)) (EDraft SourceIdTooLong)
     (Inr ()))))))))"

section \<open>Feedback\<close>

record feedback_draft =
  fb_trajectory_id :: string
  fb_score :: f64
  fb_tags :: "string list"
  fb_comment :: "string option"

definition validate_feedback_draft :: "feedback_draft \<Rightarrow> evo_error + unit" where
  "validate_feedback_draft d =
     ensure (trim (fb_trajectory_id d) \<noteq> []) (EDraft FeedbackIdEmpty)
     (ensure (length (fb_trajectory_id d) \<le> 256) (EDraft FeedbackIdTooLong)
     (ensure (is_finite (fb_score d) \<and> f64_le (Fin (- 1)) (fb_score d) \<and> f64_le (fb_score d) (Fin 1)) (EDraft FeedbackScore)
     (ensure (length (fb_tags d) \<le> 16) (EDraft FeedbackTags)
     (ensure (\<not> list_ex (\<lambda>t. trim t = [] \<or> chars_count (trim t) > 64) (fb_tags d)) (EDraft FeedbackTag)
     (ensure (case fb_comment d of None \<Rightarrow> True | Some c \<Rightarrow> chars_count c \<le> 2000) (EDraft FeedbackComment)
     (Inr ()))))))"

section \<open>Actors and policies\<close>

datatype evo_actor = ActorHuman string | ActorSystem string

definition audit_label :: "evo_actor \<Rightarrow> evo_error + string" where
  "audit_label a =
     (let (prefix, raw) = (case a of ActorHuman i \<Rightarrow> (''human'', i) | ActorSystem i \<Rightarrow> (''system'', i));
          i = trim raw
      in ensure (i \<noteq> []) (EAudit ActorIdEmpty)
        (ensure (\<not> (length i > 128 \<or> has_control i)) (EAudit ActorIdInvalid)
        (Inr (prefix @ '':'' @ i))))"

definition is_human :: "evo_actor \<Rightarrow> bool" where
  "is_human a = (case a of ActorHuman _ \<Rightarrow> True | ActorSystem _ \<Rightarrow> False)"

record active_policy =
  ap_deployment_id :: string
  ap_candidate_id :: string
  ap_prompt_patch :: string

definition render_evolution_policy_message :: "string \<Rightarrow> string \<Rightarrow> string \<Rightarrow> string" where
  "render_evolution_policy_message candidate_id deployment_id patch =
     ''ACTIVE_EVOLUTION_POLICY'' @ [CHR 0x0A] @ ''candidate_id='' @ candidate_id @ [CHR 0x0A]
     @ ''deployment_id='' @ deployment_id @ [CHR 0x0A] @ ''Instructions:'' @ [CHR 0x0A] @ patch"

definition validate_operator_reason :: "string \<Rightarrow> evo_error + unit" where
  "validate_operator_reason reason =
     ensure (trim reason \<noteq> []) (EAudit ReasonEmpty) (ensure (chars_count (trim reason) \<le> 2000) (EAudit ReasonTooLong) (Inr ()))"

end
