(* ===== verification/Evolution_Store.thy ===== *)
theory Evolution_Store
  imports Evolution_Domain
begin

text \<open>
  \<open>SqliteEvolutionStore\<close> (\<open>harness/store.rs\<close>) over the evolution tables of \<open>memory.rs\<close>:
  candidates, eval cases, evaluations, deployments with the pointer to the active one, feedback,
  the cursors of running evaluations and the audit log. A transaction returns the new tables and a
  value, or an error and then leaves the tables alone; an operation that reads back what it has
  committed can still fail after the commit, which is why an operation returns the tables in either
  case. \<open>now\<close> is the clock reading of \<open>unixepoch()\<close>, \<open>stamp\<close> the nanoseconds and the counter an
  identifier is made of. Texts of JSON columns are kept as the values they encode.
\<close>

section \<open>Tables\<close>

record candidate_row =
  cn_id :: string
  cn_parent :: "string option"
  cn_fingerprint :: "string option"
  cn_patch :: string
  cn_rationale :: string
  cn_sources :: "string list"
  cn_status :: cand_status
  cn_created_at :: int
  cn_updated_at :: int

record evaluation_draft =
  vd_id :: string
  vd_candidate :: string
  vd_baseline :: "string option"
  vd_scorecard :: scorecard
  vd_decision :: promotion_decision
  vd_gate :: gate_config

record evaluation_row =
  ve_id :: string
  ve_candidate :: string
  ve_baseline :: "string option"
  ve_scorecard :: scorecard
  ve_decision :: promotion_decision
  ve_gate :: gate_config
  ve_created_at :: int

record deployment_row =
  dp_id :: string
  dp_candidate :: string
  dp_previous :: "string option"
  dp_activated_by :: string
  dp_reason :: string
  dp_activated_at :: int
  dp_rolled_back_at :: "int option"
  dp_rolled_back_by :: "string option"
  dp_rollback_reason :: "string option"

record feedback_row =
  fk_id :: nat
  fk_trajectory :: string
  fk_score :: f64
  fk_tags :: "string list"
  fk_comment :: "string option"
  fk_actor :: string
  fk_created_at :: int

record eval_run =
  vr_id :: string
  vr_candidate :: string
  vr_cases :: "eval_case list"
  vr_benchmark_tail :: nat
  vr_baseline :: "(string \<times> string \<times> string) option"
  vr_case_index :: nat
  vr_baseline_outputs :: outputs
  vr_candidate_outputs :: outputs
  vr_response_bytes :: nat

record audit_row =
  au_id :: nat
  au_candidate :: "string option"
  au_deployment :: "string option"
  au_event_type :: string
  au_actor :: string
  au_details :: json
  au_created_at :: int

record evo_db =
  ed_candidates :: "candidate_row list"
  ed_cases :: "eval_case list"
  ed_evaluations :: "evaluation_row list"
  ed_deployments :: "deployment_row list"
  ed_active :: "string option"
  ed_feedback :: "feedback_row list"
  ed_runs :: "eval_run list"
  ed_audit :: "audit_row list"

definition empty_evo_db :: evo_db where
  "empty_evo_db =
     \<lparr> ed_candidates = [], ed_cases = [], ed_evaluations = [], ed_deployments = [], ed_active = None,
       ed_feedback = [], ed_runs = [], ed_audit = [] \<rparr>"

record rollback_result =
  rb_deployment_id :: string
  rb_candidate_id :: string
  rb_restored :: "active_policy option"

section \<open>Transactions and operations\<close>

type_synonym 'a evo_tx = "evo_db \<Rightarrow> evo_error + evo_db \<times> 'a"
type_synonym 'a evo = "evo_db \<Rightarrow> evo_db \<times> (evo_error + 'a)"

definition run_tx :: "'a evo_tx \<Rightarrow> 'a evo" where
  "run_tx tx db = (case tx db of Inl e \<Rightarrow> (db, Inl e) | Inr (db', x) \<Rightarrow> (db', Inr x))"

definition read_db :: "(evo_db \<Rightarrow> evo_error + 'a) \<Rightarrow> 'a evo" where
  "read_db f db = (db, f db)"

definition evo_lift :: "evo_error + 'a \<Rightarrow> 'a evo" where
  "evo_lift x db = (db, x)"

definition evo_bind :: "'a evo \<Rightarrow> ('a \<Rightarrow> 'b evo) \<Rightarrow> 'b evo" where
  "evo_bind m k db = (case m db of (db', Inl e) \<Rightarrow> (db', Inl e) | (db', Inr x) \<Rightarrow> k x db')"

section \<open>Validation\<close>

definition validate_evo_actor :: "string \<Rightarrow> evo_error + unit" where
  "validate_evo_actor actor =
     (let a = trim actor
      in ensure (a \<noteq> []) (EAudit ActorEmpty)
        (ensure (\<not> (length a > 160 \<or> has_control a)) (EAudit ActorInvalid) (Inr ())))"

definition validate_audit_fields :: "string \<Rightarrow> string \<Rightarrow> evo_error + unit" where
  "validate_audit_fields event_type actor =
     and_then (validate_evo_actor actor) (\<lambda>_.
       ensure (\<not> (trim event_type = [] \<or> length (trim event_type) > 128)) (EAudit EventType) (Inr ()))"

definition validate_reason :: "string \<Rightarrow> evo_error + unit" where
  "validate_reason reason =
     ensure (trim reason \<noteq> []) (EAudit ReasonEmpty)
       (ensure (chars_count (trim reason) \<le> 2000) (EAudit ReasonTooLong) (Inr ()))"

fun transition_event_type :: "cand_status \<Rightarrow> string" where
  "transition_event_type CandEvaluating = ''evaluation_started''"
| "transition_event_type CandReady = ''candidate_ready''"
| "transition_event_type CandRejected = ''candidate_rejected''"
| "transition_event_type CandApproved = ''candidate_approved''"
| "transition_event_type CandFailed = ''candidate_failed''"
| "transition_event_type CandDraft = ''candidate_drafted''"

definition clamp_evolution_limit :: "nat \<Rightarrow> nat" where
  "clamp_evolution_limit limit = (if limit = 0 then 100 else min limit 500)"

definition new_evolution_id :: "string \<Rightarrow> nat \<times> nat \<Rightarrow> string" where
  "new_evolution_id prefix stamp = prefix @ ''-'' @ hex_nat (fst stamp) @ ''-'' @ hex_nat (snd stamp)"

section \<open>The audit log\<close>

text \<open>A reference to another table is \<open>NULL\<close> or the key of a row there.\<close>

definition references :: "string option \<Rightarrow> string list \<Rightarrow> bool" where
  "references k keys = (case k of None \<Rightarrow> True | Some i \<Rightarrow> i \<in> set keys)"

definition insert_audit_event ::
  "evo_lib \<Rightarrow> int \<Rightarrow> string option \<Rightarrow> string option \<Rightarrow> string \<Rightarrow> string \<Rightarrow> json \<Rightarrow> evo_db \<Rightarrow> evo_error + evo_db" where
  "insert_audit_event lib now candidate deployment event_type actor details db =
     and_then (validate_audit_fields event_type actor) (\<lambda>_.
     ensure (int (length (json_text lib details)) \<le> 65536) (EAudit AuditTooLarge)
     (ensure (references candidate (map cn_id (ed_candidates db))
              \<and> references deployment (map dp_id (ed_deployments db))) (EStore ForeignKey)
     (Inr (db\<lparr>ed_audit := ed_audit db @
        [\<lparr> au_id = length (ed_audit db) + 1, au_candidate = candidate, au_deployment = deployment,
           au_event_type = event_type, au_actor = actor, au_details = details, au_created_at = now \<rparr>]\<rparr>))))"

definition record_audit_event ::
  "evo_lib \<Rightarrow> int \<Rightarrow> string option \<Rightarrow> string option \<Rightarrow> string \<Rightarrow> string \<Rightarrow> json \<Rightarrow> unit evo_tx" where
  "record_audit_event lib now candidate deployment event_type actor details db =
     and_then (validate_audit_fields event_type actor) (\<lambda>_.
     and_then (insert_audit_event lib now candidate deployment event_type actor details db) (\<lambda>db'.
       Inr (db', ())))"

definition list_audit_events :: "nat \<Rightarrow> evo_db \<Rightarrow> audit_row list" where
  "list_audit_events limit db =
     take (clamp_evolution_limit limit)
       (rev (select_ordered (\<lambda>r. (au_created_at r, au_id r)) (\<lambda>_. True) (ed_audit db)))"

section \<open>Candidates\<close>

definition candidate_from_row :: "candidate_row \<Rightarrow> evo_error + candidate_row" where
  "candidate_from_row r =
     and_then (prompt_patch_new (cn_patch r) absolute_max_prompt_patch_chars) (\<lambda>p.
       Inr (r\<lparr>cn_patch := p\<rparr>))"

definition find_candidate :: "string \<Rightarrow> evo_db \<Rightarrow> candidate_row option" where
  "find_candidate cid db = find (\<lambda>r. cn_id r = cid) (ed_candidates db)"

definition decode_opt :: "candidate_row option \<Rightarrow> evo_error + candidate_row option" where
  "decode_opt x = (case x of None \<Rightarrow> Inr None | Some r \<Rightarrow> and_then (candidate_from_row r) (\<lambda>c. Inr (Some c)))"

definition get_candidate :: "string \<Rightarrow> evo_db \<Rightarrow> evo_error + candidate_row option" where
  "get_candidate cid db = decode_opt (find_candidate cid db)"

text \<open>\<open>get_candidate(...)?.context(...)?\<close>.\<close>

definition require_candidate :: "string \<Rightarrow> evo_db \<Rightarrow> evo_error + candidate_row" where
  "require_candidate cid db =
     and_then (get_candidate cid db) (\<lambda>c. fetch c (EStore CandidateMissing) Inr)"

definition list_candidates :: "nat \<Rightarrow> evo_db \<Rightarrow> evo_error + candidate_row list" where
  "list_candidates limit db =
     collect candidate_from_row
       (take (clamp_evolution_limit limit)
         (rev (select_ordered cn_created_at (\<lambda>_. True) (ed_candidates db))))"

definition find_candidate_by_evidence :: "string \<Rightarrow> evo_db \<Rightarrow> evo_error + candidate_row option" where
  "find_candidate_by_evidence fingerprint db =
     decode_opt (find (\<lambda>r. cn_fingerprint r = Some fingerprint) (ed_candidates db))"

definition new_candidate_row :: "int \<Rightarrow> candidate_draft \<Rightarrow> candidate_row" where
  "new_candidate_row now d =
     \<lparr> cn_id = cd_id d, cn_parent = cd_parent d, cn_fingerprint = cd_fingerprint d,
       cn_patch = cd_patch d, cn_rationale = trim (cd_rationale d), cn_sources = cd_sources d,
       cn_status = CandDraft, cn_created_at = now, cn_updated_at = now \<rparr>"

definition create_candidate_tx ::
  "evo_lib \<Rightarrow> int \<Rightarrow> candidate_draft \<Rightarrow> string \<Rightarrow> unit evo_tx" where
  "create_candidate_tx lib now d actor db =
     and_then (validate_candidate_draft d) (\<lambda>_.
     and_then (validate_evo_actor actor) (\<lambda>_.
     ensure (cd_parent d \<noteq> Some (cd_id d)) (EStore OwnParent)
     (ensure (references (cd_parent d) (map cn_id (ed_candidates db))) (EStore ParentMissing)
     (ensure (cd_id d \<notin> set (map cn_id (ed_candidates db))
              \<and> (cd_fingerprint d = None \<or> cd_fingerprint d \<notin> set (map cn_fingerprint (ed_candidates db))))
        (EStore DuplicateKey)
     (and_then (insert_audit_event lib now (Some (cd_id d)) None ''candidate_created'' actor
          (JObj [(''evidence_fingerprint'', opt_str (cd_fingerprint d)),
                 (''parent_candidate_id'', opt_str (cd_parent d)),
                 (''source_trajectory_ids'', JArr (map JStr (cd_sources d)))])
          (db\<lparr>ed_candidates := ed_candidates db @ [new_candidate_row now d]\<rparr>))
        (\<lambda>db'. Inr (db', ())))))))"

definition store_create_candidate :: "evo_lib \<Rightarrow> int \<Rightarrow> candidate_draft \<Rightarrow> string \<Rightarrow> candidate_row evo" where
  "store_create_candidate lib now d actor =
     evo_bind (run_tx (create_candidate_tx lib now d actor)) (\<lambda>_. read_db (require_candidate (cd_id d)))"

definition moved_row :: "int \<Rightarrow> cand_status \<Rightarrow> candidate_row \<Rightarrow> candidate_row" where
  "moved_row now nxt r = r\<lparr>cn_status := nxt, cn_updated_at := now\<rparr>"

definition transition_tx ::
  "evo_lib \<Rightarrow> int \<Rightarrow> string \<Rightarrow> cand_status \<Rightarrow> cand_status \<Rightarrow> string \<Rightarrow> json \<Rightarrow> unit evo_tx" where
  "transition_tx lib now cid expected nxt actor details db =
     and_then (validate_evo_actor actor) (\<lambda>_.
     ensure (can_transition_to expected nxt) (EStore (BadTransition expected nxt))
     (let hit = (\<lambda>r. cn_id r = cid \<and> cn_status r = expected)
      in ensure (count_where hit (ed_candidates db) = 1)
           (case find_candidate cid db of
              Some r \<Rightarrow> EStore (StatusConflict (cn_status r))
            | None \<Rightarrow> EStore CandidateMissing)
         (and_then (insert_audit_event lib now (Some cid) None (transition_event_type nxt) actor details
             (db\<lparr>ed_candidates := update_where hit (moved_row now nxt)
                (ed_candidates db)\<rparr>))
           (\<lambda>db'. Inr (db', ())))))"

definition transition_candidate ::
  "evo_lib \<Rightarrow> int \<Rightarrow> string \<Rightarrow> cand_status \<Rightarrow> cand_status \<Rightarrow> string \<Rightarrow> json \<Rightarrow> candidate_row evo" where
  "transition_candidate lib now cid expected nxt actor details =
     evo_bind (run_tx (transition_tx lib now cid expected nxt actor details))
       (\<lambda>_. read_db (require_candidate cid))"

section \<open>Eval cases\<close>

definition upsert_eval_case_tx :: "evo_lib \<Rightarrow> int \<Rightarrow> eval_case \<Rightarrow> string \<Rightarrow> unit evo_tx" where
  "upsert_eval_case_tx lib now c actor db =
     and_then (validate_eval_case c) (\<lambda>_.
     and_then (validate_evo_actor actor) (\<lambda>_.
     ensure (\<not> (vc_enabled c
               \<and> count_where (\<lambda>r. vc_enabled r \<and> vc_id r \<noteq> vc_id c) (ed_cases db) \<ge> max_enabled_eval_cases))
       (EScore TooManyEnabledCases)
     (let cases = (if vc_id c \<in> set (map vc_id (ed_cases db))
                   then update_where (\<lambda>r. vc_id r = vc_id c) (\<lambda>_. c) (ed_cases db)
                   else ed_cases db @ [c])
      in and_then (insert_audit_event lib now None None ''eval_case_upserted'' actor
             (JObj [(''eval_case_id'', JStr (vc_id c))]) (db\<lparr>ed_cases := cases\<rparr>))
           (\<lambda>db'. Inr (db', ())))))"

definition list_eval_cases :: "bool \<Rightarrow> evo_db \<Rightarrow> eval_case list" where
  "list_eval_cases enabled_only db =
     select_ordered vc_id (\<lambda>r. enabled_only \<longrightarrow> vc_enabled r) (ed_cases db)"

section \<open>Evaluations\<close>

definition decision_to_json :: "promotion_decision \<Rightarrow> json" where
  "decision_to_json d = (case d of
     DecisionReady \<Rightarrow> JObj [(''decision'', JStr ''ready'')]
   | DecisionRejected reasons \<Rightarrow>
       JObj [(''decision'', JStr ''rejected''), (''reasons'', JArr (map JStr reasons))])"

definition new_evaluation_row :: "int \<Rightarrow> evaluation_draft \<Rightarrow> evaluation_row" where
  "new_evaluation_row now d =
     \<lparr> ve_id = vd_id d, ve_candidate = vd_candidate d, ve_baseline = vd_baseline d,
       ve_scorecard = vd_scorecard d, ve_decision = vd_decision d, ve_gate = vd_gate d,
       ve_created_at = now \<rparr>"

definition record_evaluation_tx :: "evo_lib \<Rightarrow> int \<Rightarrow> evaluation_draft \<Rightarrow> evaluation_row evo_tx" where
  "record_evaluation_tx lib now d db =
     ensure (\<not> (trim (vd_id d) = [] \<or> trim (vd_candidate d) = [])) (EStore EvaluationIds)
     (and_then (validate_gate_config (vd_gate d)) (\<lambda>_.
     ensure (vd_candidate d \<in> set (map cn_id (ed_candidates db))) (EStore CandidateMissing)
     (ensure (vd_id d \<notin> set (map ve_id (ed_evaluations db))) (EStore DuplicateKey)
     (ensure (references (vd_baseline d) (map cn_id (ed_candidates db))) (EStore ForeignKey)
     (and_then (insert_audit_event lib now (Some (vd_candidate d)) None ''evaluation_recorded''
          ''system:evolution-engine''
          (JObj [(''decision'', decision_to_json (vd_decision d)), (''evaluation_id'', JStr (vd_id d))])
          (db\<lparr>ed_evaluations := ed_evaluations db @ [new_evaluation_row now d]\<rparr>))
        (\<lambda>db'. Inr (db', new_evaluation_row now d)))))))"

definition latest_evaluation :: "string \<Rightarrow> evo_db \<Rightarrow> evaluation_row option" where
  "latest_evaluation cid db =
     last_row (select_ordered ve_created_at (\<lambda>r. ve_candidate r = cid) (ed_evaluations db))"

section \<open>Feedback\<close>

definition record_feedback_tx ::
  "evo_lib \<Rightarrow> (string \<Rightarrow> bool) \<Rightarrow> int \<Rightarrow> feedback_draft \<Rightarrow> string \<Rightarrow> feedback_row evo_tx" where
  "record_feedback_tx lib trajectory_exists now d actor db =
     and_then (validate_feedback_draft d) (\<lambda>_.
     and_then (validate_evo_actor actor) (\<lambda>_.
       let tags = map trim (fb_tags d);
           comment = Option.bind (fb_comment d) (\<lambda>c. if trim c = [] then None else Some (trim c));
           row = \<lparr> fk_id = length (ed_feedback db) + 1, fk_trajectory = fb_trajectory_id d,
                   fk_score = fb_score d, fk_tags = tags, fk_comment = comment, fk_actor = actor,
                   fk_created_at = now \<rparr>
       in ensure (trajectory_exists (fb_trajectory_id d)) (EStore TrajectoryMissing)
         (and_then (insert_audit_event lib now None None ''feedback_recorded'' actor
             (JObj [(''feedback_id'', JInt (int (fk_id row))), (''score'', JF64 (fb_score d)),
                    (''tags'', JArr (map JStr tags)), (''trajectory_id'', JStr (fb_trajectory_id d))])
             (db\<lparr>ed_feedback := ed_feedback db @ [row]\<rparr>))
           (\<lambda>db'. Inr (db', row)))))"

definition list_feedback :: "bool \<Rightarrow> nat \<Rightarrow> evo_db \<Rightarrow> feedback_row list" where
  "list_feedback negative_only limit db =
     take (clamp_evolution_limit limit)
       (rev (select_ordered (\<lambda>r. (fk_created_at r, fk_id r))
         (\<lambda>r. negative_only \<longrightarrow> f64_lt (fk_score r) (Fin 0)) (ed_feedback db)))"

text \<open>The number of distinct runs with negative feedback in the six hours before \<open>now\<close>.\<close>

definition flagged_runs :: "int \<Rightarrow> evo_db \<Rightarrow> nat" where
  "flagged_runs now db =
     length (remdups (map fk_trajectory
       (filter (\<lambda>r. f64_lt (fk_score r) (Fin 0) \<and> now - 6 * 3600 \<le> fk_created_at r) (ed_feedback db))))"

section \<open>Cursors of running evaluations\<close>

definition upsert_eval_run :: "eval_run \<Rightarrow> unit evo_tx" where
  "upsert_eval_run run db =
     (if vr_candidate run \<in> set (map vr_candidate (ed_runs db))
      then ensure (\<forall>r \<in> set (ed_runs db). vr_id r = vr_id run \<longrightarrow> vr_candidate r = vr_candidate run)
             (EStore DuplicateKey)
           (Inr (db\<lparr>ed_runs := update_where (\<lambda>r. vr_candidate r = vr_candidate run) (\<lambda>_. run) (ed_runs db)\<rparr>, ()))
      else ensure (vr_id run \<notin> set (map vr_id (ed_runs db))) (EStore DuplicateKey)
           (Inr (db\<lparr>ed_runs := ed_runs db @ [run]\<rparr>, ())))"

definition get_eval_run :: "string \<Rightarrow> evo_db \<Rightarrow> eval_run option" where
  "get_eval_run cid db = find (\<lambda>r. vr_candidate r = cid) (ed_runs db)"

definition clear_eval_run :: "string \<Rightarrow> unit evo_tx" where
  "clear_eval_run cid db = Inr (db\<lparr>ed_runs := filter (\<lambda>r. vr_candidate r \<noteq> cid) (ed_runs db)\<rparr>, ())"

section \<open>Deployments\<close>

definition find_deployment :: "string \<Rightarrow> evo_db \<Rightarrow> deployment_row option" where
  "find_deployment did db = find (\<lambda>d. dp_id d = did) (ed_deployments db)"

text \<open>The deployment the runtime state points to.\<close>

definition pointed_deployment :: "evo_db \<Rightarrow> deployment_row option" where
  "pointed_deployment db = Option.bind (ed_active db) (\<lambda>did. find_deployment did db)"

definition policy_of :: "deployment_row \<Rightarrow> evo_db \<Rightarrow> evo_error + active_policy option" where
  "policy_of d db = (case find_candidate (dp_candidate d) db of
     None \<Rightarrow> Inr None
   | Some c \<Rightarrow> and_then (prompt_patch_new (cn_patch c) absolute_max_prompt_patch_chars) (\<lambda>p.
       Inr (Some \<lparr> ap_deployment_id = dp_id d, ap_candidate_id = dp_candidate d, ap_prompt_patch = p \<rparr>)))"

definition store_active_policy :: "evo_db \<Rightarrow> evo_error + active_policy option" where
  "store_active_policy db = (case pointed_deployment db of
     None \<Rightarrow> Inr None
   | Some d \<Rightarrow> if dp_rolled_back_at d = None then policy_of d db else Inr None)"

definition active_deployment :: "evo_db \<Rightarrow> deployment_row option" where
  "active_deployment db = (case pointed_deployment db of
     None \<Rightarrow> None
   | Some d \<Rightarrow> if dp_rolled_back_at d = None then Some d else None)"

definition list_recent_rollbacks :: "nat \<Rightarrow> evo_db \<Rightarrow> deployment_row list" where
  "list_recent_rollbacks limit db =
     take (min limit 100)
       (rev (select_ordered (\<lambda>d. (the (dp_rolled_back_at d), dp_id d))
         (\<lambda>d. dp_rolled_back_at d \<noteq> None) (ed_deployments db)))"

definition new_deployment_row ::
  "int \<Rightarrow> string \<Rightarrow> string \<Rightarrow> string option \<Rightarrow> string \<Rightarrow> string \<Rightarrow> deployment_row" where
  "new_deployment_row now did cid previous actor reason =
     \<lparr> dp_id = did, dp_candidate = cid, dp_previous = previous, dp_activated_by = actor,
       dp_reason = trim reason, dp_activated_at = now, dp_rolled_back_at = None,
       dp_rolled_back_by = None, dp_rollback_reason = None \<rparr>"

definition activate_tx ::
  "evo_lib \<Rightarrow> int \<Rightarrow> nat \<times> nat \<Rightarrow> string \<Rightarrow> string \<Rightarrow> string \<Rightarrow> deployment_row evo_tx" where
  "activate_tx lib now stamp cid actor reason db =
     and_then (validate_evo_actor actor) (\<lambda>_.
     and_then (validate_reason reason) (\<lambda>_.
       let did = new_evolution_id ''deployment'' stamp;
           d = new_deployment_row now did cid (ed_active db) actor reason
       in fetch (find_candidate cid db) (EStore CandidateMissing) (\<lambda>c.
          ensure (cn_status c = CandApproved) (EStore (MustBeApproved (cn_status c)))
          (fetch (latest_evaluation cid db) (EStore NoEvaluation) (\<lambda>v.
          ensure (ve_decision v = DecisionReady) (EStore NotReadyEvaluation)
          (ensure (ve_baseline v = map_option dp_candidate (pointed_deployment db)) (EStore StaleBaseline)
          (ensure (did \<notin> set (map dp_id (ed_deployments db))) (EStore DuplicateKey)
          (and_then (insert_audit_event lib now (Some cid) (Some did) ''candidate_activated'' actor
               (JObj [(''previous_deployment_id'', opt_str (ed_active db)), (''reason'', JStr (trim reason))])
               (db\<lparr>ed_deployments := ed_deployments db @ [d], ed_active := Some did\<rparr>))
             (\<lambda>db'. Inr (db', d))))))))))"

text \<open>The policy a rollback restores; a deployment that is missing or rolled back cannot be restored.\<close>

definition restored_policy :: "string option \<Rightarrow> evo_db \<Rightarrow> evo_error + active_policy option" where
  "restored_policy previous db = (case previous of
     None \<Rightarrow> Inr None
   | Some pid \<Rightarrow>
       (case find_deployment pid db of
          None \<Rightarrow> Inl (EStore PreviousUnavailable)
        | Some d \<Rightarrow>
            ensure (dp_rolled_back_at d = None) (EStore PreviousUnavailable)
            (and_then (policy_of d db) (\<lambda>p.
              fetch p (EStore PreviousUnavailable) (\<lambda>q. Inr (Some q))))))"

definition rolled_back_row :: "int \<Rightarrow> string \<Rightarrow> string \<Rightarrow> deployment_row \<Rightarrow> deployment_row" where
  "rolled_back_row now actor reason r =
     r\<lparr>dp_rolled_back_at := Some now, dp_rolled_back_by := Some actor, dp_rollback_reason := Some (trim reason)\<rparr>"

definition rollback_tx :: "evo_lib \<Rightarrow> int \<Rightarrow> string \<Rightarrow> string \<Rightarrow> rollback_result evo_tx" where
  "rollback_tx lib now actor reason db =
     and_then (validate_evo_actor actor) (\<lambda>_.
     and_then (validate_reason reason) (\<lambda>_.
     fetch (pointed_deployment db) (EStore NoActiveDeployment) (\<lambda>d.
     ensure (dp_rolled_back_at d = None) (EStore AlreadyRolledBack)
     (and_then (restored_policy (dp_previous d) db) (\<lambda>restored.
     and_then (insert_audit_event lib now (Some (dp_candidate d)) (Some (dp_id d)) ''deployment_rolled_back'' actor
          (JObj [(''reason'', JStr (trim reason)), (''restored_deployment_id'', opt_str (dp_previous d))])
          (db\<lparr>ed_deployments := update_where (\<lambda>r. dp_id r = dp_id d \<and> dp_rolled_back_at r = None)
                 (rolled_back_row now actor reason) (ed_deployments db),
               ed_active := dp_previous d\<rparr>))
       (\<lambda>db'. Inr (db', \<lparr> rb_deployment_id = dp_id d, rb_candidate_id = dp_candidate d,
                          rb_restored = restored \<rparr>)))))))"

end
