(* ===== verification/Evolution_Engine.thy ===== *)
theory Evolution_Engine
  imports Evolution_Store
begin

text \<open>
  \<open>EvolutionEngine\<close> (\<open>harness/evolution.rs\<close>) around the store: candidates, shadow evaluation in
  one go and case by case, approval, activation and rollback. The engine keeps the active policy in
  a cache (\<open>EvolutionPolicyRuntime\<close>), which activation and rollback replace after their
  transaction. The provider is an argument: the answer to the \<open>k\<close>-th request of an operation, an
  error where the request fails or the deadline passes. \<open>clk k\<close> is the clock at the \<open>k\<close>-th
  transaction of an operation.
\<close>

section \<open>Configuration\<close>

record evo_engine =
  eg_gate :: gate_config
  eg_suite :: "benchmark_suite option"
  eg_max_sources :: nat
  eg_max_evidence_chars :: nat
  eg_model :: string

definition engine_new :: "gate_config \<Rightarrow> string \<Rightarrow> evo_db \<Rightarrow> evo_error + evo_engine \<times> active_policy option" where
  "engine_new g model db =
     and_then (validate_gate_config g) (\<lambda>_.
     and_then (store_active_policy db) (\<lambda>active.
       Inr (\<lparr> eg_gate = g, eg_suite = None, eg_max_sources = 20, eg_max_evidence_chars = 8000,
              eg_model = model \<rparr>, active)))"

definition with_benchmark_suite :: "benchmark_suite \<Rightarrow> evo_engine \<Rightarrow> evo_error + evo_engine" where
  "with_benchmark_suite b eng =
     and_then (validate_benchmark_suite b) (\<lambda>_. Inr (eng\<lparr>eg_suite := Some b\<rparr>))"

definition with_evidence_limits :: "nat \<Rightarrow> nat \<Rightarrow> evo_engine \<Rightarrow> evo_engine" where
  "with_evidence_limits sources chars eng =
     eng\<lparr>eg_max_sources := max 1 (min 100 sources), eg_max_evidence_chars := max 512 (min 32000 chars)\<rparr>"

definition engine_actor :: string where
  "engine_actor = ''system:evolution-engine''"

datatype chat_role = RoleSystem | RoleUser

type_synonym chat_message = "chat_role \<times> string"
type_synonym provider = "nat \<Rightarrow> chat_message list \<Rightarrow> evo_error + string"

section \<open>Candidates\<close>

definition engine_create_candidate ::
  "evo_lib \<Rightarrow> evo_engine \<Rightarrow> active_policy option \<Rightarrow> int \<Rightarrow> nat \<times> nat \<Rightarrow> string \<Rightarrow> string \<Rightarrow> string list
   \<Rightarrow> string option \<Rightarrow> evo_actor \<Rightarrow> candidate_row evo" where
  "engine_create_candidate lib eng cache now stamp patch rationale sources fingerprint actor =
     evo_bind (evo_lift (audit_label actor)) (\<lambda>label.
     let ids = remdups_adj (sort (filter (\<lambda>i. i \<noteq> []) (map trim sources)))
     in evo_bind (evo_lift (ensure (length ids \<le> eg_max_sources eng) (ERun TooManySourceTrajectories) (Inr ()))) (\<lambda>_.
        evo_bind (evo_lift (prompt_patch_new patch (int (gc_max_prompt_patch_chars (eg_gate eng))))) (\<lambda>p.
          store_create_candidate lib now
            \<lparr> cd_id = new_evolution_id ''candidate'' stamp, cd_parent = map_option ap_candidate_id cache,
              cd_fingerprint = fingerprint, cd_patch = p, cd_rationale = rationale, cd_sources = ids \<rparr>
            label)))"

definition engine_upsert_eval_case :: "evo_lib \<Rightarrow> int \<Rightarrow> eval_case \<Rightarrow> evo_actor \<Rightarrow> unit evo" where
  "engine_upsert_eval_case lib now c actor =
     evo_bind (evo_lift (audit_label actor)) (\<lambda>label. run_tx (upsert_eval_case_tx lib now c label))"

section \<open>Shadow completions\<close>

type_synonym policy_view = "string \<times> string \<times> string"

definition shadow_messages :: "eval_case \<Rightarrow> policy_view option \<Rightarrow> chat_message list" where
  "shadow_messages c policy =
     (case policy of
        None \<Rightarrow> []
      | Some (candidate_id, deployment_id, patch) \<Rightarrow>
          [(RoleSystem, render_evolution_policy_message candidate_id deployment_id patch)])
     @ [(RoleUser, vc_input c)]"

definition shadow_complete :: "provider \<Rightarrow> nat \<Rightarrow> eval_case \<Rightarrow> policy_view option \<Rightarrow> evo_error + string" where
  "shadow_complete ask k c policy = ask k (shadow_messages c policy)"

definition add_response_bytes :: "nat \<Rightarrow> nat \<Rightarrow> string \<Rightarrow> evo_error + nat" where
  "add_response_bytes max_bytes spent output =
     (let n = spent + length output
      in ensure (int n < 2 ^ 64) (ERun BytesOverflow) (ensure (n \<le> max_bytes) (ERun BytesBudget) (Inr n)))"

text \<open>Both completions of one case: under the baseline policy and under the candidate's patch.\<close>

definition run_case ::
  "provider \<Rightarrow> nat \<Rightarrow> policy_view option \<Rightarrow> candidate_row \<Rightarrow> nat \<Rightarrow> eval_case \<Rightarrow> nat
   \<Rightarrow> evo_error + string \<times> string \<times> nat" where
  "run_case ask k baseline cand max_bytes c spent =
     and_then (shadow_complete ask k c baseline) (\<lambda>b.
     and_then (add_response_bytes max_bytes spent b) (\<lambda>n.
     and_then (shadow_complete ask (k + 1) c (Some (cn_id cand, ''shadow-evaluation'', cn_patch cand))) (\<lambda>o'.
     and_then (add_response_bytes max_bytes n o') (\<lambda>m. Inr (b, o', m)))))"

fun run_cases ::
  "provider \<Rightarrow> nat \<Rightarrow> policy_view option \<Rightarrow> candidate_row \<Rightarrow> nat \<Rightarrow> eval_case list
   \<Rightarrow> outputs \<times> outputs \<times> nat \<Rightarrow> evo_error + outputs \<times> outputs \<times> nat" where
  "run_cases ask k baseline cand max_bytes [] acc = Inr acc"
| "run_cases ask k baseline cand max_bytes (c # cs) (bo, co, spent) =
     and_then (run_case ask k baseline cand max_bytes c spent) (\<lambda>(b, o', n).
       run_cases ask (k + 2) baseline cand max_bytes cs (bo(vc_id c \<mapsto> b), co(vc_id c \<mapsto> o'), n))"

section \<open>Evaluation in one go\<close>

definition finalize_shadow_evaluation ::
  "evo_lib \<Rightarrow> evo_engine \<Rightarrow> (nat \<Rightarrow> int) \<Rightarrow> nat \<times> nat \<Rightarrow> candidate_row \<Rightarrow> eval_case list
   \<Rightarrow> benchmark_suite option \<Rightarrow> string option \<Rightarrow> outputs \<times> outputs \<times> nat \<Rightarrow> (evaluation_row \<times> nat) evo" where
  "finalize_shadow_evaluation lib eng clk stamp cand cases suite baseline_id acc =
     (case acc of (bo, co, spent) \<Rightarrow>
     evo_bind (evo_lift (score_with_benchmark lib cases suite bo co)) (\<lambda>card.
     let decision = gate_decide (eg_gate eng) card
     in evo_bind (run_tx (record_evaluation_tx lib (clk 2)
          \<lparr> vd_id = new_evolution_id ''evaluation'' stamp, vd_candidate = cn_id cand,
            vd_baseline = baseline_id, vd_scorecard = card, vd_decision = decision,
            vd_gate = eg_gate eng \<rparr>)) (\<lambda>evaluation.
        evo_bind (case decision of
            DecisionReady \<Rightarrow> transition_candidate lib (clk 3) (cn_id cand) CandEvaluating CandReady engine_actor
              (JObj [(''candidate_score'', JF64 (sc_candidate_score card)),
                     (''evaluation_id'', JStr (ve_id evaluation)),
                     (''score_delta'', JF64 (sc_score_delta card))])
          | DecisionRejected reasons \<Rightarrow>
              transition_candidate lib (clk 3) (cn_id cand) CandEvaluating CandRejected engine_actor
              (JObj [(''evaluation_id'', JStr (ve_id evaluation)), (''reasons'', JArr (map JStr reasons))]))
          (\<lambda>_. evo_lift (Inr (evaluation, spent))))))"

text \<open>A benchmark case may not share its id with an operator's case.\<close>

definition check_collisions :: "benchmark_suite option \<Rightarrow> eval_case list \<Rightarrow> evo_error + unit" where
  "check_collisions suite cases = (case suite of
     None \<Rightarrow> Inr ()
   | Some b \<Rightarrow> (case find (\<lambda>c. vc_id c \<in> set (map vc_id cases)) (bs_cases b) of
       None \<Rightarrow> Inr ()
     | Some c \<Rightarrow> Inl (ERun (CaseCollision (vc_id c)))))"

definition suite_cases :: "benchmark_suite option \<Rightarrow> eval_case list" where
  "suite_cases suite = (case suite of None \<Rightarrow> [] | Some b \<Rightarrow> bs_cases b)"

definition policy_view :: "active_policy \<Rightarrow> policy_view" where
  "policy_view p = (ap_candidate_id p, ap_deployment_id p, ap_prompt_patch p)"

definition evaluate_candidate_inner ::
  "evo_lib \<Rightarrow> evo_engine \<Rightarrow> provider \<Rightarrow> active_policy option \<Rightarrow> (nat \<Rightarrow> int) \<Rightarrow> nat \<times> nat \<Rightarrow> candidate_row
   \<Rightarrow> nat \<Rightarrow> (evaluation_row \<times> nat) evo" where
  "evaluate_candidate_inner lib eng ask cache clk stamp cand max_bytes =
     evo_bind (read_db (\<lambda>db. Inr (list_eval_cases True db))) (\<lambda>cases.
     evo_bind (evo_lift (check_collisions (eg_suite eng) cases)) (\<lambda>_.
     evo_bind (evo_lift (run_cases ask 0 (map_option policy_view cache) cand max_bytes
         (cases @ suite_cases (eg_suite eng)) (Map.empty, Map.empty, 0))) (\<lambda>acc.
       finalize_shadow_evaluation lib eng clk stamp cand cases (eg_suite eng)
         (map_option ap_candidate_id cache) acc)))"

text \<open>An evaluation starts from any status but \<open>evaluating\<close>.\<close>

definition evaluable :: "candidate_row \<Rightarrow> evo_error + cand_status" where
  "evaluable c = ensure (cn_status c \<noteq> CandEvaluating) (ERun (NotEvaluable (cn_status c))) (Inr (cn_status c))"

definition start_evaluation :: "evo_lib \<Rightarrow> evo_engine \<Rightarrow> int \<Rightarrow> string \<Rightarrow> cand_status \<Rightarrow> candidate_row evo" where
  "start_evaluation lib eng now cid expected =
     transition_candidate lib now cid expected CandEvaluating engine_actor (JObj [(''model'', JStr (eg_model eng))])"

definition evaluate_candidate_with_limit ::
  "evo_lib \<Rightarrow> evo_engine \<Rightarrow> provider \<Rightarrow> active_policy option \<Rightarrow> (nat \<Rightarrow> int) \<Rightarrow> nat \<times> nat \<Rightarrow> string
   \<Rightarrow> nat \<Rightarrow> (evaluation_row \<times> nat) evo" where
  "evaluate_candidate_with_limit lib eng ask cache clk stamp cid max_bytes =
     evo_bind (read_db (require_candidate cid)) (\<lambda>cand.
     evo_bind (evo_lift (evaluable cand)) (\<lambda>expected.
     evo_bind (start_evaluation lib eng (clk 0) cid expected) (\<lambda>_ db.
       case evaluate_candidate_inner lib eng ask cache clk stamp cand max_bytes db of
         (db', Inr r) \<Rightarrow> (db', Inr r)
       | (db', Inl e) \<Rightarrow>
           (fst (transition_candidate lib (clk 4) cid CandEvaluating CandFailed engine_actor
              (JObj [(''error'', JStr ''shadow_evaluation_failed''), (''retryable'', JBool True)]) db'),
            Inl e))))"

definition evaluate_candidate ::
  "evo_lib \<Rightarrow> evo_engine \<Rightarrow> provider \<Rightarrow> active_policy option \<Rightarrow> (nat \<Rightarrow> int) \<Rightarrow> nat \<times> nat \<Rightarrow> string
   \<Rightarrow> evaluation_row evo" where
  "evaluate_candidate lib eng ask cache clk stamp cid =
     evo_bind (evaluate_candidate_with_limit lib eng ask cache clk stamp cid (2 ^ 64 - 1)) (\<lambda>(evaluation, _).
       evo_lift (Inr evaluation))"

definition evaluate_candidate_bounded ::
  "evo_lib \<Rightarrow> evo_engine \<Rightarrow> provider \<Rightarrow> active_policy option \<Rightarrow> (nat \<Rightarrow> int) \<Rightarrow> nat \<times> nat \<Rightarrow> string
   \<Rightarrow> nat \<Rightarrow> (evaluation_row \<times> nat) evo" where
  "evaluate_candidate_bounded lib eng ask cache clk stamp cid max_bytes =
     evo_bind (evo_lift (ensure (max_bytes > 0) (ERun BudgetZero) (Inr ()))) (\<lambda>_.
       evaluate_candidate_with_limit lib eng ask cache clk stamp cid max_bytes)"

section \<open>Evaluation case by case\<close>

datatype eval_step_outcome =
    StepProgress nat nat nat
  | StepCompleted evaluation_row nat

text \<open>The cursor a first step starts from: the suite and the baseline are frozen in it.\<close>

definition begin_eval_run ::
  "evo_lib \<Rightarrow> evo_engine \<Rightarrow> active_policy option \<Rightarrow> (nat \<Rightarrow> int) \<Rightarrow> nat \<times> nat \<Rightarrow> string \<Rightarrow> eval_run evo" where
  "begin_eval_run lib eng cache clk stamp cid =
     evo_bind (read_db (require_candidate cid)) (\<lambda>cand.
     evo_bind (if cn_status cand = CandEvaluating
         then evo_bind (transition_candidate lib (clk 0) cid CandEvaluating CandFailed engine_actor
                (JObj [(''error'', JStr ''stale evaluation reset'')])) (\<lambda>_. read_db (require_candidate cid))
         else evo_lift (Inr cand)) (\<lambda>cand.
     evo_bind (evo_lift (evaluable cand)) (\<lambda>expected.
     evo_bind (read_db (\<lambda>db. Inr (list_eval_cases True db))) (\<lambda>operator_cases.
     evo_bind (evo_lift (check_collisions (eg_suite eng) operator_cases)) (\<lambda>_.
     let all_cases = operator_cases @ suite_cases (eg_suite eng);
         run = \<lparr> vr_id = new_evolution_id ''evalrun'' stamp, vr_candidate = cid, vr_cases = all_cases,
                 vr_benchmark_tail = length (suite_cases (eg_suite eng)),
                 vr_baseline = map_option policy_view cache, vr_case_index = 0,
                 vr_baseline_outputs = Map.empty, vr_candidate_outputs = Map.empty, vr_response_bytes = 0 \<rparr>
     in evo_bind (evo_lift (ensure (all_cases \<noteq> []) (ERun EmptySuite) (Inr ()))) (\<lambda>_.
        evo_bind (start_evaluation lib eng (clk 1) cid expected) (\<lambda>_.
        evo_bind (run_tx (upsert_eval_run run)) (\<lambda>_. evo_lift (Inr run)))))))))"

definition current_eval_run ::
  "evo_lib \<Rightarrow> evo_engine \<Rightarrow> active_policy option \<Rightarrow> (nat \<Rightarrow> int) \<Rightarrow> nat \<times> nat \<Rightarrow> string \<Rightarrow> eval_run evo" where
  "current_eval_run lib eng cache clk stamp cid =
     evo_bind (read_db (\<lambda>db. Inr (get_eval_run cid db))) (\<lambda>found.
       case found of
         Some run \<Rightarrow> evo_lift (Inr run)
       | None \<Rightarrow> begin_eval_run lib eng cache clk stamp cid)"

definition advance_run :: "eval_case \<Rightarrow> string \<times> string \<times> nat \<Rightarrow> eval_run \<Rightarrow> eval_run" where
  "advance_run c r run = (case r of (b, o', n) \<Rightarrow>
     run\<lparr>vr_baseline_outputs := (vr_baseline_outputs run)(vc_id c \<mapsto> b),
         vr_candidate_outputs := (vr_candidate_outputs run)(vc_id c \<mapsto> o'),
         vr_response_bytes := n, vr_case_index := vr_case_index run + 1\<rparr>)"

definition run_suite :: "evo_engine \<Rightarrow> eval_run \<Rightarrow> benchmark_suite option" where
  "run_suite eng run =
     (if vr_benchmark_tail run > 0
      then map_option (\<lambda>b. b\<lparr>bs_cases := drop (length (vr_cases run) - vr_benchmark_tail run) (vr_cases run)\<rparr>)
        (eg_suite eng)
      else None)"

definition finish_eval_run ::
  "evo_lib \<Rightarrow> evo_engine \<Rightarrow> (nat \<Rightarrow> int) \<Rightarrow> nat \<times> nat \<Rightarrow> candidate_row \<Rightarrow> eval_run \<Rightarrow> eval_step_outcome evo" where
  "finish_eval_run lib eng clk stamp cand run =
     evo_bind (finalize_shadow_evaluation lib eng clk stamp cand
         (take (length (vr_cases run) - vr_benchmark_tail run) (vr_cases run)) (run_suite eng run)
         (map_option fst (vr_baseline run))
         (vr_baseline_outputs run, vr_candidate_outputs run, vr_response_bytes run)) (\<lambda>(evaluation, n).
       evo_bind (run_tx (clear_eval_run (vr_candidate run))) (\<lambda>_. evo_lift (Inr (StepCompleted evaluation n))))"

definition run_evaluation_step ::
  "evo_lib \<Rightarrow> evo_engine \<Rightarrow> provider \<Rightarrow> active_policy option \<Rightarrow> (nat \<Rightarrow> int) \<Rightarrow> nat \<times> nat \<Rightarrow> string
   \<Rightarrow> nat \<Rightarrow> eval_step_outcome evo" where
  "run_evaluation_step lib eng ask cache clk stamp cid max_bytes =
     evo_bind (evo_lift (ensure (max_bytes > 0) (ERun BudgetZero) (Inr ()))) (\<lambda>_.
     evo_bind (current_eval_run lib eng cache clk stamp cid) (\<lambda>run.
     evo_bind (read_db (require_candidate cid)) (\<lambda>cand.
     evo_bind (evo_lift (ensure (vr_case_index run < length (vr_cases run)) (ERun IndexOutOfRange)
         (Inr (vr_cases run ! vr_case_index run)))) (\<lambda>c.
     evo_bind (evo_lift (run_case ask 0 (vr_baseline run) cand max_bytes c (vr_response_bytes run))) (\<lambda>r.
     let run' = advance_run c r run
     in if vr_case_index run' < length (vr_cases run')
        then evo_bind (run_tx (upsert_eval_run run')) (\<lambda>_.
          evo_lift (Inr (StepProgress (vr_case_index run') (length (vr_cases run')) (vr_response_bytes run'))))
        else finish_eval_run lib eng clk stamp cand run')))))"

section \<open>Promotion\<close>

definition require_human_actor :: "evo_engine \<Rightarrow> evo_actor \<Rightarrow> evo_error + unit" where
  "require_human_actor eng actor =
     ensure (\<not> (gc_require_human_approval (eg_gate eng) \<and> \<not> is_human actor)) (EAudit HumanRequired) (Inr ())"

definition approve_candidate ::
  "evo_lib \<Rightarrow> evo_engine \<Rightarrow> active_policy option \<Rightarrow> int \<Rightarrow> string \<Rightarrow> evo_actor \<Rightarrow> string \<Rightarrow> candidate_row evo" where
  "approve_candidate lib eng cache now cid actor reason =
     evo_bind (evo_lift (require_human_actor eng actor)) (\<lambda>_.
     evo_bind (evo_lift (validate_operator_reason reason)) (\<lambda>_.
     evo_bind (read_db (\<lambda>db. fetch (latest_evaluation cid db) (EStore NoEvaluation) Inr)) (\<lambda>latest.
     evo_bind (evo_lift (ensure (ve_decision latest = DecisionReady) (EStore NotReadyEvaluation) (Inr ()))) (\<lambda>_.
     evo_bind (evo_lift (ensure (ve_baseline latest = map_option ap_candidate_id cache) (EStore StaleBaseline)
         (Inr ()))) (\<lambda>_.
     evo_bind (evo_lift (audit_label actor)) (\<lambda>label.
       transition_candidate lib now cid CandReady CandApproved label
         (JObj [(''evaluation_id'', JStr (ve_id latest)), (''reason'', JStr (trim reason))])))))))"

definition abandon_evaluation ::
  "evo_lib \<Rightarrow> evo_engine \<Rightarrow> int \<Rightarrow> string \<Rightarrow> evo_actor \<Rightarrow> string \<Rightarrow> candidate_row evo" where
  "abandon_evaluation lib eng now cid actor reason =
     evo_bind (evo_lift (require_human_actor eng actor)) (\<lambda>_.
     evo_bind (evo_lift (validate_operator_reason reason)) (\<lambda>_.
     evo_bind (evo_lift (audit_label actor)) (\<lambda>label.
       transition_candidate lib now cid CandEvaluating CandFailed label
         (JObj [(''reason'', JStr (trim reason)), (''recovery'', JStr ''operator_abandoned_stale_evaluation'')]))))"

text \<open>
  Activation and rollback in two parts: the transaction, which also yields the policy to install,
  and the replacement of the cache. Nothing keeps another call from running between the two.
\<close>

definition activate_commit ::
  "evo_lib \<Rightarrow> evo_engine \<Rightarrow> int \<Rightarrow> nat \<times> nat \<Rightarrow> string \<Rightarrow> evo_actor \<Rightarrow> string
   \<Rightarrow> (deployment_row \<times> active_policy option) evo" where
  "activate_commit lib eng now stamp cid actor reason =
     evo_bind (evo_lift (require_human_actor eng actor)) (\<lambda>_.
     evo_bind (read_db (require_candidate cid)) (\<lambda>cand.
     evo_bind (evo_lift (audit_label actor)) (\<lambda>label.
     evo_bind (run_tx (activate_tx lib now stamp cid label reason)) (\<lambda>d.
       evo_lift (Inr (d, Some \<lparr> ap_deployment_id = dp_id d, ap_candidate_id = cn_id cand,
                               ap_prompt_patch = cn_patch cand \<rparr>))))))"

definition rollback_commit ::
  "evo_lib \<Rightarrow> evo_engine \<Rightarrow> int \<Rightarrow> evo_actor \<Rightarrow> string \<Rightarrow> (rollback_result \<times> active_policy option) evo" where
  "rollback_commit lib eng now actor reason =
     evo_bind (evo_lift (require_human_actor eng actor)) (\<lambda>_.
     evo_bind (evo_lift (audit_label actor)) (\<lambda>label.
     evo_bind (run_tx (rollback_tx lib now label reason)) (\<lambda>r. evo_lift (Inr (r, rb_restored r)))))"

record evo_state =
  es_db :: evo_db
  es_cache :: "active_policy option"

definition commit_and_replace ::
  "('a \<times> active_policy option) evo \<Rightarrow> evo_state \<Rightarrow> evo_state \<times> (evo_error + 'a)" where
  "commit_and_replace m s = (case m (es_db s) of
     (db, Inl e) \<Rightarrow> (s\<lparr>es_db := db\<rparr>, Inl e)
   | (db, Inr (x, policy)) \<Rightarrow> (s\<lparr>es_db := db, es_cache := policy\<rparr>, Inr x))"

definition activate_candidate ::
  "evo_lib \<Rightarrow> evo_engine \<Rightarrow> int \<Rightarrow> nat \<times> nat \<Rightarrow> string \<Rightarrow> evo_actor \<Rightarrow> string \<Rightarrow> evo_state
   \<Rightarrow> evo_state \<times> (evo_error + deployment_row)" where
  "activate_candidate lib eng now stamp cid actor reason =
     commit_and_replace (activate_commit lib eng now stamp cid actor reason)"

definition rollback_active ::
  "evo_lib \<Rightarrow> evo_engine \<Rightarrow> int \<Rightarrow> evo_actor \<Rightarrow> string \<Rightarrow> evo_state \<Rightarrow> evo_state \<times> (evo_error + rollback_result)" where
  "rollback_active lib eng now actor reason =
     commit_and_replace (rollback_commit lib eng now actor reason)"

end
