(* ===== verification/Evolution_Actions.thy ===== *)
theory Evolution_Actions
  imports Evolution_Engine
begin

text \<open>
  The evolution store as a transition system. HTTP handlers, the loop worker and the automatic
  cycle call the engine concurrently and meet in the store, so an execution is a sequence of store
  transactions: \<open>evo_action\<close> lists them with their arguments, and \<open>evo_action_ok\<close> says what the
  engine guarantees about the arguments. The theory shows what an action may do to the tables
  (\<open>evo_grows\<close>), the invariant of the reachable tables, and that the deployments that are not
  rolled back form the stack the active pointer is the top of.
\<close>

section \<open>Actions\<close>

datatype evo_action =
    EvCreate candidate_draft string int
  | EvTransition string cand_status cand_status string json int
  | EvCase eval_case string int
  | EvEvaluation evaluation_draft int
  | EvFeedback feedback_draft string bool int
  | EvRun eval_run
  | EvClear string
  | EvActivate "nat \<times> nat" string string string int
  | EvRollback string string int
  | EvAudit "string option" "string option" string string json int

fun run_evo_action :: "evo_lib \<Rightarrow> evo_action \<Rightarrow> evo_db \<Rightarrow> evo_db" where
  "run_evo_action lib (EvCreate d actor now) db = fst (run_tx (create_candidate_tx lib now d actor) db)"
| "run_evo_action lib (EvTransition cid expected nxt actor details now) db =
     fst (run_tx (transition_tx lib now cid expected nxt actor details) db)"
| "run_evo_action lib (EvCase c actor now) db = fst (run_tx (upsert_eval_case_tx lib now c actor) db)"
| "run_evo_action lib (EvEvaluation d now) db = fst (run_tx (record_evaluation_tx lib now d) db)"
| "run_evo_action lib (EvFeedback d actor known now) db =
     fst (run_tx (record_feedback_tx lib (\<lambda>_. known) now d actor) db)"
| "run_evo_action lib (EvRun run) db = fst (run_tx (upsert_eval_run run) db)"
| "run_evo_action lib (EvClear cid) db = fst (run_tx (clear_eval_run cid) db)"
| "run_evo_action lib (EvActivate stamp cid actor reason now) db =
     fst (run_tx (activate_tx lib now stamp cid actor reason) db)"
| "run_evo_action lib (EvRollback actor reason now) db = fst (run_tx (rollback_tx lib now actor reason) db)"
| "run_evo_action lib (EvAudit cid did event_type actor details now) db =
     fst (run_tx (record_audit_event lib now cid did event_type actor details) db)"

definition human_label :: "gate_config \<Rightarrow> string \<Rightarrow> bool" where
  "human_label g actor \<longleftrightarrow> (gc_require_human_approval g \<longrightarrow> starts_with ''human:'' actor)"

definition patch_ok :: "string \<Rightarrow> bool" where
  "patch_ok p \<longleftrightarrow> prompt_patch_new p absolute_max_prompt_patch_chars = Inr p"

definition ready_evaluated :: "evo_db \<Rightarrow> string \<Rightarrow> bool" where
  "ready_evaluated db cid \<longleftrightarrow>
     (\<exists>v \<in> set (ed_evaluations db). ve_candidate v = cid \<and> ve_decision v = DecisionReady)"

fun evo_action_ok :: "gate_config \<Rightarrow> evo_db \<Rightarrow> evo_action \<Rightarrow> bool" where
  "evo_action_ok g db (EvCreate d actor now) \<longleftrightarrow> patch_ok (cd_patch d)"
| "evo_action_ok g db (EvTransition cid expected nxt actor details now) \<longleftrightarrow>
     (nxt = CandReady \<longrightarrow> ready_evaluated db cid) \<and> (nxt = CandApproved \<longrightarrow> human_label g actor)"
| "evo_action_ok g db (EvActivate stamp cid actor reason now) \<longleftrightarrow> human_label g actor"
| "evo_action_ok g db (EvRollback actor reason now) \<longleftrightarrow> human_label g actor"
| "evo_action_ok g db _ \<longleftrightarrow> True"

definition evo_step :: "evo_lib \<Rightarrow> gate_config \<Rightarrow> evo_db \<Rightarrow> evo_db \<Rightarrow> bool" where
  "evo_step lib g s t \<longleftrightarrow> (\<exists>a. evo_action_ok g s a \<and> t = run_evo_action lib a s)"

definition evo_reachable :: "evo_lib \<Rightarrow> gate_config \<Rightarrow> evo_db \<Rightarrow> bool" where
  "evo_reachable lib g db \<longleftrightarrow> (evo_step lib g)\<^sup>*\<^sup>* empty_evo_db db"

section \<open>What a transaction changes\<close>

lemma run_tx_cases:
  obtains (failed) e where "tx db = Inl e" "run_tx tx db = (db, Inl e)"
  | (committed) db' x where "tx db = Inr (db', x)" "run_tx tx db = (db', Inr x)"
  by (cases "tx db") (auto simp: run_tx_def)

lemma audit_inserted:
  assumes "insert_audit_event lib now candidate deployment event_type actor details db = Inr db'"
  shows "db' = db\<lparr>ed_audit := ed_audit db @
      [\<lparr> au_id = length (ed_audit db) + 1, au_candidate = candidate, au_deployment = deployment,
         au_event_type = event_type, au_actor = actor, au_details = details, au_created_at = now \<rparr>]\<rparr>"
    and "references candidate (map cn_id (ed_candidates db))"
  using assms by (auto simp: insert_audit_event_def)

text \<open>Candidate rows keep all but their status and time stamp, deployments all but their end.\<close>

definition candidate_kept :: "candidate_row \<Rightarrow> candidate_row \<Rightarrow> bool" where
  "candidate_kept r r' \<longleftrightarrow>
     cn_id r' = cn_id r \<and> cn_patch r' = cn_patch r \<and> cn_fingerprint r' = cn_fingerprint r
     \<and> cn_parent r' = cn_parent r \<and> cn_sources r' = cn_sources r \<and> cn_rationale r' = cn_rationale r"

definition deployment_kept :: "deployment_row \<Rightarrow> deployment_row \<Rightarrow> bool" where
  "deployment_kept d d' \<longleftrightarrow>
     dp_id d' = dp_id d \<and> dp_candidate d' = dp_candidate d \<and> dp_previous d' = dp_previous d
     \<and> dp_activated_by d' = dp_activated_by d \<and> (dp_rolled_back_at d \<noteq> None \<longrightarrow> d' = d)"

interpretation candidate_evol: row_evolution candidate_kept
  by unfold_locales (auto simp: candidate_kept_def)

interpretation deployment_evol: row_evolution deployment_kept
  by unfold_locales (auto simp: deployment_kept_def)

definition evo_grows :: "evo_db \<Rightarrow> evo_db \<Rightarrow> bool" where
  "evo_grows s t \<longleftrightarrow>
     rows_evolve candidate_kept (ed_candidates s) (ed_candidates t)
     \<and> rows_evolve deployment_kept (ed_deployments s) (ed_deployments t)
     \<and> rows_evolve (=) (ed_evaluations s) (ed_evaluations t)
     \<and> rows_evolve (=) (ed_audit s) (ed_audit t)"

lemma evo_grows_refl: "evo_grows s s"
  by (simp add: evo_grows_def candidate_evol.evolve_refl deployment_evol.evolve_refl
      append_only.evolve_refl)

lemma evo_grows_trans: "evo_grows s t \<Longrightarrow> evo_grows t u \<Longrightarrow> evo_grows s u"
  unfolding evo_grows_def
  by (blast intro: candidate_evol.evolve_trans deployment_evol.evolve_trans append_only.evolve_trans)

lemmas evolve_simps = candidate_evol.evolve_refl deployment_evol.evolve_refl append_only.evolve_refl
  candidate_evol.evolve_append deployment_evol.evolve_append append_only.evolve_append

lemma candidate_changes:
  assumes "create_candidate_tx lib now d actor db = Inr (db', x)"
  obtains e where "db' = db\<lparr>ed_candidates := ed_candidates db @ [new_candidate_row now d],
      ed_audit := ed_audit db @ [e]\<rparr>"
    and "cd_id d \<notin> set (map cn_id (ed_candidates db))"
    and "cd_fingerprint d = None \<or> cd_fingerprint d \<notin> set (map cn_fingerprint (ed_candidates db))"
  using assms unfolding create_candidate_tx_def
  by (auto dest!: audit_inserted(1))

lemma transition_changes:
  assumes "transition_tx lib now cid expected nxt actor details db = Inr (db', x)"
  shows "db' = db\<lparr>ed_candidates := update_where (\<lambda>r. cn_id r = cid \<and> cn_status r = expected)
        (moved_row now nxt) (ed_candidates db),
      ed_audit := ed_audit db @ [\<lparr> au_id = length (ed_audit db) + 1, au_candidate = Some cid,
         au_deployment = None, au_event_type = transition_event_type nxt, au_actor = actor,
         au_details = details, au_created_at = now \<rparr>]\<rparr>"
    and "can_transition_to expected nxt"
proof -
  obtain db1 where edge: "can_transition_to expected nxt"
    and ins: "insert_audit_event lib now (Some cid) None (transition_event_type nxt) actor details
      (db\<lparr>ed_candidates := update_where (\<lambda>r. cn_id r = cid \<and> cn_status r = expected)
        (moved_row now nxt) (ed_candidates db)\<rparr>) = Inr db1"
    and eq: "db1 = db'"
    using assms unfolding transition_tx_def Let_def
    by (simp only: and_then_Inr ensure_Inr sum.inject prod.inject) (elim exE conjE, rule that)
  from edge audit_inserted(1) [OF ins] eq show "can_transition_to expected nxt"
    and "db' = db\<lparr>ed_candidates := update_where (\<lambda>r. cn_id r = cid \<and> cn_status r = expected)
        (moved_row now nxt) (ed_candidates db),
      ed_audit := ed_audit db @ [\<lparr> au_id = length (ed_audit db) + 1, au_candidate = Some cid,
         au_deployment = None, au_event_type = transition_event_type nxt, au_actor = actor,
         au_details = details, au_created_at = now \<rparr>]\<rparr>" by simp_all
qed

lemma case_changes:
  assumes "upsert_eval_case_tx lib now c actor db = Inr (db', x)"
  obtains e where "db' = db\<lparr>ed_cases := (if vc_id c \<in> set (map vc_id (ed_cases db))
        then update_where (\<lambda>r. vc_id r = vc_id c) (\<lambda>_. c) (ed_cases db) else ed_cases db @ [c]),
      ed_audit := ed_audit db @ [e]\<rparr>"
    and "\<not> (vc_enabled c \<and> count_where (\<lambda>r. vc_enabled r \<and> vc_id r \<noteq> vc_id c) (ed_cases db) \<ge> max_enabled_eval_cases)"
    and "validate_eval_case c = Inr ()"
proof -
  obtain y db1 where valid: "validate_eval_case c = Inr y" and lim: "\<not> (vc_enabled c \<and> count_where (\<lambda>r. vc_enabled r \<and> vc_id r \<noteq> vc_id c) (ed_cases db) \<ge> max_enabled_eval_cases)"
    and ins: "insert_audit_event lib now None None ''eval_case_upserted'' actor
      (JObj [(''eval_case_id'', JStr (vc_id c))]) (db\<lparr>ed_cases := (if vc_id c \<in> set (map vc_id (ed_cases db))
        then update_where (\<lambda>r. vc_id r = vc_id c) (\<lambda>_. c) (ed_cases db) else ed_cases db @ [c])\<rparr>) = Inr db1"
    and eq: "db1 = db'"
    using assms unfolding upsert_eval_case_tx_def Let_def
    by (simp only: and_then_Inr ensure_Inr sum.inject prod.inject) (elim exE conjE, rule that)
  from audit_inserted(1) [OF ins] eq valid show thesis by (intro that [OF _ lim]) simp_all
qed

lemma evaluation_changes:
  assumes "record_evaluation_tx lib now d db = Inr (db', v)"
  obtains e where "db' = db\<lparr>ed_evaluations := ed_evaluations db @ [new_evaluation_row now d],
      ed_audit := ed_audit db @ [e]\<rparr>"
    and "vd_id d \<notin> set (map ve_id (ed_evaluations db))" and "v = new_evaluation_row now d"
    and "vd_candidate d \<in> set (map cn_id (ed_candidates db))"
proof -
  obtain y db1 where cand: "vd_candidate d \<in> set (map cn_id (ed_candidates db))"
    and fresh: "vd_id d \<notin> set (map ve_id (ed_evaluations db))"
    and ins: "insert_audit_event lib now (Some (vd_candidate d)) None ''evaluation_recorded''
          ''system:evolution-engine''
          (JObj [(''decision'', decision_to_json (vd_decision d)), (''evaluation_id'', JStr (vd_id d))])
          (db\<lparr>ed_evaluations := ed_evaluations db @ [new_evaluation_row now d]\<rparr>) = Inr db1"
    and eq: "db1 = db'" "new_evaluation_row now d = v"
    using assms unfolding record_evaluation_tx_def
    by (simp only: and_then_Inr ensure_Inr sum.inject prod.inject) (elim exE conjE, rule that)
  from audit_inserted(1) [OF ins] eq cand fresh show thesis by (intro that) simp_all
qed

lemma feedback_changes:
  assumes "record_feedback_tx lib known now d actor db = Inr (db', x)"
  obtains rows e where "db' = db\<lparr>ed_feedback := rows, ed_audit := ed_audit db @ [e]\<rparr>"
proof -
  obtain rows details db1 where
    ins: "insert_audit_event lib now None None ''feedback_recorded'' actor details
      (db\<lparr>ed_feedback := rows\<rparr>) = Inr db1" and eq: "db1 = db'"
    using assms unfolding record_feedback_tx_def Let_def
    by (simp only: and_then_Inr ensure_Inr sum.inject prod.inject) (elim exE conjE, rule that)
  from audit_inserted(1) [OF ins] eq show thesis by (intro that) simp
qed

lemma run_changes:
  assumes "upsert_eval_run run db = Inr (db', x)"
  obtains rows where "db' = db\<lparr>ed_runs := rows\<rparr>"
  using assms unfolding upsert_eval_run_def by (auto split: if_splits)

lemma activate_changes:
  assumes "activate_tx lib now stamp cid actor reason db = Inr (db', d)"
  obtains e c v where "db' = db\<lparr>ed_deployments := ed_deployments db @ [d],
      ed_active := Some (dp_id d), ed_audit := ed_audit db @ [e]\<rparr>"
    and "d = new_deployment_row now (new_evolution_id ''deployment'' stamp) cid (ed_active db) actor reason"
    and "dp_id d \<notin> set (map dp_id (ed_deployments db))"
    and "find_candidate cid db = Some c" and "cn_status c = CandApproved"
    and "latest_evaluation cid db = Some v" and "ve_decision v = DecisionReady"
    and "ve_baseline v = map_option dp_candidate (pointed_deployment db)"
proof -
  let ?did = "new_evolution_id ''deployment'' stamp"
  let ?d = "new_deployment_row now ?did cid (ed_active db) actor reason"
  obtain c v db1 where c: "find_candidate cid db = Some c" "cn_status c = CandApproved"
    and v: "latest_evaluation cid db = Some v" "ve_decision v = DecisionReady"
      "ve_baseline v = map_option dp_candidate (pointed_deployment db)"
    and new: "?did \<notin> set (map dp_id (ed_deployments db))"
    and ins: "insert_audit_event lib now (Some cid) (Some ?did) ''candidate_activated'' actor
        (JObj [(''previous_deployment_id'', opt_str (ed_active db)), (''reason'', JStr (trim reason))])
        (db\<lparr>ed_deployments := ed_deployments db @ [?d], ed_active := Some ?did\<rparr>) = Inr db1"
    and eq: "db1 = db'" and d': "?d = d"
    using assms unfolding activate_tx_def Let_def
    by (simp only: and_then_Inr ensure_Inr fetch_Inr sum.inject prod.inject) (elim exE conjE, rule that)
  note d = d' [symmetric]
  have id: "dp_id d = ?did" by (simp add: d new_deployment_row_def)
  show thesis
    by (rule that [OF _ d _ c v]) (use audit_inserted(1) [OF ins] new eq d' in \<open>simp_all add: id\<close>)
qed

lemma rollback_changes:
  assumes "rollback_tx lib now actor reason db = Inr (db', x)"
  obtains d e where "pointed_deployment db = Some d" and "dp_rolled_back_at d = None"
    and "restored_policy (dp_previous d) db = Inr (rb_restored x)" and "rb_deployment_id x = dp_id d"
    and "db' = db\<lparr>ed_deployments := update_where (\<lambda>r. dp_id r = dp_id d \<and> dp_rolled_back_at r = None)
                 (rolled_back_row now actor reason) (ed_deployments db),
               ed_active := dp_previous d, ed_audit := ed_audit db @ [e]\<rparr>"
proof -
  obtain d restored db1 where d: "pointed_deployment db = Some d" "dp_rolled_back_at d = None"
    and restored: "restored_policy (dp_previous d) db = Inr restored"
    and ins: "insert_audit_event lib now (Some (dp_candidate d)) (Some (dp_id d)) ''deployment_rolled_back'' actor
          (JObj [(''reason'', JStr (trim reason)), (''restored_deployment_id'', opt_str (dp_previous d))])
          (db\<lparr>ed_deployments := update_where (\<lambda>r. dp_id r = dp_id d \<and> dp_rolled_back_at r = None)
                 (rolled_back_row now actor reason) (ed_deployments db),
               ed_active := dp_previous d\<rparr>) = Inr db1"
    and eq: "db1 = db'" and x: "\<lparr> rb_deployment_id = dp_id d, rb_candidate_id = dp_candidate d,
                          rb_restored = restored \<rparr> = x"
    using assms unfolding rollback_tx_def
    by (simp only: and_then_Inr ensure_Inr fetch_Inr sum.inject prod.inject) (elim exE conjE, rule that)
  show thesis
    by (rule that [OF d]) (use audit_inserted(1) [OF ins] restored eq x in auto)
qed

lemma audit_changes:
  assumes "record_audit_event lib now cid did event_type actor details db = Inr (db', x)"
  obtains e where "db' = db\<lparr>ed_audit := ed_audit db @ [e]\<rparr>"
  using assms unfolding record_audit_event_def by (auto dest!: audit_inserted(1))

end
