(* ===== verification/Evolution_Invariant.thy ===== *)
theory Evolution_Invariant
  imports Evolution_Actions
begin

text \<open>
  What every execution of the evolution store keeps: rows only grow as \<open>evo_grows\<close> allows, the
  deployments that are not rolled back form a chain whose last element the active pointer names,
  every deployment was evaluated against the policy it replaced and approved, and the suite and the
  evidence index stay within their bounds.
\<close>

named_theorems evo_defs \<open>definitions of the invariant's parts\<close>

section \<open>Growth\<close>

lemma run_evo_action_grows: "evo_grows s (run_evo_action lib a s)"
proof (cases a)
  case (EvCreate d actor now)
  show ?thesis unfolding EvCreate run_evo_action.simps
  proof (cases rule: run_tx_cases [of "create_candidate_tx lib now d actor" s])
    case (committed db' x)
    from candidate_changes [OF this(1)] obtain e where "db' = s\<lparr>ed_candidates := ed_candidates s @ [new_candidate_row now d], ed_audit := ed_audit s @ [e]\<rparr>"
      by blast
    with committed show "evo_grows s (fst (run_tx (create_candidate_tx lib now d actor) s))"
      by (simp add: evo_grows_def evolve_simps)
  qed (simp add: evo_grows_refl)
next
  case (EvTransition cid expected nxt actor details now)
  show ?thesis unfolding EvTransition run_evo_action.simps
  proof (cases rule: run_tx_cases [of "transition_tx lib now cid expected nxt actor details" s])
    case (committed db' x)
    have "rows_evolve candidate_kept (ed_candidates s) (ed_candidates db')"
      by (subst transition_changes(1) [OF committed(1)], simp, rule candidate_evol.evolve_update)
        (simp add: candidate_kept_def moved_row_def)
    then show "evo_grows s (fst (run_tx (transition_tx lib now cid expected nxt actor details) s))"
      using committed transition_changes(1) [OF committed(1)] by (simp add: evo_grows_def evolve_simps)
  qed (simp add: evo_grows_refl)
next
  case (EvCase c actor now)
  show ?thesis unfolding EvCase run_evo_action.simps
  proof (cases rule: run_tx_cases [of "upsert_eval_case_tx lib now c actor" s])
    case (committed db' x)
    from case_changes [OF this(1)] obtain rows e where "db' = s\<lparr>ed_cases := rows, ed_audit := ed_audit s @ [e]\<rparr>"
      by blast
    with committed show "evo_grows s (fst (run_tx (upsert_eval_case_tx lib now c actor) s))"
      by (simp add: evo_grows_def evolve_simps)
  qed (simp add: evo_grows_refl)
next
  case (EvEvaluation d now)
  show ?thesis unfolding EvEvaluation run_evo_action.simps
  proof (cases rule: run_tx_cases [of "record_evaluation_tx lib now d" s])
    case (committed db' x)
    from evaluation_changes [OF this(1)] obtain e where "db' = s\<lparr>ed_evaluations := ed_evaluations s @ [new_evaluation_row now d], ed_audit := ed_audit s @ [e]\<rparr>"
      by blast
    with committed show "evo_grows s (fst (run_tx (record_evaluation_tx lib now d) s))"
      by (simp add: evo_grows_def evolve_simps)
  qed (simp add: evo_grows_refl)
next
  case (EvFeedback d actor known now)
  show ?thesis unfolding EvFeedback run_evo_action.simps
  proof (cases rule: run_tx_cases [of "record_feedback_tx lib (\<lambda>_. known) now d actor" s])
    case (committed db' x)
    from feedback_changes [OF this(1)] obtain rows e where "db' = s\<lparr>ed_feedback := rows, ed_audit := ed_audit s @ [e]\<rparr>"
      by blast
    with committed show "evo_grows s (fst (run_tx (record_feedback_tx lib (\<lambda>_. known) now d actor) s))"
      by (simp add: evo_grows_def evolve_simps)
  qed (simp add: evo_grows_refl)
next
  case (EvRun run)
  show ?thesis unfolding EvRun run_evo_action.simps
  proof (cases rule: run_tx_cases [of "upsert_eval_run run" s])
    case (committed db' x)
    from run_changes [OF this(1)] obtain rows where "db' = s\<lparr>ed_runs := rows\<rparr>"
      by blast
    with committed show "evo_grows s (fst (run_tx (upsert_eval_run run) s))"
      by (simp add: evo_grows_def evolve_simps)
  qed (simp add: evo_grows_refl)
next
  case (EvClear cid)
  then show ?thesis by (simp add: run_tx_def clear_eval_run_def evo_grows_def evolve_simps)
next
  case (EvActivate stamp cid actor reason now)
  show ?thesis unfolding EvActivate run_evo_action.simps
  proof (cases rule: run_tx_cases [of "activate_tx lib now stamp cid actor reason" s])
    case (committed db' d)
    from activate_changes [OF this(1)] obtain e where "db' = s\<lparr>ed_deployments := ed_deployments s @ [d], ed_active := Some (dp_id d), ed_audit := ed_audit s @ [e]\<rparr>"
      by blast
    with committed show "evo_grows s (fst (run_tx (activate_tx lib now stamp cid actor reason) s))"
      by (simp add: evo_grows_def evolve_simps)
  qed (simp add: evo_grows_refl)
next
  case (EvRollback actor reason now)
  show ?thesis unfolding EvRollback run_evo_action.simps
  proof (cases rule: run_tx_cases [of "rollback_tx lib now actor reason" s])
    case (committed db' x)
    from committed(1) show "evo_grows s (fst (run_tx (rollback_tx lib now actor reason) s))"
    proof (rule rollback_changes)
      fix d e assume db': "db' = s\<lparr>ed_deployments := update_where (\<lambda>r. dp_id r = dp_id d \<and> dp_rolled_back_at r = None)
                 (rolled_back_row now actor reason) (ed_deployments s),
               ed_active := dp_previous d, ed_audit := ed_audit s @ [e]\<rparr>"
      have "rows_evolve deployment_kept (ed_deployments s) (ed_deployments db')"
        by (subst db', simp, rule deployment_evol.evolve_update) (simp add: deployment_kept_def rolled_back_row_def)
      with committed db' show ?thesis by (simp add: evo_grows_def evolve_simps)
    qed
  qed (simp add: evo_grows_refl)
next
  case (EvAudit cid did event_type actor details now)
  show ?thesis unfolding EvAudit run_evo_action.simps
  proof (cases rule: run_tx_cases [of "record_audit_event lib now cid did event_type actor details" s])
    case (committed db' x)
    from audit_changes [OF this(1)] obtain e where "db' = s\<lparr>ed_audit := ed_audit s @ [e]\<rparr>"
      by blast
    with committed show "evo_grows s (fst (run_tx (record_audit_event lib now cid did event_type actor details) s))"
      by (simp add: evo_grows_def evolve_simps)
  qed (simp add: evo_grows_refl)
qed

lemma evo_steps_grow: "(evo_step lib g)\<^sup>*\<^sup>* s t \<Longrightarrow> evo_grows s t"
  by (induction rule: rtranclp_induct)
    (auto simp: evo_step_def intro: evo_grows_refl evo_grows_trans run_evo_action_grows)

section \<open>The stack of live deployments\<close>

definition live :: "evo_db \<Rightarrow> deployment_row list" where
  "live db = filter (\<lambda>d. dp_rolled_back_at d = None) (ed_deployments db)"

fun chained :: "string option \<Rightarrow> deployment_row list \<Rightarrow> bool" where
  "chained p [] \<longleftrightarrow> True"
| "chained p (d # ds) \<longleftrightarrow> dp_previous d = p \<and> chained (Some (dp_id d)) ds"

definition top_id :: "string option \<Rightarrow> deployment_row list \<Rightarrow> string option" where
  "top_id p ds = (if ds = [] then p else Some (dp_id (last ds)))"

lemma chained_snoc: "chained p (ds @ [d]) \<longleftrightarrow> chained p ds \<and> dp_previous d = top_id p ds"
  by (induction p ds rule: chained.induct) (auto simp: top_id_def)

lemma top_id_simps [simp]: "top_id p [] = p" "top_id p (ds @ [d]) = Some (dp_id d)"
  by (simp_all add: top_id_def)

definition chain_inv :: "evo_db \<Rightarrow> bool" where
  "chain_inv db \<longleftrightarrow> distinct (map dp_id (ed_deployments db)) \<and> chained None (live db)
     \<and> ed_active db = top_id None (live db)"

lemma live_subset: "set (live db) \<subseteq> set (ed_deployments db)"
  by (auto simp: live_def)

lemma find_deployment_mem:
  assumes "chain_inv db" and "d \<in> set (ed_deployments db)"
  shows "find_deployment (dp_id d) db = Some d"
  using assms find_key [of dp_id "ed_deployments db" d] by (simp add: chain_inv_def find_deployment_def)

lemma pointed_is_last:
  assumes "chain_inv db"
  shows "pointed_deployment db = (if live db = [] then None else Some (last (live db)))"
proof (cases "live db = []")
  case True
  with assms show ?thesis by (simp add: chain_inv_def pointed_deployment_def)
next
  case False
  then have "last (live db) \<in> set (ed_deployments db)" using live_subset last_in_set by blast
  from find_deployment_mem [OF assms this] assms False show ?thesis
    by (simp add: chain_inv_def pointed_deployment_def top_id_def)
qed

lemma live_rollback:
  assumes inv: "chain_inv db" and d: "pointed_deployment db = Some d"
    and f: "\<And>r. dp_rolled_back_at (f r) \<noteq> None"
    and db': "ed_deployments db' = update_where (\<lambda>r. dp_id r = dp_id d \<and> dp_rolled_back_at r = None) f (ed_deployments db)"
  shows "live db' = butlast (live db)" and "live db \<noteq> []" and "last (live db) = d"
proof -
  from d pointed_is_last [OF inv] show ne: "live db \<noteq> []" and last: "last (live db) = d"
    by (auto split: if_splits)
  have eq: "filter (\<lambda>r. dp_rolled_back_at r = None) (update_where (\<lambda>r. dp_id r = i \<and> dp_rolled_back_at r = None) f rs)
      = filter (\<lambda>r. dp_id r \<noteq> i) (filter (\<lambda>r. dp_rolled_back_at r = None) rs)" for i rs
    by (induction rs) (auto simp: f)
  have split: "live db = butlast (live db) @ [d]" using ne last by (metis append_butlast_last_id)
  have "distinct (map dp_id (live db))"
    using inv by (simp add: chain_inv_def live_def distinct_map_filter)
  moreover from split have "map dp_id (live db) = map dp_id (butlast (live db)) @ [dp_id d]"
    by (metis list.simps(8,9) map_append)
  ultimately have "dp_id d \<notin> set (map dp_id (butlast (live db)))" by simp
  then have "\<forall>r \<in> set (butlast (live db)). dp_id r \<noteq> dp_id d" by (metis image_eqI set_map)
  then have "filter (\<lambda>r. dp_id r \<noteq> dp_id d) (butlast (live db)) = butlast (live db)"
    by (simp add: filter_id_conv)
  moreover have "live db' = filter (\<lambda>r. dp_id r \<noteq> dp_id d) (live db)"
    by (simp add: live_def db' eq)
  moreover have "filter (\<lambda>r. dp_id r \<noteq> dp_id d) (live db) =
      filter (\<lambda>r. dp_id r \<noteq> dp_id d) (butlast (live db) @ [d])"
    using split by (rule arg_cong)
  ultimately show "live db' = butlast (live db)" by simp
qed

section \<open>Approval and evaluation\<close>

definition approved_by :: "gate_config \<Rightarrow> evo_db \<Rightarrow> string \<Rightarrow> bool" where
  "approved_by g db cid \<longleftrightarrow>
     (\<exists>e \<in> set (ed_audit db). au_candidate e = Some cid \<and> au_event_type e = ''candidate_approved''
        \<and> human_label g (au_actor e))"

definition candidate_ok :: "gate_config \<Rightarrow> evo_db \<Rightarrow> candidate_row \<Rightarrow> bool" where
  "candidate_ok g db r \<longleftrightarrow>
     patch_ok (cn_patch r)
     \<and> (cn_status r \<in> {CandReady, CandApproved} \<longrightarrow> ready_evaluated db (cn_id r))
     \<and> (cn_status r = CandApproved \<longrightarrow> approved_by g db (cn_id r))"

text \<open>The candidate whose policy was active before the deployment.\<close>

definition replaced_candidate :: "evo_db \<Rightarrow> deployment_row \<Rightarrow> string option" where
  "replaced_candidate db d =
     Option.bind (dp_previous d) (\<lambda>p. map_option dp_candidate (find_deployment p db))"

definition deployment_ok :: "gate_config \<Rightarrow> evo_db \<Rightarrow> deployment_row \<Rightarrow> bool" where
  "deployment_ok g db d \<longleftrightarrow>
     dp_candidate d \<in> cn_id ` set (ed_candidates db) \<and> human_label g (dp_activated_by d)
     \<and> references (dp_previous d) (map dp_id (ed_deployments db))
     \<and> approved_by g db (dp_candidate d)
     \<and> (\<exists>v \<in> set (ed_evaluations db). ve_candidate v = dp_candidate d \<and> ve_decision v = DecisionReady
          \<and> ve_baseline v = replaced_candidate db d)"

definition suite_inv :: "evo_db \<Rightarrow> bool" where
  "suite_inv db \<longleftrightarrow> distinct (map vc_id (ed_cases db))
     \<and> count_where vc_enabled (ed_cases db) \<le> max_enabled_eval_cases
     \<and> (\<forall>c \<in> set (ed_cases db). validate_eval_case c = Inr ())"

definition candidates_inv :: "gate_config \<Rightarrow> evo_db \<Rightarrow> bool" where
  "candidates_inv g db \<longleftrightarrow> distinct (map cn_id (ed_candidates db))
     \<and> distinct (filter (\<lambda>f. f \<noteq> None) (map cn_fingerprint (ed_candidates db)))
     \<and> (\<forall>r \<in> set (ed_candidates db). candidate_ok g db r)"

definition evo_inv :: "gate_config \<Rightarrow> evo_db \<Rightarrow> bool" where
  "evo_inv g db \<longleftrightarrow> candidates_inv g db \<and> suite_inv db \<and> chain_inv db
     \<and> (\<forall>d \<in> set (ed_deployments db). deployment_ok g db d)"

lemma rows_evolve_find:
  assumes "rows_evolve R xs ys" and key: "\<And>x y. R x y \<Longrightarrow> key y = key x"
    and "find (\<lambda>x. key x = k) xs = Some x"
  obtains y where "find (\<lambda>x. key x = k) ys = Some y" "R x y"
proof -
  from assms(1) obtain zs ns where ys: "ys = zs @ ns" and rel: "list_all2 R xs zs"
    by (auto simp: rows_evolve_def)
  from rel assms(3) have "\<exists>y. find (\<lambda>x. key x = k) zs = Some y \<and> R x y"
    by (induction rule: list_all2_induct) (auto dest: key split: if_splits)
  with ys that show thesis by (auto simp: find_append)
qed

lemma rows_evolve_keys:
  assumes "rows_evolve R xs ys" and "\<And>x y. R x y \<Longrightarrow> key y = key x"
  shows "key ` set xs \<subseteq> key ` set ys"
proof
  fix k assume "k \<in> key ` set xs"
  then obtain x where "x \<in> set xs" "k = key x" by blast
  with rows_evolve_member [OF assms(1)] assms(2) show "k \<in> key ` set ys" by (metis image_eqI)
qed

lemma grown_evaluation: "evo_grows s t \<Longrightarrow> v \<in> set (ed_evaluations s) \<Longrightarrow> v \<in> set (ed_evaluations t)"
  by (auto simp: evo_grows_def rows_evolve_eq_append)

lemma grown_event: "evo_grows s t \<Longrightarrow> e \<in> set (ed_audit s) \<Longrightarrow> e \<in> set (ed_audit t)"
  by (auto simp: evo_grows_def rows_evolve_eq_append)

lemma ready_evaluated_mono: "evo_grows s t \<Longrightarrow> ready_evaluated s cid \<Longrightarrow> ready_evaluated t cid"
  unfolding ready_evaluated_def by (blast dest: grown_evaluation)

lemma approved_by_mono: "evo_grows s t \<Longrightarrow> approved_by g s cid \<Longrightarrow> approved_by g t cid"
  unfolding approved_by_def by (blast dest: grown_event)

lemma candidate_ok_mono: "evo_grows s t \<Longrightarrow> candidate_ok g s r \<Longrightarrow> candidate_ok g t r"
  unfolding candidate_ok_def by (blast dest: ready_evaluated_mono approved_by_mono)

lemma grown_candidate_ids: "evo_grows s t \<Longrightarrow> cn_id ` set (ed_candidates s) \<subseteq> cn_id ` set (ed_candidates t)"
  by (rule rows_evolve_keys [of candidate_kept]) (simp_all add: evo_grows_def candidate_kept_def)

lemma grown_deployment_ids: "evo_grows s t \<Longrightarrow> dp_id ` set (ed_deployments s) \<subseteq> dp_id ` set (ed_deployments t)"
  by (rule rows_evolve_keys [of deployment_kept]) (simp_all add: evo_grows_def deployment_kept_def)

lemma grown_deployment:
  assumes "evo_grows s t" and "find_deployment i s = Some d"
  obtains d' where "find_deployment i t = Some d'" "deployment_kept d d'"
  using assms rows_evolve_find [of deployment_kept "ed_deployments s" "ed_deployments t" dp_id i d]
  by (auto simp: evo_grows_def find_deployment_def deployment_kept_def)

lemma references_found:
  assumes "references (Some p) (map dp_id (ed_deployments db))"
  obtains d where "find_deployment p db = Some d"
  using assms find_NoneD [of "\<lambda>d. dp_id d = p" "ed_deployments db"]
  by (cases "find_deployment p db") (auto simp: references_def find_deployment_def)

lemma replaced_candidate_mono:
  assumes "evo_grows s t" and "references (dp_previous d) (map dp_id (ed_deployments s))"
    and "dp_previous d' = dp_previous d"
  shows "replaced_candidate t d' = replaced_candidate s d"
proof (cases "dp_previous d")
  case None
  with assms(3) show ?thesis by (simp add: replaced_candidate_def)
next
  case (Some p)
  with assms(2) obtain e where e: "find_deployment p s = Some e" using references_found by metis
  with grown_deployment [OF assms(1)] obtain e' where "find_deployment p t = Some e'" "deployment_kept e e'"
    by metis
  with Some e assms(3) show ?thesis by (simp add: replaced_candidate_def deployment_kept_def)
qed

lemma deployment_ok_mono:
  assumes grow: "evo_grows s t" and ok: "deployment_ok g s d" and kept: "deployment_kept d d'"
  shows "deployment_ok g t d'"
proof -
  from ok have refs: "references (dp_previous d) (map dp_id (ed_deployments s))"
    by (simp add: deployment_ok_def)
  have rep: "replaced_candidate t d' = replaced_candidate s d"
    using kept by (intro replaced_candidate_mono [OF grow refs]) (simp add: deployment_kept_def)
  have "references (dp_previous d) (map dp_id (ed_deployments t))"
    using refs grown_deployment_ids [OF grow] by (auto simp: references_def split: option.splits)
  with ok kept rep grown_candidate_ids [OF grow] approved_by_mono [OF grow] grown_evaluation [OF grow]
  show ?thesis unfolding deployment_ok_def deployment_kept_def by fastforce
qed

text \<open>Actions that touch neither candidates nor deployments nor the suite.\<close>

lemma evo_inv_unchanged:
  assumes inv: "evo_inv g s" and grow: "evo_grows s t"
    and same: "ed_candidates t = ed_candidates s" "ed_deployments t = ed_deployments s"
      "ed_active t = ed_active s" "ed_cases t = ed_cases s"
  shows "evo_inv g t"
proof -
  have "live t = live s" by (simp add: live_def same)
  with inv have "chain_inv t" by (simp add: evo_inv_def chain_inv_def same)
  moreover have "suite_inv t" using inv by (simp add: evo_inv_def suite_inv_def same)
  moreover have "candidates_inv g t"
    using inv candidate_ok_mono [OF grow] by (simp add: evo_inv_def candidates_inv_def same)
  moreover have "\<forall>d \<in> set (ed_deployments t). deployment_ok g t d"
    using inv deployment_ok_mono [OF grow] by (auto simp: evo_inv_def same deployment_evol.R_refl)
  ultimately show ?thesis by (simp add: evo_inv_def)
qed

lemma evo_inv_empty: "evo_inv g empty_evo_db"
  by (simp add: evo_inv_def candidates_inv_def suite_inv_def chain_inv_def live_def empty_evo_db_def)

lemma deployments_ok_kept:
  assumes "evo_inv g s" and "evo_grows s t" and "ed_deployments t = ed_deployments s"
  shows "\<forall>d \<in> set (ed_deployments t). deployment_ok g t d"
  using assms deployment_ok_mono [OF assms(2)] by (auto simp: evo_inv_def deployment_evol.R_refl)

lemma evo_inv_create:
  assumes inv: "evo_inv g s" and ok: "patch_ok (cd_patch d)"
    and tx: "create_candidate_tx lib now d actor s = Inr (t, x)" and grow: "evo_grows s t"
  shows "evo_inv g t"
  using tx
proof (rule candidate_changes)
  fix e assume t: "t = s\<lparr>ed_candidates := ed_candidates s @ [new_candidate_row now d],
      ed_audit := ed_audit s @ [e]\<rparr>"
    and new: "cd_id d \<notin> set (map cn_id (ed_candidates s))"
    and fp: "cd_fingerprint d = None \<or> cd_fingerprint d \<notin> set (map cn_fingerprint (ed_candidates s))"
  have "candidates_inv g t"
    using inv new fp ok candidate_ok_mono [OF grow]
    by (auto simp: evo_inv_def candidates_inv_def t candidate_ok_def new_candidate_row_def)
  moreover have "suite_inv t" "chain_inv t" using inv by (simp_all add: evo_inv_def suite_inv_def chain_inv_def live_def t)
  moreover have "\<forall>d \<in> set (ed_deployments t). deployment_ok g t d"
    by (rule deployments_ok_kept [OF inv grow]) (simp add: t)
  ultimately show ?thesis by (simp add: evo_inv_def)
qed

lemma evo_inv_transition:
  assumes inv: "evo_inv g s"
    and ready: "nxt = CandReady \<Longrightarrow> ready_evaluated s cid"
    and human: "nxt = CandApproved \<Longrightarrow> human_label g actor"
    and tx: "transition_tx lib now cid expected nxt actor details s = Inr (t, x)" and grow: "evo_grows s t"
  shows "evo_inv g t"
proof -
  let ?hit = "\<lambda>r. cn_id r = cid \<and> cn_status r = expected"
  note t = transition_changes(1) [OF tx] and edge = transition_changes(2) [OF tx]
  have cands: "ed_candidates t = update_where ?hit (moved_row now nxt) (ed_candidates s)" by (simp add: t)
  have moved: "candidate_ok g t (moved_row now nxt r)" if r: "r \<in> set (ed_candidates s)" "?hit r" for r
  proof -
    have old: "candidate_ok g s r" using inv r by (simp add: evo_inv_def candidates_inv_def)
    have appr: "approved_by g t cid" if "nxt = CandApproved"
      using human that by (simp add: approved_by_def t)
    have "expected = CandReady" if "nxt = CandApproved" using edge that by (cases expected) auto
    then have "ready_evaluated s cid" if "nxt \<in> {CandReady, CandApproved}"
      using that old r ready by (auto simp: candidate_ok_def)
    then show ?thesis
      using old r appr ready_evaluated_mono [OF grow] by (auto simp: candidate_ok_def moved_row_def)
  qed
  have "candidates_inv g t"
    unfolding candidates_inv_def cands
  proof (intro conjI)
    show "distinct (map cn_id (update_where ?hit (moved_row now nxt) (ed_candidates s)))"
      using inv by (simp add: evo_inv_def candidates_inv_def map_update_where moved_row_def)
    show "distinct (filter (\<lambda>f. f \<noteq> None) (map cn_fingerprint (update_where ?hit (moved_row now nxt) (ed_candidates s))))"
      using inv by (simp add: evo_inv_def candidates_inv_def map_update_where moved_row_def)
    show "\<forall>r \<in> set (update_where ?hit (moved_row now nxt) (ed_candidates s)). candidate_ok g t r"
      by (rule ball_update_where) (use inv moved candidate_ok_mono [OF grow] in \<open>auto simp: evo_inv_def candidates_inv_def\<close>)
  qed
  moreover have "suite_inv t" "chain_inv t" using inv by (simp_all add: evo_inv_def suite_inv_def chain_inv_def live_def t)
  moreover have "\<forall>d \<in> set (ed_deployments t). deployment_ok g t d"
    by (rule deployments_ok_kept [OF inv grow]) (simp add: t)
  ultimately show ?thesis by (simp add: evo_inv_def)
qed

lemma count_where_other:
  "k \<notin> key ` set rs \<Longrightarrow> count_where (\<lambda>r. p r \<and> key r \<noteq> k) rs = count_where p rs"
  by (induction rs) auto

lemma count_replace:
  assumes "distinct (map key rs)" and "key c \<in> set (map key rs)"
  shows "count_where p (update_where (\<lambda>r. key r = key c) (\<lambda>_. c) rs)
    = count_where (\<lambda>r. p r \<and> key r \<noteq> key c) rs + (if p c then 1 else 0)"
  using assms
proof (induction rs)
  case Nil
  then show ?case by simp
next
  case (Cons r rs)
  show ?case
  proof (cases "key r = key c")
    case True
    with Cons.prems have "key c \<notin> key ` set rs" by simp
    then have "update_where (\<lambda>r. key r = key c) (\<lambda>_. c) rs = rs"
      by (intro update_where_none) (metis image_eqI)
    moreover have "count_where (\<lambda>r. p r \<and> key r \<noteq> key c) rs = count_where p rs"
      using True Cons.prems(1) by (intro count_where_other) simp
    ultimately show ?thesis using True by simp
  next
    case False
    with Cons show ?thesis by auto
  qed
qed

lemma suite_inv_case:
  assumes inv: "suite_inv s" and tx: "upsert_eval_case_tx lib now c actor s = Inr (t, x)"
  shows "suite_inv t"
  using tx
proof (rule case_changes)
  fix e assume t: "t = s\<lparr>ed_cases := (if vc_id c \<in> set (map vc_id (ed_cases s))
        then update_where (\<lambda>r. vc_id r = vc_id c) (\<lambda>_. c) (ed_cases s) else ed_cases s @ [c]),
      ed_audit := ed_audit s @ [e]\<rparr>"
    and lim: "\<not> (vc_enabled c \<and> count_where (\<lambda>r. vc_enabled r \<and> vc_id r \<noteq> vc_id c) (ed_cases s) \<ge> max_enabled_eval_cases)"
  assume valid: "validate_eval_case c = Inr ()"
  have dist: "distinct (map vc_id (ed_cases s))" using inv by (simp add: suite_inv_def)
  have old: "\<forall>c \<in> set (ed_cases s). validate_eval_case c = Inr ()" using inv by (simp add: suite_inv_def)
  have others: "count_where (\<lambda>r. vc_enabled r \<and> vc_id r \<noteq> vc_id c) (ed_cases s) \<le> max_enabled_eval_cases"
    using inv count_where_mono [of "ed_cases s" "\<lambda>r. vc_enabled r \<and> vc_id r \<noteq> vc_id c" vc_enabled]
    by (simp add: suite_inv_def)
  show ?thesis
  proof (cases "vc_id c \<in> set (map vc_id (ed_cases s))")
    case True
    then have "ed_cases t = update_where (\<lambda>r. vc_id r = vc_id c) (\<lambda>_. c) (ed_cases s)" by (simp add: t)
    moreover from old valid have "\<forall>c \<in> set (update_where (\<lambda>r. vc_id r = vc_id c) (\<lambda>_. c) (ed_cases s)). validate_eval_case c = Inr ()"
      by (intro ball_update_where) simp_all
    ultimately show ?thesis
      using count_replace [OF dist True, of vc_enabled] lim others dist
      by (auto simp: suite_inv_def map_update_where)
  next
    case False
    then have cases: "ed_cases t = ed_cases s @ [c]" by (simp add: t)
    have "count_where (\<lambda>r. vc_enabled r \<and> vc_id r \<noteq> vc_id c) (ed_cases s) = count_where vc_enabled (ed_cases s)"
      using False by (intro count_where_other) simp
    with False lim inv valid show ?thesis by (auto simp: suite_inv_def cases)
  qed
qed

lemma evo_inv_case:
  assumes inv: "evo_inv g s" and tx: "upsert_eval_case_tx lib now c actor s = Inr (t, x)" and grow: "evo_grows s t"
  shows "evo_inv g t"
proof -
  from tx obtain rows e where t: "t = s\<lparr>ed_cases := rows, ed_audit := ed_audit s @ [e]\<rparr>"
    by (rule case_changes)
  have "suite_inv t" using inv by (intro suite_inv_case [OF _ tx]) (simp add: evo_inv_def)
  moreover have "candidates_inv g t"
    using inv candidate_ok_mono [OF grow] by (simp add: evo_inv_def candidates_inv_def t)
  moreover have "chain_inv t" using inv by (simp add: evo_inv_def chain_inv_def live_def t)
  moreover have "\<forall>d \<in> set (ed_deployments t). deployment_ok g t d"
    by (rule deployments_ok_kept [OF inv grow]) (simp add: t)
  ultimately show ?thesis by (simp add: evo_inv_def)
qed

lemma latest_evaluation_mem:
  assumes "latest_evaluation cid db = Some v"
  shows "v \<in> set (ed_evaluations db)" and "ve_candidate v = cid"
  using last_row_SomeD [OF assms [unfolded latest_evaluation_def]] by simp_all

lemma find_candidate_SomeD:
  assumes "find_candidate cid db = Some c"
  shows "c \<in> set (ed_candidates db)" and "cn_id c = cid"
  using find_SomeD [OF assms [unfolded find_candidate_def]] by simp_all

lemma top_references: "chain_inv db \<Longrightarrow> references (ed_active db) (map dp_id (ed_deployments db))"
  using live_subset [of db] last_in_set [of "live db"]
  by (cases "live db = []") (auto simp: chain_inv_def references_def top_id_def subset_iff)

lemma evo_inv_activate:
  assumes inv: "evo_inv g s" and human: "human_label g actor"
    and tx: "activate_tx lib now stamp cid actor reason s = Inr (t, d)" and grow: "evo_grows s t"
  shows "evo_inv g t"
  using tx
proof (rule activate_changes)
  fix e c v
  assume t: "t = s\<lparr>ed_deployments := ed_deployments s @ [d], ed_active := Some (dp_id d),
      ed_audit := ed_audit s @ [e]\<rparr>"
    and d: "d = new_deployment_row now (new_evolution_id ''deployment'' stamp) cid (ed_active s) actor reason"
    and new: "dp_id d \<notin> set (map dp_id (ed_deployments s))"
    and c: "find_candidate cid s = Some c" "cn_status c = CandApproved"
    and v: "latest_evaluation cid s = Some v" "ve_decision v = DecisionReady"
      "ve_baseline v = map_option dp_candidate (pointed_deployment s)"
  have d_simps: "dp_candidate d = cid" "dp_previous d = ed_active s" "dp_activated_by d = actor"
    "dp_rolled_back_at d = None"
    by (simp_all add: d new_deployment_row_def)
  have chain: "chain_inv s" using inv by (simp add: evo_inv_def)
  have live: "live t = live s @ [d]" by (simp add: live_def t d_simps)
  have "ed_deployments t = ed_deployments s @ [d]" "ed_active t = Some (dp_id d)" by (simp_all add: t)
  then have "chain_inv t"
    using chain new d_simps(2) by (simp add: chain_inv_def live chained_snoc)
  moreover have "candidates_inv g t"
    using inv candidate_ok_mono [OF grow] by (simp add: evo_inv_def candidates_inv_def t)
  moreover have "suite_inv t" using inv by (simp add: evo_inv_def suite_inv_def t)
  moreover have "deployment_ok g t d"
  proof -
    have "candidate_ok g s c" using inv find_candidate_SomeD(1) [OF c(1)] by (simp add: evo_inv_def candidates_inv_def)
    then have "approved_by g s cid" using c(2) find_candidate_SomeD(2) [OF c(1)] by (simp add: candidate_ok_def)
    then have "approved_by g t cid" by (rule approved_by_mono [OF grow])
    moreover have "references (ed_active s) (map dp_id (ed_deployments t))"
      using top_references [OF chain] by (auto simp: references_def t split: option.splits)
    moreover have "replaced_candidate t d = map_option dp_candidate (pointed_deployment s)"
      using replaced_candidate_mono [OF grow, of d d] top_references [OF chain]
      by (cases "ed_active s") (simp_all add: replaced_candidate_def d_simps pointed_deployment_def)
    moreover have "v \<in> set (ed_evaluations t)" using latest_evaluation_mem(1) [OF v(1)] by (simp add: t)
    moreover have "cid \<in> cn_id ` set (ed_candidates t)" using find_candidate_SomeD [OF c(1)] by (auto simp: t)
    ultimately show ?thesis
      using human v latest_evaluation_mem(2) [OF v(1)] unfolding deployment_ok_def d_simps by metis
  qed
  moreover have "\<forall>d \<in> set (ed_deployments s). deployment_ok g t d"
    using inv deployment_ok_mono [OF grow] by (auto simp: evo_inv_def deployment_evol.R_refl)
  ultimately show ?thesis by (simp add: evo_inv_def t)
qed

lemma rolled_back_simps [simp]:
  "dp_id (rolled_back_row now actor reason r) = dp_id r"
  "dp_candidate (rolled_back_row now actor reason r) = dp_candidate r"
  "dp_previous (rolled_back_row now actor reason r) = dp_previous r"
  "dp_activated_by (rolled_back_row now actor reason r) = dp_activated_by r"
  "dp_rolled_back_at (rolled_back_row now actor reason r) = Some now"
  by (simp_all add: rolled_back_row_def)

lemma chained_butlast:
  assumes "chained p ds" and "ds \<noteq> []"
  shows "chained p (butlast ds)" and "dp_previous (last ds) = top_id p (butlast ds)"
  using assms chained_snoc [of p "butlast ds" "last ds"] by simp_all

lemma chain_inv_rollback:
  assumes inv: "chain_inv s" and d: "pointed_deployment s = Some d"
    and t: "ed_deployments t = update_where (\<lambda>r. dp_id r = dp_id d \<and> dp_rolled_back_at r = None)
        (rolled_back_row now actor reason) (ed_deployments s)" "ed_active t = dp_previous d"
  shows "chain_inv t"
proof -
  have live: "live t = butlast (live s)" and ne: "live s \<noteq> []" and last: "last (live s) = d"
    by (rule live_rollback [OF inv d _ t(1)], simp)+
  from inv have "chained None (live s)" by (simp add: chain_inv_def)
  note chained_butlast [OF this ne]
  then have "chained None (live t)" and "dp_previous d = top_id None (live t)" by (simp_all add: live last)
  moreover have "distinct (map dp_id (ed_deployments t))"
    using inv by (simp add: chain_inv_def t map_update_where)
  ultimately show ?thesis by (simp add: chain_inv_def t)
qed

lemma evo_inv_rollback:
  assumes inv: "evo_inv g s" and tx: "rollback_tx lib now actor reason s = Inr (t, x)" and grow: "evo_grows s t"
  shows "evo_inv g t"
  using tx
proof (rule rollback_changes)
  fix d e
  assume d: "pointed_deployment s = Some d"
    and t: "t = s\<lparr>ed_deployments := update_where (\<lambda>r. dp_id r = dp_id d \<and> dp_rolled_back_at r = None)
              (rolled_back_row now actor reason) (ed_deployments s),
            ed_active := dp_previous d, ed_audit := ed_audit s @ [e]\<rparr>"
  have dep: "ed_deployments t = update_where (\<lambda>r. dp_id r = dp_id d \<and> dp_rolled_back_at r = None)
      (rolled_back_row now actor reason) (ed_deployments s)" "ed_active t = dp_previous d"
    by (simp_all add: t)
  have "chain_inv s" using inv by (simp add: evo_inv_def)
  then have "chain_inv t" by (rule chain_inv_rollback [OF _ d dep])
  moreover have "candidates_inv g t"
    using inv candidate_ok_mono [OF grow] by (simp add: evo_inv_def candidates_inv_def t)
  moreover have "suite_inv t" using inv by (simp add: evo_inv_def suite_inv_def t)
  moreover have "\<forall>d \<in> set (ed_deployments t). deployment_ok g t d"
  proof
    fix r assume "r \<in> set (ed_deployments t)"
    then have "r \<in> set (update_where (\<lambda>r. dp_id r = dp_id d \<and> dp_rolled_back_at r = None)
              (rolled_back_row now actor reason) (ed_deployments s))" by (simp add: dep)
    then obtain r0 where r0: "r0 \<in> set (ed_deployments s)"
      and r: "r = (if dp_id r0 = dp_id d \<and> dp_rolled_back_at r0 = None then rolled_back_row now actor reason r0 else r0)"
      by (rule mem_update_whereE)
    from inv r0 have "deployment_ok g s r0" by (simp add: evo_inv_def)
    then show "deployment_ok g t r"
      by (rule deployment_ok_mono [OF grow]) (simp add: r deployment_kept_def)
  qed
  ultimately show ?thesis by (simp add: evo_inv_def)
qed

section \<open>Reachable tables\<close>

lemma run_tx_inv:
  assumes "evo_inv g s" and "\<And>t x. tx s = Inr (t, x) \<Longrightarrow> evo_inv g t"
  shows "evo_inv g (fst (run_tx tx s))"
  using assms by (cases rule: run_tx_cases [of tx s]) auto

lemma run_evo_action_inv:
  assumes inv: "evo_inv g s" and ok: "evo_action_ok g s a"
  shows "evo_inv g (run_evo_action lib a s)"
proof -
  have grow: "evo_grows s t" if "t = run_evo_action lib a s" for t
    by (simp add: that run_evo_action_grows)
  show ?thesis
  proof (cases a)
    case (EvCreate d actor now)
    show ?thesis unfolding EvCreate run_evo_action.simps
    proof (rule run_tx_inv [OF inv])
      fix t v assume tx: "create_candidate_tx lib now d actor s = Inr (t, v)"
      then have "evo_grows s t" by (intro grow) (simp add: EvCreate run_tx_def)
      with tx show "evo_inv g t" using ok by (intro evo_inv_create [OF inv]) (simp_all add: EvCreate)
    qed
  next
    case (EvTransition cid expected nxt actor details now)
    show ?thesis unfolding EvTransition run_evo_action.simps
    proof (rule run_tx_inv [OF inv])
      fix t v assume tx: "transition_tx lib now cid expected nxt actor details s = Inr (t, v)"
      then have "evo_grows s t" by (intro grow) (simp add: EvTransition run_tx_def)
      with tx show "evo_inv g t" using ok by (intro evo_inv_transition [OF inv]) (simp_all add: EvTransition)
    qed
  next
    case (EvCase c actor now)
    show ?thesis unfolding EvCase run_evo_action.simps
    proof (rule run_tx_inv [OF inv])
      fix t v assume tx: "upsert_eval_case_tx lib now c actor s = Inr (t, v)"
      then have "evo_grows s t" by (intro grow) (simp add: EvCase run_tx_def)
      with tx show "evo_inv g t" using ok by (intro evo_inv_case [OF inv]) (simp_all add: EvCase)
    qed
  next
    case (EvActivate stamp cid actor reason now)
    show ?thesis unfolding EvActivate run_evo_action.simps
    proof (rule run_tx_inv [OF inv])
      fix t v assume tx: "activate_tx lib now stamp cid actor reason s = Inr (t, v)"
      then have "evo_grows s t" by (intro grow) (simp add: EvActivate run_tx_def)
      with tx show "evo_inv g t" using ok by (intro evo_inv_activate [OF inv]) (simp_all add: EvActivate)
    qed
  next
    case (EvRollback actor reason now)
    show ?thesis unfolding EvRollback run_evo_action.simps
    proof (rule run_tx_inv [OF inv])
      fix t v assume tx: "rollback_tx lib now actor reason s = Inr (t, v)"
      then have "evo_grows s t" by (intro grow) (simp add: EvRollback run_tx_def)
      with tx show "evo_inv g t" using ok by (intro evo_inv_rollback [OF inv]) (simp_all add: EvRollback)
    qed
  next
    case (EvEvaluation d now)
    show ?thesis unfolding EvEvaluation run_evo_action.simps
    proof (rule run_tx_inv [OF inv])
      fix t v assume tx: "record_evaluation_tx lib now d s = Inr (t, v)"
      then have "evo_grows s t" by (intro grow) (simp add: EvEvaluation run_tx_def)
      with tx show "evo_inv g t"
        by (elim evaluation_changes) (rule evo_inv_unchanged [OF inv], simp_all)
    qed
  next
    case (EvFeedback d actor known now)
    show ?thesis unfolding EvFeedback run_evo_action.simps
    proof (rule run_tx_inv [OF inv])
      fix t v assume tx: "record_feedback_tx lib (\<lambda>_. known) now d actor s = Inr (t, v)"
      then have "evo_grows s t" by (intro grow) (simp add: EvFeedback run_tx_def)
      with tx show "evo_inv g t"
        by (elim feedback_changes) (rule evo_inv_unchanged [OF inv], simp_all)
    qed
  next
    case (EvRun run)
    show ?thesis unfolding EvRun run_evo_action.simps
    proof (rule run_tx_inv [OF inv])
      fix t v assume tx: "upsert_eval_run run s = Inr (t, v)"
      then have "evo_grows s t" by (intro grow) (simp add: EvRun run_tx_def)
      with tx show "evo_inv g t"
        by (elim run_changes) (rule evo_inv_unchanged [OF inv], simp_all)
    qed
  next
    case (EvClear cid)
    show ?thesis
      by (rule evo_inv_unchanged [OF inv run_evo_action_grows])
        (simp_all add: EvClear run_tx_def clear_eval_run_def)
  next
    case (EvAudit cid did event_type actor details now)
    show ?thesis unfolding EvAudit run_evo_action.simps
    proof (rule run_tx_inv [OF inv])
      fix t v assume tx: "record_audit_event lib now cid did event_type actor details s = Inr (t, v)"
      then have "evo_grows s t" by (intro grow) (simp add: EvAudit run_tx_def)
      with tx show "evo_inv g t"
        by (elim audit_changes) (rule evo_inv_unchanged [OF inv], simp_all)
    qed
  qed
qed

interpretation evo: transition_system "\<lambda>db. db = empty_evo_db" "evo_step lib g" "evo_inv g"
  by unfold_locales (auto simp: evo_inv_empty evo_step_def run_evo_action_inv)

lemma evo_reachable_inv: "evo_reachable lib g db \<Longrightarrow> evo_inv g db"
  unfolding evo_reachable_def by (rule evo.steps_keep_inv) auto

lemma evo_reachable_steps: "evo_reachable lib g s \<Longrightarrow> (evo_step lib g)\<^sup>*\<^sup>* s t \<Longrightarrow> evo_reachable lib g t"
  unfolding evo_reachable_def by simp

end
