(* ===== verification/Evolution_Calls.thy ===== *)
theory Evolution_Calls
  imports Evolution_Invariant
begin

text \<open>
  The active policy as the top of a stack: activation pushes, rollback pops, every other action
  leaves the stack alone. And the engine's calls as sequences of store actions, which carries the
  invariant over to every execution of the engine, whatever runs in between.
\<close>

section \<open>The stack of policies\<close>

definition stored_patch :: "evo_db \<Rightarrow> string \<Rightarrow> string" where
  "stored_patch db cid = (case find_candidate cid db of Some c \<Rightarrow> cn_patch c | None \<Rightarrow> [])"

definition policy_on :: "evo_db \<Rightarrow> deployment_row \<Rightarrow> active_policy" where
  "policy_on db d =
     \<lparr> ap_deployment_id = dp_id d, ap_candidate_id = dp_candidate d,
       ap_prompt_patch = stored_patch db (dp_candidate d) \<rparr>"

definition policy_stack :: "evo_db \<Rightarrow> active_policy list" where
  "policy_stack db = map (policy_on db) (live db)"

lemma last_row_map: "last_row (map f xs) = map_option f (last_row xs)"
  by (simp add: last_row_def last_map)

lemma candidate_by_id:
  assumes "candidates_inv g db" and "r \<in> set (ed_candidates db)"
  shows "find_candidate (cn_id r) db = Some r"
  using assms find_key [of cn_id "ed_candidates db" r] by (simp add: candidates_inv_def find_candidate_def)

lemma policy_of_deployment:
  assumes inv: "evo_inv g db" and d: "d \<in> set (ed_deployments db)"
  shows "policy_of d db = Inr (Some (policy_on db d))"
proof -
  from inv d have "dp_candidate d \<in> cn_id ` set (ed_candidates db)" and cands: "candidates_inv g db"
    by (simp_all add: evo_inv_def deployment_ok_def)
  then obtain c where c: "c \<in> set (ed_candidates db)" "dp_candidate d = cn_id c" by auto
  then have "find_candidate (dp_candidate d) db = Some c" using candidate_by_id [OF cands] by simp
  moreover have "patch_ok (cn_patch c)" using c cands by (simp add: candidates_inv_def candidate_ok_def)
  ultimately show ?thesis by (simp add: policy_of_def policy_on_def stored_patch_def patch_ok_def)
qed

lemma live_mem: "d \<in> set (live db) \<Longrightarrow> d \<in> set (ed_deployments db) \<and> dp_rolled_back_at d = None"
  by (simp add: live_def)

lemma store_policy_is_top:
  assumes inv: "evo_inv g db"
  shows "store_active_policy db = Inr (last_row (policy_stack db))"
proof (cases "live db = []")
  case True
  with inv show ?thesis
    by (simp add: evo_inv_def store_active_policy_def pointed_is_last policy_stack_def last_row_def)
next
  case False
  then have "last (live db) \<in> set (live db)" by simp
  note live_mem [OF this]
  with policy_of_deployment [OF inv, of "last (live db)"] inv False show ?thesis
    by (simp add: evo_inv_def store_active_policy_def pointed_is_last policy_stack_def last_row_def last_map)
qed

lemma grown_candidate:
  assumes "evo_grows s t" and "find_candidate cid s = Some c"
  obtains c' where "find_candidate cid t = Some c'" "candidate_kept c c'"
  using assms rows_evolve_find [of candidate_kept "ed_candidates s" "ed_candidates t" cn_id cid c]
  by (auto simp: evo_grows_def find_candidate_def candidate_kept_def)

lemma policy_on_grows:
  assumes inv: "evo_inv g s" and grow: "evo_grows s t" and d: "d \<in> set (ed_deployments s)"
    and same: "dp_id d' = dp_id d" "dp_candidate d' = dp_candidate d"
  shows "policy_on t d' = policy_on s d"
proof -
  from inv d have "dp_candidate d \<in> cn_id ` set (ed_candidates s)" and "candidates_inv g s"
    by (simp_all add: evo_inv_def deployment_ok_def)
  then obtain c where "find_candidate (dp_candidate d) s = Some c" by (auto simp: candidate_by_id)
  moreover from grown_candidate [OF grow this] obtain c' where
    "find_candidate (dp_candidate d) t = Some c'" "candidate_kept c c'" by blast
  ultimately show ?thesis by (simp add: policy_on_def stored_patch_def candidate_kept_def same)
qed

fun quiet :: "evo_action \<Rightarrow> bool" where
  "quiet (EvActivate stamp cid actor reason now) \<longleftrightarrow> False"
| "quiet (EvRollback actor reason now) \<longleftrightarrow> False"
| "quiet _ \<longleftrightarrow> True"

lemma run_tx_same:
  assumes "\<And>t x. tx s = Inr (t, x) \<Longrightarrow> f t = f s"
  shows "f (fst (run_tx tx s)) = f s"
  using assms by (cases rule: run_tx_cases [of tx s]) auto

lemma quiet_deployments:
  assumes "quiet a"
  shows "ed_deployments (run_evo_action lib a s) = ed_deployments s \<and> ed_active (run_evo_action lib a s) = ed_active s"
proof -
  let ?f = "\<lambda>db. (ed_deployments db, ed_active db)"
  have "?f (run_evo_action lib a s) = ?f s"
  proof (cases a)
    case (EvCreate d actor now)
    show ?thesis unfolding EvCreate run_evo_action.simps
      by (rule run_tx_same [where f = ?f], elim candidate_changes) simp
  next
    case (EvTransition cid expected nxt actor details now)
    show ?thesis unfolding EvTransition run_evo_action.simps
      by (rule run_tx_same [where f = ?f], drule transition_changes(1)) simp
  next
    case (EvCase c actor now)
    show ?thesis unfolding EvCase run_evo_action.simps
      by (rule run_tx_same [where f = ?f], elim case_changes) simp
  next
    case (EvEvaluation d now)
    show ?thesis unfolding EvEvaluation run_evo_action.simps
      by (rule run_tx_same [where f = ?f], elim evaluation_changes) simp
  next
    case (EvFeedback d actor known now)
    show ?thesis unfolding EvFeedback run_evo_action.simps
      by (rule run_tx_same [where f = ?f], elim feedback_changes) simp
  next
    case (EvRun run)
    show ?thesis unfolding EvRun run_evo_action.simps
      by (rule run_tx_same [where f = ?f], elim run_changes) simp
  next
    case (EvClear cid)
    then show ?thesis by (simp add: run_tx_def clear_eval_run_def)
  next
    case (EvAudit cid did event_type actor details now)
    show ?thesis unfolding EvAudit run_evo_action.simps
      by (rule run_tx_same [where f = ?f], elim audit_changes) simp
  qed (use assms in simp_all)
  then show ?thesis by simp
qed

lemma quiet_stack:
  assumes inv: "evo_inv g s" and "quiet a"
  shows "policy_stack (run_evo_action lib a s) = policy_stack s"
proof -
  have live: "live (run_evo_action lib a s) = live s" using quiet_deployments [OF assms(2)] by (simp add: live_def)
  have "policy_on (run_evo_action lib a s) d = policy_on s d" if "d \<in> set (live s)" for d
    using live_mem [OF that] by (intro policy_on_grows [OF inv run_evo_action_grows]) simp_all
  then show ?thesis by (simp add: policy_stack_def live)
qed

lemma activate_stack:
  assumes inv: "evo_inv g s" and tx: "activate_tx lib now stamp cid actor reason s = Inr (t, d)"
  shows "policy_stack t = policy_stack s @ [policy_on t d]"
  using tx
proof (rule activate_changes)
  fix e
  assume t: "t = s\<lparr>ed_deployments := ed_deployments s @ [d], ed_active := Some (dp_id d),
      ed_audit := ed_audit s @ [e]\<rparr>"
    and d: "d = new_deployment_row now (new_evolution_id ''deployment'' stamp) cid (ed_active s) actor reason"
  have "dp_rolled_back_at d = None" by (simp add: d new_deployment_row_def)
  then have "live t = live s @ [d]" by (simp add: live_def t)
  moreover have "policy_on t = policy_on s"
    by (rule ext) (simp add: policy_on_def stored_patch_def find_candidate_def t)
  ultimately show ?thesis by (simp add: policy_stack_def)
qed

lemma rollback_stack:
  assumes inv: "evo_inv g s" and tx: "rollback_tx lib now actor reason s = Inr (t, x)"
  shows "policy_stack s \<noteq> []" and "policy_stack t = butlast (policy_stack s)"
    and "rb_restored x = last_row (butlast (policy_stack s))"
    and "rb_deployment_id x = ap_deployment_id (last (policy_stack s))"
proof -
  obtain d e where d: "pointed_deployment s = Some d" and "dp_rolled_back_at d = None"
    and restored: "restored_policy (dp_previous d) s = Inr (rb_restored x)" and id: "rb_deployment_id x = dp_id d"
    and t: "t = s\<lparr>ed_deployments := update_where (\<lambda>r. dp_id r = dp_id d \<and> dp_rolled_back_at r = None)
              (rolled_back_row now actor reason) (ed_deployments s),
            ed_active := dp_previous d, ed_audit := ed_audit s @ [e]\<rparr>"
    using tx by (rule rollback_changes)
  have chain: "chain_inv s" using inv by (simp add: evo_inv_def)
  have dep: "ed_deployments t = update_where (\<lambda>r. dp_id r = dp_id d \<and> dp_rolled_back_at r = None)
      (rolled_back_row now actor reason) (ed_deployments s)" by (simp add: t)
  note live = live_rollback [OF chain d _ dep]
  have lt: "live t = butlast (live s)" and ne: "live s \<noteq> []" and last: "last (live s) = d"
    using live by simp_all
  have on: "policy_on t = policy_on s" by (rule ext) (simp add: policy_on_def stored_patch_def find_candidate_def t)
  show "policy_stack s \<noteq> []" using ne by (simp add: policy_stack_def)
  show "rb_deployment_id x = ap_deployment_id (last (policy_stack s))"
    using ne by (simp add: id policy_stack_def last_map last policy_on_def)
  show stack: "policy_stack t = butlast (policy_stack s)" by (simp add: policy_stack_def lt on map_butlast)
  from chain have "chained None (live s)" by (simp add: chain_inv_def)
  from chained_butlast [OF this ne] have prev: "dp_previous d = top_id None (butlast (live s))" by (simp add: last)
  show "rb_restored x = last_row (butlast (policy_stack s))"
  proof (cases "butlast (live s) = []")
    case True
    with restored prev show ?thesis by (simp add: restored_policy_def policy_stack_def map_butlast [symmetric] last_row_def)
  next
    case False
    let ?p = "last (butlast (live s))"
    have "?p \<in> set (live s)" using False by (meson in_set_butlastD last_in_set)
    note mem = live_mem [OF this]
    have "find_deployment (dp_id ?p) s = Some ?p" using mem by (intro find_deployment_mem [OF chain]) simp
    moreover have "policy_of ?p s = Inr (Some (policy_on s ?p))" using mem by (intro policy_of_deployment [OF inv]) simp
    ultimately have "restored_policy (Some (dp_id ?p)) s = Inr (Some (policy_on s ?p))"
      using mem by (simp add: restored_policy_def)
    with restored prev False show ?thesis
      by (simp add: top_id_def policy_stack_def map_butlast [symmetric] last_row_def last_map)
  qed
qed

lemma activate_keeps_inv:
  assumes "evo_inv g s" and "human_label g actor" and "activate_tx lib now stamp cid actor reason s = Inr (t, d)"
  shows "evo_inv g t"
  using run_evo_action_inv [OF assms(1), of "EvActivate stamp cid actor reason now" lib] assms(2,3)
  by (simp add: run_tx_def)

lemma rollback_keeps_inv:
  assumes "evo_inv g s" and "rollback_tx lib now actor reason s = Inr (t, x)"
  shows "evo_inv g t"
  using evo_inv_rollback [OF assms] run_evo_action_grows [of s lib "EvRollback actor reason now"] assms(2)
  by (simp add: run_tx_def)

text \<open>The abstract effect of a committed action: push, pop or nothing.\<close>

fun stack_effect :: "(string \<Rightarrow> string) \<Rightarrow> evo_action \<Rightarrow> active_policy list \<Rightarrow> active_policy list" where
  "stack_effect patch (EvActivate stamp cid actor reason now) stack =
     stack @ [\<lparr> ap_deployment_id = new_evolution_id ''deployment'' stamp, ap_candidate_id = cid,
                ap_prompt_patch = patch cid \<rparr>]"
| "stack_effect patch (EvRollback actor reason now) stack = butlast stack"
| "stack_effect patch _ stack = stack"

lemma stack_effect_quiet: "quiet a \<Longrightarrow> stack_effect patch a stack = stack"
  by (cases a) simp_all

lemma run_action_stack:
  assumes inv: "evo_inv g s"
  shows "policy_stack (run_evo_action lib a s) =
    (if run_evo_action lib a s = s then policy_stack s else stack_effect (stored_patch s) a (policy_stack s))"
proof (cases "run_evo_action lib a s = s \<or> quiet a")
  case True
  then show ?thesis by (auto simp: quiet_stack [OF inv] stack_effect_quiet)
next
  case False
  then consider stamp cid actor reason now where "a = EvActivate stamp cid actor reason now"
    | actor reason now where "a = EvRollback actor reason now"
    by (cases a) auto
  then show ?thesis
  proof cases
    case (1 stamp cid actor reason now)
    then obtain t d where tx: "activate_tx lib now stamp cid actor reason s = Inr (t, d)"
      and t: "run_evo_action lib a s = t"
      using False by (cases rule: run_tx_cases [of "activate_tx lib now stamp cid actor reason" s]) simp_all
    have d: "dp_id d = new_evolution_id ''deployment'' stamp" "dp_candidate d = cid"
      and same: "stored_patch t = stored_patch s"
      by (rule activate_changes [OF tx], auto simp: new_deployment_row_def stored_patch_def find_candidate_def)+
    have "t \<noteq> s" using False t by simp
    then show ?thesis unfolding t using activate_stack [OF inv tx] by (simp add: 1 policy_on_def d same)
  next
    case (2 actor reason now)
    then obtain t x where tx: "rollback_tx lib now actor reason s = Inr (t, x)"
      and t: "run_evo_action lib a s = t"
      using False by (cases rule: run_tx_cases [of "rollback_tx lib now actor reason" s]) simp_all
    have "t \<noteq> s" using False t by simp
    then show ?thesis unfolding t using rollback_stack(2) [OF inv tx] by (simp add: 2)
  qed
qed

section \<open>Engine calls are sequences of actions\<close>

text \<open>Steps that leave the deployments alone.\<close>

definition quiet_step :: "evo_lib \<Rightarrow> gate_config \<Rightarrow> evo_db \<Rightarrow> evo_db \<Rightarrow> bool" where
  "quiet_step lib g s t \<longleftrightarrow> (\<exists>a. evo_action_ok g s a \<and> quiet a \<and> t = run_evo_action lib a s)"

definition quietly :: "evo_lib \<Rightarrow> gate_config \<Rightarrow> evo_db \<Rightarrow> 'a evo \<Rightarrow> bool" where
  "quietly lib g s m \<longleftrightarrow> (quiet_step lib g)\<^sup>*\<^sup>* s (fst (m s))"

lemma quiet_steps_steps: "(quiet_step lib g)\<^sup>*\<^sup>* s t \<Longrightarrow> (evo_step lib g)\<^sup>*\<^sup>* s t"
  by (rule rtranclp_mono [THEN predicate2D]) (auto simp: quiet_step_def evo_step_def)

lemma quiet_steps_stack:
  assumes "(quiet_step lib g)\<^sup>*\<^sup>* s t" and "evo_inv g s"
  shows "policy_stack t = policy_stack s \<and> evo_inv g t"
  using assms
  by (induction rule: rtranclp_induct) (auto simp: quiet_step_def quiet_stack run_evo_action_inv)

lemma quietly_bind:
  assumes "quietly lib g s m" and "\<And>t x. m s = (t, Inr x) \<Longrightarrow> quietly lib g t (k x)"
  shows "quietly lib g s (evo_bind m k)"
proof (cases "m s")
  case (Pair t r)
  show ?thesis
  proof (cases r)
    case (Inl e)
    with Pair assms(1) show ?thesis by (simp add: quietly_def evo_bind_def)
  next
    case (Inr x)
    from assms(2) [of t x] Pair Inr have "(quiet_step lib g)\<^sup>*\<^sup>* t (fst (k x t))" by (simp add: quietly_def)
    with assms(1) Pair Inr show ?thesis by (simp add: quietly_def evo_bind_def)
  qed
qed

lemma quietly_read [simp]: "quietly lib g s (read_db f)"
  by (simp add: quietly_def read_db_def)

lemma quietly_lift [simp]: "quietly lib g s (evo_lift x)"
  by (simp add: quietly_def evo_lift_def)

lemma quietly_if:
  "(b \<Longrightarrow> quietly lib g s m) \<Longrightarrow> (\<not> b \<Longrightarrow> quietly lib g s n) \<Longrightarrow> quietly lib g s (if b then m else n)"
  by simp

lemma quietly_action:
  assumes "evo_action_ok g s a" and "quiet a" and "run_evo_action lib a s = fst (run_tx tx s)"
  shows "quietly lib g s (run_tx tx)"
  using assms unfolding quietly_def quiet_step_def by (intro r_into_rtranclp) metis

lemma bind_Inr:
  "evo_bind m k s = (t, Inr x) \<longleftrightarrow> (\<exists>u y. m s = (u, Inr y) \<and> k y u = (t, Inr x))"
  by (auto simp: evo_bind_def split: prod.split sum.split)

lemma bind_lift [simp]: "evo_bind (evo_lift (Inr x)) k = k x"
  by (intro ext) (simp add: evo_bind_def evo_lift_def)

lemma bind_lift_Inl [simp]: "evo_bind (evo_lift (Inl e)) k = evo_lift (Inl e)"
  by (intro ext) (simp add: evo_bind_def evo_lift_def)

lemma bind_read: "f db = Inr x \<Longrightarrow> evo_bind (read_db f) k db = k x db"
  by (simp add: evo_bind_def read_db_def)

lemma lift_Inr [simp]: "evo_lift x s = (t, Inr y) \<longleftrightarrow> t = s \<and> x = Inr y"
  by (auto simp: evo_lift_def)

lemma read_Inr [simp]: "read_db f s = (t, Inr y) \<longleftrightarrow> t = s \<and> f s = Inr y"
  by (auto simp: read_db_def)

lemma run_tx_Inr: "run_tx tx s = (t, Inr x) \<longleftrightarrow> tx s = Inr (t, x)"
  by (auto simp: run_tx_def split: sum.split)

lemma prompt_patch_ok: "prompt_patch_new v n = Inr p \<Longrightarrow> patch_ok p"
  by (auto simp: prompt_patch_new_def patch_ok_def Let_def split: option.splits)

lemma human_actor_label:
  assumes "require_human_actor eng actor = Inr ()" and "audit_label actor = Inr label"
  shows "human_label (eg_gate eng) label"
  using assms by (cases actor)
    (auto simp: require_human_actor_def audit_label_def human_label_def is_human_def starts_with_def Let_def)

lemma quietly_transition:
  assumes "nxt = CandReady \<Longrightarrow> ready_evaluated s cid" and "nxt = CandApproved \<Longrightarrow> human_label g actor"
  shows "quietly lib g s (transition_candidate lib now cid expected nxt actor details)"
  unfolding transition_candidate_def
  by (rule quietly_bind, rule quietly_action [where a = "EvTransition cid expected nxt actor details now"])
    (use assms in simp_all)

lemma quietly_create_candidate:
  "quietly lib g s (engine_create_candidate lib eng cache now stamp patch rationale sources fingerprint actor)"
  unfolding engine_create_candidate_def Let_def store_create_candidate_def
  by (intro quietly_bind quietly_lift quietly_read
      quietly_action [where a = "EvCreate d l now" for d l]) (auto dest: prompt_patch_ok)

lemma quietly_upsert_case: "quietly lib g s (engine_upsert_eval_case lib now c actor)"
  unfolding engine_upsert_eval_case_def
  by (intro quietly_bind quietly_lift quietly_action [where a = "EvCase c l now" for l]) auto

lemma quietly_finalize: "quietly lib g s (finalize_shadow_evaluation lib eng clk stamp cand cases suite baseline_id acc)"
proof -
  obtain bo co n where acc: "acc = (bo, co, n)" by (cases acc)
  show ?thesis
    unfolding acc finalize_shadow_evaluation_def Let_def prod.case
  proof (rule quietly_bind, rule quietly_lift, rule quietly_bind)
    fix t card
    let ?d = "\<lparr> vd_id = new_evolution_id ''evaluation'' stamp, vd_candidate = cn_id cand,
            vd_baseline = baseline_id, vd_scorecard = card, vd_decision = gate_decide (eg_gate eng) card,
            vd_gate = eg_gate eng \<rparr>"
    show "quietly lib g t (run_tx (record_evaluation_tx lib (clk 2) ?d))"
      by (rule quietly_action [where a = "EvEvaluation ?d (clk 2)"]) simp_all
    fix u v assume "run_tx (record_evaluation_tx lib (clk 2) ?d) t = (u, Inr v)"
    then have "record_evaluation_tx lib (clk 2) ?d t = Inr (u, v)" by (simp only: run_tx_Inr)
    then have "new_evaluation_row (clk 2) ?d \<in> set (ed_evaluations u)" by (rule evaluation_changes) simp
    then have ready: "gate_decide (eg_gate eng) card = DecisionReady \<Longrightarrow> ready_evaluated u (cn_id cand)"
      by (auto simp: ready_evaluated_def new_evaluation_row_def intro!: bexI)
    show "quietly lib g u (evo_bind (case gate_decide (eg_gate eng) card of
            DecisionReady \<Rightarrow> transition_candidate lib (clk 3) (cn_id cand) CandEvaluating CandReady engine_actor
              (JObj [(''candidate_score'', JF64 (sc_candidate_score card)),
                     (''evaluation_id'', JStr (ve_id v)),
                     (''score_delta'', JF64 (sc_score_delta card))])
          | DecisionRejected reasons \<Rightarrow>
              transition_candidate lib (clk 3) (cn_id cand) CandEvaluating CandRejected engine_actor
              (JObj [(''evaluation_id'', JStr (ve_id v)), (''reasons'', JArr (map JStr reasons))]))
          (\<lambda>_. evo_lift (Inr (v, n))))"
      by (rule quietly_bind) (auto split: promotion_decision.split intro!: quietly_transition ready)
  qed
qed

lemma quietly_inner: "quietly lib g s (evaluate_candidate_inner lib eng ask cache clk stamp cand max_bytes)"
  unfolding evaluate_candidate_inner_def
  by (intro quietly_bind quietly_read quietly_lift quietly_finalize)

lemma quietly_start: "quietly lib g s (start_evaluation lib eng now cid expected)"
  unfolding start_evaluation_def by (rule quietly_transition) simp_all

lemma quietly_evaluate: "quietly lib g s (evaluate_candidate_with_limit lib eng ask cache clk stamp cid max_bytes)"
  unfolding evaluate_candidate_with_limit_def
proof (intro quietly_bind quietly_read quietly_lift quietly_start)
  fix t cand
  let ?failed = "transition_candidate lib (clk 4) cid CandEvaluating CandFailed engine_actor
              (JObj [(''error'', JStr ''shadow_evaluation_failed''), (''retryable'', JBool True)])"
  obtain u r where u: "evaluate_candidate_inner lib eng ask cache clk stamp cand max_bytes t = (u, r)"
    by (cases "evaluate_candidate_inner lib eng ask cache clk stamp cand max_bytes t")
  have inner: "(quiet_step lib g)\<^sup>*\<^sup>* t u"
    using quietly_inner [of lib g t eng ask cache clk stamp cand max_bytes] by (simp add: quietly_def u)
  have "quietly lib g u ?failed" by (rule quietly_transition) simp_all
  then have "(quiet_step lib g)\<^sup>*\<^sup>* t (fst (?failed u))" using inner by (simp add: quietly_def)
  with inner show "quietly lib g t (\<lambda>db. case evaluate_candidate_inner lib eng ask cache clk stamp cand max_bytes db of
         (db', Inr r) \<Rightarrow> (db', Inr r) | (db', Inl e) \<Rightarrow> (fst (?failed db'), Inl e))"
    by (cases r) (simp_all add: quietly_def u)
qed

lemma quietly_begin: "quietly lib g s (begin_eval_run lib eng cache clk stamp cid)"
  unfolding begin_eval_run_def Let_def
  by (intro quietly_bind quietly_read quietly_lift quietly_start quietly_transition
      quietly_if quietly_action [where a = "EvRun r" for r]) simp_all

lemma quietly_current: "quietly lib g s (current_eval_run lib eng cache clk stamp cid)"
  unfolding current_eval_run_def
  by (intro quietly_bind quietly_read) (auto split: option.split intro: quietly_begin)

lemma quietly_finish: "quietly lib g s (finish_eval_run lib eng clk stamp cand run)"
proof -
  have "quietly lib g t (evo_bind (run_tx (clear_eval_run (vr_candidate run))) (\<lambda>_. evo_lift (Inr r)))"
    for t and r :: eval_step_outcome
    by (intro quietly_bind quietly_lift quietly_action [where a = "EvClear (vr_candidate run)"]) simp_all
  then show ?thesis
    unfolding finish_eval_run_def by (intro quietly_bind quietly_finalize) (auto split: prod.split)
qed

lemma quietly_run_step: "quietly lib g s (run_evaluation_step lib eng ask cache clk stamp cid max_bytes)"
  unfolding run_evaluation_step_def Let_def
  by (intro quietly_bind quietly_read quietly_lift quietly_current quietly_finish
      quietly_if quietly_action [where a = "EvRun r" for r]) simp_all

lemma quietly_approve: "quietly lib (eg_gate eng) s (approve_candidate lib eng cache now cid actor reason)"
  unfolding approve_candidate_def
  by (intro quietly_bind quietly_read quietly_lift quietly_transition) (auto intro: human_actor_label)

lemma quietly_abandon: "quietly lib g s (abandon_evaluation lib eng now cid actor reason)"
  unfolding abandon_evaluation_def
  by (intro quietly_bind quietly_read quietly_lift quietly_transition) auto

end
