(* ===== verification/Evolution_Example.thy ===== *)
theory Evolution_Example
  imports Evolution_Calls
begin

text \<open>
  A concrete candidate followed from its draft through evaluation, approval, activation and
  rollback: the tables the witnesses of the evolution properties start from. One eval case asks for
  the word \<open>good\<close>; the provider gives it only under a system prompt.
\<close>

definition ev_lib :: evo_lib where
  "ev_lib = \<lparr> json_text = (\<lambda>_. ''{}''), sha256 = (\<lambda>s. take 1 s), json_valid = (\<lambda>_. True) \<rparr>"

definition ev_gate :: gate_config where
  "ev_gate = \<lparr> gc_min_eval_cases = 1, gc_min_candidate_score = Fin (1 / 2), gc_min_score_delta = Fin 0,
     gc_max_regressions = 0, gc_max_prompt_patch_chars = 100, gc_require_human_approval = True \<rparr>"

definition ev_engine :: evo_engine where
  "ev_engine = \<lparr> eg_gate = ev_gate, eg_suite = None, eg_max_sources = 20, eg_max_evidence_chars = 8000,
     eg_model = ''m'' \<rparr>"

definition ev_case :: "string \<Rightarrow> eval_case" where
  "ev_case i = \<lparr> vc_id = i, vc_name = ''n'', vc_input = ''q'',
     vc_assertions = \<lparr> ca_required = [''good''], ca_forbidden = [], ca_require_json = False,
       ca_max_output_chars = None \<rparr>,
     vc_weight = Fin 1, vc_enabled = True \<rparr>"

definition ev_ask :: provider where
  "ev_ask k msgs = Inr (if length msgs = 1 then ''bad'' else ''good'')"

definition ev_draft :: candidate_draft where
  "ev_draft = \<lparr> cd_id = ''c'', cd_parent = None, cd_fingerprint = None, cd_patch = ''be good'',
     cd_rationale = ''r'', cd_sources = [] \<rparr>"

definition ev_human :: evo_actor where "ev_human = ActorHuman ''h''"

definition ev_created :: evo_db where
  "ev_created = run_evo_action ev_lib (EvCase (ev_case ''k'') ''human:h'' 1)
     (run_evo_action ev_lib (EvCreate ev_draft ''human:h'' 0) empty_evo_db)"

definition ev_evaluation :: evaluation_draft where
  "ev_evaluation = \<lparr> vd_id = ''v'', vd_candidate = ''c'', vd_baseline = None,
     vd_scorecard = scorecard_of None empty_tally, vd_decision = DecisionReady, vd_gate = ev_gate \<rparr>"

definition ev_evaluated :: evo_db where
  "ev_evaluated = run_evo_action ev_lib (EvEvaluation ev_evaluation 2)
     (run_evo_action ev_lib (EvTransition ''c'' CandDraft CandEvaluating ''e'' JNull 2) ev_created)"

definition ev_approved :: evo_db where
  "ev_approved = run_evo_action ev_lib (EvTransition ''c'' CandReady CandApproved ''human:h'' JNull 3)
     (run_evo_action ev_lib (EvTransition ''c'' CandEvaluating CandReady ''e'' JNull 2) ev_evaluated)"

definition ev_active :: evo_db where
  "ev_active = run_evo_action ev_lib (EvActivate (2, 2) ''c'' ''human:h'' ''go'' 4) ev_approved"

lemma quiet_action_step:
  "(quiet_step lib g)\<^sup>*\<^sup>* r s \<Longrightarrow> evo_action_ok g s a \<Longrightarrow> quiet a
    \<Longrightarrow> (quiet_step lib g)\<^sup>*\<^sup>* r (run_evo_action lib a s)"
  by (erule rtranclp.rtrancl_into_rtrancl) (auto simp: quiet_step_def)

lemma quietly_steps:
  "(quiet_step lib g)\<^sup>*\<^sup>* r s \<Longrightarrow> quietly lib g s m \<Longrightarrow> (quiet_step lib g)\<^sup>*\<^sup>* r (fst (m s))"
  by (simp add: quietly_def)

lemma ev_patch_ok: "patch_ok ''be good''"
  by code_simp

lemma ev_created_steps: "(quiet_step ev_lib ev_gate)\<^sup>*\<^sup>* empty_evo_db ev_created"
  unfolding ev_created_def
  by (intro quiet_action_step rtranclp.rtrancl_refl) (simp_all add: ev_draft_def ev_patch_ok)

lemma ev_ready: "ready_evaluated ev_evaluated ''c''"
proof -
  have "list_ex (\<lambda>v. ve_candidate v = ''c'' \<and> ve_decision v = DecisionReady) (ed_evaluations ev_evaluated)"
    by code_simp
  then show ?thesis by (auto simp: ready_evaluated_def list_ex_iff)
qed

lemma ev_evaluated_steps: "(quiet_step ev_lib ev_gate)\<^sup>*\<^sup>* empty_evo_db ev_evaluated"
  unfolding ev_evaluated_def by (intro quiet_action_step ev_created_steps) simp_all

lemma ev_approved_steps: "(quiet_step ev_lib ev_gate)\<^sup>*\<^sup>* empty_evo_db ev_approved"
  unfolding ev_approved_def
  by (intro quiet_action_step ev_evaluated_steps) (simp_all add: ev_ready human_label_def starts_with_def)

lemma ev_approved_reachable: "evo_reachable ev_lib ev_gate ev_approved"
  using quiet_steps_steps [OF ev_approved_steps] by (simp add: evo_reachable_def)

lemma ev_active_reachable: "evo_reachable ev_lib ev_gate ev_active"
  unfolding ev_active_def
  by (rule evo_reachable_steps [OF ev_approved_reachable], rule r_into_rtranclp)
    (auto simp: evo_step_def human_label_def starts_with_def intro!: exI [of _ "EvActivate (2, 2) ''c'' ''human:h'' ''go'' 4"])

text \<open>The approved candidate can be activated.\<close>

lemma ev_activates: "\<not> isl (activate_tx ev_lib 4 (2, 2) ''c'' ''human:h'' ''go'' ev_approved)"
  by code_simp

lemma ev_active_policy: "store_active_policy ev_active = Inr (Some
    \<lparr> ap_deployment_id = ''deployment-2-2'', ap_candidate_id = ''c'', ap_prompt_patch = ''be good'' \<rparr>)"
  by code_simp

lemma ev_actor_checks:
  "audit_label ev_human = Inr ''human:h''" "validate_evo_actor ''human:h'' = Inr ()" "validate_reason ''bad'' = Inr ()"
  by code_simp+

lemma ev_has_candidate: "\<not> isl (require_candidate ''c'' ev_approved)"
  by code_simp

lemma ev_human_ok: "require_human_actor ev_engine ev_human = Inr ()"
  by (simp add: require_human_actor_def is_human_def ev_human_def)

lemma ev_fits: "int (length (json_text ev_lib v)) \<le> 65536"
  by (simp add: ev_lib_def)

end
