(* ===== verification/Evolution_Safety.thy ===== *)
theory Evolution_Safety
  imports Evolution_Example
begin

text \<open>
  The properties of promotion: what an active policy has gone through, when an activation
  succeeds, the deployments as a stack with rollback as its pop, and the engine's cache of the
  active policy, which agrees with the store as long as activations and rollbacks do not overlap.
\<close>

section \<open>Rollback\<close>

lemma rolled_back_event_text [simp]: "trim ''deployment_rolled_back'' = ''deployment_rolled_back''"
  by code_simp

lemma rollback_possible:
  assumes inv: "evo_inv g s" and ne: "policy_stack s \<noteq> []"
    and actor: "validate_evo_actor actor = Inr ()" and reason: "validate_reason reason = Inr ()"
    and fits: "\<And>p. int (length (json_text lib (JObj
        [(''reason'', JStr (trim reason)), (''restored_deployment_id'', p)]))) \<le> 65536"
  obtains t x where "rollback_tx lib now actor reason s = Inr (t, x)"
proof -
  have chain: "chain_inv s" using inv by (simp add: evo_inv_def)
  have live: "live s \<noteq> []" using ne by (simp add: policy_stack_def)
  define d where "d = last (live s)"
  have d: "pointed_deployment s = Some d" using live pointed_is_last [OF chain] by (simp add: d_def)
  have "d \<in> set (live s)" using live by (simp add: d_def)
  note mem = live_mem [OF this]
  have "chained None (live s)" using chain by (simp add: chain_inv_def)
  from chained_butlast [OF this live] have prev: "dp_previous d = top_id None (butlast (live s))" by (simp add: d_def)
  have restored: "\<exists>p. restored_policy (dp_previous d) s = Inr p"
  proof (cases "butlast (live s) = []")
    case True
    then show ?thesis by (simp add: prev restored_policy_def)
  next
    case False
    let ?p = "last (butlast (live s))"
    have "?p \<in> set (live s)" using False by (meson in_set_butlastD last_in_set)
    note pm = live_mem [OF this]
    have "find_deployment (dp_id ?p) s = Some ?p" using pm by (intro find_deployment_mem [OF chain]) simp
    moreover have "policy_of ?p s = Inr (Some (policy_on s ?p))" using pm by (intro policy_of_deployment [OF inv]) simp
    ultimately show ?thesis using pm False by (simp add: prev top_id_def restored_policy_def)
  qed
  then obtain p where p: "restored_policy (dp_previous d) s = Inr p" by blast
  have "dp_candidate d \<in> cn_id ` set (ed_candidates s)"
    using inv mem by (simp add: evo_inv_def deployment_ok_def)
  moreover have "dp_id d \<in> dp_id ` set (ed_deployments s)" using mem by blast
  moreover have "map dp_id (update_where (\<lambda>r. dp_id r = dp_id d \<and> dp_rolled_back_at r = None)
        (rolled_back_row now actor reason) (ed_deployments s)) = map dp_id (ed_deployments s)"
    by (simp add: map_update_where)
  ultimately have "\<exists>t. insert_audit_event lib now (Some (dp_candidate d)) (Some (dp_id d)) ''deployment_rolled_back'' actor
          (JObj [(''reason'', JStr (trim reason)), (''restored_deployment_id'', opt_str (dp_previous d))])
          (s\<lparr>ed_deployments := update_where (\<lambda>r. dp_id r = dp_id d \<and> dp_rolled_back_at r = None)
                 (rolled_back_row now actor reason) (ed_deployments s),
               ed_active := dp_previous d\<rparr>) = Inr t"
    using actor fits by (simp add: insert_audit_event_def validate_audit_fields_def references_def rolled_back_event_text)
  then show thesis using that d mem p actor reason by (auto simp: rollback_tx_def)
qed


section \<open>Promotion\<close>

text \<open>
  C23: In every reachable state the policy the store serves is the top of the stack of deployments
  that are not rolled back, and a store action changes that stack exactly as the abstract machine
  does: a committed activation pushes the candidate's policy, a committed rollback pops, and
  everything else leaves the stack alone.
\<close>

theorem deployments_implement_stack:
  assumes "evo_reachable lib g db"
  shows "store_active_policy db = Inr (last_row (policy_stack db))
    \<and> policy_stack (run_evo_action lib a db) =
      (if run_evo_action lib a db = db then policy_stack db
       else stack_effect (stored_patch db) a (policy_stack db))"
  using evo_reachable_inv [OF assms] by (intro conjI store_policy_is_top run_action_stack)

lemma deployments_implement_stack_witness:
  "store_active_policy ev_active = Inr (last_row (policy_stack ev_active))
   \<and> policy_stack (run_evo_action ev_lib (EvClear ''c'') ev_active) = policy_stack ev_active"
  using deployments_implement_stack [OF ev_active_reachable, of "EvClear ''c''"] by auto



text \<open>
  C25: Where the gate requires a human, the policy the store serves in a reachable state has passed
  the whole promotion: its deployment is not rolled back and was made by a human, a human approved
  its candidate, an evaluation of the candidate against exactly the policy it replaced came out
  ready, and its patch is within the limits and free of reserved markers.
\<close>

theorem active_policy_vetted:
  assumes reach: "evo_reachable lib g db" and active: "store_active_policy db = Inr (Some p)"
  shows "\<exists>d \<in> set (ed_deployments db). dp_id d = ap_deployment_id p \<and> dp_candidate d = ap_candidate_id p
    \<and> dp_rolled_back_at d = None \<and> human_label g (dp_activated_by d) \<and> approved_by g db (ap_candidate_id p)
    \<and> (\<exists>v \<in> set (ed_evaluations db). ve_candidate v = ap_candidate_id p \<and> ve_decision v = DecisionReady
         \<and> ve_baseline v = replaced_candidate db d)
    \<and> prompt_patch_new (ap_prompt_patch p) absolute_max_prompt_patch_chars = Inr (ap_prompt_patch p)"
proof -
  have inv: "evo_inv g db" using reach by (rule evo_reachable_inv)
  from active store_policy_is_top [OF inv] have top: "last_row (policy_stack db) = Some p" by simp
  then have "live db \<noteq> []" and p: "p = policy_on db (last (live db))"
    by (auto simp: policy_stack_def last_row_def last_map split: if_splits)
  then have "last (live db) \<in> set (live db)" by simp
  note mem = live_mem [OF this]
  with inv have ok: "deployment_ok g db (last (live db))" by (simp add: evo_inv_def)
  have "policy_of (last (live db)) db = Inr (Some p)"
    using policy_of_deployment [OF inv, of "last (live db)"] mem by (simp add: p)
  then have "patch_ok (ap_prompt_patch p)"
    by (auto simp: policy_of_def split: option.splits dest: prompt_patch_ok)
  with ok mem show ?thesis
    by (intro bexI [of _ "last (live db)"]) (auto simp: p policy_on_def deployment_ok_def patch_ok_def)
qed

lemma active_policy_vetted_witness:
  "\<exists>d \<in> set (ed_deployments ev_active). dp_id d = ''deployment-2-2'' \<and> human_label ev_gate (dp_activated_by d)
    \<and> approved_by ev_gate ev_active ''c''"
  using active_policy_vetted [OF ev_active_reachable ev_active_policy] by auto

section \<open>The cache of the active policy\<close>

text \<open>
  One engine whose activations and rollbacks do not overlap: anything else may run in between, and
  the process may restart and load the policy again.
\<close>

inductive cache_step :: "evo_lib \<Rightarrow> evo_engine \<Rightarrow> evo_state \<Rightarrow> evo_state \<Rightarrow> bool" where
  other: "(quiet_step lib (eg_gate eng))\<^sup>*\<^sup>* (es_db s) t \<Longrightarrow> cache_step lib eng s (s\<lparr>es_db := t\<rparr>)"
| activation: "cache_step lib eng s (fst (activate_candidate lib eng now stamp cid actor reason s))"
| rollback: "cache_step lib eng s (fst (rollback_active lib eng now actor reason s))"
| restart: "engine_new g model (es_db s) = Inr (eng', cache) \<Longrightarrow> cache_step lib eng s (s\<lparr>es_cache := cache\<rparr>)"

definition cache_ok :: "gate_config \<Rightarrow> evo_state \<Rightarrow> bool" where
  "cache_ok g s \<longleftrightarrow> evo_inv g (es_db s) \<and> store_active_policy (es_db s) = Inr (es_cache s)"

lemma bind_fst_cases:
  assumes "evo_bind m k s = (t, Inl e)"
  obtains "m s = (t, Inl e)" | u x where "m s = (u, Inr x)" "k x u = (t, Inl e)"
  using assms by (auto simp: evo_bind_def split: prod.splits sum.splits)

lemma activate_commit_failed: "activate_commit lib eng now stamp cid actor reason s = (t, Inl e) \<Longrightarrow> t = s"
  unfolding activate_commit_def
  by (elim bind_fst_cases) (auto simp: evo_lift_def read_db_def run_tx_def split: sum.splits)

lemma rollback_commit_failed: "rollback_commit lib eng now actor reason s = (t, Inl e) \<Longrightarrow> t = s"
  unfolding rollback_commit_def
  by (elim bind_fst_cases) (auto simp: evo_lift_def read_db_def run_tx_def split: sum.splits)

lemma activate_commit_Inr:
  assumes "activate_commit lib eng now stamp cid actor reason s = (t, Inr (d, p))"
  obtains label cand where "human_label (eg_gate eng) label"
    and "activate_tx lib now stamp cid label reason s = Inr (t, d)"
    and "require_candidate cid s = Inr cand"
    and "p = Some \<lparr> ap_deployment_id = dp_id d, ap_candidate_id = cn_id cand, ap_prompt_patch = cn_patch cand \<rparr>"
  using assms unfolding activate_commit_def
  by (auto simp: bind_Inr run_tx_Inr intro: human_actor_label)

lemma rollback_commit_Inr:
  assumes "rollback_commit lib eng now actor reason s = (t, Inr (r, p))"
  obtains label where "human_label (eg_gate eng) label"
    and "rollback_tx lib now label reason s = Inr (t, r)" and "p = rb_restored r"
  using assms unfolding rollback_commit_def
  by (auto simp: bind_Inr run_tx_Inr intro: human_actor_label)

lemma installed_policy:
  assumes inv: "evo_inv g s" and tx: "activate_tx lib now stamp cid label reason s = Inr (t, d)"
    and cand: "require_candidate cid s = Inr c"
  shows "policy_on t d = \<lparr> ap_deployment_id = dp_id d, ap_candidate_id = cn_id c, ap_prompt_patch = cn_patch c \<rparr>"
proof -
  from cand obtain r where r: "find_candidate cid s = Some r" "candidate_from_row r = Inr c"
    by (auto simp: require_candidate_def get_candidate_def decode_opt_def split: option.splits)
  from r(1) inv have "patch_ok (cn_patch r)"
    using find_candidate_SomeD(1) by (fastforce simp: evo_inv_def candidates_inv_def candidate_ok_def)
  with r(2) have c: "c = r" by (simp add: candidate_from_row_def patch_ok_def)
  have "dp_candidate d = cid" and "find_candidate cid t = find_candidate cid s"
    by (rule activate_changes [OF tx], simp add: new_deployment_row_def find_candidate_def)+
  with r(1) c find_candidate_SomeD(2) [OF r(1)] show ?thesis by (simp add: policy_on_def stored_patch_def)
qed

lemma cache_step_ok:
  assumes "cache_step lib eng s t" and "cache_ok (eg_gate eng) s"
  shows "cache_ok (eg_gate eng) t"
  using assms
proof (induction rule: cache_step.induct)
  case (other lib eng s t)
  then have inv: "evo_inv (eg_gate eng) (es_db s)" by (simp add: cache_ok_def)
  from quiet_steps_stack [OF other(1) inv] other(2) store_policy_is_top [OF inv] show ?case
    using store_policy_is_top [of "eg_gate eng" t] by (simp add: cache_ok_def)
next
  case (activation lib eng s now stamp cid actor reason)
  then have inv: "evo_inv (eg_gate eng) (es_db s)" by (simp add: cache_ok_def)
  obtain t r where t: "activate_commit lib eng now stamp cid actor reason (es_db s) = (t, r)" by force
  show ?case
  proof (cases r)
    case (Inl e)
    with t activate_commit_failed [of lib eng now stamp cid actor reason "es_db s" t e] activation show ?thesis
      by (simp add: activate_candidate_def commit_and_replace_def cache_ok_def)
  next
    case (Inr dp)
    obtain d p where dp: "dp = (d, p)" by force
    show ?thesis
    proof (rule activate_commit_Inr [OF t [unfolded Inr dp]])
      fix label c assume human: "human_label (eg_gate eng) label"
        and tx: "activate_tx lib now stamp cid label reason (es_db s) = Inr (t, d)"
        and c: "require_candidate cid (es_db s) = Inr c"
        and p: "p = Some \<lparr> ap_deployment_id = dp_id d, ap_candidate_id = cn_id c, ap_prompt_patch = cn_patch c \<rparr>"
      have inv_t: "evo_inv (eg_gate eng) t" by (rule activate_keeps_inv [OF inv human tx])
      have "store_active_policy t = Inr p"
        using store_policy_is_top [OF inv_t] activate_stack [OF inv tx] installed_policy [OF inv tx c]
        by (simp add: p last_row_def)
      with inv_t t show ?thesis by (simp add: Inr dp activate_candidate_def commit_and_replace_def cache_ok_def)
    qed
  qed
next
  case (rollback lib eng s now actor reason)
  then have inv: "evo_inv (eg_gate eng) (es_db s)" by (simp add: cache_ok_def)
  obtain t r where t: "rollback_commit lib eng now actor reason (es_db s) = (t, r)" by force
  show ?case
  proof (cases r)
    case (Inl e)
    with t rollback_commit_failed [of lib eng now actor reason "es_db s" t e] rollback show ?thesis
      by (simp add: rollback_active_def commit_and_replace_def cache_ok_def)
  next
    case (Inr xp)
    obtain x p where xp: "xp = (x, p)" by force
    show ?thesis
    proof (rule rollback_commit_Inr [OF t [unfolded Inr xp]])
      fix label assume tx: "rollback_tx lib now label reason (es_db s) = Inr (t, x)" and p: "p = rb_restored x"
      have inv_t: "evo_inv (eg_gate eng) t" by (rule rollback_keeps_inv [OF inv tx])
      have "store_active_policy t = Inr p"
        using store_policy_is_top [OF inv_t] rollback_stack [OF inv tx] by (simp add: p)
      with inv_t t show ?thesis by (simp add: Inr xp rollback_active_def commit_and_replace_def cache_ok_def)
    qed
  qed
next
  case (restart g model s eng' cache lib eng)
  then show ?case by (auto simp: cache_ok_def engine_new_def)
qed

definition engine_start :: evo_state where
  "engine_start = \<lparr> es_db = empty_evo_db, es_cache = None \<rparr>"

interpretation policy_cache: transition_system "\<lambda>s. s = engine_start" "cache_step lib eng" "cache_ok (eg_gate eng)"
proof
  fix s assume "s = engine_start"
  moreover have "store_active_policy empty_evo_db = Inr None"
    by (simp add: store_active_policy_def pointed_deployment_def empty_evo_db_def)
  ultimately show "cache_ok (eg_gate eng) s"
    by (simp add: engine_start_def cache_ok_def evo_inv_empty)
qed (rule cache_step_ok)

text \<open>
  C26: As long as activations and rollbacks do not overlap, the policy the engine injects is the one
  the store serves, across all other calls, failures and restarts.
\<close>

theorem cache_mirrors_store:
  assumes "(cache_step lib eng)\<^sup>*\<^sup>* engine_start s"
  shows "store_active_policy (es_db s) = Inr (es_cache s)"
  using policy_cache.steps_keep_inv [OF refl assms] by (simp add: cache_ok_def)

lemma cache_mirrors_store_witness:
  "\<exists>s. (cache_step ev_lib ev_engine)\<^sup>*\<^sup>* engine_start s \<and> es_db s = ev_approved
    \<and> store_active_policy (es_db s) = Inr (es_cache s)"
proof -
  have "cache_step ev_lib ev_engine engine_start (engine_start\<lparr>es_db := ev_approved\<rparr>)"
    by (rule cache_step.other) (use ev_approved_steps in \<open>simp add: engine_start_def ev_engine_def\<close>)
  then have steps: "(cache_step ev_lib ev_engine)\<^sup>*\<^sup>* engine_start (engine_start\<lparr>es_db := ev_approved\<rparr>)" ..
  from cache_mirrors_store [OF this] steps show ?thesis
    by (intro exI [of _ "engine_start\<lparr>es_db := ev_approved\<rparr>"]) simp
qed

text \<open>
  C27: When a rollback commits and replaces the cache between the transaction of an activation and
  its replacement of the cache, the engine ends with the policy of the rolled-back deployment in
  its cache while the store serves the policy from before the activation.
\<close>

theorem overlapping_rollback_revives_policy:
  assumes reach: "evo_reachable lib (eg_gate eng) (es_db s)"
    and act: "activate_commit lib eng now stamp cid actor reason (es_db s) = (t, Inr (d, p))"
    and roll: "rollback_active lib eng now2 actor2 reason2 (s\<lparr>es_db := t\<rparr>) = (u, Inr r)"
  shows "store_active_policy (es_db u) = store_active_policy (es_db s)
    \<and> map_option ap_deployment_id p = Some (rb_deployment_id r)
    \<and> store_active_policy (es_db (u\<lparr>es_cache := p\<rparr>)) \<noteq> Inr (es_cache (u\<lparr>es_cache := p\<rparr>))"
proof -
  have inv: "evo_inv (eg_gate eng) (es_db s)" using reach by (rule evo_reachable_inv)
  obtain label c where human: "human_label (eg_gate eng) label"
    and tx: "activate_tx lib now stamp cid label reason (es_db s) = Inr (t, d)"
    and c: "require_candidate cid (es_db s) = Inr c"
    and p: "p = Some \<lparr> ap_deployment_id = dp_id d, ap_candidate_id = cn_id c, ap_prompt_patch = cn_patch c \<rparr>"
    using act by (rule activate_commit_Inr)
  have inv_t: "evo_inv (eg_gate eng) t" by (rule activate_keeps_inv [OF inv human tx])
  from roll obtain q where "rollback_commit lib eng now2 actor2 reason2 t = (es_db u, Inr (r, q))"
    by (auto simp: rollback_active_def commit_and_replace_def split: prod.splits sum.splits)
  then obtain label2 where human2: "human_label (eg_gate eng) label2"
    and tx2: "rollback_tx lib now2 label2 reason2 t = Inr (es_db u, r)"
    by (rule rollback_commit_Inr)
  have inv_u: "evo_inv (eg_gate eng) (es_db u)" by (rule rollback_keeps_inv [OF inv_t tx2])
  have stack: "policy_stack (es_db u) = policy_stack (es_db s)"
    using rollback_stack(2) [OF inv_t tx2] activate_stack [OF inv tx] by simp
  then have same: "store_active_policy (es_db u) = store_active_policy (es_db s)"
    by (simp add: store_policy_is_top [OF inv] store_policy_is_top [OF inv_u])
  have id: "rb_deployment_id r = dp_id d"
    using rollback_stack(4) [OF inv_t tx2] activate_stack [OF inv tx] by (simp add: policy_on_def)
  have "dp_id d \<notin> set (map dp_id (ed_deployments (es_db s)))" using tx by (rule activate_changes)
  then have "\<forall>r \<in> set (ed_deployments (es_db s)). dp_id r \<noteq> dp_id d" by (metis image_eqI set_map)
  then have "ap_deployment_id x \<noteq> dp_id d" if "x \<in> set (policy_stack (es_db s))" for x
    using that by (auto simp: policy_stack_def policy_on_def live_def)
  moreover have "\<exists>x \<in> set (policy_stack (es_db s)). ap_deployment_id x = dp_id d"
    if "last_row (policy_stack (es_db s)) = p"
    using last_row_SomeD [OF that [unfolded p]] by (rule bexI [rotated]) simp
  ultimately have "last_row (policy_stack (es_db s)) \<noteq> p" by blast
  with same id show ?thesis by (simp add: store_policy_is_top [OF inv] p)
qed

lemma overlapping_rollback_revives_policy_witness:
  "\<exists>t u d r p.
    activate_commit ev_lib ev_engine 4 (2, 2) ''c'' ev_human ''go'' ev_approved = (t, Inr (d, p))
    \<and> rollback_active ev_lib ev_engine 5 ev_human ''bad'' \<lparr> es_db = t, es_cache = None \<rparr> = (u, Inr r)
    \<and> map_option ap_deployment_id p = Some (rb_deployment_id r)
    \<and> store_active_policy (es_db u) \<noteq> Inr p"
proof -
  let ?s = "\<lparr> es_db = ev_approved, es_cache = None \<rparr>"
  have inv: "evo_inv ev_gate ev_approved" using ev_approved_reachable by (rule evo_reachable_inv)
  from ev_activates obtain t d where
    tx: "activate_tx ev_lib 4 (2, 2) ''c'' ''human:h'' ''go'' ev_approved = Inr (t, d)"
    by (cases "activate_tx ev_lib 4 (2, 2) ''c'' ''human:h'' ''go'' ev_approved") auto
  from ev_has_candidate obtain c where c: "require_candidate ''c'' ev_approved = Inr c"
    by (cases "require_candidate ''c'' ev_approved") auto
  obtain p where act: "activate_commit ev_lib ev_engine 4 (2, 2) ''c'' ev_human ''go'' (es_db ?s) = (t, Inr (d, p))"
    by (simp add: activate_commit_def evo_bind_def evo_lift_def read_db_def run_tx_def ev_human_ok
        ev_actor_checks c tx)
  have inv_t: "evo_inv ev_gate t"
    by (rule activate_keeps_inv [OF inv _ tx]) (simp add: human_label_def starts_with_def)
  have "policy_stack t \<noteq> []" using activate_stack [OF inv tx] by simp
  from rollback_possible [OF inv_t this ev_actor_checks(2,3) ev_fits] obtain v r where
    "rollback_tx ev_lib 5 ''human:h'' ''bad'' t = Inr (v, r)" by metis
  then obtain u where roll: "rollback_active ev_lib ev_engine 5 ev_human ''bad'' (?s\<lparr>es_db := t\<rparr>) = (u, Inr r)"
    by (simp add: rollback_active_def commit_and_replace_def rollback_commit_def evo_bind_def evo_lift_def
        run_tx_def ev_human_ok ev_actor_checks)
  have "evo_reachable ev_lib (eg_gate ev_engine) (es_db ?s)"
    using ev_approved_reachable by (simp add: ev_engine_def)
  from overlapping_rollback_revives_policy [OF this act roll] act roll show ?thesis by auto
qed

end
