(* ===== verification/Evolution_Scores.thy ===== *)
theory Evolution_Scores
  imports Evolution_Example
begin

text \<open>
  What a scorecard says. The scores are quotients of rounded sums of weights; because rounding is
  monotone they stay between 0 and 1, and they are ordered like the sets of passed cases. The gate
  is characterised by the outcomes of the single cases.
\<close>

section \<open>Floating-point sums of weights\<close>

lemma round_f64_small:
  assumes "0 \<le> q" and "q \<le> 2 ^ 53"
  shows "round_f64 q = Fin (round_rat q)" and "0 \<le> round_rat q" and "round_rat q \<le> 2 ^ 53"
proof -
  have "round_rat (of_nat (2 ^ 53)) = (of_nat (2 ^ 53) :: rat)" by (rule round_rat_nat) simp
  then have "round_rat (2 ^ 53) = (2 ^ 53 :: rat)" by simp
  with round_rat_mono [OF assms(2)] show le: "round_rat q \<le> 2 ^ 53" by simp
  show nn: "0 \<le> round_rat q" using assms(1) by (rule round_rat_nonneg)
  have "(2::rat) ^ 53 < 2 ^ 1024" by (rule power_strict_increasing) simp_all
  with le nn show "round_f64 q = Fin (round_rat q)" by (simp add: round_f64_def Let_def)
qed

text \<open>A weight: positive, at most 100 and representable.\<close>

definition weight_ok :: "f64 \<Rightarrow> bool" where
  "weight_ok x \<longleftrightarrow> (\<exists>q. x = Fin q \<and> 0 < q \<and> q \<le> 100 \<and> round_rat q = q)"

lemma valid_weight:
  assumes "validate_eval_case c = Inr ()" and "f64_ok (vc_weight c)"
  shows "weight_ok (vc_weight c)"
  using assms by (cases "vc_weight c") (auto simp: validate_eval_case_def Let_def weight_ok_def f64_ok_def)

text \<open>Sums of at most \<open>n\<close> weights, kept in order: part, whole.\<close>

definition sum_ok :: "nat \<Rightarrow> f64 \<Rightarrow> bool" where
  "sum_ok n x \<longleftrightarrow> (\<exists>q. x = Fin q \<and> 0 \<le> q \<and> q \<le> 100 * of_nat n \<and> round_rat q = q)"

lemma sum_ok_0: "sum_ok n (Fin 0)"
  by (simp add: sum_ok_def)

lemma sum_ok_mono: "sum_ok m x \<Longrightarrow> m \<le> n \<Longrightarrow> sum_ok n x"
proof -
  assume "sum_ok m x" and "m \<le> n"
  moreover then have "(100::rat) * of_nat m \<le> 100 * of_nat n" by simp
  ultimately show ?thesis by (auto simp: sum_ok_def)
qed

lemma add_weight:
  assumes x: "sum_ok n x" and w: "weight_ok w" and n: "n < 2 ^ 40"
  obtains p q r where "x = Fin p" and "w = Fin q" and "f64_add x w = Fin r" and "r = round_rat (p + q)"
    and "p \<le> r" and "q \<le> r" and "sum_ok (Suc n) (Fin r)"
proof -
  from x obtain p where p: "x = Fin p" "0 \<le> p" "p \<le> 100 * of_nat n" "round_rat p = p"
    by (auto simp: sum_ok_def)
  from w obtain q where q: "w = Fin q" "0 < q" "q \<le> 100" "round_rat q = q" by (auto simp: weight_ok_def)
  have bound: "p + q \<le> of_nat (100 * Suc n)" using p(3) q(3) by (simp add: algebra_simps)
  have small: "100 * Suc n \<le> 2 ^ 53" using n by simp
  have big: "(of_nat (100 * Suc n) :: rat) \<le> of_nat (2 ^ 53)" using small by (rule of_nat_mono)
  then have le: "p + q \<le> 2 ^ 53" using bound by simp
  have fin: "f64_add x w = Fin (round_rat (p + q))"
    using round_f64_small(1) [OF _ le] p(2) q(2) by (simp add: p(1) q(1))
  have "p \<le> round_rat (p + q)" "q \<le> round_rat (p + q)"
    using round_rat_mono [of p "p + q"] round_rat_mono [of q "p + q"] p q by auto
  moreover have "round_rat (p + q) \<le> of_nat (100 * Suc n)"
    using round_rat_mono [OF bound] round_rat_nat [OF small] by simp
  then have "sum_ok (Suc n) (Fin (round_rat (p + q)))"
    using round_rat_nonneg [of "p + q"] p(2) q(2) by (simp add: sum_ok_def)
  ultimately show thesis using that [OF p(1) q(1) fin refl] by simp
qed

lemma add_weight_mono:
  assumes x: "sum_ok n x" and y: "sum_ok n y" and le: "f64_le x y" and w: "weight_ok w" and n: "n < 2 ^ 40"
  shows "f64_le (f64_add x w) (f64_add y w)" and "f64_le x (f64_add y w)"
proof -
  obtain p q r where x': "x = Fin p" "w = Fin q" "f64_add x w = Fin r" "r = round_rat (p + q)"
    by (rule add_weight [OF x w n])
  obtain p' q' r' where y': "y = Fin p'" "w = Fin q'" "f64_add y w = Fin r'" "r' = round_rat (p' + q')" "p' \<le> r'"
    by (rule add_weight [OF y w n])
  from le x'(1) y'(1) have pp: "p \<le> p'" by simp
  have qq: "q' = q" using x'(2) y'(2) by simp
  show "f64_le (f64_add x w) (f64_add y w)"
    unfolding x'(3) y'(3) x'(4) y'(4) qq f64_le.simps by (rule round_rat_mono) (simp add: pp)
  show "f64_le x (f64_add y w)" using pp y'(5) by (simp add: x'(1) y'(3))
qed

section \<open>The scorer's loop\<close>

definition passes :: "evo_lib \<Rightarrow> eval_case \<Rightarrow> string option \<Rightarrow> bool" where
  "passes lib c out = (case out of None \<Rightarrow> False | Some v \<Rightarrow> evaluate_assertions lib (vc_assertions c) v = [])"

definition regressed :: "evo_lib \<Rightarrow> outputs \<Rightarrow> outputs \<Rightarrow> eval_case \<Rightarrow> bool" where
  "regressed lib bo co c \<longleftrightarrow> passes lib c (bo (vc_id c)) \<and> \<not> passes lib c (co (vc_id c))"

definition tally_ok :: "nat \<Rightarrow> tally \<Rightarrow> bool" where
  "tally_ok n t \<longleftrightarrow> sum_ok n (ta_baseline_weight t) \<and> sum_ok n (ta_candidate_weight t) \<and> sum_ok n (ta_total_weight t)
     \<and> f64_le (ta_baseline_weight t) (ta_total_weight t) \<and> f64_le (ta_candidate_weight t) (ta_total_weight t)
     \<and> (ta_regressions t = 0 \<longrightarrow> f64_le (ta_baseline_weight t) (ta_candidate_weight t))
     \<and> (0 < n \<longrightarrow> f64_lt (Fin 0) (ta_total_weight t))"

lemma tally_ok_empty: "tally_ok 0 empty_tally"
  by (simp add: tally_ok_def empty_tally_def sum_ok_0)

lemma sum_ok_step:
  assumes "sum_ok n x" and "weight_ok w" and "n < 2 ^ 40"
  shows "sum_ok (Suc n) (if b then f64_add x w else x)"
proof (cases b)
  case True
  obtain p q r where "f64_add x w = Fin r" and "sum_ok (Suc n) (Fin r)" by (rule add_weight [OF assms])
  with True show ?thesis by simp
next
  case False
  with sum_ok_mono [OF assms(1), of "Suc n"] show ?thesis by simp
qed

lemma sum_le_step:
  assumes "sum_ok n x" and "sum_ok n y" and "f64_le x y" and "weight_ok w" and "n < 2 ^ 40" and "b \<Longrightarrow> d"
  shows "f64_le (if b then f64_add x w else x) (if d then f64_add y w else y)"
  using add_weight_mono [OF assms(1-5)] assms(3,6) by simp

lemma tally_case_ok:
  assumes t: "tally_ok n t" and w: "weight_ok (vc_weight c)" and n: "n < 2 ^ 40"
  shows "tally_ok (Suc n) (tally_case lib c benchmark b o' t)"
proof -
  let ?w = "vc_weight c" and ?u = "tally_case lib c benchmark b o' t"
  let ?b = "evaluate_assertions lib (vc_assertions c) b = []"
    and ?c = "evaluate_assertions lib (vc_assertions c) o' = []"
  from t have ok: "sum_ok n (ta_baseline_weight t)" "sum_ok n (ta_candidate_weight t)" "sum_ok n (ta_total_weight t)"
    and le: "f64_le (ta_baseline_weight t) (ta_total_weight t)" "f64_le (ta_candidate_weight t) (ta_total_weight t)"
    and reg: "ta_regressions t = 0 \<Longrightarrow> f64_le (ta_baseline_weight t) (ta_candidate_weight t)"
    by (simp_all add: tally_ok_def)
  have u: "ta_baseline_weight ?u = (if ?b then f64_add (ta_baseline_weight t) ?w else ta_baseline_weight t)"
    "ta_candidate_weight ?u = (if ?c then f64_add (ta_candidate_weight t) ?w else ta_candidate_weight t)"
    "ta_total_weight ?u = (if True then f64_add (ta_total_weight t) ?w else ta_total_weight t)"
    "ta_regressions ?u = ta_regressions t + (if ?b \<and> \<not> ?c then 1 else 0)"
    by (simp_all add: tally_case_def Let_def)
  obtain p q r where "?w = Fin q" "f64_add (ta_total_weight t) ?w = Fin r" "q \<le> r"
    by (rule add_weight [OF ok(3) w n])
  with w have "f64_lt (Fin 0) (ta_total_weight ?u)" by (auto simp: u weight_ok_def)
  moreover have "ta_regressions ?u = 0 \<Longrightarrow> f64_le (ta_baseline_weight ?u) (ta_candidate_weight ?u)"
    unfolding u(1,2) by (rule sum_le_step [OF ok(1,2) reg w n]) (auto simp: u(4) split: if_splits)
  moreover have "f64_le (ta_baseline_weight ?u) (ta_total_weight ?u)" "f64_le (ta_candidate_weight ?u) (ta_total_weight ?u)"
    unfolding u by (rule sum_le_step [OF ok(1,3) le(1) w n], rule TrueI) (rule sum_le_step [OF ok(2,3) le(2) w n], rule TrueI)
  moreover have "sum_ok (Suc n) (ta_baseline_weight ?u)" "sum_ok (Suc n) (ta_candidate_weight ?u)"
    "sum_ok (Suc n) (ta_total_weight ?u)"
    unfolding u by (rule sum_ok_step [OF _ w n], rule ok)+
  ultimately show ?thesis by (simp add: tally_ok_def)
qed

text \<open>What the loop counts, over the cases with their benchmark flag.\<close>

lemma score_cases_ok:
  assumes "score_cases lib bo co cs t = Inr t'" and "tally_ok n t" and "n + length cs < 2 ^ 40"
    and "\<And>c. c \<in> set cs \<Longrightarrow> f64_ok (vc_weight (fst c))"
  shows "tally_ok (n + length cs) t'"
  using assms
proof (induction cs arbitrary: n t)
  case (Cons x cs)
  obtain c benchmark where x: "x = (c, benchmark)" by force
  with Cons.prems(1) obtain b o' where valid: "validate_eval_case c = Inr ()"
    and rest: "score_cases lib bo co cs (tally_case lib c benchmark b o' t) = Inr t'" by auto
  have w: "weight_ok (vc_weight c)" using valid_weight [OF valid] Cons.prems(4) [of x] by (simp add: x)
  have "tally_ok (Suc n) (tally_case lib c benchmark b o' t)"
    by (rule tally_case_ok [OF Cons.prems(2) w]) (use Cons.prems(3) in simp)
  from Cons.IH [OF rest this] Cons.prems(3,4) show ?case by simp
qed simp

lemma score_cases_counts:
  assumes "score_cases lib bo co cs t = Inr t'"
  shows "ta_regressions t' = ta_regressions t + count_where (\<lambda>c. regressed lib bo co (fst c)) cs"
    and "ta_benchmark_regressions t' = ta_benchmark_regressions t + count_where (\<lambda>c. regressed lib bo co (fst c) \<and> snd c) cs"
    and "ta_baseline_passed t' = ta_baseline_passed t + count_where (\<lambda>c. passes lib (fst c) (bo (vc_id (fst c)))) cs"
    and "ta_candidate_passed t' = ta_candidate_passed t + count_where (\<lambda>c. passes lib (fst c) (co (vc_id (fst c)))) cs"
    and "length (ta_results t') = length (ta_results t) + length cs"
  using assms
  by (induction cs arbitrary: t)
    (auto simp: regressed_def passes_def tally_case_def Let_def)

section \<open>Scorecards and the gate\<close>

definition scored_cases :: "eval_case list \<Rightarrow> benchmark_suite option \<Rightarrow> (eval_case \<times> bool) list" where
  "scored_cases cases suite =
     map (\<lambda>c. (c, False)) (filter vc_enabled cases) @ map (\<lambda>c. (c, True)) (filter vc_enabled (suite_cases suite))"

lemma score_with_benchmark_Inr:
  assumes "score_with_benchmark lib cases suite bo co = Inr s"
  obtains t where "score_cases lib bo co (scored_cases cases suite) empty_tally = Inr t"
    and "s = scorecard_of suite t" and "scored_cases cases suite \<noteq> []" and "length (scored_cases cases suite) \<le> 66"
proof (cases suite)
  case None
  with assms that show thesis
    by (auto simp: score_with_benchmark_def Let_def scored_cases_def suite_cases_def max_enabled_eval_cases_def)
next
  case (Some b)
  with assms have "length (bs_cases b) \<le> 16"
    by (auto simp: score_with_benchmark_def Let_def validate_benchmark_suite_def)
  then have "length (filter vc_enabled (bs_cases b)) \<le> 16" by (rule order_trans [OF length_filter_le])
  with Some assms that show thesis
    by (auto simp: score_with_benchmark_def Let_def scored_cases_def suite_cases_def max_enabled_eval_cases_def)
qed

text \<open>Enabled cases and their weights, as they reach the scorer.\<close>

lemma scored_cases_mem: "fst ` set (scored_cases cases suite) \<subseteq> set (cases @ suite_cases suite)"
  by (auto simp: scored_cases_def)

lemma count_scored:
  "count_where (\<lambda>c. p (fst c)) (scored_cases cases suite) = count_where p (filter vc_enabled (cases @ suite_cases suite))"
  "count_where (\<lambda>c. p (fst c) \<and> snd c) (scored_cases cases suite) = count_where p (filter vc_enabled (suite_cases suite))"
  by (simp_all add: scored_cases_def count_where_map)

lemma f64_div_unit:
  assumes "x = Fin p" and "y = Fin q" and "0 \<le> p" and "p \<le> q" and "0 < q"
  shows "f64_div x y = Fin (round_rat (p / q))" and "0 \<le> round_rat (p / q)" and "round_rat (p / q) \<le> 1"
proof -
  have u: "0 \<le> p / q" "p / q \<le> 1" using assms(3-5) by simp_all
  show "0 \<le> round_rat (p / q)" using u(1) by (rule round_rat_nonneg)
  show "round_rat (p / q) \<le> 1" using round_rat_mono [OF u(2)] by simp
  have "p / q \<le> 2 ^ 53" using u(2) by (rule order_trans) simp
  then show "f64_div x y = Fin (round_rat (p / q))"
    using assms(5) round_f64_small(1) [OF u(1)] by (simp add: assms(1,2))
qed

lemma f64_sub_unit:
  assumes "0 \<le> b" and "b \<le> 1" and "0 \<le> c" and "c \<le> (1::rat)"
  shows "f64_sub (Fin c) (Fin b) = Fin (round_rat (c - b))" and "\<bar>round_rat (c - b)\<bar> \<le> 1"
proof -
  have "round_rat (- 1) = (- 1 :: rat)" using round_rat_int [of "- 1"] by simp
  with round_rat_mono [of "- 1" "c - b"] round_rat_mono [of "c - b" 1] assms
  show unit: "\<bar>round_rat (c - b)\<bar> \<le> 1" by (simp add: abs_le_iff)
  have "(1::rat) < 2 ^ 1024" by (rule one_less_power) simp_all
  with unit have "\<bar>round_rat (c - b)\<bar> < of_int (2 ^ 1024)" by simp
  then show "f64_sub (Fin c) (Fin b) = Fin (round_rat (c - b))"
    by (simp add: f64_sub_def round_f64_def Let_def)
qed

text \<open>Two operator cases and one benchmark case; the candidate passes all, the baseline two of them.\<close>

definition sx_cases :: "eval_case list" where
  "sx_cases = [ev_case ''a'', (ev_case ''b'')\<lparr>vc_weight := Fin 2\<rparr>]"

definition sx_suite :: benchmark_suite where
  "sx_suite = \<lparr> bs_id = ''s'', bs_version = ''1'', bs_cases = [ev_case ''c''] \<rparr>"

definition sx_baseline :: outputs where
  "sx_baseline = [''a'' \<mapsto> ''bad'', ''b'' \<mapsto> ''good'', ''c'' \<mapsto> ''good'']"

definition sx_candidate :: outputs where
  "sx_candidate = [''a'' \<mapsto> ''good'', ''b'' \<mapsto> ''good'', ''c'' \<mapsto> ''good'']"

lemma sx_scored: "\<not> isl (score_with_benchmark ev_lib sx_cases (Some sx_suite) sx_baseline sx_candidate)"
  by code_simp

lemma sx_weights: "list_all (\<lambda>c. f64_ok (vc_weight c)) (sx_cases @ suite_cases (Some sx_suite))"
  by code_simp

lemma sx_card: obtains s where "score_with_benchmark ev_lib sx_cases (Some sx_suite) sx_baseline sx_candidate = Inr s"
  using sx_scored by (cases "score_with_benchmark ev_lib sx_cases (Some sx_suite) sx_baseline sx_candidate") auto

text \<open>
  C31: Scores are proper fractions. Whatever the weights, a scorecard holds finite scores between 0
  and 1 and a difference between -1 and 1; and when no case regressed, the candidate's score is not
  below the baseline's, in spite of the rounding of every sum, quotient and difference.
\<close>

theorem scores_bounded:
  assumes score: "score_with_benchmark lib cases suite bo co = Inr s"
    and weights: "\<forall>c \<in> set (cases @ suite_cases suite). f64_ok (vc_weight c)"
  shows "\<exists>b c d. sc_baseline_score s = Fin b \<and> sc_candidate_score s = Fin c \<and> sc_score_delta s = Fin d
    \<and> 0 \<le> b \<and> b \<le> 1 \<and> 0 \<le> c \<and> c \<le> 1 \<and> \<bar>d\<bar> \<le> 1 \<and> (sc_regressions s = 0 \<longrightarrow> b \<le> c \<and> 0 \<le> d)"
proof -
  let ?n = "length (scored_cases cases suite)"
  obtain t where t: "score_cases lib bo co (scored_cases cases suite) empty_tally = Inr t"
    and s: "s = scorecard_of suite t" and n: "0 < ?n" "?n \<le> 66"
    by (rule score_with_benchmark_Inr [OF score]) auto
  have "tally_ok (0 + ?n) t"
    by (rule score_cases_ok [OF t tally_ok_empty]) (use n weights scored_cases_mem [of cases suite] in auto)
  with n(1) obtain x y z where xyz: "ta_baseline_weight t = Fin x" "ta_candidate_weight t = Fin y" "ta_total_weight t = Fin z"
    "0 \<le> x" "0 \<le> y" "x \<le> z" "y \<le> z" "0 < z" and reg: "ta_regressions t = 0 \<Longrightarrow> x \<le> y"
    by (auto simp: tally_ok_def sum_ok_def)
  note b = f64_div_unit [OF xyz(1,3,4,6,8)] and c = f64_div_unit [OF xyz(2,3,5,7,8)]
  note d = f64_sub_unit [OF b(2,3) c(2,3)]
  have "round_rat (x / z) \<le> round_rat (y / z) \<and> 0 \<le> round_rat (round_rat (y / z) - round_rat (x / z))"
    if "ta_regressions t = 0"
  proof -
    have "x / z \<le> y / z" using reg [OF that] xyz(8) by (simp add: divide_right_mono)
    then have "round_rat (x / z) \<le> round_rat (y / z)" by (rule round_rat_mono)
    then show ?thesis by (simp add: round_rat_nonneg)
  qed
  with b c d show ?thesis by (simp add: s scorecard_of_def Let_def)
qed

lemma scores_bounded_witness:
  "\<exists>s b c. score_with_benchmark ev_lib sx_cases (Some sx_suite) sx_baseline sx_candidate = Inr s
    \<and> sc_baseline_score s = Fin b \<and> sc_candidate_score s = Fin c \<and> 0 \<le> b \<and> c \<le> 1"
proof (rule sx_card)
  fix s assume s: "score_with_benchmark ev_lib sx_cases (Some sx_suite) sx_baseline sx_candidate = Inr s"
  from scores_bounded [OF s] sx_weights s show ?thesis by (auto simp: list_all_iff)
qed

text \<open>
  C30: The gate accepts exactly the candidates it is meant to: enough enabled cases were scored, the
  score and its gain reach their minima, at most the tolerated number of enabled cases that the
  baseline passes fail under the candidate, and no benchmark case does.
\<close>

theorem gate_verdict_exact:
  assumes score: "score_with_benchmark lib cases suite bo co = Inr s"
  shows "gate_decide g s = DecisionReady \<longleftrightarrow>
    gc_min_eval_cases g \<le> length (filter vc_enabled (cases @ suite_cases suite))
    \<and> \<not> f64_lt (sc_candidate_score s) (gc_min_candidate_score g)
    \<and> \<not> f64_lt (sc_score_delta s) (gc_min_score_delta g)
    \<and> length (filter (regressed lib bo co) (filter vc_enabled (cases @ suite_cases suite))) \<le> gc_max_regressions g
    \<and> filter (regressed lib bo co) (filter vc_enabled (suite_cases suite)) = []"
proof -
  obtain t where t: "score_cases lib bo co (scored_cases cases suite) empty_tally = Inr t"
    and s: "s = scorecard_of suite t"
    by (rule score_with_benchmark_Inr [OF score])
  have counts: "sc_regressions s = length (filter (regressed lib bo co) (filter vc_enabled (cases @ suite_cases suite)))"
    "sc_benchmark_regressions s = length (filter (regressed lib bo co) (filter vc_enabled (suite_cases suite)))"
    "sc_total_cases s = length (filter vc_enabled (cases @ suite_cases suite))"
    using score_cases_counts [OF t]
    by (simp_all add: s scorecard_of_def Let_def count_scored empty_tally_def)
      (simp_all add: count_where_def scored_cases_def)
  show ?thesis
    unfolding gate_decide_def decide_reasons_def Let_def counts
    by (simp add: not_less)
qed

lemma gate_verdict_exact_witness:
  "\<exists>s. score_with_benchmark ev_lib sx_cases (Some sx_suite) sx_baseline sx_candidate = Inr s
    \<and> (gate_decide ev_gate s = DecisionReady \<longleftrightarrow>
        \<not> f64_lt (sc_candidate_score s) (Fin (1 / 2)) \<and> \<not> f64_lt (sc_score_delta s) (Fin 0))"
proof (rule sx_card)
  fix s assume s: "score_with_benchmark ev_lib sx_cases (Some sx_suite) sx_baseline sx_candidate = Inr s"
  let ?r = "filter (regressed ev_lib sx_baseline sx_candidate)"
  have "?r (filter vc_enabled (sx_cases @ suite_cases (Some sx_suite))) = []"
    "?r (filter vc_enabled (suite_cases (Some sx_suite))) = []"
    "gc_min_eval_cases ev_gate \<le> length (filter vc_enabled (sx_cases @ suite_cases (Some sx_suite)))"
    by code_simp+
  then have "gate_decide ev_gate s = DecisionReady \<longleftrightarrow>
      \<not> f64_lt (sc_candidate_score s) (Fin (1 / 2)) \<and> \<not> f64_lt (sc_score_delta s) (Fin 0)"
    unfolding gate_verdict_exact [OF s, of ev_gate] by (simp only: list.size ev_gate_def gate_config.simps) simp
  with s show ?thesis by blast
qed

end
