(* ===== verification/Evolution_Resume.thy ===== *)
theory Evolution_Resume
  imports Evolution_Example
begin

text \<open>
  Evaluation case by case against evaluation in one go. The cursor of a running evaluation only
  carries what the loop of the one-go evaluation keeps in variables, so driving
  \<open>run_evaluation_step\<close> to its end does what \<open>evaluate_candidate_with_limit\<close> does.
\<close>

section \<open>Operations that do not look at the cursors\<close>

definition put_runs :: "eval_run list \<Rightarrow> evo_db \<Rightarrow> evo_db" where
  "put_runs rs db = db\<lparr>ed_runs := rs\<rparr>"

lemma put_runs_simps [simp]:
  "ed_candidates (put_runs rs db) = ed_candidates db" "ed_cases (put_runs rs db) = ed_cases db"
  "ed_evaluations (put_runs rs db) = ed_evaluations db" "ed_deployments (put_runs rs db) = ed_deployments db"
  "ed_active (put_runs rs db) = ed_active db" "ed_audit (put_runs rs db) = ed_audit db"
  "ed_runs (put_runs rs db) = rs" "put_runs rs (put_runs qs db) = put_runs rs db" "put_runs (ed_runs db) db = db"
  by (simp_all add: put_runs_def)

definition runs_free :: "'a evo \<Rightarrow> bool" where
  "runs_free m \<longleftrightarrow> (\<forall>rs db. m (put_runs rs db) = apfst (put_runs rs) (m db))"

lemma runs_free_lift: "runs_free (evo_lift x)"
  by (simp add: runs_free_def evo_lift_def)

lemma runs_free_read: "(\<And>rs db. f (put_runs rs db) = f db) \<Longrightarrow> runs_free (read_db f)"
  by (simp add: runs_free_def read_db_def)

lemma runs_free_bind:
  assumes "runs_free m" and "\<And>x. runs_free (k x)"
  shows "runs_free (evo_bind m k)"
  unfolding runs_free_def
proof (intro allI)
  fix rs db
  obtain t r where m: "m db = (t, r)" by force
  then have "m (put_runs rs db) = (put_runs rs t, r)" using assms(1) by (simp add: runs_free_def)
  with m assms(2) show "evo_bind m k (put_runs rs db) = apfst (put_runs rs) (evo_bind m k db)"
    by (cases r) (simp_all add: evo_bind_def runs_free_def)
qed

text \<open>The same for a transaction.\<close>

definition tx_free :: "'a evo_tx \<Rightarrow> bool" where
  "tx_free tx \<longleftrightarrow> (\<forall>rs db. tx (put_runs rs db) = map_sum id (apfst (put_runs rs)) (tx db))"

lemma runs_free_tx: "tx_free tx \<Longrightarrow> runs_free (run_tx tx)"
  by (auto simp: tx_free_def runs_free_def run_tx_def split: sum.split)

lemma audit_put_runs:
  "insert_audit_event lib now c d e actor details (put_runs rs db)
    = map_sum id (put_runs rs) (insert_audit_event lib now c d e actor details db)"
  by (simp add: insert_audit_event_def and_then_def ensure_def put_runs_def split: sum.split)

lemma find_candidate_put_runs [simp]: "find_candidate cid (put_runs rs db) = find_candidate cid db"
  by (simp add: find_candidate_def)

lemma require_candidate_put_runs [simp]: "require_candidate cid (put_runs rs db) = require_candidate cid db"
  by (simp add: require_candidate_def get_candidate_def)

lemma list_eval_cases_put_runs [simp]: "list_eval_cases e (put_runs rs db) = list_eval_cases e db"
  by (simp add: list_eval_cases_def)

lemma put_runs_fields:
  "(put_runs rs db)\<lparr>ed_candidates := cs\<rparr> = put_runs rs (db\<lparr>ed_candidates := cs\<rparr>)"
  "(put_runs rs db)\<lparr>ed_evaluations := vs\<rparr> = put_runs rs (db\<lparr>ed_evaluations := vs\<rparr>)"
  by (simp_all add: put_runs_def)

lemma evaluation_tx_free: "tx_free (record_evaluation_tx lib now d)"
  unfolding tx_free_def record_evaluation_tx_def
  by (simp add: put_runs_fields audit_put_runs and_then_def ensure_def split: sum.split)

lemma transition_tx_free: "tx_free (transition_tx lib now cid expected nxt actor details)"
  unfolding tx_free_def transition_tx_def Let_def
  by (simp add: put_runs_fields audit_put_runs and_then_def ensure_def split: sum.split)

lemma transition_free: "runs_free (transition_candidate lib now cid expected nxt actor details)"
  unfolding transition_candidate_def
  by (intro runs_free_bind runs_free_tx transition_tx_free runs_free_read) simp

lemma finalize_free: "runs_free (finalize_shadow_evaluation lib eng clk stamp cand cases suite baseline_id acc)"
  unfolding finalize_shadow_evaluation_def Let_def
  by (cases acc)
    (auto split: promotion_decision.split
      intro!: runs_free_bind runs_free_lift runs_free_tx evaluation_tx_free transition_free)

lemma runs_free_Inr: "runs_free m \<Longrightarrow> m db = (t, r) \<Longrightarrow> m (put_runs rs db) = (put_runs rs t, r)"
  by (simp add: runs_free_def)

lemma runs_free_kept: "runs_free m \<Longrightarrow> m db = (t, r) \<Longrightarrow> ed_runs t = ed_runs db"
  using runs_free_Inr [of m db t r "ed_runs db"] by (metis put_runs_simps(7,9) prod.inject)

section \<open>One step\<close>

text \<open>An evaluation looks at the id and the patch of its candidate only.\<close>

lemma run_case_cong:
  "cn_id c' = cn_id c \<Longrightarrow> cn_patch c' = cn_patch c \<Longrightarrow> run_case ask k b c' = run_case ask k b c"
  by (intro ext) (simp add: run_case_def)

lemma finalize_cong:
  "cn_id c' = cn_id c \<Longrightarrow> finalize_shadow_evaluation lib eng clk stamp c' = finalize_shadow_evaluation lib eng clk stamp c"
  by (intro ext) (simp only: finalize_shadow_evaluation_def)

lemma run_case_shift: "run_case (\<lambda>j. ask (k + j)) 0 = run_case ask k"
  by (intro ext) (simp add: run_case_def shadow_complete_def)

lemma starts_evaluating:
  assumes "start_evaluation lib eng now cid expected db = (t, r)" and "require_candidate cid db = Inr c"
    and "cn_status c = expected" and "\<not> isl r"
  obtains c' where "require_candidate cid t = Inr c'" and "cn_id c' = cn_id c" and "cn_patch c' = cn_patch c"
    and "list_eval_cases True t = list_eval_cases True db" and "ed_runs t = ed_runs db"
proof -
  let ?hit = "\<lambda>r. cn_id r = cid \<and> cn_status r = expected"
  from assms(2) obtain r0 where r0: "find_candidate cid db = Some r0" "candidate_from_row r0 = Inr c"
    by (auto simp: require_candidate_def get_candidate_def decode_opt_def split: option.splits)
  from assms(4) obtain y where "r = Inr y" by (cases r) auto
  with assms(1) obtain u where "transition_tx lib now cid expected CandEvaluating engine_actor
      (JObj [(''model'', JStr (eg_model eng))]) db = Inr (t, u)"
    by (auto simp: start_evaluation_def transition_candidate_def bind_Inr run_tx_Inr)
  note t = transition_changes(1) [OF this]
  have same: "list_eval_cases True t = list_eval_cases True db" "ed_runs t = ed_runs db"
    by (simp_all add: t list_eval_cases_def)
  have "cn_status r0 = expected" "cn_id r0 = cid"
    using r0 assms(3) find_SomeD [of _ "ed_candidates db" r0]
    by (auto simp: candidate_from_row_def find_candidate_def)
  moreover have "find_candidate cid t = map_option (\<lambda>r. if ?hit r then moved_row now CandEvaluating r else r) (find_candidate cid db)"
    by (simp add: find_candidate_def t find_update_where moved_row_def)
  ultimately have "find_candidate cid t = Some (moved_row now CandEvaluating r0)" using r0(1) by simp
  with r0(2) have "require_candidate cid t = Inr (c\<lparr>cn_status := CandEvaluating, cn_updated_at := now\<rparr>)"
    by (auto simp: require_candidate_def get_candidate_def decode_opt_def candidate_from_row_def moved_row_def)
  then show thesis by (rule that [OF _ _ _ same]) simp_all
qed

text \<open>A cursor in the table, with the rows of other candidates before it.\<close>

definition other_runs :: "string \<Rightarrow> string \<Rightarrow> eval_run list \<Rightarrow> bool" where
  "other_runs cid rid rs \<longleftrightarrow> (\<forall>r \<in> set rs. vr_candidate r \<noteq> cid \<and> vr_id r \<noteq> rid)"

lemma cursor_found:
  assumes "other_runs (vr_candidate run) (vr_id run) rs"
  shows "get_eval_run (vr_candidate run) (put_runs (rs @ [run]) db) = Some run"
proof -
  have "find (\<lambda>r. vr_candidate r = vr_candidate run) rs = None"
    using assms by (auto simp: find_None_iff other_runs_def)
  then show ?thesis by (simp add: get_eval_run_def find_append)
qed

lemma cursor_stored:
  assumes "other_runs (vr_candidate run) (vr_id run) rs" and "vr_candidate run' = vr_candidate run" and "vr_id run' = vr_id run"
  shows "upsert_eval_run run' (put_runs (rs @ [run]) db) = Inr (put_runs (rs @ [run']) db, ())"
proof -
  have "update_where (\<lambda>r. vr_candidate r = vr_candidate run) (\<lambda>_. run') rs = rs"
    using assms(1) by (intro update_where_none) (auto simp: other_runs_def)
  with assms show ?thesis
    by (auto simp: upsert_eval_run_def other_runs_def put_runs_def)
qed

lemma cursor_created:
  assumes "other_runs (vr_candidate run) (vr_id run) rs"
  shows "upsert_eval_run run (put_runs rs db) = Inr (put_runs (rs @ [run]) db, ())"
  using assms by (auto simp: upsert_eval_run_def other_runs_def put_runs_def)

lemma cursor_cleared:
  assumes "other_runs (vr_candidate run) rid rs"
  shows "clear_eval_run (vr_candidate run) (put_runs (rs @ [run]) db) = Inr (put_runs rs db, ())"
  using assms by (auto simp: clear_eval_run_def other_runs_def put_runs_def intro!: filter_True)

text \<open>What a step does from a cursor on, with the candidate as it is now.\<close>

definition step_from ::
  "evo_lib \<Rightarrow> evo_engine \<Rightarrow> provider \<Rightarrow> (nat \<Rightarrow> int) \<Rightarrow> nat \<times> nat \<Rightarrow> candidate_row \<Rightarrow> nat \<Rightarrow> eval_run \<Rightarrow> eval_step_outcome evo" where
  "step_from lib eng ask clk stamp cand max_bytes run =
     evo_bind (evo_lift (ensure (vr_case_index run < length (vr_cases run)) (ERun IndexOutOfRange)
         (Inr (vr_cases run ! vr_case_index run)))) (\<lambda>c.
     evo_bind (evo_lift (run_case ask 0 (vr_baseline run) cand max_bytes c (vr_response_bytes run))) (\<lambda>r.
     let run' = advance_run c r run
     in if vr_case_index run' < length (vr_cases run')
        then evo_bind (run_tx (upsert_eval_run run')) (\<lambda>_.
          evo_lift (Inr (StepProgress (vr_case_index run') (length (vr_cases run')) (vr_response_bytes run'))))
        else finish_eval_run lib eng clk stamp cand run'))"

lemma step_current:
  assumes "0 < max_bytes" and "current_eval_run lib eng cache clk stamp cid db = (db', Inr run)"
    and "require_candidate cid db' = Inr cand"
  shows "run_evaluation_step lib eng ask cache clk stamp cid max_bytes db = step_from lib eng ask clk stamp cand max_bytes run db'"
  unfolding run_evaluation_step_def step_from_def using assms(1)
  by (simp add: evo_bind_def [of "current_eval_run lib eng cache clk stamp cid"] assms(2)
      bind_read [of "require_candidate cid", OF assms(3)])

lemma step_resumes:
  assumes "0 < max_bytes" and "get_eval_run cid db = Some run" and "require_candidate cid db = Inr cand"
  shows "run_evaluation_step lib eng ask cache clk stamp cid max_bytes db = step_from lib eng ask clk stamp cand max_bytes run db"
  by (rule step_current [OF assms(1) _ assms(3)], unfold current_eval_run_def, subst bind_read [OF refl])
    (simp add: assms(2) evo_lift_def)

section \<open>Driving an evaluation to its end\<close>

text \<open>
  The steps of an evaluation, as the work items of the loop engine run them: the provider answers
  the requests of step after step, and the cached policy may change between the steps.
\<close>

fun drive_evaluation ::
  "evo_lib \<Rightarrow> evo_engine \<Rightarrow> provider \<Rightarrow> (nat \<Rightarrow> active_policy option) \<Rightarrow> (nat \<Rightarrow> int) \<Rightarrow> nat \<times> nat \<Rightarrow> string
   \<Rightarrow> nat \<Rightarrow> nat \<Rightarrow> nat \<Rightarrow> (evaluation_row \<times> nat) option evo" where
  "drive_evaluation lib eng ask caches clk stamp cid max_bytes 0 k = evo_lift (Inr None)"
| "drive_evaluation lib eng ask caches clk stamp cid max_bytes (Suc n) k =
     evo_bind (run_evaluation_step lib eng (\<lambda>j. ask (k + j)) (caches k) clk stamp cid max_bytes) (\<lambda>out.
       case out of
         StepProgress _ _ _ \<Rightarrow> drive_evaluation lib eng ask caches clk stamp cid max_bytes n (k + 2)
       | StepCompleted v b \<Rightarrow> evo_lift (Inr (Some (v, b))))"

text \<open>What is left to do from a cursor on, without the cursor.\<close>

definition rest_of ::
  "evo_lib \<Rightarrow> evo_engine \<Rightarrow> provider \<Rightarrow> (nat \<Rightarrow> int) \<Rightarrow> nat \<times> nat \<Rightarrow> candidate_row \<Rightarrow> nat \<Rightarrow> nat \<Rightarrow> eval_run
   \<Rightarrow> (evaluation_row \<times> nat) evo" where
  "rest_of lib eng ask clk stamp cand max_bytes k run =
     evo_bind (evo_lift (run_cases ask k (vr_baseline run) cand max_bytes (drop (vr_case_index run) (vr_cases run))
         (vr_baseline_outputs run, vr_candidate_outputs run, vr_response_bytes run))) (\<lambda>acc.
       finalize_shadow_evaluation lib eng clk stamp cand
         (take (length (vr_cases run) - vr_benchmark_tail run) (vr_cases run)) (run_suite eng run)
         (map_option fst (vr_baseline run)) acc)"

lemma rest_of_cons:
  assumes "vr_case_index run < length (vr_cases run)"
  shows "rest_of lib eng ask clk stamp cand max_bytes k run =
    evo_bind (evo_lift (run_case ask k (vr_baseline run) cand max_bytes (vr_cases run ! vr_case_index run) (vr_response_bytes run)))
      (\<lambda>r. rest_of lib eng ask clk stamp cand max_bytes (k + 2) (advance_run (vr_cases run ! vr_case_index run) r run))"
proof -
  have "drop (vr_case_index run) (vr_cases run) = vr_cases run ! vr_case_index run # drop (Suc (vr_case_index run)) (vr_cases run)"
    using assms by (simp add: Cons_nth_drop_Suc)
  then show ?thesis
    by (cases "run_case ask k (vr_baseline run) cand max_bytes (vr_cases run ! vr_case_index run) (vr_response_bytes run)")
      (auto simp: rest_of_def advance_run_def run_suite_def)
qed

lemma rest_of_end:
  assumes "\<not> vr_case_index run < length (vr_cases run)"
  shows "finish_eval_run lib eng clk stamp cand run =
    evo_bind (rest_of lib eng ask clk stamp cand max_bytes k run)
      (\<lambda>(v, n). evo_bind (run_tx (clear_eval_run (vr_candidate run))) (\<lambda>_. evo_lift (Inr (StepCompleted v n))))"
  using assms by (simp add: finish_eval_run_def rest_of_def)

lemma rest_of_free: "runs_free (rest_of lib eng ask clk stamp cand max_bytes k run)"
  unfolding rest_of_def by (intro runs_free_bind runs_free_lift finalize_free)

lemma drive_from_cursor:
  assumes "0 < max_bytes" and "require_candidate cid db = Inr cand"
    and "vr_candidate run = cid" and "other_runs cid (vr_id run) rs"
    and "vr_case_index run < length (vr_cases run)" and "n = length (vr_cases run) - vr_case_index run"
  shows "(drive_evaluation lib eng ask caches clk stamp cid max_bytes n k (put_runs (rs @ [run]) db) = (t, Inr (Some res)))
    \<longleftrightarrow> (rest_of lib eng ask clk stamp cand max_bytes k run (put_runs rs db) = (t, Inr res))"
  using assms
proof (induction n arbitrary: k run)
  case 0
  then show ?case by simp
next
  case (Suc n)
  let ?i = "vr_case_index run" and ?db = "put_runs (rs @ [run]) db"
  let ?c = "vr_cases run ! ?i"
  obtain x where x: "run_case ask k (vr_baseline run) cand max_bytes ?c (vr_response_bytes run) = x" by simp
  have step: "run_evaluation_step lib eng (\<lambda>j. ask (k + j)) (caches k) clk stamp cid max_bytes ?db
    = step_from lib eng (\<lambda>j. ask (k + j)) clk stamp cand max_bytes run ?db"
    using Suc.prems by (intro step_resumes) (auto intro: cursor_found)
  show ?case
  proof (cases x)
    case (Inl e)
    then show ?thesis
      using Suc.prems(5) by (simp add: evo_bind_def [of "run_evaluation_step _ _ _ _ _ _ _ _"] step step_from_def
          run_case_shift x rest_of_cons evo_lift_def)
  next
    case (Inr r)
    let ?run = "advance_run ?c r run"
    have adv: "vr_candidate ?run = cid" "vr_id ?run = vr_id run" "vr_cases ?run = vr_cases run"
      "vr_case_index ?run = Suc ?i"
      using Suc.prems(3) by (simp_all add: advance_run_def split: prod.split)
    have rest: "rest_of lib eng ask clk stamp cand max_bytes k run = rest_of lib eng ask clk stamp cand max_bytes (k + 2) ?run"
      using Suc.prems(5) by (simp add: rest_of_cons x Inr)
    show ?thesis
    proof (cases "Suc ?i < length (vr_cases run)")
      case True
      have "step_from lib eng (\<lambda>j. ask (k + j)) clk stamp cand max_bytes run ?db
        = (put_runs (rs @ [?run]) db, Inr (StepProgress (Suc ?i) (length (vr_cases run)) (vr_response_bytes ?run)))"
        using Suc.prems(3-5) True cursor_stored [of run rs ?run db]
        by (simp add: step_from_def run_case_shift x Inr adv Let_def evo_bind_def run_tx_def evo_lift_def)
      moreover have "(drive_evaluation lib eng ask caches clk stamp cid max_bytes n (k + 2) (put_runs (rs @ [?run]) db) = (t, Inr (Some res)))
        \<longleftrightarrow> (rest_of lib eng ask clk stamp cand max_bytes (k + 2) ?run (put_runs rs db) = (t, Inr res))"
        by (rule Suc.IH) (use Suc.prems True in \<open>simp_all add: adv\<close>)
      ultimately show ?thesis
        by (simp add: evo_bind_def [of "run_evaluation_step _ _ _ _ _ _ _ _"] step rest)
    next
      case False
      then have last: "step_from lib eng (\<lambda>j. ask (k + j)) clk stamp cand max_bytes run ?db
        = finish_eval_run lib eng clk stamp cand ?run ?db"
        using Suc.prems(5) by (simp add: step_from_def run_case_shift x Inr adv Let_def)
      obtain u y where u: "rest_of lib eng ask clk stamp cand max_bytes (k + 2) ?run (put_runs rs db) = (u, y)" by force
      have at: "rest_of lib eng ask clk stamp cand max_bytes (k + 2) ?run ?db = (put_runs (rs @ [run]) u, y)"
        using runs_free_Inr [OF rest_of_free u, of "rs @ [run]"] by simp
      have "ed_runs u = rs" using runs_free_kept [OF rest_of_free u] by simp
      then have "put_runs rs u = u" by (metis put_runs_simps(9))
      moreover have "clear_eval_run cid (put_runs (rs @ [run]) u) = Inr (put_runs rs u, ())"
        using cursor_cleared [of run "vr_id run" rs u] Suc.prems(3,4) by simp
      ultimately have "finish_eval_run lib eng clk stamp cand ?run ?db
        = (case y of Inl e \<Rightarrow> (put_runs (rs @ [run]) u, Inl e) | Inr (v, m) \<Rightarrow> (u, Inr (StepCompleted v m)))"
        using False at by (subst rest_of_end [where ask = ask and max_bytes = max_bytes and k = "k + 2"])
          (auto simp: adv evo_bind_def run_tx_def evo_lift_def split: sum.split)
      moreover have "rest_of lib eng ask clk stamp cand max_bytes k run (put_runs rs db) = (u, y)"
        by (simp only: rest u)
      ultimately show ?thesis
        by (cases y) (auto simp: evo_bind_def [of "run_evaluation_step _ _ _ _ _ _ _ _"] step last evo_lift_def)
    qed
  qed
qed

section \<open>The first step, and the equivalence\<close>

definition all_cases :: "evo_engine \<Rightarrow> evo_db \<Rightarrow> eval_case list" where
  "all_cases eng db = list_eval_cases True db @ suite_cases (eg_suite eng)"

definition first_run :: "evo_engine \<Rightarrow> active_policy option \<Rightarrow> nat \<times> nat \<Rightarrow> string \<Rightarrow> evo_db \<Rightarrow> eval_run" where
  "first_run eng cache stamp cid db =
     \<lparr> vr_id = new_evolution_id ''evalrun'' stamp, vr_candidate = cid, vr_cases = all_cases eng db,
       vr_benchmark_tail = length (suite_cases (eg_suite eng)),
       vr_baseline = map_option policy_view cache, vr_case_index = 0,
       vr_baseline_outputs = Map.empty, vr_candidate_outputs = Map.empty, vr_response_bytes = 0 \<rparr>"

lemma current_begins:
  assumes none: "other_runs cid (new_evolution_id ''evalrun'' stamp) (ed_runs db)"
    and cand: "require_candidate cid db = Inr cand" and idle: "cn_status cand \<noteq> CandEvaluating"
    and some: "all_cases eng db \<noteq> []"
  shows "current_eval_run lib eng cache clk stamp cid db =
    (case check_collisions (eg_suite eng) (list_eval_cases True db) of
       Inl e \<Rightarrow> (db, Inl e)
     | Inr _ \<Rightarrow> (case start_evaluation lib eng (clk 1) cid (cn_status cand) db of
         (db1, Inl e) \<Rightarrow> (db1, Inl e)
       | (db1, Inr _) \<Rightarrow> (put_runs (ed_runs db @ [first_run eng cache stamp cid db]) db1, Inr (first_run eng cache stamp cid db))))"
proof -
  let ?start = "start_evaluation lib eng (clk 1) cid (cn_status cand)"
  have "find (\<lambda>r. vr_candidate r = cid) (ed_runs db) = None"
    using none by (auto simp: find_None_iff other_runs_def)
  then have "current_eval_run lib eng cache clk stamp cid db = begin_eval_run lib eng cache clk stamp cid db"
    by (simp add: current_eval_run_def evo_bind_def read_db_def get_eval_run_def)
  also have "\<dots> = (case check_collisions (eg_suite eng) (list_eval_cases True db) of
       Inl e \<Rightarrow> (db, Inl e)
     | Inr _ \<Rightarrow> evo_bind ?start (\<lambda>_. evo_bind (run_tx (upsert_eval_run (first_run eng cache stamp cid db)))
         (\<lambda>_. evo_lift (Inr (first_run eng cache stamp cid db)))) db)"
    unfolding begin_eval_run_def bind_read [of "require_candidate cid", OF cand]
    using idle some
    by (simp add: evaluable_def bind_read [of "\<lambda>db. Inr (list_eval_cases True db)", OF refl] all_cases_def
        first_run_def Let_def evo_lift_def split: sum.split)
  also have "evo_bind ?start (\<lambda>_. evo_bind (run_tx (upsert_eval_run (first_run eng cache stamp cid db)))
         (\<lambda>_. evo_lift (Inr (first_run eng cache stamp cid db)))) db =
     (case ?start db of (db1, Inl e) \<Rightarrow> (db1, Inl e)
       | (db1, Inr _) \<Rightarrow> (put_runs (ed_runs db @ [first_run eng cache stamp cid db]) db1, Inr (first_run eng cache stamp cid db)))"
  proof -
    obtain db1 y where start: "?start db = (db1, y)" by force
    have "ed_runs db1 = ed_runs db"
      using runs_free_kept [OF transition_free] start unfolding start_evaluation_def by blast
    then have same: "put_runs (ed_runs db) db1 = db1" by (metis put_runs_simps(9))
    have "upsert_eval_run (first_run eng cache stamp cid db) db1
        = Inr (put_runs (ed_runs db @ [first_run eng cache stamp cid db]) db1, ())"
      using cursor_created [of "first_run eng cache stamp cid db" "ed_runs db" db1] none
      by (simp add: same first_run_def)
    with start show ?thesis by (cases y) (simp_all add: evo_bind_def run_tx_def evo_lift_def)
  qed
  finally show ?thesis .
qed

lemma step_begins:
  assumes "0 < max_bytes" and cur: "current_eval_run lib eng cache clk stamp cid db = (db', Inr run)"
    and "get_eval_run cid db' = Some run" and cand: "require_candidate cid db' = Inr cand"
  shows "run_evaluation_step lib eng ask cache clk stamp cid max_bytes db
    = run_evaluation_step lib eng ask cache clk stamp cid max_bytes db'"
  by (simp only: step_current [OF assms(1) cur cand] step_resumes [OF assms(1,3) cand])

lemma drive_eq:
  assumes "run_evaluation_step lib eng (\<lambda>j. ask (k + j)) (caches k) clk stamp cid max_bytes db
    = run_evaluation_step lib eng (\<lambda>j. ask (k + j)) (caches k) clk stamp cid max_bytes db'" and "0 < n"
  shows "drive_evaluation lib eng ask caches clk stamp cid max_bytes n k db
    = drive_evaluation lib eng ask caches clk stamp cid max_bytes n k db'"
  using assms by (cases n) (simp_all add: evo_bind_def [of "run_evaluation_step _ _ _ _ _ _ _ _"])

lemma drive_fails:
  assumes "0 < max_bytes" and "current_eval_run lib eng (caches 0) clk stamp cid db = (db', Inl e)" and "0 < n"
  shows "drive_evaluation lib eng ask caches clk stamp cid max_bytes n 0 db = (db', Inl e)"
proof -
  have "run_evaluation_step lib eng ask (caches 0) clk stamp cid max_bytes db = (db', Inl e)"
    using assms(1) by (simp add: run_evaluation_step_def evo_bind_def [of "current_eval_run _ _ _ _ _ _"] assms(2))
  then show ?thesis using assms(3) by (cases n) (simp_all add: evo_bind_def)
qed

lemma run_cases_cong:
  assumes "cn_id c' = cn_id c" and "cn_patch c' = cn_patch c"
  shows "run_cases ask k b c' mb cs acc = run_cases ask k b c mb cs acc"
proof (induction cs arbitrary: k acc)
  case (Cons x cs)
  obtain bo co n where "acc = (bo, co, n)" by (cases acc)
  with Cons run_case_cong [OF assms, of ask k b] show ?case by (simp cong: prod.case_cong)
qed simp

lemma first_rest:
  assumes same: "cn_id c' = cn_id c" "cn_patch c' = cn_patch c"
    and suite: "\<And>b. eg_suite eng = Some b \<Longrightarrow> bs_cases b \<noteq> []"
    and cases: "list_eval_cases True t = list_eval_cases True db"
    and distinct_ids: "check_collisions (eg_suite eng) (list_eval_cases True db) = Inr ()"
  shows "rest_of lib eng ask clk stamp c' max_bytes 0 (first_run eng cache stamp cid db) t
    = evaluate_candidate_inner lib eng ask cache clk stamp c max_bytes t"
proof -
  have "run_suite eng (first_run eng cache stamp cid db) = eg_suite eng"
    using suite by (cases "eg_suite eng") (simp_all add: run_suite_def first_run_def suite_cases_def all_cases_def)
  moreover have "map_option fst (map_option policy_view cache) = map_option ap_candidate_id cache"
    by (cases cache) (simp_all add: policy_view_def)
  ultimately show ?thesis
    by (simp add: rest_of_def evaluate_candidate_inner_def bind_read [of "\<lambda>db. Inr (list_eval_cases True db)", OF refl]
        cases distinct_ids first_run_def all_cases_def run_cases_cong [OF same] finalize_cong [OF same(1)])
qed

lemma inner_needs_cases:
  assumes "list_eval_cases True t @ suite_cases (eg_suite eng) = []"
    and suite: "\<And>b. eg_suite eng = Some b \<Longrightarrow> bs_cases b \<noteq> []"
  shows "evaluate_candidate_inner lib eng ask cache clk stamp c max_bytes t \<noteq> (u, Inr r)"
proof -
  from assms have "list_eval_cases True t = []" and "eg_suite eng = None"
    by (auto simp: suite_cases_def split: option.splits)
  then show ?thesis
    by (auto simp: evaluate_candidate_inner_def bind_Inr finalize_shadow_evaluation_def score_with_benchmark_def
        suite_cases_def)
qed

lemma inner_needs_distinct:
  "check_collisions (eg_suite eng) (list_eval_cases True t) = Inl e
    \<Longrightarrow> evaluate_candidate_inner lib eng ask cache clk stamp c max_bytes t \<noteq> (u, Inr r)"
  by (auto simp: evaluate_candidate_inner_def bind_Inr)

text \<open>
  C29: An evaluation that is driven case by case, with a durable cursor between the steps, completes
  exactly when the evaluation in one go does, and then records the same evaluation, moves the
  candidate to the same status and leaves the same tables. The policy cached at the first step is
  the baseline throughout, whatever is activated or rolled back during the run.
\<close>

theorem stepwise_evaluation_equivalent:
  assumes cand: "require_candidate cid db = Inr cand" and idle: "cn_status cand \<noteq> CandEvaluating"
    and fresh: "other_runs cid (new_evolution_id ''evalrun'' stamp) (ed_runs db)"
    and suite: "\<forall>b. eg_suite eng = Some b \<longrightarrow> bs_cases b \<noteq> []"
    and budget: "0 < max_bytes" and clock: "clk 1 = clk 0"
  shows "drive_evaluation lib eng ask caches clk stamp cid max_bytes (length (all_cases eng db)) 0 db = (t, Inr (Some res))
    \<longleftrightarrow> evaluate_candidate_with_limit lib eng ask (caches 0) clk stamp cid max_bytes db = (t, Inr res)"
    (is "?drive \<longleftrightarrow> ?once")
proof -
  let ?start = "start_evaluation lib eng (clk 0) cid (cn_status cand) db"
  let ?run = "first_run eng (caches 0) stamp cid db" and ?inner = "evaluate_candidate_inner lib eng ask (caches 0) clk stamp cand max_bytes"
  obtain db1 y where start: "?start = (db1, y)" by force
  have once: "?once \<longleftrightarrow> \<not> isl y \<and> ?inner db1 = (t, Inr res)"
    unfolding evaluate_candidate_with_limit_def bind_read [of "require_candidate cid", OF cand] evaluable_def
    using idle by (cases y) (auto simp: evo_bind_def start split: prod.splits sum.splits)
  have keep: "list_eval_cases True db1 = list_eval_cases True db" if "\<not> isl y"
    by (rule starts_evaluating [OF start cand refl that])
  show ?thesis
  proof (cases "all_cases eng db = []")
    case True
    have "?inner db1 \<noteq> (t, Inr res)" if "\<not> isl y"
      by (rule inner_needs_cases) (use keep [OF that] True suite in \<open>auto simp: all_cases_def\<close>)
    then have "\<not> ?once" using once by blast
    with True show ?thesis by (simp add: evo_lift_def)
  next
    case False
    note cur = current_begins [OF fresh cand idle False, where clk = clk and lib = lib and cache = "caches 0", unfolded clock start]
    have pos: "0 < length (all_cases eng db)" using False by simp
    have stuck: "\<not> ?drive" if "current_eval_run lib eng (caches 0) clk stamp cid db = (u, Inl e)" for u e
      by (simp add: drive_fails [of max_bytes lib eng caches, OF budget that pos])
    show ?thesis
    proof (cases "check_collisions (eg_suite eng) (list_eval_cases True db)")
      case (Inl e)
      have "?inner db1 \<noteq> (t, Inr res)" if "\<not> isl y"
        by (rule inner_needs_distinct) (use keep [OF that] Inl in simp)
      then have "\<not> ?once" using once by blast
      moreover have "\<not> ?drive" by (rule stuck [of db e]) (simp add: cur Inl)
      ultimately show ?thesis by simp
    next
      case ok: (Inr u)
      show ?thesis
      proof (cases y)
        case (Inl e)
        then have "\<not> ?once" using once by simp
        moreover have "\<not> ?drive" by (rule stuck [of db1 e]) (simp add: cur ok Inl)
        ultimately show ?thesis by simp
      next
        case (Inr c0)
        then have begins: "current_eval_run lib eng (caches 0) clk stamp cid db = (put_runs (ed_runs db @ [?run]) db1, Inr ?run)"
          by (simp add: cur ok)
        obtain c' where c': "require_candidate cid db1 = Inr c'" "cn_id c' = cn_id cand" "cn_patch c' = cn_patch cand"
          and keep: "list_eval_cases True db1 = list_eval_cases True db" "ed_runs db1 = ed_runs db"
          by (rule starts_evaluating [OF start cand refl]) (simp_all add: Inr)
        have run: "vr_candidate ?run = cid" "vr_id ?run = new_evolution_id ''evalrun'' stamp"
          "vr_case_index ?run = 0" "vr_cases ?run = all_cases eng db"
          by (simp_all add: first_run_def)
        have found: "get_eval_run cid (put_runs (ed_runs db @ [?run]) db1) = Some ?run"
          using cursor_found [of ?run "ed_runs db" db1] fresh by (simp add: run)
        have "run_evaluation_step lib eng (\<lambda>j. ask (0 + j)) (caches 0) clk stamp cid max_bytes db
            = run_evaluation_step lib eng (\<lambda>j. ask (0 + j)) (caches 0) clk stamp cid max_bytes (put_runs (ed_runs db @ [?run]) db1)"
          by (rule step_begins [OF budget begins found]) (simp add: c'(1))
        from drive_eq [of lib eng ask 0 caches, OF this pos]
        have "?drive \<longleftrightarrow> drive_evaluation lib eng ask caches clk stamp cid max_bytes (length (all_cases eng db)) 0
            (put_runs (ed_runs db @ [?run]) db1) = (t, Inr (Some res))" by simp
        also have "\<dots> \<longleftrightarrow> rest_of lib eng ask clk stamp c' max_bytes 0 ?run (put_runs (ed_runs db) db1) = (t, Inr res)"
          by (rule drive_from_cursor [OF budget c'(1) run(1)]) (use fresh pos in \<open>simp_all add: run\<close>)
        also have "put_runs (ed_runs db) db1 = db1" using keep(2) by (metis put_runs_simps(9))
        also have "rest_of lib eng ask clk stamp c' max_bytes 0 ?run db1 = ?inner db1"
          by (rule first_rest [OF c'(2,3) _ keep(1)]) (use suite ok in simp_all)
        finally show ?thesis using once Inr by simp
      qed
    qed
  qed
qed

definition ev_two :: evo_db where
  "ev_two = run_evo_action ev_lib (EvCase (ev_case ''j'') ''human:h'' 1) ev_created"

lemma ev_two_evaluates:
  "\<not> isl (snd (evaluate_candidate_with_limit ev_lib ev_engine ev_ask None (\<lambda>_. 2) (1, 1) ''c'' 100 ev_two))"
  by code_simp

lemma ev_two_candidate: "map_sum id cn_status (require_candidate ''c'' ev_two) = Inr CandDraft"
  by code_simp

lemma ev_two_idle: "ed_runs ev_two = []" "length (all_cases ev_engine ev_two) = 2"
  by code_simp+

lemma stepwise_evaluation_equivalent_witness:
  "\<exists>t res. evaluate_candidate_with_limit ev_lib ev_engine ev_ask None (\<lambda>_. 2) (1, 1) ''c'' 100 ev_two = (t, Inr res)
    \<and> drive_evaluation ev_lib ev_engine ev_ask (\<lambda>_. None) (\<lambda>_. 2) (1, 1) ''c'' 100 2 0 ev_two = (t, Inr (Some res))"
proof -
  from ev_two_candidate obtain cand where cand: "require_candidate ''c'' ev_two = Inr cand" "cn_status cand \<noteq> CandEvaluating"
    by (cases "require_candidate ''c'' ev_two") auto
  obtain t r where t: "evaluate_candidate_with_limit ev_lib ev_engine ev_ask None (\<lambda>_. 2) (1, 1) ''c'' 100 ev_two = (t, r)" by force
  with ev_two_evaluates obtain res where r: "r = Inr res" by (cases r) simp_all
  have "other_runs ''c'' (new_evolution_id ''evalrun'' (1, 1)) (ed_runs ev_two)"
    and "\<forall>b. eg_suite ev_engine = Some b \<longrightarrow> bs_cases b \<noteq> []"
    by (simp_all add: ev_two_idle other_runs_def ev_engine_def)
  from stepwise_evaluation_equivalent [OF cand this, of 100 "\<lambda>_. 2" ev_lib ev_ask "\<lambda>_. None" t res] t r
  show ?thesis by (auto simp: ev_two_idle)
qed

end
