(* ===== verification/Evolution_Abandon.thy ===== *)
theory Evolution_Abandon
  imports Evolution_Resume
begin

text \<open>
  Abandoning an evaluation: the operator moves the candidate from \<open>evaluating\<close> to \<open>failed\<close>, and
  the cursor of the evaluation stays. The theory follows what the next evaluation steps do with it.
\<close>

text \<open>A cursor is left whose candidate is not being evaluated any more.\<close>

definition orphaned :: "string \<Rightarrow> evo_db \<Rightarrow> bool" where
  "orphaned cid db \<longleftrightarrow> get_eval_run cid db \<noteq> None \<and> cid \<in> cn_id ` set (ed_candidates db)
     \<and> (\<forall>r \<in> set (ed_candidates db). cn_id r = cid \<longrightarrow> cn_status r = CandFailed)"

lemma require_candidate_id: "require_candidate cid db = Inr c \<Longrightarrow> cn_id c = cid"
  using find_SomeD [of "\<lambda>r. cn_id r = cid" "ed_candidates db"]
  by (auto simp: require_candidate_def get_candidate_def decode_opt_def candidate_from_row_def find_candidate_def
      split: option.splits)

lemma orphan_not_moved:
  assumes "orphaned cid db"
  shows "\<exists>e. transition_candidate lib now cid CandEvaluating nxt actor details db = (db, Inl e)"
proof -
  have "count_where (\<lambda>r. cn_id r = cid \<and> cn_status r = CandEvaluating) (ed_candidates db) = 0"
    using assms by (auto simp: orphaned_def)
  then have "transition_tx lib now cid CandEvaluating nxt actor details db \<noteq> Inr (t, x)" for t x
    by (simp add: transition_tx_def Let_def del: count_where_0)
  then obtain e where "transition_tx lib now cid CandEvaluating nxt actor details db = Inl e"
    by (cases "transition_tx lib now cid CandEvaluating nxt actor details db") auto
  then show ?thesis by (simp add: transition_candidate_def evo_bind_def run_tx_def)
qed

lemma orphan_not_finalized:
  assumes orphan: "orphaned cid db" and id: "cn_id cand = cid"
    and fin: "finalize_shadow_evaluation lib eng clk stamp cand cases suite baseline_id acc db = (t, r)"
  shows "orphaned cid t \<and> isl r"
proof -
  obtain bo co n where acc: "acc = (bo, co, n)" by (cases acc)
  show ?thesis
  proof (cases "score_with_benchmark lib cases suite bo co")
    case (Inl e)
    with fin orphan show ?thesis by (auto simp: finalize_shadow_evaluation_def acc evo_lift_def)
  next
    case (Inr card)
    let ?d = "\<lparr> vd_id = new_evolution_id ''evaluation'' stamp, vd_candidate = cn_id cand,
            vd_baseline = baseline_id, vd_scorecard = card, vd_decision = gate_decide (eg_gate eng) card,
            vd_gate = eg_gate eng \<rparr>"
    show ?thesis
    proof (cases "record_evaluation_tx lib (clk 2) ?d db")
      case (Inl e)
      with fin Inr orphan show ?thesis
        by (auto simp: finalize_shadow_evaluation_def acc Let_def evo_bind_def run_tx_def)
    next
      case rec: (Inr p)
      obtain u v where p: "p = (u, v)" by force
      have "ed_candidates u = ed_candidates db \<and> ed_runs u = ed_runs db"
        using rec [unfolded p] by (rule evaluation_changes) simp
      with orphan have u: "orphaned cid u" by (simp add: orphaned_def get_eval_run_def)
      have "\<forall>details. \<exists>e. transition_candidate lib (clk 3) cid CandEvaluating nxt engine_actor details u = (u, Inl e)" for nxt
        using orphan_not_moved [OF u] by blast
      then obtain f where stop: "\<And>nxt details.
          transition_candidate lib (clk 3) cid CandEvaluating nxt engine_actor details u = (u, Inl (f nxt details))"
        by metis
      from fin Inr rec u show ?thesis
        by (cases "gate_decide (eg_gate eng) card")
          (auto simp: finalize_shadow_evaluation_def acc Let_def evo_bind_def run_tx_def p id stop)
    qed
  qed
qed

lemma stored_cursor:
  assumes "upsert_eval_run run db = Inr (u, x)"
  shows "get_eval_run (vr_candidate run) u \<noteq> None" and "ed_candidates u = ed_candidates db"
proof -
  from assms show "ed_candidates u = ed_candidates db" by (auto simp: upsert_eval_run_def split: if_splits)
  have "run \<in> set (ed_runs u)"
    using assms by (auto simp: upsert_eval_run_def set_update_where image_iff split: if_splits)
  then show "get_eval_run (vr_candidate run) u \<noteq> None" by (auto simp: get_eval_run_def find_None_iff)
qed

lemma orphan_step:
  assumes orphan: "orphaned cid db"
    and step: "run_evaluation_step lib eng ask cache clk stamp cid max_bytes db = (t, x)"
  shows "orphaned cid t \<and> x \<noteq> Inr (StepCompleted v n)"
proof -
  from orphan obtain run where run: "get_eval_run cid db = Some run" by (auto simp: orphaned_def)
  then have own: "vr_candidate run = cid"
    using find_SomeD [of "\<lambda>r. vr_candidate r = cid" "ed_runs db" run] by (simp add: get_eval_run_def)
  show ?thesis
  proof (cases "0 < max_bytes")
    case False
    with step orphan show ?thesis by (auto simp: run_evaluation_step_def evo_lift_def)
  next
    case budget: True
    have cur: "current_eval_run lib eng cache clk stamp cid db = (db, Inr run)"
      unfolding current_eval_run_def by (subst bind_read [OF refl]) (simp add: run evo_lift_def)
    show ?thesis
    proof (cases "require_candidate cid db")
      case (Inl e)
      with step budget cur orphan show ?thesis
        by (auto simp: run_evaluation_step_def evo_bind_def [of "current_eval_run _ _ _ _ _ _"] evo_bind_def [of "read_db _"] read_db_def)
    next
      case cand: (Inr cand)
      let ?c = "vr_cases run ! vr_case_index run"
      from step have from_run: "step_from lib eng ask clk stamp cand max_bytes run db = (t, x)"
        by (simp only: step_resumes [OF budget run cand])
      show ?thesis
      proof (cases "vr_case_index run < length (vr_cases run)")
        case False
        with from_run orphan show ?thesis by (auto simp: step_from_def evo_lift_def)
      next
        case True
        show ?thesis
        proof (cases "run_case ask 0 (vr_baseline run) cand max_bytes ?c (vr_response_bytes run)")
          case (Inl e)
          with from_run True orphan show ?thesis by (auto simp: step_from_def evo_lift_def)
        next
          case (Inr r)
          let ?run = "advance_run ?c r run"
          have adv: "vr_candidate ?run = cid" using own by (simp add: advance_run_def split: prod.split)
          show ?thesis
          proof (cases "vr_case_index ?run < length (vr_cases ?run)")
            case more: True
            have kept: "orphaned cid u" if "upsert_eval_run ?run db = Inr (u, ())" for u
              using stored_cursor [OF that] orphan by (simp add: orphaned_def adv)
            from from_run True Inr more orphan show ?thesis
              by (cases "upsert_eval_run ?run db")
                (auto simp: step_from_def Let_def evo_bind_def run_tx_def evo_lift_def dest: kept)
          next
            case False
            with from_run True Inr have "finish_eval_run lib eng clk stamp cand ?run db = (t, x)"
              by (simp add: step_from_def Let_def)
            moreover obtain u y where fin: "finalize_shadow_evaluation lib eng clk stamp cand
                (take (length (vr_cases ?run) - vr_benchmark_tail ?run) (vr_cases ?run)) (run_suite eng ?run)
                (map_option fst (vr_baseline ?run))
                (vr_baseline_outputs ?run, vr_candidate_outputs ?run, vr_response_bytes ?run) db = (u, y)" by force
            moreover note orphan_not_finalized [OF orphan require_candidate_id [OF cand] fin]
            moreover from this obtain e where "y = Inl e" by (cases y) auto
            ultimately show ?thesis
              by (auto simp: finish_eval_run_def evo_bind_def [of "finalize_shadow_evaluation _ _ _ _ _ _ _ _ _"])
          qed
        qed
      qed
    qed
  qed
qed

text \<open>
  C28: Abandoning an evaluation does not remove its cursor. Once an operator has abandoned the
  evaluation of a candidate that has one, no number of evaluation steps ever completes an
  evaluation of the candidate again: the cursor stays, and so does the status \<open>failed\<close>.
\<close>

theorem abandoned_evaluation_never_resumes:
  assumes reach: "evo_reachable lib g db" and cursor: "get_eval_run cid db \<noteq> None"
    and abandon: "abandon_evaluation lib eng now cid actor reason db = (s, Inr row)"
    and steps: "(\<lambda>u v. \<exists>eng ask cache clk stamp max_bytes.
      v = fst (run_evaluation_step lib eng ask cache clk stamp cid max_bytes u))\<^sup>*\<^sup>* s t"
  shows "snd (run_evaluation_step lib eng' ask cache clk stamp cid max_bytes t) \<noteq> Inr (StepCompleted v n)
    \<and> get_eval_run cid t \<noteq> None \<and> map_option cn_status (find_candidate cid t) = Some CandFailed"
proof -
  have inv: "evo_inv g db" using reach by (rule evo_reachable_inv)
  let ?hit = "\<lambda>r. cn_id r = cid \<and> cn_status r = CandEvaluating"
  obtain label details u where tx: "transition_tx lib now cid CandEvaluating CandFailed label details db = Inr (s, u)"
    and found: "require_candidate cid s = Inr row"
    using abandon by (auto simp: abandon_evaluation_def bind_Inr transition_candidate_def run_tx_Inr)
  have s: "ed_candidates s = update_where ?hit (moved_row now CandFailed) (ed_candidates db)" "ed_runs s = ed_runs db"
    by (simp_all add: transition_changes(1) [OF tx])
  have "count_where ?hit (ed_candidates db) = 1"
    using tx unfolding transition_tx_def Let_def by (simp only: and_then_Inr ensure_Inr) blast
  then have "count_where ?hit (ed_candidates db) \<noteq> 0" by linarith
  then obtain r where r: "r \<in> set (ed_candidates db)" "?hit r" unfolding count_where_0 by blast
  have "distinct (map cn_id (ed_candidates db))" using inv by (simp add: evo_inv_def candidates_inv_def)
  then have "q = r" if "q \<in> set (ed_candidates db)" "cn_id q = cid" for q
    using that r by (simp add: distinct_map inj_on_def)
  with r(2) have failed: "\<forall>q \<in> set (ed_candidates s). cn_id q = cid \<longrightarrow> cn_status q = CandFailed"
    by (auto simp: s set_update_where moved_row_def)
  have "get_eval_run cid s = get_eval_run cid db" by (simp add: s get_eval_run_def)
  moreover have "moved_row now CandFailed r \<in> set (ed_candidates s)"
    using update_where_mem [OF r(1), of ?hit "moved_row now CandFailed"] r(2) by (simp add: s)
  then have "cid \<in> cn_id ` set (ed_candidates s)"
    by (rule image_eqI [rotated]) (use r(2) in \<open>simp add: moved_row_def\<close>)
  ultimately have "orphaned cid s" using cursor failed by (simp add: orphaned_def)
  with steps have orphan: "orphaned cid t"
    by (induction rule: rtranclp_induct) (metis orphan_step prod.collapse)+
  then obtain c where c: "find_candidate cid t = Some c"
    by (cases "find_candidate cid t") (auto simp: orphaned_def find_candidate_def find_None_iff)
  then have "cn_status c = CandFailed"
    using orphan find_SomeD [of "\<lambda>r. cn_id r = cid" "ed_candidates t" c] by (simp add: orphaned_def find_candidate_def)
  moreover have "snd (run_evaluation_step lib eng' ask cache clk stamp cid max_bytes t) \<noteq> Inr (StepCompleted v n)"
    using orphan_step [OF orphan] by (metis prod.collapse)
  ultimately show ?thesis using orphan c by (simp add: orphaned_def)
qed

definition ev_paused :: evo_db where
  "ev_paused = fst (run_evaluation_step ev_lib ev_engine ev_ask None (\<lambda>_. 2) (1, 1) ''c'' 100 ev_two)"

lemma ev_paused_reachable: "evo_reachable ev_lib ev_gate ev_paused"
proof -
  have "(quiet_step ev_lib ev_gate)\<^sup>*\<^sup>* empty_evo_db ev_two"
    unfolding ev_two_def by (intro quiet_action_step ev_created_steps) simp_all
  then have "(quiet_step ev_lib ev_gate)\<^sup>*\<^sup>* empty_evo_db ev_paused"
    unfolding ev_paused_def by (rule quietly_steps) (rule quietly_run_step)
  from quiet_steps_steps [OF this] show ?thesis by (simp add: evo_reachable_def)
qed

lemma ev_paused_cursor: "get_eval_run ''c'' ev_paused \<noteq> None"
proof -
  have "map vr_candidate (ed_runs ev_paused) = [''c'']" by code_simp
  then show ?thesis by (auto simp: get_eval_run_def find_None_iff)
qed

lemma ev_paused_abandons: "\<not> isl (snd (abandon_evaluation ev_lib ev_engine 3 ''c'' ev_human ''stuck'' ev_paused))"
  by code_simp

lemma abandoned_evaluation_never_resumes_witness:
  "\<exists>s row. abandon_evaluation ev_lib ev_engine 3 ''c'' ev_human ''stuck'' ev_paused = (s, Inr row)
    \<and> get_eval_run ''c'' s \<noteq> None
    \<and> (\<nexists>v n. snd (run_evaluation_step ev_lib ev_engine ev_ask None (\<lambda>_. 5) (2, 2) ''c'' 100 s) = Inr (StepCompleted v n))"
proof -
  obtain s r where s: "abandon_evaluation ev_lib ev_engine 3 ''c'' ev_human ''stuck'' ev_paused = (s, r)" by force
  with ev_paused_abandons obtain row where row: "r = Inr row" by (cases r) simp_all
  note never = abandoned_evaluation_never_resumes
    [OF ev_paused_reachable ev_paused_cursor s [unfolded row] rtranclp.rtrancl_refl]
  have "\<nexists>v n. snd (run_evaluation_step ev_lib ev_engine ev_ask None (\<lambda>_. 5) (2, 2) ''c'' 100 s) = Inr (StepCompleted v n)"
    using never by blast
  moreover have "get_eval_run ''c'' s \<noteq> None" using never by blast
  ultimately show ?thesis using s row by blast
qed

end
