(* ===== verification/Evolution_Settle.thy ===== *)
theory Evolution_Settle
  imports Evolution_Example
begin

text \<open>
  What a caller can rely on when it reads the evolution tables or waits for an evaluation: the rows
  of reachable tables decode, and an evaluation never leaves its candidate in \<open>evaluating\<close>.
\<close>

section \<open>Rows of reachable tables\<close>

lemma decode_stored:
  assumes "evo_inv g db" and "r \<in> set (ed_candidates db)"
  shows "candidate_from_row r = Inr r"
  using assms by (simp add: evo_inv_def candidates_inv_def candidate_ok_def patch_ok_def candidate_from_row_def)

lemma get_candidate_stored:
  assumes "evo_inv g db"
  shows "get_candidate cid db = Inr (find_candidate cid db)"
  using decode_stored [OF assms] find_candidate_SomeD(1) [of cid db]
  by (auto simp: get_candidate_def decode_opt_def split: option.split)

lemma length_select_where: "length (select_ordered k p rs) = count_where p rs"
  by (simp add: select_ordered_def count_where_def)

text \<open>
  C33: The tables are well-typed in every reachable state. Candidate ids, case ids and evidence
  fingerprints are unique, every stored patch and every stored eval case is valid, at most 50 cases
  are enabled, and no read of a candidate or of the active policy fails.
\<close>

theorem evolution_tables_typed:
  assumes "evo_reachable lib g db"
  shows "distinct (map cn_id (ed_candidates db))
    \<and> distinct (filter (\<lambda>f. f \<noteq> None) (map cn_fingerprint (ed_candidates db)))
    \<and> distinct (map vc_id (ed_cases db))
    \<and> (\<forall>c \<in> set (list_eval_cases False db). validate_eval_case c = Inr ())
    \<and> length (list_eval_cases True db) \<le> max_enabled_eval_cases
    \<and> get_candidate cid db = Inr (find_candidate cid db) \<and> \<not> isl (list_candidates limit db)
    \<and> \<not> isl (store_active_policy db)"
proof -
  have inv: "evo_inv g db" using assms by (rule evo_reachable_inv)
  have "list_all2 (\<lambda>x y. candidate_from_row x = Inr y) rs rs" if "set rs \<subseteq> set (ed_candidates db)" for rs
    using that decode_stored [OF inv] by (intro list_all2_all_nthI) (auto simp: subset_iff)
  moreover have "set (take n (rev (select_ordered k p (ed_candidates db)))) \<subseteq> set (ed_candidates db)" for n and k :: "_ \<Rightarrow> int" and p
    using set_take_subset [of n "rev (select_ordered k p (ed_candidates db))"] by auto
  ultimately have "\<not> isl (list_candidates limit db)"
    unfolding list_candidates_def by (metis collect_Inr sum.disc(2))
  with inv get_candidate_stored [OF inv] store_policy_is_top [OF inv] show ?thesis
    by (simp add: evo_inv_def candidates_inv_def suite_inv_def list_eval_cases_def length_select_where)
qed

lemma evolution_tables_typed_witness:
  "distinct (map cn_id (ed_candidates ev_active)) \<and> length (list_eval_cases True ev_active) \<le> max_enabled_eval_cases
    \<and> get_candidate ''c'' ev_active = Inr (find_candidate ''c'' ev_active)"
  using evolution_tables_typed [OF ev_active_reachable, of "''c''"] by blast

section \<open>Transitions\<close>

lemma engine_actor_ok: "validate_audit_fields (transition_event_type nxt) engine_actor = Inr ()"
proof -
  have "list_all (\<lambda>n. validate_audit_fields (transition_event_type n) engine_actor = Inr ())
    [CandDraft, CandEvaluating, CandReady, CandRejected, CandApproved, CandFailed]" by code_simp
  then show ?thesis by (cases nxt) (simp_all only: list.pred_inject)
qed

text \<open>A candidate in the tables, with its status.\<close>

definition has_status :: "evo_db \<Rightarrow> string \<Rightarrow> cand_status \<Rightarrow> bool" where
  "has_status db cid st \<longleftrightarrow> map_option cn_status (find_candidate cid db) = Some st"

lemma has_statusE:
  assumes "has_status db cid st"
  obtains c where "find_candidate cid db = Some c" and "c \<in> set (ed_candidates db)" and "cn_id c = cid" and "cn_status c = st"
  using assms find_candidate_SomeD [of cid db] by (auto simp: has_status_def)

lemma one_hit:
  assumes inv: "evo_inv g db" and st: "has_status db cid st"
  shows "count_where (\<lambda>r. cn_id r = cid \<and> cn_status r = st) (ed_candidates db) = 1"
proof -
  have dist: "distinct (map cn_id (ed_candidates db))" using inv by (simp add: evo_inv_def candidates_inv_def)
  obtain c where c: "c \<in> set (ed_candidates db)" "cn_id c = cid" "cn_status c = st" by (rule has_statusE [OF st])
  from dist have d: "distinct (ed_candidates db)" by (simp add: distinct_map)
  from dist c show ?thesis
    by (intro count_where_unique [OF d c(1)]) (auto simp: distinct_map inj_on_def)
qed

lemma transition_refused_or_moved:
  assumes inv: "evo_inv g db" and tr: "transition_candidate lib now cid expected nxt actor details db = (t, r)"
    and ok: "(nxt = CandReady \<longrightarrow> ready_evaluated db cid) \<and> (nxt = CandApproved \<longrightarrow> human_label g actor)"
  obtains (refused) e where "t = db" and "r = Inl e" and "transition_tx lib now cid expected nxt actor details db = Inl e"
  | (moved) c where "r = Inr c" and "has_status t cid nxt" and "evo_inv g t" and "cn_status c = nxt"
proof (cases "transition_tx lib now cid expected nxt actor details db")
  case (Inl e)
  with tr have "t = db" "r = Inl e" by (simp_all add: transition_candidate_def evo_bind_def run_tx_def)
  then show thesis using Inl by (rule refused)
next
  case (Inr p)
  obtain u where p: "p = (u, ())" by (cases p) simp
  note tx = Inr [unfolded p]
  let ?hit = "\<lambda>r. cn_id r = cid \<and> cn_status r = expected"
  have inv_u: "evo_inv g u"
  proof -
    have "quietly lib g db (run_tx (transition_tx lib now cid expected nxt actor details))"
      by (rule quietly_action [where a = "EvTransition cid expected nxt actor details now"]) (use ok in simp_all)
    then have "(quiet_step lib g)\<^sup>*\<^sup>* db u" by (simp add: quietly_def run_tx_def tx)
    with quiet_steps_stack inv show ?thesis by blast
  qed
  have cands: "ed_candidates u = update_where ?hit (moved_row now nxt) (ed_candidates db)"
    by (simp add: transition_changes(1) [OF tx])
  have "count_where ?hit (ed_candidates db) = 1"
    using tx unfolding transition_tx_def Let_def by (simp only: and_then_Inr ensure_Inr) blast
  then have "count_where ?hit (ed_candidates db) \<noteq> 0" by linarith
  then obtain c where c: "c \<in> set (ed_candidates db)" "?hit c" unfolding count_where_0 by blast
  have "find_candidate cid db = Some c"
    using candidate_by_id [of g db c] inv c by (simp add: evo_inv_def)
  then have found: "find_candidate cid u = Some (moved_row now nxt c)"
    using c(2) by (simp add: find_candidate_def cands find_update_where moved_row_def)
  then have "require_candidate cid u = Inr (moved_row now nxt c)"
    by (simp add: require_candidate_def get_candidate_stored [OF inv_u])
  with tr tx have "t = u" "r = Inr (moved_row now nxt c)"
    by (simp_all add: transition_candidate_def evo_bind_def run_tx_def read_db_def)
  with found inv_u show thesis by (intro moved [of "moved_row now nxt c"]) (simp_all add: has_status_def moved_row_def)
qed

lemma engine_transition_succeeds:
  assumes inv: "evo_inv g db" and st: "has_status db cid expected" and edge: "can_transition_to expected nxt"
    and fits: "int (length (json_text lib details)) \<le> 65536"
  shows "transition_tx lib now cid expected nxt engine_actor details db \<noteq> Inl e"
proof -
  have actor: "validate_evo_actor engine_actor = Inr ()" by code_simp
  obtain c where "c \<in> set (ed_candidates db)" "cn_id c = cid" by (rule has_statusE [OF st])
  then have "cid \<in> cn_id ` set (update_where (\<lambda>r. cn_id r = cid \<and> cn_status r = expected) (moved_row now nxt) (ed_candidates db))"
    by (auto simp: image_update_static moved_row_def)
  then show ?thesis
    using edge fits by (simp add: transition_tx_def actor one_hit [OF inv st] Let_def insert_audit_event_def engine_actor_ok references_def)
qed

section \<open>Evaluations\<close>

definition verdict_status :: "promotion_decision \<Rightarrow> cand_status" where
  "verdict_status d = (if d = DecisionReady then CandReady else CandRejected)"

lemma quiet_inv:
  assumes "evo_inv g db" and "quietly lib g db m" and "m db = (t, r)"
  shows "evo_inv g t"
  using quiet_steps_stack [OF _ assms(1)] assms(2,3) by (auto simp: quietly_def)

lemma finalize_outcome:
  assumes inv: "evo_inv g db" and st: "has_status db cid CandEvaluating" and id: "cn_id cand = cid"
    and fin: "finalize_shadow_evaluation lib eng clk stamp cand cases suite baseline_id acc db = (t, r)"
  obtains (failed) e where "r = Inl e" and "evo_inv g t" and "has_status t cid CandEvaluating"
  | (settled) v n where "r = Inr (v, n)" and "v \<in> set (ed_evaluations t)" and "ve_candidate v = cid"
      and "has_status t cid (verdict_status (ve_decision v))"
proof -
  have inv_t: "evo_inv g t" by (rule quiet_inv [OF inv quietly_finalize fin])
  obtain bo co n where acc: "acc = (bo, co, n)" by (cases acc)
  show thesis
  proof (cases "score_with_benchmark lib cases suite bo co")
    case (Inl e)
    with fin have "t = db" "r = Inl e" by (simp_all add: finalize_shadow_evaluation_def acc evo_lift_def)
    with st inv_t show thesis by (intro failed) simp_all
  next
    case (Inr card)
    let ?d = "\<lparr> vd_id = new_evolution_id ''evaluation'' stamp, vd_candidate = cn_id cand,
            vd_baseline = baseline_id, vd_scorecard = card, vd_decision = gate_decide (eg_gate eng) card,
            vd_gate = eg_gate eng \<rparr>"
    show thesis
    proof (cases "record_evaluation_tx lib (clk 2) ?d db")
      case (Inl e)
      with fin Inr have "t = db" "r = Inl e"
        by (simp_all add: finalize_shadow_evaluation_def acc Let_def evo_bind_def run_tx_def)
      with st inv_t show thesis by (intro failed) simp_all
    next
      case rec: (Inr p)
      obtain u v where p: "p = (u, v)" by force
      note tx = rec [unfolded p]
      have v: "v = new_evaluation_row (clk 2) ?d" "v \<in> set (ed_evaluations u)" "ed_candidates u = ed_candidates db"
        by (rule evaluation_changes [OF tx], simp)+
      have st_u: "has_status u cid CandEvaluating" using st by (simp add: has_status_def find_candidate_def v(3))
      have "quietly lib g db (run_tx (record_evaluation_tx lib (clk 2) ?d))"
        by (rule quietly_action [where a = "EvEvaluation ?d (clk 2)"]) simp_all
      then have inv_u: "evo_inv g u" by (rule quiet_inv [OF inv]) (simp add: run_tx_def tx)
      have dec: "ve_decision v = gate_decide (eg_gate eng) card" "ve_candidate v = cid"
        by (simp_all add: v(1) new_evaluation_row_def id)
      have ready: "ready_evaluated u cid" if "ve_decision v = DecisionReady"
        using that v(2) dec(2) by (auto simp: ready_evaluated_def)
      obtain details where tr: "evo_bind (transition_candidate lib (clk 3) cid CandEvaluating (verdict_status (ve_decision v))
          engine_actor details) (\<lambda>_. evo_lift (Inr (v, n))) u = (t, r)"
        using fin Inr tx id dec(1)
        by (cases "gate_decide (eg_gate eng) card")
          (auto simp: finalize_shadow_evaluation_def acc Let_def evo_bind_def run_tx_def verdict_status_def)
      obtain t' r' where step: "transition_candidate lib (clk 3) cid CandEvaluating (verdict_status (ve_decision v))
          engine_actor details u = (t', r')" by force
      have keep: "ed_evaluations t' = ed_evaluations u"
        using step by (auto simp: transition_candidate_def evo_bind_def run_tx_def read_db_def
            dest!: transition_changes(1) split: sum.splits prod.splits)
      have "(verdict_status (ve_decision v) = CandReady \<longrightarrow> ready_evaluated u cid)
          \<and> (verdict_status (ve_decision v) = CandApproved \<longrightarrow> human_label g engine_actor)"
        using ready by (auto simp: verdict_status_def)
      with inv_u step show thesis
      proof (cases rule: transition_refused_or_moved)
        case refused
        with tr step st_u inv_t show thesis by (intro failed) (auto simp: evo_bind_def)
      next
        case moved
        with tr step keep v(2) dec(2) show thesis by (intro settled) (auto simp: evo_bind_def evo_lift_def)
      qed
    qed
  qed
qed

lemma inner_outcome:
  assumes inv: "evo_inv g db" and st: "has_status db cid CandEvaluating" and id: "cn_id cand = cid"
    and inner: "evaluate_candidate_inner lib eng ask cache clk stamp cand max_bytes db = (t, r)"
  obtains (failed) e where "r = Inl e" and "evo_inv g t" and "has_status t cid CandEvaluating"
  | (settled) v n where "r = Inr (v, n)" and "v \<in> set (ed_evaluations t)" and "ve_candidate v = cid"
      and "has_status t cid (verdict_status (ve_decision v))"
proof -
  let ?cases = "list_eval_cases True db"
  have run: "evaluate_candidate_inner lib eng ask cache clk stamp cand max_bytes db =
    evo_bind (evo_lift (check_collisions (eg_suite eng) ?cases)) (\<lambda>_.
     evo_bind (evo_lift (run_cases ask 0 (map_option policy_view cache) cand max_bytes
         (?cases @ suite_cases (eg_suite eng)) (Map.empty, Map.empty, 0))) (\<lambda>acc.
       finalize_shadow_evaluation lib eng clk stamp cand ?cases (eg_suite eng)
         (map_option ap_candidate_id cache) acc)) db"
    unfolding evaluate_candidate_inner_def by (rule bind_read) (rule refl)
  show thesis
  proof (cases "check_collisions (eg_suite eng) ?cases")
    case (Inl e)
    with inner run have "t = db" "r = Inl e" by (simp_all add: evo_lift_def)
    with inv st show thesis by (intro failed) simp_all
  next
    case ok: (Inr u)
    show thesis
    proof (cases "run_cases ask 0 (map_option policy_view cache) cand max_bytes
         (?cases @ suite_cases (eg_suite eng)) (Map.empty, Map.empty, 0)")
      case (Inl e)
      with inner run ok have "t = db" "r = Inl e" by (simp_all add: evo_lift_def)
      with inv st show thesis by (intro failed) simp_all
    next
      case (Inr acc)
      with inner run ok have fin: "finalize_shadow_evaluation lib eng clk stamp cand ?cases (eg_suite eng)
         (map_option ap_candidate_id cache) acc db = (t, r)" by simp
      show thesis using inv st id fin by (rule finalize_outcome) (rule failed settled, assumption+)+
    qed
  qed
qed

text \<open>The details a failed evaluation leaves in the audit log.\<close>

definition failure_details :: json where
  "failure_details = JObj [(''error'', JStr ''shadow_evaluation_failed''), (''retryable'', JBool True)]"

text \<open>
  C32: An evaluation settles its candidate. When it returns an evaluation, that evaluation is stored
  and the candidate is ready or rejected as the gate decided; when it fails, for whatever reason (no
  enabled case, a case id taken twice, a provider error, the byte budget, a refused write), the
  candidate has the status it had before or is failed. It is never left in \<open>evaluating\<close>, from
  where it could not be evaluated again.
\<close>

theorem evaluation_settles:
  assumes reach: "evo_reachable lib g db" and cand: "has_status db cid st" and idle: "st \<noteq> CandEvaluating"
    and fits: "int (length (json_text lib failure_details)) \<le> 65536"
    and run: "evaluate_candidate_with_limit lib eng ask cache clk stamp cid max_bytes db = (t, r)"
  shows "case r of
      Inr (v, n) \<Rightarrow> v \<in> set (ed_evaluations t) \<and> ve_candidate v = cid
        \<and> has_status t cid (if ve_decision v = DecisionReady then CandReady else CandRejected)
    | Inl e \<Rightarrow> has_status t cid st \<or> has_status t cid CandFailed"
proof -
  have inv: "evo_inv g db" using reach by (rule evo_reachable_inv)
  obtain c where c: "find_candidate cid db = Some c" "cn_id c = cid" "cn_status c = st" by (rule has_statusE [OF cand])
  have found: "require_candidate cid db = Inr c" by (simp add: require_candidate_def get_candidate_stored [OF inv] c(1))
  obtain s x where start: "start_evaluation lib eng (clk 0) cid st db = (s, x)" by force
  have not_promoted: "(CandEvaluating = CandReady \<longrightarrow> ready_evaluated db cid) \<and> (CandEvaluating = CandApproved \<longrightarrow> human_label g engine_actor)"
    "(CandFailed = CandReady \<longrightarrow> ready_evaluated u cid) \<and> (CandFailed = CandApproved \<longrightarrow> human_label g engine_actor)" for u
    by simp_all
  let ?failed = "transition_candidate lib (clk 4) cid CandEvaluating CandFailed engine_actor failure_details"
  have whole: "(case x of Inl e \<Rightarrow> (s, Inl e)
      | Inr _ \<Rightarrow> (case evaluate_candidate_inner lib eng ask cache clk stamp c max_bytes s of
         (u, Inr q) \<Rightarrow> (u, Inr q) | (u, Inl e) \<Rightarrow> (fst (?failed u), Inl e))) = (t, r)"
    using run idle unfolding evaluate_candidate_with_limit_def bind_read [of "require_candidate cid", OF found]
    by (cases x) (simp_all add: evaluable_def c(3) evo_bind_def start failure_details_def)
  show ?thesis
    using inv start [unfolded start_evaluation_def] not_promoted(1)
  proof (cases rule: transition_refused_or_moved)
    case (refused e)
    with whole cand show ?thesis by auto
  next
    case (moved c')
    obtain u y where inner: "evaluate_candidate_inner lib eng ask cache clk stamp c max_bytes s = (u, y)" by force
    show ?thesis
      using moved(3,2) c(2) inner
    proof (cases rule: inner_outcome)
      case (failed e)
      obtain v z where fail: "?failed u = (v, z)" by force
      with whole moved(1) inner failed(1) have tr: "t = v" "r = Inl e" by simp_all
      have "has_status v cid CandFailed"
        using failed(2) fail not_promoted(2)
      proof (cases rule: transition_refused_or_moved)
        case (refused e')
        with engine_transition_succeeds [OF failed(2,3) _ fits] show ?thesis by simp
      qed
      with tr show ?thesis by simp
    next
      case (settled v n)
      with whole moved(1) inner show ?thesis by (auto simp: verdict_status_def)
    qed
  qed
qed

lemma ev_created_evaluates:
  "\<not> isl (snd (evaluate_candidate_with_limit ev_lib ev_engine ev_ask None (\<lambda>_. 2) (1, 1) ''c'' 100 ev_created))"
  by code_simp

lemma ev_created_draft: "has_status ev_created ''c'' CandDraft"
  unfolding has_status_def by code_simp

lemma ev_created_reachable: "evo_reachable ev_lib ev_gate ev_created"
  using quiet_steps_steps [OF ev_created_steps] by (simp add: evo_reachable_def)

lemma evaluation_settles_witness:
  "\<exists>t v n. evaluate_candidate_with_limit ev_lib ev_engine ev_ask None (\<lambda>_. 2) (1, 1) ''c'' 100 ev_created = (t, Inr (v, n))
    \<and> v \<in> set (ed_evaluations t)
    \<and> has_status t ''c'' (if ve_decision v = DecisionReady then CandReady else CandRejected)"
proof -
  obtain t r where t: "evaluate_candidate_with_limit ev_lib ev_engine ev_ask None (\<lambda>_. 2) (1, 1) ''c'' 100 ev_created = (t, r)" by force
  with ev_created_evaluates obtain v n where r: "r = Inr (v, n)" by (cases r) auto
  from evaluation_settles [OF ev_created_reachable ev_created_draft _ ev_fits t] t r show ?thesis by auto
qed

end
