(* ===== verification/Scheduler.thy ===== *)
theory Scheduler
  imports Prelude
begin

text \<open>
  The schedule policies of \<open>scheduler.rs\<close>: their data, defaults, validation and
  normalization, the retry back-off, the state machine of a job and the two functions that plan
  what a finished run does to its job. Time zone names, cron expressions and the JSON text of a
  policy are read by the crates \<open>chrono-tz\<close>, \<open>cron\<close> and \<open>serde_json\<close>, which are
  the fields of \<open>schedule_lib\<close>.
\<close>

section \<open>Data\<close>

datatype schedule_spec =
    SpecOnce int
  | SpecCron string

datatype scheduler_trigger =
    TriggerOnce (trigger_run_at: int) (trigger_timezone: string)
  | TriggerCron (trigger_expr: string) (trigger_timezone: string)

record backoff_policy =
  bp_strategy :: string
  bp_base_secs :: int
  bp_max_secs :: int

record execution_policy =
  ep_max_failure_streak :: int
  ep_backoff :: backoff_policy

record scheduler_policy =
  sp_version :: string
  sp_trigger :: scheduler_trigger
  sp_execution :: execution_policy

datatype execution_state = Active | Paused | Completed | Canceled

datatype execution_event =
    ManualPause | ManualResume | ManualCancel
  | RunSucceededKeepActive | RunSucceededComplete
  | RunFailedRetry | RunFailedPause

record success_plan =
  su_next_state :: execution_state
  su_mark_completed :: bool
  su_next_run_at :: "int option"

record failure_plan =
  fa_next_state :: execution_state
  fa_pause_job :: bool
  fa_next_run_at :: "int option"
  fa_backoff_secs :: "int option"

datatype policy_error =
    BadPolicyJson
  | UnsupportedVersion string
  | StreakTooSmall
  | StreakTooLarge
  | UnsupportedStrategy string
  | BaseTooSmall
  | MaxTooSmall
  | MaxBelowBase
  | RunAtNotPositive
  | EmptyCronExpr
  | InvalidTimezone string
  | InvalidCron string
  | InvalidLocalTimestamp string
  | InvalidTransition execution_state execution_event
  | MissingRunAt
  | MissingCronExpr

text \<open>
  The crates the code calls: whether a time zone name and a cron expression parse, whether a
  timestamp has one local time in a zone, the first occurrence of an expression strictly after a
  start time, and the JSON text of a policy.
\<close>

record schedule_lib =
  tz_parses :: "string \<Rightarrow> bool"
  cron_parses :: "string \<Rightarrow> bool"
  local_single :: "string \<Rightarrow> int \<Rightarrow> bool"
  cron_after :: "string \<Rightarrow> string \<Rightarrow> int \<Rightarrow> int option"
  policy_from_str :: "string \<Rightarrow> scheduler_policy option"
  policy_to_string :: "scheduler_policy \<Rightarrow> string"

definition execution_state_str :: "execution_state \<Rightarrow> string" where
  "execution_state_str s = (case s of
     Active \<Rightarrow> ''active'' | Paused \<Rightarrow> ''paused'' | Completed \<Rightarrow> ''completed'' | Canceled \<Rightarrow> ''canceled'')"

section \<open>Defaults\<close>

definition default_scheduler_policy_version :: string where
  "default_scheduler_policy_version = ''1.0''"

definition default_max_failure_streak_before_pause :: int where
  "default_max_failure_streak_before_pause = 8"

definition default_backoff_strategy :: string where
  "default_backoff_strategy = ''exponential''"

definition default_backoff_base_secs :: int where "default_backoff_base_secs = 1"

definition default_backoff_max_secs :: int where "default_backoff_max_secs = 300"

definition default_backoff_policy :: backoff_policy where
  "default_backoff_policy =
     \<lparr> bp_strategy = default_backoff_strategy, bp_base_secs = default_backoff_base_secs,
       bp_max_secs = default_backoff_max_secs \<rparr>"

definition default_execution_policy :: execution_policy where
  "default_execution_policy =
     \<lparr> ep_max_failure_streak = default_max_failure_streak_before_pause,
       ep_backoff = default_backoff_policy \<rparr>"

definition default_scheduler_policy :: "scheduler_trigger \<Rightarrow> scheduler_policy" where
  "default_scheduler_policy t =
     \<lparr> sp_version = default_scheduler_policy_version, sp_trigger = t,
       sp_execution = default_execution_policy \<rparr>"

lemmas scheduler_defaults =
  default_scheduler_policy_version_def default_max_failure_streak_before_pause_def
  default_backoff_strategy_def default_backoff_base_secs_def default_backoff_max_secs_def
  default_backoff_policy_def default_execution_policy_def default_scheduler_policy_def

section \<open>Normalization and validation\<close>

text \<open>\<open>split_whitespace().count()\<close>: the maximal runs of characters that are not white space.\<close>

function field_count :: "bool \<Rightarrow> string \<Rightarrow> nat" where
  "field_count inside s =
     (if s = [] then 0
      else if ws_prefix_len s \<noteq> 0 then field_count False (drop (ws_prefix_len s) s)
      else (if inside then 0 else 1) + field_count True (tl s))"
  by pat_completeness auto
termination
  by (relation "measure (\<lambda>(b, s). length s)") auto

declare field_count.simps [simp del]

definition normalize_cron_expr :: "string \<Rightarrow> string" where
  "normalize_cron_expr raw =
     (let trimmed = trim raw
      in if field_count False trimmed = 5 then ''0 '' @ trimmed else trimmed)"

definition normalize_backoff_policy :: "backoff_policy \<Rightarrow> backoff_policy" where
  "normalize_backoff_policy p =
     (let p1 = p\<lparr>bp_strategy := (if trim (bp_strategy p) = [] then default_backoff_strategy
                                else to_ascii_lowercase (trim (bp_strategy p)))\<rparr>;
          p2 = p1\<lparr>bp_base_secs := max (bp_base_secs p1) 1\<rparr>
      in if bp_max_secs p2 < bp_base_secs p2 then p2\<lparr>bp_max_secs := bp_base_secs p2\<rparr> else p2)"

fun normalize_trigger :: "scheduler_trigger \<Rightarrow> scheduler_trigger" where
  "normalize_trigger (TriggerOnce at tz) = TriggerOnce at (trim tz)"
| "normalize_trigger (TriggerCron expr tz) = TriggerCron (trim expr) (trim tz)"

definition normalize_policy :: "scheduler_policy \<Rightarrow> scheduler_policy" where
  "normalize_policy p =
     p\<lparr>sp_version := (if trim (sp_version p) = [] then default_scheduler_policy_version
                      else trim (sp_version p)),
       sp_execution := (sp_execution p)\<lparr>ep_backoff := normalize_backoff_policy (ep_backoff (sp_execution p))\<rparr>,
       sp_trigger := normalize_trigger (sp_trigger p)\<rparr>"

definition validate_backoff_policy :: "backoff_policy \<Rightarrow> policy_error + unit" where
  "validate_backoff_policy p =
     ensure (to_ascii_lowercase (trim (bp_strategy p)) \<in> {''exponential'', ''fixed''})
       (UnsupportedStrategy (bp_strategy p))
     (ensure (0 < bp_base_secs p) BaseTooSmall
     (ensure (0 < bp_max_secs p) MaxTooSmall
     (ensure (bp_base_secs p \<le> bp_max_secs p) MaxBelowBase
     (Inr ()))))"

fun validate_policy_trigger :: "schedule_lib \<Rightarrow> scheduler_trigger \<Rightarrow> policy_error + unit" where
  "validate_policy_trigger lib (TriggerOnce at tz) =
     ensure (0 < at) RunAtNotPositive
     (ensure (tz_parses lib tz) (InvalidTimezone tz)
     (Inr ()))"
| "validate_policy_trigger lib (TriggerCron expr tz) =
     ensure (trim expr \<noteq> []) EmptyCronExpr
     (ensure (tz_parses lib tz) (InvalidTimezone tz)
     (ensure (cron_parses lib (normalize_cron_expr expr)) (InvalidCron expr)
     (Inr ())))"

definition validate_scheduler_policy :: "schedule_lib \<Rightarrow> scheduler_policy \<Rightarrow> policy_error + unit" where
  "validate_scheduler_policy lib p =
     ensure (trim (sp_version p) = default_scheduler_policy_version) (UnsupportedVersion (sp_version p))
     (ensure (ep_max_failure_streak (sp_execution p) \<noteq> 0) StreakTooSmall
     (ensure (ep_max_failure_streak (sp_execution p) \<le> 1024) StreakTooLarge
     (and_then (validate_backoff_policy (ep_backoff (sp_execution p))) (\<lambda>_.
      and_then (validate_policy_trigger lib (sp_trigger p)) (\<lambda>_.
      Inr ())))))"

definition parse_scheduler_policy_json :: "schedule_lib \<Rightarrow> string \<Rightarrow> policy_error + scheduler_policy" where
  "parse_scheduler_policy_json lib raw =
     fetch (policy_from_str lib raw) BadPolicyJson (\<lambda>p.
       let p = normalize_policy p
       in and_then (validate_scheduler_policy lib p) (\<lambda>_. Inr p))"

definition encode_scheduler_policy_json :: "schedule_lib \<Rightarrow> scheduler_policy \<Rightarrow> policy_error + string" where
  "encode_scheduler_policy_json lib p =
     and_then (validate_scheduler_policy lib p) (\<lambda>_. Inr (policy_to_string lib p))"

section \<open>Next run and back-off\<close>

text \<open>An \<open>i64\<close> addition wraps in a release build.\<close>

definition wrap_i64 :: "int \<Rightarrow> int" where
  "wrap_i64 x = (x + 2 ^ 63) mod 2 ^ 64 - 2 ^ 63"

fun compute_next_run_at_unix ::
  "schedule_lib \<Rightarrow> schedule_spec \<Rightarrow> int \<Rightarrow> string \<Rightarrow> policy_error + int option" where
  "compute_next_run_at_unix lib (SpecOnce at) now tz =
     ensure (tz_parses lib tz) (InvalidTimezone tz)
     (Inr (if at \<le> now then None else Some at))"
| "compute_next_run_at_unix lib (SpecCron expr) now tz =
     ensure (tz_parses lib tz) (InvalidTimezone tz)
     (ensure (cron_parses lib (normalize_cron_expr expr)) (InvalidCron expr)
     (ensure (local_single lib tz now) (InvalidLocalTimestamp tz)
     (Inr (cron_after lib tz (normalize_cron_expr expr) (now + 1)))))"

definition compute_next_run_from_policy ::
  "schedule_lib \<Rightarrow> scheduler_policy \<Rightarrow> int \<Rightarrow> policy_error + int option" where
  "compute_next_run_from_policy lib p now =
     and_then (validate_scheduler_policy lib p) (\<lambda>_.
       case sp_trigger p of
         TriggerOnce at tz \<Rightarrow> compute_next_run_at_unix lib (SpecOnce at) now tz
       | TriggerCron expr tz \<Rightarrow> compute_next_run_at_unix lib (SpecCron expr) now tz)"

definition compute_retry_backoff_secs_with_policy :: "backoff_policy \<Rightarrow> int \<Rightarrow> int" where
  "compute_retry_backoff_secs_with_policy p attempt =
     (let n = normalize_backoff_policy p;
          base = max (bp_base_secs n) 1;
          mx = max (bp_max_secs n) base
      in if bp_strategy n = ''fixed'' then clamp 1 mx base
         else if attempt = 0 then clamp 1 mx 1
         else clamp 1 mx (sat_i64 (base * sat_i64 (2 ^ nat (min attempt 20)))))"

definition compute_retry_backoff_secs :: "int \<Rightarrow> int" where
  "compute_retry_backoff_secs attempt =
     compute_retry_backoff_secs_with_policy default_backoff_policy attempt"

section \<open>The state machine and the plans of a finished run\<close>

fun apply_scheduler_state_transition ::
  "execution_state \<Rightarrow> execution_event \<Rightarrow> policy_error + execution_state" where
  "apply_scheduler_state_transition Active ManualPause = Inr Paused"
| "apply_scheduler_state_transition Paused ManualResume = Inr Active"
| "apply_scheduler_state_transition Active ManualCancel = Inr Canceled"
| "apply_scheduler_state_transition Paused ManualCancel = Inr Canceled"
| "apply_scheduler_state_transition Active RunSucceededKeepActive = Inr Active"
| "apply_scheduler_state_transition Active RunSucceededComplete = Inr Completed"
| "apply_scheduler_state_transition Active RunFailedRetry = Inr Active"
| "apply_scheduler_state_transition Active RunFailedPause = Inr Paused"
| "apply_scheduler_state_transition s e = Inl (InvalidTransition s e)"

definition is_once :: "scheduler_trigger \<Rightarrow> bool" where
  "is_once t = (case t of TriggerOnce _ _ \<Rightarrow> True | TriggerCron _ _ \<Rightarrow> False)"

definition plan_success_transition ::
  "schedule_lib \<Rightarrow> scheduler_policy \<Rightarrow> int \<Rightarrow> int \<Rightarrow> int option \<Rightarrow> policy_error + success_plan" where
  "plan_success_transition lib p now run_count_after max_runs =
     and_then (validate_scheduler_policy lib p) (\<lambda>_.
       let max_runs_reached = (case max_runs of None \<Rightarrow> False | Some m \<Rightarrow> m \<le> run_count_after);
           complete = and_then (apply_scheduler_state_transition Active RunSucceededComplete) (\<lambda>s.
             Inr \<lparr> su_next_state = s, su_mark_completed = True, su_next_run_at = None \<rparr>)
       in if is_once (sp_trigger p) \<or> max_runs_reached then complete
          else and_then (compute_next_run_from_policy lib p now) (\<lambda>next.
            if next = None then complete
            else and_then (apply_scheduler_state_transition Active RunSucceededKeepActive) (\<lambda>s.
              Inr \<lparr> su_next_state = s, su_mark_completed = False, su_next_run_at = next \<rparr>)))"

definition plan_failure_transition ::
  "schedule_lib \<Rightarrow> scheduler_policy \<Rightarrow> int \<Rightarrow> int \<Rightarrow> policy_error + failure_plan" where
  "plan_failure_transition lib p now streak_after =
     and_then (validate_scheduler_policy lib p) (\<lambda>_.
       let threshold = max (ep_max_failure_streak (sp_execution p)) 1
       in if threshold \<le> streak_after
          then and_then (apply_scheduler_state_transition Active RunFailedPause) (\<lambda>s.
            Inr \<lparr> fa_next_state = s, fa_pause_job = True, fa_next_run_at = None, fa_backoff_secs = None \<rparr>)
          else let backoff = max (compute_retry_backoff_secs_with_policy (ep_backoff (sp_execution p))
                                    (max streak_after 0 mod 2 ^ 32)) 1
            in and_then (apply_scheduler_state_transition Active RunFailedRetry) (\<lambda>s.
              Inr \<lparr> fa_next_state = s, fa_pause_job = False,
                    fa_next_run_at = Some (wrap_i64 (now + backoff)), fa_backoff_secs = Some backoff \<rparr>))"

section \<open>Normal forms\<close>

lemma trim_literals [simp]:
  "trim ''1.0'' = ''1.0''" "trim ''exponential'' = ''exponential''" "trim ''fixed'' = ''fixed''"
  by code_simp+

lemma lowercase_literals [simp]:
  "to_ascii_lowercase ''exponential'' = ''exponential''" "to_ascii_lowercase ''fixed'' = ''fixed''"
  by code_simp+

lemma normalize_cron_trim [simp]: "normalize_cron_expr (trim s) = normalize_cron_expr s"
  by (simp add: normalize_cron_expr_def)

lemma validate_backoff_iff:
  "validate_backoff_policy p = Inr () \<longleftrightarrow>
     to_ascii_lowercase (trim (bp_strategy p)) \<in> {''exponential'', ''fixed''}
     \<and> 0 < bp_base_secs p \<and> bp_base_secs p \<le> bp_max_secs p"
  by (auto simp: validate_backoff_policy_def)

lemma validate_policy_iff:
  "validate_scheduler_policy lib p = Inr () \<longleftrightarrow>
     trim (sp_version p) = ''1.0''
     \<and> ep_max_failure_streak (sp_execution p) \<noteq> 0 \<and> ep_max_failure_streak (sp_execution p) \<le> 1024
     \<and> validate_backoff_policy (ep_backoff (sp_execution p)) = Inr ()
     \<and> validate_policy_trigger lib (sp_trigger p) = Inr ()"
  by (simp add: validate_scheduler_policy_def default_scheduler_policy_version_def)

lemma valid_normalize_backoff:
  assumes "validate_backoff_policy p = Inr ()"
  shows "normalize_backoff_policy p = p\<lparr>bp_strategy := to_ascii_lowercase (trim (bp_strategy p))\<rparr>"
proof -
  from assms have "trim (bp_strategy p) \<noteq> []"
    by (auto simp: validate_backoff_iff to_ascii_lowercase_def)
  with assms show ?thesis
    by (simp add: normalize_backoff_policy_def validate_backoff_iff max_absorb1)
qed

lemma normalize_backoff_keeps:
  assumes "validate_backoff_policy p = Inr ()"
  shows "validate_backoff_policy (normalize_backoff_policy p) = Inr ()"
    and "normalize_backoff_policy (normalize_backoff_policy p) = normalize_backoff_policy p"
proof -
  from assms have "to_ascii_lowercase (trim (bp_strategy p)) \<in> {''exponential'', ''fixed''}"
    by (simp add: validate_backoff_iff)
  then have fix_lower: "to_ascii_lowercase (trim (to_ascii_lowercase (trim (bp_strategy p))))
      = to_ascii_lowercase (trim (bp_strategy p))" by auto
  show valid: "validate_backoff_policy (normalize_backoff_policy p) = Inr ()"
    using assms by (simp add: valid_normalize_backoff validate_backoff_iff fix_lower)
  show "normalize_backoff_policy (normalize_backoff_policy p) = normalize_backoff_policy p"
    unfolding valid_normalize_backoff [OF valid] unfolding valid_normalize_backoff [OF assms]
    by (simp add: fix_lower)
qed

lemma normalize_trigger_valid:
  assumes "\<And>z. tz_parses lib z \<Longrightarrow> trim z = z" and "validate_policy_trigger lib t = Inr ()"
  shows "validate_policy_trigger lib (normalize_trigger t) = Inr ()"
  using assms by (cases t) auto

lemma normalize_policy_valid:
  assumes tz: "\<And>z. tz_parses lib z \<Longrightarrow> trim z = z" and valid: "validate_scheduler_policy lib p = Inr ()"
  shows "validate_scheduler_policy lib (normalize_policy p) = Inr ()"
  using valid normalize_trigger_valid [OF tz, of lib "sp_trigger p"]
  by (simp add: validate_policy_iff normalize_policy_def normalize_backoff_keeps)

section \<open>Plans in closed form\<close>

lemma next_run_normalize:
  assumes tz: "\<And>z. tz_parses lib z \<Longrightarrow> trim z = z" and valid: "validate_scheduler_policy lib p = Inr ()"
  shows "compute_next_run_from_policy lib (normalize_policy p) now = compute_next_run_from_policy lib p now"
proof -
  have "validate_policy_trigger lib (sp_trigger p) = Inr ()"
    using valid by (simp add: validate_policy_iff)
  then show ?thesis
    using normalize_policy_valid [OF tz valid] valid tz
    by (cases "sp_trigger p") (auto simp: compute_next_run_from_policy_def normalize_policy_def)
qed

lemma backoff_normalize:
  assumes "validate_backoff_policy p = Inr ()"
  shows "compute_retry_backoff_secs_with_policy (normalize_backoff_policy p) a
       = compute_retry_backoff_secs_with_policy p a"
  using assms by (simp add: compute_retry_backoff_secs_with_policy_def normalize_backoff_keeps)

lemma is_once_normalize [simp]: "is_once (normalize_trigger t) = is_once t"
  by (cases t) (simp_all add: is_once_def)

text \<open>The back-off of a valid policy whose numbers are \<open>i64\<close> values, without saturation.\<close>

definition retry_delay :: "backoff_policy \<Rightarrow> int \<Rightarrow> int" where
  "retry_delay p attempt =
     (if to_ascii_lowercase (trim (bp_strategy p)) = ''fixed'' then bp_base_secs p
      else if attempt = 0 then 1
      else min (bp_max_secs p) (bp_base_secs p * 2 ^ nat (min attempt 20)))"

lemma sat_min: "0 \<le> x \<Longrightarrow> m \<le> i64_max \<Longrightarrow> min m (sat_i64 x) = min m x"
  by (auto simp: sat_i64_def i64_max_def i64_min_def)

lemma sat_small: "0 \<le> x \<Longrightarrow> x \<le> 2 ^ 20 \<Longrightarrow> sat_i64 x = x"
  by (auto simp: sat_i64_def i64_max_def i64_min_def)

lemma backoff_exact:
  assumes valid: "validate_backoff_policy p = Inr ()" and range: "bp_max_secs p \<le> i64_max"
    and attempt: "0 \<le> attempt"
  shows "compute_retry_backoff_secs_with_policy p attempt = retry_delay p attempt"
proof -
  let ?e = "2 ^ nat (min attempt 20) :: int"
  have pos: "0 < bp_base_secs p" and le: "bp_base_secs p \<le> bp_max_secs p"
    using valid by (simp_all add: validate_backoff_iff)
  have "?e \<le> 2 ^ 20" by (rule power_increasing) auto
  then have e: "sat_i64 ?e = ?e" by (rule sat_small [rotated]) simp
  have "1 \<le> bp_base_secs p * ?e" using mult_mono [of 1 "bp_base_secs p" 1 ?e] pos by simp
  moreover have "min (bp_max_secs p) (sat_i64 (bp_base_secs p * ?e)) = min (bp_max_secs p) (bp_base_secs p * ?e)"
    using range pos by (intro sat_min) simp_all
  ultimately show ?thesis
    using pos le e
    by (simp add: compute_retry_backoff_secs_with_policy_def retry_delay_def Let_def clamp_def
        valid_normalize_backoff [OF valid])
qed

lemma retry_delay_bounds:
  assumes "validate_backoff_policy p = Inr ()" and "0 \<le> attempt"
  shows "1 \<le> retry_delay p attempt" and "retry_delay p attempt \<le> bp_max_secs p"
proof -
  have pos: "0 < bp_base_secs p" "bp_base_secs p \<le> bp_max_secs p"
    using assms by (simp_all add: validate_backoff_iff)
  then have "1 \<le> bp_base_secs p * 2 ^ nat (min attempt 20)"
    using mult_mono [of 1 "bp_base_secs p" 1 "2 ^ nat (min attempt 20)"] by simp
  with pos show "1 \<le> retry_delay p attempt" and "retry_delay p attempt \<le> bp_max_secs p"
    by (auto simp: retry_delay_def)
qed

lemma retry_delay_mono:
  assumes valid: "validate_backoff_policy p = Inr ()" and "0 \<le> a" and "a \<le> b"
  shows "retry_delay p a \<le> retry_delay p b"
proof (cases "a = 0")
  case True
  have "0 \<le> b" using assms by simp
  then show ?thesis
    using True retry_delay_bounds(1) [OF valid, of b] by (auto simp: retry_delay_def)
next
  case False
  have "0 < bp_base_secs p" using valid by (simp add: validate_backoff_iff)
  moreover have "(2::int) ^ nat (min a 20) \<le> 2 ^ nat (min b 20)"
    using assms by (intro power_increasing) auto
  ultimately have "bp_base_secs p * 2 ^ nat (min a 20) \<le> bp_base_secs p * 2 ^ nat (min b 20)"
    by (simp add: mult_left_mono)
  with False assms show ?thesis by (auto simp: retry_delay_def)
qed

lemma wrap_i64_id: "i64_min \<le> x \<Longrightarrow> x \<le> i64_max \<Longrightarrow> wrap_i64 x = x"
  by (simp add: wrap_i64_def i64_min_def i64_max_def)

end
