(* ===== verification/Scheduler_Store.thy ===== *)
theory Scheduler_Store
  imports Scheduler
begin

text \<open>
  The scheduler tables of \<open>SqliteMemoryStore\<close> (\<open>memory.rs\<close>): jobs, the ledger of their runs
  and the drafts that wait for a confirmation. A job row keeps its three enum columns as text;
  \<open>telegram_scheduler_job_from_row\<close> decodes it. Every operation is one SQL transaction: it
  returns the new tables, or an error and then leaves the tables as they were. The last argument
  before the tables is the clock reading \<open>unixepoch()\<close> where the statement takes one.
\<close>

section \<open>Enums\<close>

datatype job_status = JobActive | JobPaused | JobCompleted | JobCanceled

datatype task_kind = Reminder | Agent

datatype schedule_kind = KindOnce | KindCron

fun job_status_str :: "job_status \<Rightarrow> string" where
  "job_status_str JobActive = ''active''"
| "job_status_str JobPaused = ''paused''"
| "job_status_str JobCompleted = ''completed''"
| "job_status_str JobCanceled = ''canceled''"

definition job_status_from_db :: "string \<Rightarrow> job_status" where
  "job_status_from_db v =
     (if v = ''paused'' then JobPaused
      else if v = ''completed'' then JobCompleted
      else if v = ''canceled'' then JobCanceled
      else JobActive)"

fun task_kind_str :: "task_kind \<Rightarrow> string" where
  "task_kind_str Reminder = ''reminder''"
| "task_kind_str Agent = ''agent''"

definition task_kind_from_db :: "string \<Rightarrow> task_kind" where
  "task_kind_from_db v = (if v = ''agent'' then Agent else Reminder)"

fun schedule_kind_str :: "schedule_kind \<Rightarrow> string" where
  "schedule_kind_str KindOnce = ''once''"
| "schedule_kind_str KindCron = ''cron''"

definition schedule_kind_from_db :: "string \<Rightarrow> schedule_kind" where
  "schedule_kind_from_db v = (if v = ''cron'' then KindCron else KindOnce)"

text \<open>
  Unlike the codecs of the loop engine, \<open>from_db\<close> is total here: a text no writer produces reads
  as the first variant.
\<close>

locale total_codec =
  fixes as_text :: "'a \<Rightarrow> string" and from_text :: "string \<Rightarrow> 'a"
  assumes from_as_text [simp]: "from_text (as_text x) = x"
begin

lemma as_text_inj: "as_text x = as_text y \<longleftrightarrow> x = y"
  by (metis from_as_text)

lemma from_text_range: "s \<in> range as_text \<Longrightarrow> as_text (from_text s) = s"
  by auto

end

interpretation job_status_codec: total_codec job_status_str job_status_from_db
proof
  fix x show "job_status_from_db (job_status_str x) = x"
    by (cases x) (simp_all add: job_status_from_db_def)
qed

interpretation task_kind_codec: total_codec task_kind_str task_kind_from_db
proof
  fix x show "task_kind_from_db (task_kind_str x) = x"
    by (cases x) (simp_all add: task_kind_from_db_def)
qed

interpretation schedule_kind_codec: total_codec schedule_kind_str schedule_kind_from_db
proof
  fix x show "schedule_kind_from_db (schedule_kind_str x) = x"
    by (cases x) (simp_all add: schedule_kind_from_db_def)
qed

section \<open>Rows\<close>

text \<open>
  One record for the row and for what it decodes to: the row has texts in the three enum columns,
  \<open>TelegramSchedulerJobRecord\<close> the enums.
\<close>

record ('st, 'tk, 'sk) sched_job =
  sj_job_id :: string
  sj_channel :: string
  sj_chat_id :: int
  sj_message_thread_id :: "int option"
  sj_owner_user_id :: int
  sj_status :: 'st
  sj_task_kind :: 'tk
  sj_payload :: string
  sj_schedule_kind :: 'sk
  sj_timezone :: string
  sj_run_at_unix :: "int option"
  sj_cron_expr :: "string option"
  sj_policy_json :: "string option"
  sj_next_run_at_unix :: "int option"
  sj_last_run_at_unix :: "int option"
  sj_last_error :: "string option"
  sj_run_count :: int
  sj_failure_streak :: int
  sj_max_runs :: "int option"
  sj_lease_token :: "string option"
  sj_lease_until_unix :: "int option"
  sj_created_at :: int
  sj_updated_at :: int

type_synonym job_row = "(string, string, string) sched_job"
type_synonym job_record = "(job_status, task_kind, schedule_kind) sched_job"

definition telegram_scheduler_job_from_row :: "job_row \<Rightarrow> job_record" where
  "telegram_scheduler_job_from_row r =
     \<lparr> sj_job_id = sj_job_id r, sj_channel = sj_channel r, sj_chat_id = sj_chat_id r,
       sj_message_thread_id = sj_message_thread_id r, sj_owner_user_id = sj_owner_user_id r,
       sj_status = job_status_from_db (sj_status r),
       sj_task_kind = task_kind_from_db (sj_task_kind r), sj_payload = sj_payload r,
       sj_schedule_kind = schedule_kind_from_db (sj_schedule_kind r),
       sj_timezone = sj_timezone r, sj_run_at_unix = sj_run_at_unix r,
       sj_cron_expr = sj_cron_expr r, sj_policy_json = sj_policy_json r,
       sj_next_run_at_unix = sj_next_run_at_unix r, sj_last_run_at_unix = sj_last_run_at_unix r,
       sj_last_error = sj_last_error r, sj_run_count = sj_run_count r,
       sj_failure_streak = sj_failure_streak r, sj_max_runs = sj_max_runs r,
       sj_lease_token = sj_lease_token r, sj_lease_until_unix = sj_lease_until_unix r,
       sj_created_at = sj_created_at r, sj_updated_at = sj_updated_at r \<rparr>"

record create_job_request =
  cj_job_id :: string
  cj_channel :: string
  cj_chat_id :: int
  cj_message_thread_id :: "int option"
  cj_owner_user_id :: int
  cj_status :: job_status
  cj_task_kind :: task_kind
  cj_payload :: string
  cj_schedule_kind :: schedule_kind
  cj_timezone :: string
  cj_run_at_unix :: "int option"
  cj_cron_expr :: "string option"
  cj_policy_json :: "string option"
  cj_next_run_at_unix :: "int option"
  cj_max_runs :: "int option"

record complete_run_request =
  cr_channel :: string
  cr_chat_id :: int
  cr_job_id :: string
  cr_lease_token :: string
  cr_started_at :: int
  cr_finished_at :: int
  cr_next_run_at :: "int option"
  cr_mark_completed :: bool

record fail_run_request =
  fr_channel :: string
  fr_chat_id :: int
  fr_job_id :: string
  fr_lease_token :: string
  fr_started_at :: int
  fr_finished_at :: int
  fr_next_run_at :: "int option"
  fr_pause_job :: bool
  fr_error :: string

record run_row =
  rr_job_id :: string
  rr_channel :: string
  rr_chat_id :: int
  rr_started_at :: int
  rr_finished_at :: int
  rr_ok :: bool
  rr_error :: "string option"

record intent_row =
  pi_intent_id :: string
  pi_channel :: string
  pi_chat_id :: int
  pi_owner_user_id :: int
  pi_draft_json :: string
  pi_expires_at :: int
  pi_created_at :: int
  pi_updated_at :: int

record upsert_intent_request =
  ui_intent_id :: string
  ui_channel :: string
  ui_chat_id :: int
  ui_owner_user_id :: int
  ui_draft_json :: string
  ui_expires_at :: int

record scheduler_stats =
  st_total :: nat
  st_active :: nat
  st_paused :: nat
  st_completed :: nat
  st_canceled :: nat
  st_due :: nat

record sched_db =
  sd_jobs :: "job_row list"
  sd_runs :: "run_row list"
  sd_intents :: "intent_row list"

datatype store_error =
    DuplicateJobId
  | CompletionRejected
  | FailureRejected
  | DuplicateIntentId

text \<open>The statements that create the tables leave them empty.\<close>

definition empty_sched_db :: sched_db where
  "empty_sched_db = \<lparr> sd_jobs = [], sd_runs = [], sd_intents = [] \<rparr>"

section \<open>Jobs\<close>

definition new_job_row :: "create_job_request \<Rightarrow> int \<Rightarrow> job_row" where
  "new_job_row req at =
     \<lparr> sj_job_id = cj_job_id req, sj_channel = cj_channel req, sj_chat_id = cj_chat_id req,
       sj_message_thread_id = cj_message_thread_id req, sj_owner_user_id = cj_owner_user_id req,
       sj_status = job_status_str (cj_status req), sj_task_kind = task_kind_str (cj_task_kind req),
       sj_payload = cj_payload req, sj_schedule_kind = schedule_kind_str (cj_schedule_kind req),
       sj_timezone = cj_timezone req, sj_run_at_unix = cj_run_at_unix req,
       sj_cron_expr = cj_cron_expr req, sj_policy_json = cj_policy_json req,
       sj_next_run_at_unix = cj_next_run_at_unix req, sj_last_run_at_unix = None,
       sj_last_error = None, sj_run_count = 0, sj_failure_streak = 0, sj_max_runs = cj_max_runs req,
       sj_lease_token = None, sj_lease_until_unix = None, sj_created_at = at, sj_updated_at = at \<rparr>"

definition create_telegram_scheduler_job ::
  "create_job_request \<Rightarrow> int \<Rightarrow> sched_db \<Rightarrow> store_error + sched_db" where
  "create_telegram_scheduler_job req at db =
     ensure (\<forall>r \<in> set (sd_jobs db). sj_job_id r \<noteq> cj_job_id req) DuplicateJobId
     (Inr (db\<lparr>sd_jobs := sd_jobs db @ [new_job_row req at]\<rparr>))"

text \<open>
  \<open>ORDER BY created_at DESC LIMIT ?4\<close>: the index \<open>idx_scheduler_jobs_owner\<close> read backwards, so
  that of two jobs created in the same second the later row comes first.
\<close>

definition list_telegram_scheduler_jobs_by_owner ::
  "string \<Rightarrow> int \<Rightarrow> int \<Rightarrow> nat \<Rightarrow> sched_db \<Rightarrow> job_record list" where
  "list_telegram_scheduler_jobs_by_owner channel chat_id owner limit db =
     map telegram_scheduler_job_from_row
       (take (max limit 1)
         (rev (select_ordered sj_created_at
           (\<lambda>r. sj_channel r = channel \<and> sj_chat_id r = chat_id \<and> sj_owner_user_id r = owner)
           (sd_jobs db))))"

text \<open>A comparison with a \<open>NULL\<close> column is not true.\<close>

definition col_le :: "int option \<Rightarrow> int \<Rightarrow> bool" where
  "col_le c x = (case c of None \<Rightarrow> False | Some y \<Rightarrow> y \<le> x)"

definition lease_free :: "int \<Rightarrow> job_row \<Rightarrow> bool" where
  "lease_free now r \<longleftrightarrow> sj_lease_until_unix r = None \<or> col_le (sj_lease_until_unix r) now"

definition job_due :: "int \<Rightarrow> job_row \<Rightarrow> bool" where
  "job_due now r \<longleftrightarrow>
     sj_status r = ''active'' \<and> sj_next_run_at_unix r \<noteq> None
     \<and> col_le (sj_next_run_at_unix r) now \<and> lease_free now r"

definition query_telegram_scheduler_stats :: "string \<Rightarrow> int \<Rightarrow> sched_db \<Rightarrow> scheduler_stats" where
  "query_telegram_scheduler_stats channel now db =
     (let rows = filter (\<lambda>r. sj_channel r = channel) (sd_jobs db)
      in \<lparr> st_total = length rows,
           st_active = count_where (\<lambda>r. sj_status r = ''active'') rows,
           st_paused = count_where (\<lambda>r. sj_status r = ''paused'') rows,
           st_completed = count_where (\<lambda>r. sj_status r = ''completed'') rows,
           st_canceled = count_where (\<lambda>r. sj_status r = ''canceled'') rows,
           st_due = count_where (job_due now) rows \<rparr>)"

definition load_telegram_scheduler_job :: "string \<Rightarrow> string \<Rightarrow> sched_db \<Rightarrow> job_record option" where
  "load_telegram_scheduler_job channel job_id db =
     map_option telegram_scheduler_job_from_row
       (find (\<lambda>r. sj_channel r = channel \<and> sj_job_id r = job_id) (sd_jobs db))"

definition update_telegram_scheduler_job_status ::
  "string \<Rightarrow> int \<Rightarrow> int \<Rightarrow> string \<Rightarrow> job_status \<Rightarrow> int \<Rightarrow> sched_db \<Rightarrow> sched_db \<times> bool" where
  "update_telegram_scheduler_job_status channel chat_id owner job_id status at db =
     (let hit = (\<lambda>r. sj_channel r = channel \<and> sj_chat_id r = chat_id \<and> sj_owner_user_id r = owner
                   \<and> sj_job_id r = job_id \<and> sj_status r \<notin> {''completed'', ''canceled''})
      in (db\<lparr>sd_jobs := update_where hit
               (\<lambda>r. r\<lparr>sj_status := job_status_str status, sj_lease_token := None,
                      sj_lease_until_unix := None, sj_updated_at := at\<rparr>) (sd_jobs db)\<rparr>,
          count_where hit (sd_jobs db) > 0))"

section \<open>Claiming and finishing runs\<close>

definition claim_due_telegram_scheduler_jobs ::
  "string \<Rightarrow> int \<Rightarrow> nat \<Rightarrow> int \<Rightarrow> string \<Rightarrow> int \<Rightarrow> sched_db \<Rightarrow> sched_db \<times> job_record list" where
  "claim_due_telegram_scheduler_jobs channel now limit lease_secs token at db =
     (let rows = take (max limit 1)
            (select_ordered (\<lambda>r. the (sj_next_run_at_unix r))
              (\<lambda>r. sj_channel r = channel \<and> job_due now r) (sd_jobs db))
      in if rows = [] then (db, [])
         else let job_ids = map sj_job_id rows;
                  lease_until = wrap_i64 (now + max lease_secs 1);
                  jobs = update_where
                    (\<lambda>r. sj_channel r = channel \<and> sj_status r = ''active''
                       \<and> sj_job_id r \<in> set job_ids \<and> lease_free now r)
                    (\<lambda>r. r\<lparr>sj_lease_token := Some token, sj_lease_until_unix := Some lease_until,
                           sj_updated_at := at\<rparr>) (sd_jobs db)
           in (db\<lparr>sd_jobs := jobs\<rparr>,
               map telegram_scheduler_job_from_row
                 (filter (\<lambda>r. sj_channel r = channel \<and> sj_lease_token r = Some token) jobs)))"

definition complete_hit :: "complete_run_request \<Rightarrow> job_row \<Rightarrow> bool" where
  "complete_hit req r \<longleftrightarrow>
     sj_channel r = cr_channel req \<and> sj_chat_id r = cr_chat_id req \<and> sj_job_id r = cr_job_id req
     \<and> sj_lease_token r = Some (cr_lease_token req)"

definition completed_row :: "complete_run_request \<Rightarrow> int \<Rightarrow> job_row \<Rightarrow> job_row" where
  "completed_row req at r =
     r\<lparr>sj_status := job_status_str (if cr_mark_completed req then JobCompleted else JobActive),
       sj_next_run_at_unix := cr_next_run_at req, sj_last_run_at_unix := Some (cr_finished_at req),
       sj_last_error := None, sj_run_count := sj_run_count r + 1, sj_failure_streak := 0,
       sj_lease_token := None, sj_lease_until_unix := None, sj_updated_at := at\<rparr>"

definition complete_telegram_scheduler_job_run ::
  "complete_run_request \<Rightarrow> int \<Rightarrow> sched_db \<Rightarrow> store_error + sched_db" where
  "complete_telegram_scheduler_job_run req at db =
     (let run = \<lparr> rr_job_id = cr_job_id req, rr_channel = cr_channel req, rr_chat_id = cr_chat_id req,
                  rr_started_at = cr_started_at req, rr_finished_at = cr_finished_at req,
                  rr_ok = True, rr_error = None \<rparr>
      in ensure (count_where (complete_hit req) (sd_jobs db) \<noteq> 0) CompletionRejected
        (Inr (db\<lparr>sd_runs := sd_runs db @ [run],
                 sd_jobs := update_where (complete_hit req) (completed_row req at) (sd_jobs db)\<rparr>)))"

definition fail_hit :: "fail_run_request \<Rightarrow> job_row \<Rightarrow> bool" where
  "fail_hit req r \<longleftrightarrow>
     sj_channel r = fr_channel req \<and> sj_chat_id r = fr_chat_id req \<and> sj_job_id r = fr_job_id req
     \<and> sj_lease_token r = Some (fr_lease_token req)"

definition failed_row :: "fail_run_request \<Rightarrow> int \<Rightarrow> job_row \<Rightarrow> job_row" where
  "failed_row req at r =
     r\<lparr>sj_status := job_status_str (if fr_pause_job req then JobPaused else JobActive),
       sj_next_run_at_unix := fr_next_run_at req, sj_last_run_at_unix := Some (fr_finished_at req),
       sj_last_error := Some (fr_error req), sj_run_count := sj_run_count r + 1,
       sj_failure_streak := sj_failure_streak r + 1,
       sj_lease_token := None, sj_lease_until_unix := None, sj_updated_at := at\<rparr>"

definition fail_telegram_scheduler_job_run ::
  "fail_run_request \<Rightarrow> int \<Rightarrow> sched_db \<Rightarrow> store_error + sched_db" where
  "fail_telegram_scheduler_job_run req at db =
     (let run = \<lparr> rr_job_id = fr_job_id req, rr_channel = fr_channel req, rr_chat_id = fr_chat_id req,
                  rr_started_at = fr_started_at req, rr_finished_at = fr_finished_at req,
                  rr_ok = False, rr_error = Some (fr_error req) \<rparr>
      in ensure (count_where (fail_hit req) (sd_jobs db) \<noteq> 0) FailureRejected
        (Inr (db\<lparr>sd_runs := sd_runs db @ [run],
                 sd_jobs := update_where (fail_hit req) (failed_row req at) (sd_jobs db)\<rparr>)))"

section \<open>Drafts waiting for confirmation\<close>

text \<open>
  The conflict target of the upsert is the unique index on channel, chat and owner; a clash of the
  primary key with another row is an error.
\<close>

definition intent_of :: "string \<Rightarrow> int \<Rightarrow> int \<Rightarrow> intent_row \<Rightarrow> bool" where
  "intent_of channel chat_id owner r \<longleftrightarrow>
     pi_channel r = channel \<and> pi_chat_id r = chat_id \<and> pi_owner_user_id r = owner"

definition upsert_telegram_scheduler_pending_intent ::
  "upsert_intent_request \<Rightarrow> int \<Rightarrow> sched_db \<Rightarrow> store_error + sched_db" where
  "upsert_telegram_scheduler_pending_intent req at db =
     (let same = intent_of (ui_channel req) (ui_chat_id req) (ui_owner_user_id req);
          rows = sd_intents db
      in ensure (\<forall>r \<in> set rows. \<not> same r \<longrightarrow> pi_intent_id r \<noteq> ui_intent_id req) DuplicateIntentId
        (Inr (if count_where same rows \<noteq> 0
              then db\<lparr>sd_intents := update_where same
                (\<lambda>r. r\<lparr>pi_intent_id := ui_intent_id req, pi_draft_json := ui_draft_json req,
                       pi_expires_at := ui_expires_at req, pi_updated_at := at\<rparr>) rows\<rparr>
              else db\<lparr>sd_intents := rows @
                [\<lparr> pi_intent_id = ui_intent_id req, pi_channel = ui_channel req,
                   pi_chat_id = ui_chat_id req, pi_owner_user_id = ui_owner_user_id req,
                   pi_draft_json = ui_draft_json req, pi_expires_at = ui_expires_at req,
                   pi_created_at = at, pi_updated_at = at \<rparr>]\<rparr>)))"

definition load_telegram_scheduler_pending_intent ::
  "string \<Rightarrow> int \<Rightarrow> int \<Rightarrow> int \<Rightarrow> sched_db \<Rightarrow> intent_row option" where
  "load_telegram_scheduler_pending_intent channel chat_id owner now db =
     find (\<lambda>r. intent_of channel chat_id owner r \<and> now < pi_expires_at r) (sd_intents db)"

definition delete_telegram_scheduler_pending_intent ::
  "string \<Rightarrow> int \<Rightarrow> int \<Rightarrow> sched_db \<Rightarrow> sched_db \<times> bool" where
  "delete_telegram_scheduler_pending_intent channel chat_id owner db =
     (db\<lparr>sd_intents := filter (\<lambda>r. \<not> intent_of channel chat_id owner r) (sd_intents db)\<rparr>,
      count_where (intent_of channel chat_id owner) (sd_intents db) > 0)"

end
