(* ===== verification/Scheduler_Jobs.thy ===== *)
theory Scheduler_Jobs
  imports Scheduler_Store
begin

text \<open>
  What the Telegram channel does with scheduler jobs: building a draft and a job from it
  (\<open>scheduler_helpers.rs\<close>), pausing, resuming and deleting jobs (\<open>telegram_commands.rs\<close>), and
  the worker that claims due jobs, delivers them and settles their runs (\<open>workers.rs\<close>). Replies
  to the user are values of a datatype in place of their texts; clock readings, the answers of the
  Telegram API and the texts generated by the message service are arguments.
\<close>

section \<open>Operations and states\<close>

datatype job_operation = OpPause | OpResume | OpDelete

fun as_event :: "job_operation \<Rightarrow> execution_event" where
  "as_event OpPause = ManualPause"
| "as_event OpResume = ManualResume"
| "as_event OpDelete = ManualCancel"

fun scheduler_state_from_job_status :: "job_status \<Rightarrow> execution_state" where
  "scheduler_state_from_job_status JobActive = Active"
| "scheduler_state_from_job_status JobPaused = Paused"
| "scheduler_state_from_job_status JobCompleted = Completed"
| "scheduler_state_from_job_status JobCanceled = Canceled"

fun scheduler_state_to_job_status :: "execution_state \<Rightarrow> job_status" where
  "scheduler_state_to_job_status Active = JobActive"
| "scheduler_state_to_job_status Paused = JobPaused"
| "scheduler_state_to_job_status Completed = JobCompleted"
| "scheduler_state_to_job_status Canceled = JobCanceled"

lemma state_of_status [simp]: "scheduler_state_from_job_status (scheduler_state_to_job_status s) = s"
  by (cases s) simp_all

lemma status_of_state [simp]: "scheduler_state_to_job_status (scheduler_state_from_job_status s) = s"
  by (cases s) simp_all

datatype channel_error =
    PolicyErr policy_error
  | StoreErr store_error
  | QuotaReached nat
  | NoNextRun
  | MissingTime
  | UnsupportedTime

definition lift_err :: "('e \<Rightarrow> 'f) \<Rightarrow> 'e + 'a \<Rightarrow> 'f + 'a" where
  "lift_err f x = (case x of Inl e \<Rightarrow> Inl (f e) | Inr y \<Rightarrow> Inr y)"

lemma lift_err_Inr [simp]: "lift_err f x = Inr y \<longleftrightarrow> x = Inr y"
  by (cases x) (simp_all add: lift_err_def)

lemma lift_err_simps [simp]: "lift_err f (Inl e) = Inl (f e)" "lift_err f (Inr y) = Inr y"
  by (simp_all add: lift_err_def)

section \<open>Drafts\<close>

record scheduler_intent =
  in_action :: string
  in_task_kind :: "string option"
  in_payload :: "string option"
  in_schedule_kind :: "string option"
  in_run_at :: "string option"
  in_cron_expr :: "string option"
  in_timezone :: "string option"
  in_job_id :: "string option"
  in_job_operation :: "string option"

record intent_draft =
  dr_task_kind :: task_kind
  dr_schedule_kind :: schedule_kind
  dr_payload :: string
  dr_timezone :: string
  dr_run_at_unix :: "int option"
  dr_cron_expr :: "string option"
  dr_source_text :: string

text \<open>\<open>str::parse::<i64>()\<close>.\<close>

definition is_digit :: "char \<Rightarrow> bool" where
  "is_digit c \<longleftrightarrow> 48 \<le> (of_char c :: nat) \<and> (of_char c :: nat) \<le> 57"

definition digits_value :: "string \<Rightarrow> int" where
  "digits_value s = foldl (\<lambda>a c. a * 10 + (of_char c - 48)) 0 s"

definition parse_i64 :: "string \<Rightarrow> int option" where
  "parse_i64 s =
     (let neg = (s \<noteq> [] \<and> hd s = CHR ''-'');
          digits = (if s \<noteq> [] \<and> hd s \<in> {CHR ''-'', CHR ''+''} then tl s else s)
      in if digits = [] \<or> \<not> list_all is_digit digits then None
         else try_i64 (if neg then - digits_value digits else digits_value digits))"

text \<open>
  The date formats of \<open>chrono\<close>: RFC 3339, and a local time in one of four formats with its one
  instant in a time zone.
\<close>

record time_lib =
  parse_rfc3339 :: "string \<Rightarrow> int option"
  parse_local :: "string \<Rightarrow> string \<Rightarrow> string \<Rightarrow> int option"

definition once_time_formats :: "string list" where
  "once_time_formats =
     [''%Y-%m-%d %H:%M:%S'', ''%Y-%m-%d %H:%M'', ''%Y/%m/%d %H:%M:%S'', ''%Y/%m/%d %H:%M'']"

fun first_some :: "('a \<Rightarrow> 'b option) \<Rightarrow> 'a list \<Rightarrow> 'b option" where
  "first_some f [] = None"
| "first_some f (x # xs) = (case f x of None \<Rightarrow> first_some f xs | Some y \<Rightarrow> Some y)"

definition parse_scheduler_once_time ::
  "schedule_lib \<Rightarrow> time_lib \<Rightarrow> string \<Rightarrow> string \<Rightarrow> channel_error + int" where
  "parse_scheduler_once_time lib chrono raw default_tz =
     (let input = trim raw
      in ensure (input \<noteq> []) MissingTime
        (case parse_i64 input of
           Some unix \<Rightarrow> Inr unix
         | None \<Rightarrow> (case parse_rfc3339 chrono input of
             Some t \<Rightarrow> Inr t
           | None \<Rightarrow> ensure (tz_parses lib default_tz) (PolicyErr (InvalidTimezone default_tz))
               (case first_some (\<lambda>fmt. parse_local chrono fmt default_tz input) once_time_formats of
                  Some t \<Rightarrow> Inr t
                | None \<Rightarrow> Inl UnsupportedTime))))"

definition build_scheduler_draft_from_intent ::
  "schedule_lib \<Rightarrow> time_lib \<Rightarrow> scheduler_intent \<Rightarrow> string \<Rightarrow> string \<Rightarrow> int
   \<Rightarrow> channel_error + intent_draft option" where
  "build_scheduler_draft_from_intent lib chrono intent source_text default_tz now =
     (let kind = map_option (\<lambda>v. to_ascii_lowercase (trim v)) (in_schedule_kind intent);
          task = (if map_option (\<lambda>v. to_ascii_lowercase (trim v)) (in_task_kind intent) = Some ''agent''
                  then Agent else Reminder);
          payload = map_option trim (in_payload intent);
          tz = (case map_option trim (in_timezone intent) of
                  Some v \<Rightarrow> if v \<noteq> [] then v else default_tz | None \<Rightarrow> default_tz);
          draft = (\<lambda>k p at expr. Inr (Some \<lparr> dr_task_kind = task, dr_schedule_kind = k,
            dr_payload = p, dr_timezone = tz, dr_run_at_unix = at, dr_cron_expr = expr,
            dr_source_text = trim source_text \<rparr>))
      in if kind \<noteq> Some ''cron'' \<and> kind \<noteq> Some ''once'' then Inr None
         else case payload of
           None \<Rightarrow> Inr None
         | Some p \<Rightarrow>
             if p = [] then Inr None
             else if kind = Some ''once''
             then (case in_run_at intent of
                 None \<Rightarrow> Inr None
               | Some raw \<Rightarrow> and_then (parse_scheduler_once_time lib chrono raw tz) (\<lambda>at.
                   if at \<le> now then Inr None else draft KindOnce p (Some at) None))
             else (case map_option trim (in_cron_expr intent) of
                 None \<Rightarrow> Inr None
               | Some expr \<Rightarrow>
                   if expr = [] then Inr None
                   else and_then (lift_err PolicyErr (compute_next_run_at_unix lib (SpecCron expr) now tz)) (\<lambda>next.
                     case next of
                       None \<Rightarrow> Inr None
                     | Some at \<Rightarrow> draft KindCron p (Some at) (Some expr))))"

section \<open>Policies and jobs\<close>

definition build_scheduler_policy_from_draft :: "intent_draft \<Rightarrow> policy_error + scheduler_policy" where
  "build_scheduler_policy_from_draft d =
     (case dr_schedule_kind d of
        KindOnce \<Rightarrow> fetch (dr_run_at_unix d) MissingRunAt (\<lambda>at.
          Inr (default_scheduler_policy (TriggerOnce at (dr_timezone d))))
      | KindCron \<Rightarrow> fetch (dr_cron_expr d) MissingCronExpr (\<lambda>expr.
          Inr (default_scheduler_policy (TriggerCron expr (dr_timezone d)))))"

definition resolve_scheduler_policy_for_job ::
  "schedule_lib \<Rightarrow> string \<Rightarrow> job_record \<Rightarrow> policy_error + scheduler_policy" where
  "resolve_scheduler_policy_for_job lib default_tz job =
     (let tz = (if trim (sj_timezone job) = [] then default_tz else sj_timezone job);
          legacy = (case sj_schedule_kind job of
             KindOnce \<Rightarrow>
               fetch (case sj_run_at_unix job of Some t \<Rightarrow> Some t | None \<Rightarrow> sj_next_run_at_unix job)
                 MissingRunAt (\<lambda>at. Inr (default_scheduler_policy (TriggerOnce at tz)))
           | KindCron \<Rightarrow> fetch (sj_cron_expr job) MissingCronExpr (\<lambda>expr.
               Inr (default_scheduler_policy (TriggerCron expr tz))))
      in case sj_policy_json job of
           Some raw \<Rightarrow> if trim raw \<noteq> [] then parse_scheduler_policy_json lib raw else legacy
         | None \<Rightarrow> legacy)"

definition enforce_scheduler_job_quota ::
  "string \<Rightarrow> int \<Rightarrow> int \<Rightarrow> nat \<Rightarrow> sched_db \<Rightarrow> channel_error + unit" where
  "enforce_scheduler_job_quota channel chat_id owner max_jobs db =
     (let jobs = list_telegram_scheduler_jobs_by_owner channel chat_id owner (max_jobs + 1) db;
          used = length (filter (\<lambda>j. sj_status j \<in> {JobActive, JobPaused}) jobs)
      in ensure (used < max_jobs) (QuotaReached max_jobs) (Inr ()))"

definition build_scheduler_job_id :: "int \<Rightarrow> int \<Rightarrow> nat \<Rightarrow> string" where
  "build_scheduler_job_id chat_id owner millis =
     ''task-'' @ dec_int chat_id @ ''-'' @ dec_int owner @ ''-'' @ dec_nat millis"

definition draft_next_run :: "schedule_lib \<Rightarrow> intent_draft \<Rightarrow> int \<Rightarrow> channel_error + int" where
  "draft_next_run lib d now =
     (case dr_schedule_kind d of
        KindOnce \<Rightarrow> fetch (dr_run_at_unix d) (PolicyErr MissingRunAt) Inr
      | KindCron \<Rightarrow> fetch (dr_cron_expr d) (PolicyErr MissingCronExpr) (\<lambda>expr.
          and_then (lift_err PolicyErr (compute_next_run_at_unix lib (SpecCron expr) now (dr_timezone d))) (\<lambda>next.
            fetch next NoNextRun Inr)))"

definition draft_job_request ::
  "string \<Rightarrow> int \<Rightarrow> int option \<Rightarrow> int \<Rightarrow> intent_draft \<Rightarrow> string \<Rightarrow> string \<Rightarrow> int \<Rightarrow> create_job_request" where
  "draft_job_request channel chat_id thread owner d job_id policy_json next_run =
     \<lparr> cj_job_id = job_id, cj_channel = channel, cj_chat_id = chat_id,
       cj_message_thread_id = thread, cj_owner_user_id = owner, cj_status = JobActive,
       cj_task_kind = dr_task_kind d, cj_payload = dr_payload d,
       cj_schedule_kind = dr_schedule_kind d, cj_timezone = dr_timezone d,
       cj_run_at_unix = (if dr_schedule_kind d = KindOnce then Some next_run else None),
       cj_cron_expr = dr_cron_expr d, cj_policy_json = Some policy_json,
       cj_next_run_at_unix = Some next_run,
       cj_max_runs = (if dr_schedule_kind d = KindOnce then Some 1 else None) \<rparr>"

definition create_scheduler_job_from_draft ::
  "schedule_lib \<Rightarrow> string \<Rightarrow> int \<Rightarrow> int option \<Rightarrow> int \<Rightarrow> nat \<Rightarrow> intent_draft \<Rightarrow> int \<Rightarrow> nat \<Rightarrow> int
   \<Rightarrow> sched_db \<Rightarrow> channel_error + sched_db \<times> string \<times> int" where
  "create_scheduler_job_from_draft lib channel chat_id thread owner max_jobs d now millis at db =
     and_then (enforce_scheduler_job_quota channel chat_id owner max_jobs db) (\<lambda>_.
     and_then (lift_err PolicyErr (build_scheduler_policy_from_draft d)) (\<lambda>policy.
     and_then (lift_err PolicyErr (encode_scheduler_policy_json lib policy)) (\<lambda>policy_json.
     and_then (draft_next_run lib d now) (\<lambda>next_run.
       let job_id = build_scheduler_job_id chat_id owner millis
       in and_then (lift_err StoreErr (create_telegram_scheduler_job
            (draft_job_request channel chat_id thread owner d job_id policy_json next_run) at db)) (\<lambda>db'.
          Inr (db', job_id, next_run))))))"

section \<open>Pause, resume, delete\<close>

datatype job_target =
    Selected string bool
  | Ambiguous "job_record list"
  | NoTarget

definition op_candidate :: "job_operation \<Rightarrow> job_record \<Rightarrow> bool" where
  "op_candidate op j =
     (case op of
        OpPause \<Rightarrow> sj_status j = JobActive
      | OpResume \<Rightarrow> sj_status j = JobPaused
      | OpDelete \<Rightarrow> sj_status j \<in> {JobActive, JobPaused})"

text \<open>\<open>latest\<close> is \<open>text_implies_latest_target\<close> of the message.\<close>

definition resolve_scheduler_job_target ::
  "string \<Rightarrow> int \<Rightarrow> int \<Rightarrow> job_operation \<Rightarrow> string option \<Rightarrow> bool \<Rightarrow> sched_db \<Rightarrow> job_target" where
  "resolve_scheduler_job_target channel chat_id owner op explicit latest db =
     (case explicit of
        Some job_id \<Rightarrow> Selected job_id False
      | None \<Rightarrow>
          (let candidates = filter (op_candidate op)
                 (list_telegram_scheduler_jobs_by_owner channel chat_id owner 64 db)
           in case candidates of
                [] \<Rightarrow> NoTarget
              | j # rest \<Rightarrow>
                  if rest = [] \<or> latest \<or> op \<in> {OpPause, OpResume} then Selected (sj_job_id j) True
                  else Ambiguous (take 5 candidates)))"

datatype job_reply =
    NoJobToOperate
  | ChooseJob job_operation "job_record list"
  | JobNotFound string
  | OperationUnsupported execution_state
  | AlreadyInState string execution_state
  | OperationDone job_operation string bool

text \<open>The state a loaded job goes to, or the reply that ends the command.\<close>

definition operation_target ::
  "job_operation \<Rightarrow> string \<Rightarrow> execution_state \<Rightarrow> job_reply + job_status" where
  "operation_target op job_id current =
     (case apply_scheduler_state_transition current (as_event op) of
        Inl _ \<Rightarrow> Inl (OperationUnsupported current)
      | Inr next \<Rightarrow>
          if next = current then Inl (AlreadyInState job_id current)
          else Inr (scheduler_state_to_job_status next))"

definition execute_scheduler_job_operation ::
  "string \<Rightarrow> int \<Rightarrow> int \<Rightarrow> job_operation \<Rightarrow> string \<Rightarrow> bool \<Rightarrow> int \<Rightarrow> sched_db \<Rightarrow> sched_db \<times> job_reply" where
  "execute_scheduler_job_operation channel chat_id owner op job_id inferred at db =
     (case load_telegram_scheduler_job channel job_id db of
        None \<Rightarrow> (db, JobNotFound job_id)
      | Some job \<Rightarrow>
          if sj_chat_id job \<noteq> chat_id \<or> sj_owner_user_id job \<noteq> owner then (db, JobNotFound job_id)
          else case operation_target op job_id (scheduler_state_from_job_status (sj_status job)) of
              Inl reply \<Rightarrow> (db, reply)
            | Inr status \<Rightarrow>
                (let (db', updated) =
                   update_telegram_scheduler_job_status channel chat_id owner job_id status at db
                 in (db', if updated then OperationDone op job_id inferred else JobNotFound job_id)))"

definition execute_scheduler_job_operation_with_resolution ::
  "string \<Rightarrow> int \<Rightarrow> int \<Rightarrow> job_operation \<Rightarrow> job_target \<Rightarrow> int \<Rightarrow> sched_db \<Rightarrow> sched_db \<times> job_reply" where
  "execute_scheduler_job_operation_with_resolution channel chat_id owner op target at db =
     (case target of
        NoTarget \<Rightarrow> (db, NoJobToOperate)
      | Ambiguous options \<Rightarrow> (db, ChooseJob op options)
      | Selected job_id inferred \<Rightarrow>
          execute_scheduler_job_operation channel chat_id owner op job_id inferred at db)"

end
