(* ===== verification/Scheduler_Worker.thy ===== *)
theory Scheduler_Worker
  imports Scheduler_Jobs
begin

text \<open>
  The scheduler worker of \<open>workers.rs\<close>: the text of a reminder, one run of a claimed job
  (deliver, plan, settle), and one round of the loop that claims a batch and runs its jobs in turn.
  What happens outside the process during a run is a \<open>run_env\<close>: the clock at each reading, the
  group's profiles, the agent's reply and the answer of the Telegram API.
\<close>

section \<open>Texts\<close>

text \<open>The three literals of the reminder text, in UTF-8: a stand-in name and two notices.\<close>

definition unnamed_owner :: string where
  "unnamed_owner =
     [CHR 0xE8, CHR 0xBF, CHR 0x99, CHR 0xE4, CHR 0xBD, CHR 0x8D, CHR 0xE5, CHR 0x90, CHR 0x8C,
      CHR 0xE5, CHR 0xAD, CHR 0xA6]"

definition reminder_due_notice :: string where
  "reminder_due_notice =
     [CHR 0x20, CHR 0xE4, CHR 0xBD, CHR 0xA0, CHR 0xE7, CHR 0x9A, CHR 0x84, CHR 0xE5, CHR 0xAE,
      CHR 0x9A, CHR 0xE6, CHR 0x97, CHR 0xB6, CHR 0xE6, CHR 0x8F, CHR 0x90, CHR 0xE9, CHR 0x86,
      CHR 0x92, CHR 0xE5, CHR 0x88, CHR 0xB0, CHR 0xE4, CHR 0xBA, CHR 0x86, CHR 0xE3, CHR 0x80,
      CHR 0x82]"

definition reminder_due_prefix :: string where
  "reminder_due_prefix =
     [CHR 0x20, CHR 0xE4, CHR 0xBD, CHR 0xA0, CHR 0xE7, CHR 0x9A, CHR 0x84, CHR 0xE5, CHR 0xAE,
      CHR 0x9A, CHR 0xE6, CHR 0x97, CHR 0xB6, CHR 0xE6, CHR 0x8F, CHR 0x90, CHR 0xE9, CHR 0x86,
      CHR 0x92, CHR 0xE5, CHR 0x88, CHR 0xB0, CHR 0xE4, CHR 0xBA, CHR 0x86, CHR 0xEF, CHR 0xBC,
      CHR 0x9A]"

definition build_scheduler_owner_mention :: "int \<Rightarrow> string option \<Rightarrow> string option \<Rightarrow> string" where
  "build_scheduler_owner_mention owner username preferred =
     (let user = map_option (\<lambda>v. dropWhile (\<lambda>c. c = CHR ''@'') (trim v)) username;
          name = (case map_option trim preferred of
                    Some v \<Rightarrow> if v \<noteq> [] then v else unnamed_owner | None \<Rightarrow> unnamed_owner);
          by_name = ''['' @ name @ ''](tg://user?id='' @ dec_int owner @ '')''
      in case user of
           Some u \<Rightarrow> if u \<noteq> [] then CHR ''@'' # u else by_name
         | None \<Rightarrow> by_name)"

definition build_scheduler_reminder_outbound_text ::
  "int \<Rightarrow> int \<Rightarrow> string option \<Rightarrow> string option \<Rightarrow> string \<Rightarrow> string" where
  "build_scheduler_reminder_outbound_text chat_id owner username preferred payload =
     (if 0 \<le> chat_id then payload
      else let mention = build_scheduler_owner_mention owner username preferred;
               body = trim payload
        in if body = [] then mention @ reminder_due_notice else mention @ reminder_due_prefix @ body)"

section \<open>One run\<close>

record group_profile =
  gp_user_id :: int
  gp_preferred_name :: string
  gp_username :: "string option"

record run_env =
  re_started_at :: int
  re_profiles :: "group_profile list option"
  re_agent_reply :: "string + string"
  re_send_at :: int
  re_send_error :: "string option"
  re_finished_at :: int
  re_failed_at :: int
  re_settled_at :: int

datatype run_error =
    RunPolicy policy_error
  | RunAgent string
  | RunLeaseExpired
  | RunSend string
  | RunPlan policy_error
  | RunStore store_error

definition scheduler_outbound_text :: "job_record \<Rightarrow> run_env \<Rightarrow> run_error + string" where
  "scheduler_outbound_text job env =
     (case sj_task_kind job of
        Reminder \<Rightarrow>
          (let profile = (if sj_chat_id job < 0
                 then case re_profiles env of
                     Some ps \<Rightarrow> find (\<lambda>p. gp_user_id p = sj_owner_user_id job) ps
                   | None \<Rightarrow> None
                 else None)
           in Inr (build_scheduler_reminder_outbound_text (sj_chat_id job) (sj_owner_user_id job)
                (Option.bind profile gp_username) (map_option gp_preferred_name profile) (sj_payload job)))
      | Agent \<Rightarrow> lift_err RunAgent (re_agent_reply env))"

definition job_lease_expired :: "job_record \<Rightarrow> int \<Rightarrow> bool" where
  "job_lease_expired job now = col_le (sj_lease_until_unix job) now"

text \<open>Up to the external effect: the policy, the text, the second fence, the message.\<close>

definition deliver_job ::
  "schedule_lib \<Rightarrow> string \<Rightarrow> job_record \<Rightarrow> run_env \<Rightarrow> run_error + scheduler_policy" where
  "deliver_job lib default_tz job env =
     and_then (lift_err RunPolicy (resolve_scheduler_policy_for_job lib default_tz job)) (\<lambda>policy.
     and_then (scheduler_outbound_text job env) (\<lambda>_.
     ensure (\<not> job_lease_expired job (re_send_at env)) RunLeaseExpired
     (case re_send_error env of
        Some e \<Rightarrow> Inl (RunSend e)
      | None \<Rightarrow> Inr policy)))"

definition complete_request ::
  "schedule_lib \<Rightarrow> string \<Rightarrow> string \<Rightarrow> scheduler_policy \<Rightarrow> job_record \<Rightarrow> run_env
   \<Rightarrow> run_error + complete_run_request" where
  "complete_request lib channel token policy job env =
     and_then (lift_err RunPlan (plan_success_transition lib policy (re_finished_at env)
       (sat_i64 (sj_run_count job + 1)) (sj_max_runs job))) (\<lambda>plan.
     Inr \<lparr> cr_channel = channel, cr_chat_id = sj_chat_id job, cr_job_id = sj_job_id job,
           cr_lease_token = token, cr_started_at = re_started_at env,
           cr_finished_at = re_finished_at env, cr_next_run_at = su_next_run_at plan,
           cr_mark_completed = su_mark_completed plan \<rparr>)"

text \<open>The plan after an error, with the retry rule used when the policy cannot be read.\<close>

definition failure_plan_for ::
  "schedule_lib \<Rightarrow> string \<Rightarrow> job_record \<Rightarrow> int \<Rightarrow> failure_plan" where
  "failure_plan_for lib default_tz job finished =
     (case and_then (resolve_scheduler_policy_for_job lib default_tz job) (\<lambda>policy.
             plan_failure_transition lib policy finished (sat_i64 (sj_failure_streak job + 1))) of
        Inr plan \<Rightarrow> plan
      | Inl _ \<Rightarrow>
          (let attempt = min (2 ^ 32 - 1) (max (sj_failure_streak job) 0 mod 2 ^ 32 + 1);
               backoff = compute_retry_backoff_secs attempt
           in if 8 \<le> attempt
              then \<lparr> fa_next_state = Paused, fa_pause_job = True, fa_next_run_at = None,
                     fa_backoff_secs = None \<rparr>
              else \<lparr> fa_next_state = Active, fa_pause_job = False,
                     fa_next_run_at = Some (wrap_i64 (finished + backoff)),
                     fa_backoff_secs = Some backoff \<rparr>))"

definition fail_request ::
  "schedule_lib \<Rightarrow> string \<Rightarrow> string \<Rightarrow> string \<Rightarrow> job_record \<Rightarrow> run_env \<Rightarrow> string \<Rightarrow> fail_run_request" where
  "fail_request lib default_tz channel token job env err =
     (let plan = failure_plan_for lib default_tz job (re_failed_at env);
          pause = (fa_next_state plan = Paused \<or> fa_pause_job plan)
      in \<lparr> fr_channel = channel, fr_chat_id = sj_chat_id job, fr_job_id = sj_job_id job,
           fr_lease_token = token, fr_started_at = re_started_at env,
           fr_finished_at = re_failed_at env,
           fr_next_run_at = (if pause then None else fa_next_run_at plan),
           fr_pause_job = pause, fr_error = err \<rparr>)"

datatype run_outcome =
    RunDropped
  | RunOk
  | RunFailed run_error

text \<open>\<open>show_err\<close> is the text \<open>format!("{err:#}")\<close> gives.\<close>

definition run_claimed_job ::
  "schedule_lib \<Rightarrow> (run_error \<Rightarrow> string) \<Rightarrow> string \<Rightarrow> string \<Rightarrow> string \<Rightarrow> job_record \<Rightarrow> run_env
   \<Rightarrow> sched_db \<Rightarrow> sched_db \<times> run_outcome" where
  "run_claimed_job lib show_err default_tz channel token job env db =
     (if job_lease_expired job (re_started_at env) then (db, RunDropped)
      else case
          and_then (deliver_job lib default_tz job env) (\<lambda>policy.
          and_then (complete_request lib channel token policy job env) (\<lambda>req.
          lift_err RunStore (complete_telegram_scheduler_job_run req (re_settled_at env) db))) of
        Inr db' \<Rightarrow> (db', RunOk)
      | Inl e \<Rightarrow>
          (case fail_telegram_scheduler_job_run
              (fail_request lib default_tz channel token job env (show_err e)) (re_settled_at env) db of
             Inr db' \<Rightarrow> (db', RunFailed e)
           | Inl _ \<Rightarrow> (db, RunFailed e)))"

section \<open>One round of the loop\<close>

text \<open>A round whose claim or statistics query fails on the database connection is not modelled.\<close>

record diag_state =
  dg_worker_started_at :: "int option"
  dg_last_tick_at :: "int option"
  dg_last_claimed_jobs :: nat
  dg_total_claimed_jobs :: nat
  dg_stats :: scheduler_stats
  dg_total_runs_ok :: nat
  dg_total_runs_err :: nat
  dg_last_run_ok_at :: "int option"
  dg_last_run_err_at :: "int option"
  dg_last_error :: "string option"

definition note_run :: "(run_error \<Rightarrow> string) \<Rightarrow> int \<Rightarrow> run_outcome \<Rightarrow> diag_state \<Rightarrow> diag_state" where
  "note_run show_err at outcome dg =
     (case outcome of
        RunDropped \<Rightarrow> dg
      | RunOk \<Rightarrow> dg\<lparr>dg_total_runs_ok := dg_total_runs_ok dg + 1, dg_last_run_ok_at := Some at,
                     dg_last_error := None\<rparr>
      | RunFailed e \<Rightarrow> dg\<lparr>dg_total_runs_err := dg_total_runs_err dg + 1, dg_last_run_err_at := Some at,
                           dg_last_error := Some (show_err e)\<rparr>)"

fun run_claimed_jobs ::
  "schedule_lib \<Rightarrow> (run_error \<Rightarrow> string) \<Rightarrow> string \<Rightarrow> string \<Rightarrow> string \<Rightarrow> (job_record \<Rightarrow> run_env)
   \<Rightarrow> job_record list \<Rightarrow> sched_db \<times> diag_state \<Rightarrow> sched_db \<times> diag_state" where
  "run_claimed_jobs lib show_err default_tz channel token env [] s = s"
| "run_claimed_jobs lib show_err default_tz channel token env (job # jobs) (db, dg) =
     (let (db', outcome) = run_claimed_job lib show_err default_tz channel token job (env job) db
      in run_claimed_jobs lib show_err default_tz channel token env jobs
           (db', note_run show_err (re_settled_at (env job)) outcome dg))"

definition scheduler_lease_token :: "string \<Rightarrow> int \<Rightarrow> nat \<Rightarrow> string" where
  "scheduler_lease_token channel now millis =
     ''lease-'' @ channel @ ''-'' @ dec_int now @ ''-'' @ dec_nat millis"

definition scheduler_round ::
  "schedule_lib \<Rightarrow> (run_error \<Rightarrow> string) \<Rightarrow> string \<Rightarrow> string \<Rightarrow> nat \<Rightarrow> int \<Rightarrow> int \<Rightarrow> nat
   \<Rightarrow> (job_record \<Rightarrow> run_env) \<Rightarrow> sched_db \<times> diag_state \<Rightarrow> sched_db \<times> diag_state" where
  "scheduler_round lib show_err default_tz channel batch lease_secs now millis env s =
     (let (db, dg) = s;
          token = scheduler_lease_token channel now millis;
          (db1, claimed) = claim_due_telegram_scheduler_jobs channel now batch lease_secs token now db;
          dg1 = dg\<lparr>dg_last_tick_at := Some now, dg_last_claimed_jobs := length claimed,
                   dg_total_claimed_jobs := dg_total_claimed_jobs dg + length claimed,
                   dg_stats := query_telegram_scheduler_stats channel now db1\<rparr>
      in run_claimed_jobs lib show_err default_tz channel token env claimed (db1, dg1))"

end
