(* ===== verification/Scheduler_Actions.thy ===== *)
theory Scheduler_Actions
  imports Scheduler_Worker
begin

text \<open>
  The scheduler as a transition system. Commands and workers run concurrently and meet only in the
  store, so an execution is a sequence of store transactions, each with the arguments the calling
  code gives it: \<open>sched_action\<close> lists them, \<open>run_action\<close> executes one. An operation on a job
  carries the state the command saw when it loaded the job, which may be out of date by the time
  its update runs. The theory shows what one action may do to one job (\<open>row_step\<close>), the
  invariant of the reachable tables, and that the commands and the worker are such sequences.
\<close>

datatype sched_action =
    ActCreate create_job_request int
  | ActOperate string int int job_operation string execution_state int
  | ActClaim string int nat int string int
  | ActComplete complete_run_request int
  | ActFail fail_run_request int
  | ActUpsertIntent upsert_intent_request int
  | ActDeleteIntent string int int

definition or_keep :: "sched_db \<Rightarrow> 'e + sched_db \<Rightarrow> sched_db" where
  "or_keep db x = (case x of Inl _ \<Rightarrow> db | Inr db' \<Rightarrow> db')"

lemma or_keep_simps [simp]: "or_keep db (Inl e) = db" "or_keep db (Inr db') = db'"
  by (simp_all add: or_keep_def)

fun run_action :: "sched_action \<Rightarrow> sched_db \<Rightarrow> sched_db" where
  "run_action (ActCreate req at) db = or_keep db (create_telegram_scheduler_job req at db)"
| "run_action (ActOperate channel chat_id owner op job_id seen at) db =
     (case operation_target op job_id seen of
        Inl _ \<Rightarrow> db
      | Inr status \<Rightarrow> fst (update_telegram_scheduler_job_status channel chat_id owner job_id status at db))"
| "run_action (ActClaim channel now limit lease_secs token at) db =
     fst (claim_due_telegram_scheduler_jobs channel now limit lease_secs token at db)"
| "run_action (ActComplete req at) db = or_keep db (complete_telegram_scheduler_job_run req at db)"
| "run_action (ActFail req at) db = or_keep db (fail_telegram_scheduler_job_run req at db)"
| "run_action (ActUpsertIntent req at) db =
     or_keep db (upsert_telegram_scheduler_pending_intent req at db)"
| "run_action (ActDeleteIntent channel chat_id owner) db =
     fst (delete_telegram_scheduler_pending_intent channel chat_id owner db)"

text \<open>Jobs are created active and with a next run.\<close>

fun action_ok :: "sched_action \<Rightarrow> bool" where
  "action_ok (ActCreate req at) \<longleftrightarrow> cj_status req = JobActive \<and> cj_next_run_at_unix req \<noteq> None"
| "action_ok _ \<longleftrightarrow> True"

definition run_actions :: "sched_action list \<Rightarrow> sched_db \<Rightarrow> sched_db" where
  "run_actions acts db = fold run_action acts db"

lemma run_actions_simps [simp]:
  "run_actions [] db = db"
  "run_actions (a # acts) db = run_actions acts (run_action a db)"
  "run_actions (as @ bs) db = run_actions bs (run_actions as db)"
  by (simp_all add: run_actions_def)

definition sched_step :: "sched_db \<Rightarrow> sched_db \<Rightarrow> bool" where
  "sched_step s t \<longleftrightarrow> (\<exists>a. action_ok a \<and> t = run_action a s)"

definition sched_reachable :: "sched_db \<Rightarrow> bool" where
  "sched_reachable db \<longleftrightarrow> sched_step\<^sup>*\<^sup>* empty_sched_db db"

definition job_by_id :: "sched_db \<Rightarrow> string \<Rightarrow> job_row option" where
  "job_by_id db job_id = find (\<lambda>r. sj_job_id r = job_id) (sd_jobs db)"

definition row_state :: "job_row \<Rightarrow> execution_state" where
  "row_state r = scheduler_state_from_job_status (job_status_from_db (sj_status r))"

section \<open>What an action does to a job\<close>

inductive row_step :: "sched_action \<Rightarrow> job_row \<Rightarrow> job_row \<Rightarrow> bool" where
  same: "row_step a r r"
| operate: "operation_target op job_id seen = Inr status \<Longrightarrow> sj_job_id r = job_id
    \<Longrightarrow> sj_status r \<noteq> ''completed'' \<Longrightarrow> sj_status r \<noteq> ''canceled''
    \<Longrightarrow> row_step (ActOperate channel chat_id owner op job_id seen at) r
        (r\<lparr>sj_status := job_status_str status, sj_lease_token := None,
           sj_lease_until_unix := None, sj_updated_at := at\<rparr>)"
| claim: "sj_channel r = channel \<Longrightarrow> job_due now r
    \<Longrightarrow> row_step (ActClaim channel now limit lease_secs token at) r
        (r\<lparr>sj_lease_token := Some token, sj_lease_until_unix := Some (wrap_i64 (now + max lease_secs 1)),
           sj_updated_at := at\<rparr>)"
| complete: "complete_hit req r \<Longrightarrow> row_step (ActComplete req at) r (completed_row req at r)"
| fail: "fail_hit req r \<Longrightarrow> row_step (ActFail req at) r (failed_row req at r)"

inductive_cases operate_stepE: "row_step (ActOperate channel chat_id owner op job_id seen at) r r'"
inductive_cases claim_stepE: "row_step (ActClaim channel now limit lease_secs token at) r r'"
inductive_cases complete_stepE: "row_step (ActComplete req at) r r'"
inductive_cases fail_stepE: "row_step (ActFail req at) r r'"

lemma row_step_id: "row_step a r r' \<Longrightarrow> sj_job_id r' = sj_job_id r"
  by (induction rule: row_step.induct) (simp_all add: completed_row_def failed_row_def)

definition new_rows :: "sched_action \<Rightarrow> sched_db \<Rightarrow> job_row list" where
  "new_rows a db = (case a of
     ActCreate req at \<Rightarrow>
       if \<forall>r \<in> set (sd_jobs db). sj_job_id r \<noteq> cj_job_id req then [new_job_row req at] else []
   | _ \<Rightarrow> [])"

lemma list_all2_update:
  assumes "\<And>r. r \<in> set rs \<Longrightarrow> p r \<Longrightarrow> R r (f r)" and "\<And>r. R r r"
  shows "list_all2 R rs (update_where p f rs)"
  using assms by (induction rs) auto

lemma claim_hit_due:
  assumes dist: "distinct (map sj_job_id (sd_jobs db))" and r: "r \<in> set (sd_jobs db)"
    and sel: "sj_job_id r \<in> sj_job_id ` set (take n (select_ordered k (\<lambda>r. sj_channel r = c \<and> job_due now r) (sd_jobs db)))"
  shows "sj_channel r = c \<and> job_due now r"
proof -
  from sel obtain q where q: "q \<in> set (take n (select_ordered k (\<lambda>r. sj_channel r = c \<and> job_due now r) (sd_jobs db)))"
    and id: "sj_job_id q = sj_job_id r" by auto
  from set_take_subset [THEN subsetD, OF q] have mem: "q \<in> set (sd_jobs db)" and due: "sj_channel q = c \<and> job_due now q"
    by simp_all
  have "q = r" using dist mem r id by (simp add: distinct_map inj_on_def)
  with due show ?thesis by simp
qed

lemma run_action_rows:
  assumes dist: "distinct (map sj_job_id (sd_jobs db))"
  obtains rows where "sd_jobs (run_action a db) = rows @ new_rows a db"
    and "list_all2 (row_step a) (sd_jobs db) rows"
proof (cases a)
  case (ActCreate req at)
  show ?thesis
    by (rule that [of "sd_jobs db"])
      (simp_all add: ActCreate new_rows_def create_telegram_scheduler_job_def ensure_def list.rel_refl row_step.same)
next
  case (ActOperate channel chat_id owner op job_id seen at)
  show ?thesis
  proof (cases "operation_target op job_id seen")
    case (Inl e)
    then show ?thesis
      by (intro that [of "sd_jobs db"]) (simp_all add: ActOperate new_rows_def list.rel_refl row_step.same)
  next
    case (Inr status)
    show ?thesis
      by (rule that, simp add: ActOperate Inr new_rows_def update_telegram_scheduler_job_status_def Let_def)
        (rule list_all2_update, unfold ActOperate, rule row_step.operate [OF Inr], simp_all add: row_step.same)
  qed
next
  case (ActClaim channel now limit lease_secs token at)
  let ?rows = "take (max limit 1) (select_ordered (\<lambda>r. the (sj_next_run_at_unix r))
              (\<lambda>r. sj_channel r = channel \<and> job_due now r) (sd_jobs db))"
  show ?thesis
  proof (cases "?rows = []")
    case True
    then show ?thesis
      by (intro that [of "sd_jobs db"])
        (simp_all add: ActClaim new_rows_def list.rel_refl row_step.same claim_due_telegram_scheduler_jobs_def)
  next
    case False
    let ?hit = "\<lambda>r. sj_channel r = channel \<and> sj_status r = ''active''
        \<and> sj_job_id r \<in> set (map sj_job_id ?rows) \<and> lease_free now r"
    let ?lease = "\<lambda>r. r\<lparr>sj_lease_token := Some token,
        sj_lease_until_unix := Some (wrap_i64 (now + max lease_secs 1)), sj_updated_at := at\<rparr>"
    show ?thesis
    proof (rule that [of "update_where ?hit ?lease (sd_jobs db)"])
      show "sd_jobs (run_action a db) = update_where ?hit ?lease (sd_jobs db) @ new_rows a db"
        using False by (simp add: ActClaim new_rows_def claim_due_telegram_scheduler_jobs_def Let_def)
      show "list_all2 (row_step a) (sd_jobs db) (update_where ?hit ?lease (sd_jobs db))"
        by (rule list_all2_update)
          (auto simp: ActClaim row_step.same dest: claim_hit_due [OF dist] intro!: row_step.claim)
    qed
  qed
next
  case (ActComplete req at)
  show ?thesis
  proof (cases "count_where (complete_hit req) (sd_jobs db) = 0")
    case True
    then show ?thesis
      by (intro that [of "sd_jobs db"])
        (simp_all add: ActComplete new_rows_def list.rel_refl row_step.same
          complete_telegram_scheduler_job_run_def ensure_def)
  next
    case False
    show ?thesis
      by (rule that, simp add: ActComplete False new_rows_def complete_telegram_scheduler_job_run_def ensure_def
          Let_def del: count_where_0)
        (rule list_all2_update, auto simp: ActComplete intro: row_step.complete row_step.same)
  qed
next
  case (ActFail req at)
  show ?thesis
  proof (cases "count_where (fail_hit req) (sd_jobs db) = 0")
    case True
    then show ?thesis
      by (intro that [of "sd_jobs db"])
        (simp_all add: ActFail new_rows_def list.rel_refl row_step.same
          fail_telegram_scheduler_job_run_def ensure_def)
  next
    case False
    show ?thesis
      by (rule that, simp add: ActFail False new_rows_def fail_telegram_scheduler_job_run_def ensure_def
          Let_def del: count_where_0)
        (rule list_all2_update, auto simp: ActFail intro: row_step.fail row_step.same)
  qed
next
  case (ActUpsertIntent req at)
  show ?thesis
    by (rule that [of "sd_jobs db"])
      (simp_all add: ActUpsertIntent new_rows_def list.rel_refl row_step.same
        upsert_telegram_scheduler_pending_intent_def ensure_def Let_def)
next
  case (ActDeleteIntent channel chat_id owner)
  show ?thesis
    by (rule that [of "sd_jobs db"])
      (simp_all add: ActDeleteIntent new_rows_def list.rel_refl row_step.same
        delete_telegram_scheduler_pending_intent_def)
qed

section \<open>The invariant\<close>

text \<open>
  Status texts are those of the enum, a lease has a token and an end, and only active jobs are
  leased.
\<close>

definition job_ok :: "job_row \<Rightarrow> bool" where
  "job_ok r \<longleftrightarrow>
     sj_status r \<in> range job_status_str
     \<and> (sj_lease_token r = None \<longleftrightarrow> sj_lease_until_unix r = None)
     \<and> (sj_lease_token r \<noteq> None \<longrightarrow> sj_status r = ''active'')"

definition sched_inv :: "sched_db \<Rightarrow> bool" where
  "sched_inv db \<longleftrightarrow> distinct (map sj_job_id (sd_jobs db)) \<and> (\<forall>r \<in> set (sd_jobs db). job_ok r)"

lemma status_active [simp]: "job_status_str st = ''active'' \<longleftrightarrow> st = JobActive"
  by (cases st) simp_all

lemma active_in_range [simp]: "''active'' \<in> range job_status_str"
  by (metis job_status_str.simps(1) rangeI)

lemma row_step_ok: "row_step a r r' \<Longrightarrow> job_ok r \<Longrightarrow> job_ok r'"
  by (induction rule: row_step.induct)
    (auto simp: job_ok_def job_due_def completed_row_def failed_row_def)

lemma new_job_row_ok: "action_ok (ActCreate req at) \<Longrightarrow> job_ok (new_job_row req at)"
  by (simp add: job_ok_def new_job_row_def)

lemma rows_keep_ids: "list_all2 (row_step a) xs ys \<Longrightarrow> map sj_job_id ys = map sj_job_id xs"
  by (induction rule: list_all2_induct) (simp_all add: row_step_id)

lemma rows_keep_ok: "list_all2 (row_step a) xs ys \<Longrightarrow> \<forall>r \<in> set xs. job_ok r \<Longrightarrow> \<forall>r \<in> set ys. job_ok r"
  by (induction rule: list_all2_induct) (auto intro: row_step_ok)

lemma run_action_inv:
  assumes inv: "sched_inv db" and ok: "action_ok a"
  shows "sched_inv (run_action a db)"
proof -
  from inv have dist: "distinct (map sj_job_id (sd_jobs db))" and rows_ok: "\<forall>r \<in> set (sd_jobs db). job_ok r"
    by (simp_all add: sched_inv_def)
  obtain rows where jobs: "sd_jobs (run_action a db) = rows @ new_rows a db"
    and step: "list_all2 (row_step a) (sd_jobs db) rows" by (rule run_action_rows [OF dist])
  have ids: "map sj_job_id rows = map sj_job_id (sd_jobs db)" using step by (rule rows_keep_ids)
  have old: "\<forall>r \<in> set rows. job_ok r" using step rows_ok by (rule rows_keep_ok)
  show ?thesis
  proof (cases "new_rows a db = []")
    case True
    with old dist ids show ?thesis by (simp add: sched_inv_def jobs)
  next
    case False
    then obtain req at where a: "a = ActCreate req at" and new: "new_rows a db = [new_job_row req at]"
      and fresh: "cj_job_id req \<notin> set (map sj_job_id (sd_jobs db))"
      by (force simp: new_rows_def split: sched_action.splits if_splits)
    have "sj_job_id (new_job_row req at) = cj_job_id req" by (simp add: new_job_row_def)
    moreover have "job_ok (new_job_row req at)" using ok a new_job_row_ok by simp
    moreover have "cj_job_id req \<notin> set (map sj_job_id rows)" using fresh unfolding ids .
    ultimately show ?thesis
      using old dist by (simp add: sched_inv_def jobs new ids del: set_map)
  qed
qed

lemma run_actions_inv: "sched_inv db \<Longrightarrow> list_all action_ok acts \<Longrightarrow> sched_inv (run_actions acts db)"
  by (induction acts arbitrary: db) (auto intro: run_action_inv)

interpretation sched: transition_system "\<lambda>db. db = empty_sched_db" sched_step sched_inv
proof
  show "sched_inv db" if "db = empty_sched_db" for db
    using that by (simp add: sched_inv_def empty_sched_db_def)
  show "sched_inv t" if "sched_inv s" and "sched_step s t" for s t
    using that by (auto simp: sched_step_def intro: run_action_inv)
qed

lemma sched_reachable_inv: "sched_reachable db \<Longrightarrow> sched_inv db"
  unfolding sched_reachable_def by (rule sched.steps_keep_inv [OF refl])

lemma reachable_run_actions:
  assumes "sched_reachable db" and "list_all action_ok acts"
  shows "sched_reachable (run_actions acts db)"
  using assms
proof (induction acts arbitrary: db)
  case (Cons a acts)
  then have "sched_reachable (run_action a db)"
    unfolding sched_reachable_def sched_step_def by (auto intro: rtranclp.rtrancl_into_rtrancl)
  with Cons show ?case by simp
qed simp

section \<open>One job along an execution\<close>

lemma find_list_all2:
  assumes "list_all2 R xs ys" and "\<And>x y. R x y \<Longrightarrow> key y = key x" and "find (\<lambda>x. key x = k) xs = Some x"
  shows "\<exists>y. find (\<lambda>y. key y = k) (ys @ zs) = Some y \<and> R x y"
  using assms by (induction rule: list_all2_induct) (auto split: if_splits)

lemma job_by_id_step:
  assumes "sched_inv db" and "job_by_id db j = Some r"
  obtains r' where "job_by_id (run_action a db) j = Some r'" and "row_step a r r'"
proof -
  from assms(1) have "distinct (map sj_job_id (sd_jobs db))" by (simp add: sched_inv_def)
  then obtain rows where jobs: "sd_jobs (run_action a db) = rows @ new_rows a db"
    and step: "list_all2 (row_step a) (sd_jobs db) rows" by (rule run_action_rows)
  show thesis
    using find_list_all2 [OF step, of sj_job_id j r "new_rows a db"] row_step_id assms(2) that
    by (auto simp: job_by_id_def jobs)
qed

lemma job_by_idD: "job_by_id db j = Some r \<Longrightarrow> r \<in> set (sd_jobs db) \<and> sj_job_id r = j"
  by (auto simp: job_by_id_def dest: find_SomeD)

lemma job_by_id_mem:
  assumes "sched_inv db" and "r \<in> set (sd_jobs db)"
  shows "job_by_id db (sj_job_id r) = Some r"
  using assms by (simp add: sched_inv_def job_by_id_def find_key)

lemma job_by_id_ok: "sched_inv db \<Longrightarrow> job_by_id db j = Some r \<Longrightarrow> job_ok r"
  by (auto simp: sched_inv_def dest: job_by_idD)

text \<open>A property of a job that every action keeps holds along every execution.\<close>

lemma job_along_actions:
  assumes keep: "\<And>a r r'. a \<in> set acts \<Longrightarrow> row_step a r r' \<Longrightarrow> job_ok r \<Longrightarrow> sj_job_id r = j \<Longrightarrow> P r \<Longrightarrow> P r'"
    and "sched_inv db" and "list_all action_ok acts" and "job_by_id db j = Some r" and "P r"
  shows "\<exists>r'. job_by_id (run_actions acts db) j = Some r' \<and> P r'"
  using assms
proof (induction acts arbitrary: db r)
  case (Cons a acts)
  obtain r' where r': "job_by_id (run_action a db) j = Some r'" and step: "row_step a r r'"
    using Cons.prems(2,4) by (rule job_by_id_step)
  have "P r'"
    using Cons.prems(1) [OF _ step job_by_id_ok [OF Cons.prems(2,4)]] Cons.prems(4,5) by (auto dest: job_by_idD)
  moreover have "sched_inv (run_action a db)" using Cons.prems run_action_inv by simp
  moreover have "\<And>a r r'. a \<in> set acts \<Longrightarrow> row_step a r r' \<Longrightarrow> job_ok r \<Longrightarrow> sj_job_id r = j \<Longrightarrow> P r \<Longrightarrow> P r'"
    by (rule Cons.prems(1)) simp_all
  moreover have "list_all action_ok acts" using Cons.prems(3) by simp
  ultimately show ?case unfolding run_actions_simps(2) using r' by (intro Cons.IH)
qed simp

end
