(* ===== verification/Scheduler_Example.thy ===== *)
theory Scheduler_Example
  imports Scheduler_Actions
begin

text \<open>
  A concrete scheduler to evaluate the properties on: one time zone, a cron expression that fires
  every minute, and one job that is created, claimed, and claimed again after its lease ended. A
  second run of commands shows that the job quota of an owner can be exceeded.
\<close>

definition sx_policy :: scheduler_policy where
  "sx_policy = (default_scheduler_policy (TriggerCron ''* * * * *'' ''UTC''))
     \<lparr>sp_execution := default_execution_policy\<lparr>ep_max_failure_streak := 1\<rparr>\<rparr>"

definition sx_lib :: schedule_lib where
  "sx_lib = \<lparr> tz_parses = (\<lambda>z. z = ''UTC''), cron_parses = (\<lambda>_. True), local_single = (\<lambda>_ _. True),
     cron_after = (\<lambda>_ _ t. Some (t + 60)), policy_from_str = (\<lambda>_. Some sx_policy),
     policy_to_string = (\<lambda>_. ''{}'') \<rparr>"

definition sx_request :: create_job_request where
  "sx_request = \<lparr> cj_job_id = ''j'', cj_channel = ''t'', cj_chat_id = 1, cj_message_thread_id = None,
     cj_owner_user_id = 7, cj_status = JobActive, cj_task_kind = Reminder, cj_payload = ''tea'',
     cj_schedule_kind = KindCron, cj_timezone = ''UTC'', cj_run_at_unix = None,
     cj_cron_expr = Some ''* * * * *'', cj_policy_json = Some ''{}'',
     cj_next_run_at_unix = Some 100, cj_max_runs = None \<rparr>"

definition sx_created :: sched_db where
  "sx_created = run_actions [ActCreate sx_request 50] empty_sched_db"

definition sx_claimed :: sched_db where
  "sx_claimed = run_actions [ActClaim ''t'' 100 10 30 ''A'' 100] sx_created"

definition sx_reclaimed :: sched_db where
  "sx_reclaimed = run_actions [ActClaim ''t'' 130 10 30 ''B'' 130] sx_claimed"

definition sx_row :: job_row where
  "sx_row = (new_job_row sx_request 50)
     \<lparr>sj_lease_token := Some ''A'', sj_lease_until_unix := Some 130, sj_updated_at := 100\<rparr>"

definition sx_job :: job_record where
  "sx_job = telegram_scheduler_job_from_row sx_row"

definition sx_env :: run_env where
  "sx_env = \<lparr> re_started_at = 101, re_profiles = None, re_agent_reply = Inl ''off'', re_send_at = 102,
     re_send_error = Some ''timeout'', re_finished_at = 103, re_failed_at = 104, re_settled_at = 105 \<rparr>"

lemma empty_sched_reachable: "sched_reachable empty_sched_db"
  by (simp add: sched_reachable_def)

lemma sx_created_reachable: "sched_reachable sx_created"
  unfolding sx_created_def by (rule reachable_run_actions [OF empty_sched_reachable]) (simp add: sx_request_def)

lemma sx_claimed_reachable: "sched_reachable sx_claimed"
  unfolding sx_claimed_def by (rule reachable_run_actions [OF sx_created_reachable]) simp

lemma sx_reclaimed_reachable: "sched_reachable sx_reclaimed"
  unfolding sx_reclaimed_def by (rule reachable_run_actions [OF sx_claimed_reachable]) simp

lemma sx_created_jobs: "sd_jobs sx_created = [new_job_row sx_request 50]"
  by (simp add: sx_created_def create_telegram_scheduler_job_def empty_sched_db_def)

lemmas sx_due_defs = job_due_def lease_free_def col_le_def sx_request_def new_job_row_def

lemma sx_claim: "claim_due_telegram_scheduler_jobs ''t'' 100 10 30 ''A'' 100 sx_created = (sx_claimed, [sx_job])"
  by (simp add: sx_claimed_def claim_due_telegram_scheduler_jobs_def sx_created_jobs sx_job_def sx_row_def
      select_ordered_def Let_def sx_due_defs wrap_i64_def)

lemma sx_claimed_jobs: "sd_jobs sx_claimed = [sx_row]"
  by (simp add: sx_claimed_def claim_due_telegram_scheduler_jobs_def sx_created_jobs sx_row_def
      select_ordered_def Let_def sx_due_defs wrap_i64_def)

lemma sx_claimed_row: "job_by_id sx_claimed ''j'' = Some sx_row"
  by (simp add: job_by_id_def sx_claimed_jobs sx_row_def new_job_row_def sx_request_def)

lemma sx_row_fields [simp]:
  "sj_lease_token sx_row = Some ''A''" "sj_lease_until_unix sx_row = Some 130" "sj_job_id sx_row = ''j''"
  "sj_channel sx_row = ''t''" "sj_chat_id sx_row = 1" "sj_status sx_row = ''active''"
  "sj_next_run_at_unix sx_row = Some 100"
  by (simp_all add: sx_row_def new_job_row_def sx_request_def)

lemma sx_reclaimed_row:
  "job_by_id sx_reclaimed ''j'' = Some (sx_row\<lparr>sj_lease_token := Some ''B'', sj_lease_until_unix := Some 160,
     sj_updated_at := 130\<rparr>)"
  by (simp add: sx_reclaimed_def claim_due_telegram_scheduler_jobs_def sx_claimed_jobs job_by_id_def
      select_ordered_def Let_def job_due_def lease_free_def col_le_def wrap_i64_def)

lemma sx_policy_valid: "validate_scheduler_policy sx_lib sx_policy = Inr ()"
  by code_simp

lemma sx_utc: "\<forall>z. tz_parses sx_lib z \<longrightarrow> trim z = z"
proof -
  have "trim ''UTC'' = ''UTC''" by code_simp
  then show ?thesis by (simp add: sx_lib_def)
qed

text \<open>The failed delivery of the claimed job pauses it.\<close>

definition sx_fail :: fail_run_request where
  "sx_fail = fail_request sx_lib ''UTC'' ''t'' ''A'' sx_job sx_env ''timeout''"

lemma sx_parse: "parse_scheduler_policy_json sx_lib raw = Inr (normalize_policy sx_policy)"
proof -
  have "validate_scheduler_policy sx_lib (normalize_policy sx_policy) = Inr ()"
    using sx_utc by (intro normalize_policy_valid sx_policy_valid) blast
  moreover have "policy_from_str sx_lib raw = Some sx_policy" by (simp add: sx_lib_def)
  ultimately show ?thesis by (simp add: parse_scheduler_policy_json_def Let_def)
qed

lemma sx_resolve: "resolve_scheduler_policy_for_job sx_lib tz sx_job = Inr (normalize_policy sx_policy)"
proof -
  have "trim ''{}'' = ''{}''" by code_simp
  moreover have "sj_policy_json sx_job = Some ''{}''"
    by (simp add: sx_job_def telegram_scheduler_job_from_row_def sx_row_def new_job_row_def sx_request_def)
  ultimately show ?thesis by (simp add: resolve_scheduler_policy_for_job_def Let_def sx_parse)
qed

lemma sx_fail_pauses: "fr_pause_job sx_fail"
proof -
  have "validate_scheduler_policy sx_lib (normalize_policy sx_policy) = Inr ()"
    using sx_utc by (intro normalize_policy_valid sx_policy_valid) blast
  moreover have "ep_max_failure_streak (sp_execution (normalize_policy sx_policy)) = 1"
    by (simp add: normalize_policy_def sx_policy_def)
  moreover have "sj_failure_streak sx_job = 0"
    by (simp add: sx_job_def telegram_scheduler_job_from_row_def sx_row_def new_job_row_def)
  ultimately have "failure_plan_for sx_lib ''UTC'' sx_job (re_failed_at sx_env) =
      \<lparr> fa_next_state = Paused, fa_pause_job = True, fa_next_run_at = None, fa_backoff_secs = None \<rparr>"
    by (simp add: failure_plan_for_def sx_resolve plan_failure_transition_def Let_def sat_small)
  then show ?thesis by (simp add: sx_fail_def fail_request_def Let_def)
qed

section \<open>The job quota counts only the latest jobs\<close>

text \<open>
  Five jobs of one owner under a quota of two: the first stays active, the next three are created
  and deleted, the fifth is created. The quota is checked before every creation and holds each
  time, although the owner has two open jobs at the end and a sixth may still be created: the check
  looks only at the three latest jobs.
\<close>

definition sx_numbered :: "char \<Rightarrow> int \<Rightarrow> sched_action" where
  "sx_numbered c at = ActCreate (sx_request\<lparr>cj_job_id := [c]\<rparr>) at"

definition sx_delete :: "char \<Rightarrow> int \<Rightarrow> sched_action" where
  "sx_delete c at = ActOperate ''t'' 1 7 OpDelete [c] Active at"

definition sx_quota_run :: "sched_action list" where
  "sx_quota_run =
     [sx_numbered CHR ''1'' 1, sx_numbered CHR ''2'' 2, sx_delete CHR ''2'' 3,
      sx_numbered CHR ''3'' 4, sx_delete CHR ''3'' 5, sx_numbered CHR ''4'' 6, sx_delete CHR ''4'' 7,
      sx_numbered CHR ''5'' 8]"

definition within_quota :: "nat \<Rightarrow> sched_db \<Rightarrow> bool" where
  "within_quota n db \<longleftrightarrow> enforce_scheduler_job_quota ''t'' 1 7 n db = Inr ()"

definition open_jobs :: "sched_db \<Rightarrow> nat" where
  "open_jobs db = count_where (\<lambda>r. sj_status r \<in> {''active'', ''paused''}) (sd_jobs db)"

lemma quota_not_enforced:
  "sched_reachable (run_actions sx_quota_run empty_sched_db)
   \<and> list_all (\<lambda>k. within_quota 2 (run_actions (take k sx_quota_run) empty_sched_db)) [0, 1, 3, 5, 7]
   \<and> open_jobs (run_actions sx_quota_run empty_sched_db) = 2
   \<and> within_quota 2 (run_actions sx_quota_run empty_sched_db)"
proof (intro conjI)
  show "sched_reachable (run_actions sx_quota_run empty_sched_db)"
    by (rule reachable_run_actions [OF empty_sched_reachable])
      (simp add: sx_quota_run_def sx_numbered_def sx_delete_def sx_request_def)
  show "list_all (\<lambda>k. within_quota 2 (run_actions (take k sx_quota_run) empty_sched_db)) [0, 1, 3, 5, 7]"
    by code_simp
  show "open_jobs (run_actions sx_quota_run empty_sched_db) = 2"
    by code_simp
  show "within_quota 2 (run_actions sx_quota_run empty_sched_db)"
    by code_simp
qed

end
