(* ===== verification/Scheduler_Safety.thy ===== *)
theory Scheduler_Safety
  imports Scheduler_Example
begin

text \<open>
  What the scheduler guarantees: jobs follow the state machine under every interleaving of
  commands and workers, a lease shuts out all other workers until it ends, a worker that lost its
  lease cannot settle the run, every executed run is settled, and plans and policies in closed
  form. A job paused by its failures keeps no next run, so that resuming it does not bring it
  back.
\<close>

section \<open>Jobs under claims, completions and failures\<close>

lemma status_cases:
  assumes "job_ok r"
  obtains "sj_status r = ''active''" "row_state r = Active"
    | "sj_status r = ''paused''" "row_state r = Paused"
    | "sj_status r = ''completed''" "row_state r = Completed"
    | "sj_status r = ''canceled''" "row_state r = Canceled"
proof -
  from assms obtain st where "sj_status r = job_status_str st" by (auto simp: job_ok_def)
  with that show thesis by (cases st) (simp_all add: row_state_def job_status_from_db_def)
qed

lemma hit_active:
  assumes "job_ok r" and "sj_lease_token r = Some tok"
  shows "row_state r = Active"
  using assms by (simp add: job_ok_def row_state_def job_status_from_db_def)

lemma operation_target_status:
  "operation_target op j seen = Inr st \<Longrightarrow>
     (op = OpPause \<and> st = JobPaused) \<or> (op = OpResume \<and> st = JobActive) \<or> (op = OpDelete \<and> st = JobCanceled)"
  by (cases op; cases seen) (auto simp: operation_target_def)

lemma claimed_rows:
  assumes inv: "sched_inv db" and claim: "claim_due_telegram_scheduler_jobs ch now lim secs tok at db = (db1, claimed)"
    and mem: "q \<in> set claimed"
  obtains r where "job_by_id db1 (sj_job_id q) = Some r" "q = telegram_scheduler_job_from_row r"
    "sj_channel r = ch" "sj_lease_token r = Some tok"
proof -
  have db1: "db1 = run_action (ActClaim ch now lim secs tok at) db" using claim by simp
  have inv1: "sched_inv db1" unfolding db1 by (rule run_action_inv [OF inv]) simp
  from claim mem obtain r where r: "r \<in> set (sd_jobs db1)" "q = telegram_scheduler_job_from_row r"
      "sj_channel r = ch" "sj_lease_token r = Some tok"
    by (auto simp: claim_due_telegram_scheduler_jobs_def Let_def split: if_splits)
  moreover have "sj_job_id q = sj_job_id r" using r by (simp add: telegram_scheduler_job_from_row_def)
  ultimately show thesis using job_by_id_mem [OF inv1 r(1)] that by simp
qed

text \<open>A claim returns a job only if the job then carries the token of the claim.\<close>

lemma not_claimed:
  assumes inv: "sched_inv db" and r: "job_by_id db j = Some r"
    and keep: "\<And>r'. row_step (ActClaim ch now lim secs tok at) r r' \<Longrightarrow> sj_lease_token r' \<noteq> Some tok"
  shows "j \<notin> sj_job_id ` set (snd (claim_due_telegram_scheduler_jobs ch now lim secs tok at db))"
proof
  let ?a = "ActClaim ch now lim secs tok at"
  assume "j \<in> sj_job_id ` set (snd (claim_due_telegram_scheduler_jobs ch now lim secs tok at db))"
  then obtain db1 claimed q where claim: "claim_due_telegram_scheduler_jobs ch now lim secs tok at db = (db1, claimed)"
    and q: "q \<in> set claimed" "sj_job_id q = j"
    by (cases "claim_due_telegram_scheduler_jobs ch now lim secs tok at db") auto
  have db1: "run_action ?a db = db1" using claim by simp
  obtain r' where "job_by_id (run_action ?a db) j = Some r'" and "row_step ?a r r'"
    using inv r by (rule job_by_id_step)
  moreover obtain r2 where "job_by_id db1 (sj_job_id q) = Some r2" and "sj_lease_token r2 = Some tok"
    using claimed_rows [OF inv claim q(1)] by metis
  ultimately show False using keep q(2) db1 by auto
qed


lemma fail_hits:
  assumes "sched_inv db" and "job_by_id db j = Some r" and "fail_hit req r"
  shows "fail_telegram_scheduler_job_run req at db = Inr (run_action (ActFail req at) db)"
    and "job_by_id (run_action (ActFail req at) db) j = Some (failed_row req at r)"
    and "sd_runs (run_action (ActFail req at) db) = sd_runs db @
      [\<lparr> rr_job_id = fr_job_id req, rr_channel = fr_channel req, rr_chat_id = fr_chat_id req,
         rr_started_at = fr_started_at req, rr_finished_at = fr_finished_at req, rr_ok = False,
         rr_error = Some (fr_error req) \<rparr>]"
proof -
  have hit: "count_where (fail_hit req) (sd_jobs db) \<noteq> 0"
    using assms by (auto dest: job_by_idD)
  then show "fail_telegram_scheduler_job_run req at db = Inr (run_action (ActFail req at) db)"
    and "sd_runs (run_action (ActFail req at) db) = sd_runs db @
      [\<lparr> rr_job_id = fr_job_id req, rr_channel = fr_channel req, rr_chat_id = fr_chat_id req,
         rr_started_at = fr_started_at req, rr_finished_at = fr_finished_at req, rr_ok = False,
         rr_error = Some (fr_error req) \<rparr>]"
    by (simp_all add: fail_telegram_scheduler_job_run_def ensure_def Let_def del: count_where_0)
  have "sd_jobs (run_action (ActFail req at) db) = update_where (fail_hit req) (failed_row req at) (sd_jobs db)"
    using hit by (simp add: fail_telegram_scheduler_job_run_def ensure_def Let_def del: count_where_0)
  then show "job_by_id (run_action (ActFail req at) db) j = Some (failed_row req at r)"
    using assms find_update_where [of "fail_hit req" "\<lambda>r. sj_job_id r = j" "failed_row req at" "sd_jobs db"]
    by (simp add: job_by_id_def failed_row_def)
qed

lemma row_step_machine:
  assumes "row_step a r r'" and "job_ok r"
  shows "row_state r' = row_state r \<or> (\<exists>e. apply_scheduler_state_transition (row_state r) e = Inr (row_state r'))"
    and "row_state r \<in> {Completed, Canceled} \<Longrightarrow> r' = r"
proof -
  have "(row_state r' = row_state r \<or> (\<exists>e. apply_scheduler_state_transition (row_state r) e = Inr (row_state r')))
      \<and> (row_state r \<in> {Completed, Canceled} \<longrightarrow> r' = r)"
    using assms
  proof (induction rule: row_step.induct)
    case (operate op job_id seen status r channel chat_id owner at)
    from operate.hyps(3,4) operate.prems have seen: "row_state r = Active \<or> row_state r = Paused"
      by (auto elim: status_cases)
    moreover from operation_target_status [OF operate.hyps(1)] have
      "(row_state r = Active \<or> row_state r = Paused) \<longrightarrow> scheduler_state_from_job_status status = row_state r
        \<or> apply_scheduler_state_transition (row_state r) (as_event op) = Inr (scheduler_state_from_job_status status)"
      by auto
    ultimately show ?case by (auto simp: row_state_def)
  next
    case (claim r channel now limit lease_secs token at)
    then show ?case by (auto simp: row_state_def job_due_def job_status_from_db_def)
  next
    case (complete req r at)
    then have "row_state r = Active" by (auto simp: complete_hit_def dest: hit_active)
    moreover have "\<exists>e. apply_scheduler_state_transition Active e = Inr Completed"
      by (rule exI [of _ RunSucceededComplete]) simp
    ultimately show ?case by (auto simp: row_state_def completed_row_def)
  next
    case (fail req r at)
    then have "row_state r = Active" by (auto simp: fail_hit_def dest: hit_active)
    moreover have "\<exists>e. apply_scheduler_state_transition Active e = Inr Paused"
      by (rule exI [of _ RunFailedPause]) simp
    ultimately show ?case by (auto simp: row_state_def failed_row_def)
  qed simp
  then show "row_state r' = row_state r \<or> (\<exists>e. apply_scheduler_state_transition (row_state r) e = Inr (row_state r'))"
    and "row_state r \<in> {Completed, Canceled} \<Longrightarrow> r' = r" by auto
qed

section \<open>The state machine\<close>

text \<open>
  C17: In every reachable state each transaction of a command or a worker leaves a job in its
  state or takes it along an event of \<open>apply_scheduler_state_transition\<close>, even when the
  command acts on a state it saw earlier and although completion and failure overwrite the status
  without looking at it; the row of a completed or canceled job is never changed again.
\<close>

theorem job_follows_state_machine:
  assumes "sched_reachable db" and "job_by_id db j = Some r"
  shows "\<exists>r'. job_by_id (run_action a db) j = Some r'
    \<and> (row_state r' = row_state r
       \<or> (\<exists>e. apply_scheduler_state_transition (row_state r) e = Inr (row_state r')))
    \<and> (row_state r \<in> {Completed, Canceled} \<longrightarrow> r' = r)"
proof -
  have inv: "sched_inv db" using assms(1) by (rule sched_reachable_inv)
  obtain r' where "job_by_id (run_action a db) j = Some r'" and step: "row_step a r r'"
    using inv assms(2) by (rule job_by_id_step)
  with row_step_machine [OF step job_by_id_ok [OF inv assms(2)]] show ?thesis by blast
qed

theorem job_follows_state_machine_witness:
  "\<exists>r'. job_by_id (run_action (ActFail sx_fail 105) sx_claimed) ''j'' = Some r'
    \<and> (row_state r' = row_state sx_row
       \<or> (\<exists>e. apply_scheduler_state_transition (row_state sx_row) e = Inr (row_state r')))"
  using job_follows_state_machine [OF sx_claimed_reachable sx_claimed_row] by blast

section \<open>Leases\<close>







text \<open>
  A worker that no longer holds a job's lease can settle nothing: unless a later claim
  hands out the same token again, its completion and its failure report are refused in every later
  state, and both leave the tables as they are.
\<close>

theorem lost_lease_refused:
  assumes reach: "sched_reachable db" and r: "job_by_id db j = Some r" and lost: "sj_lease_token r \<noteq> Some tok"
    and acts: "list_all action_ok acts"
    and fresh: "\<forall>ch now lim secs at. ActClaim ch now lim secs tok at \<notin> set acts"
    and cr: "cr_job_id creq = j" "cr_lease_token creq = tok"
    and fr: "fr_job_id freq = j" "fr_lease_token freq = tok"
    and db': "db' = run_actions acts db"
  shows "complete_telegram_scheduler_job_run creq at db' = Inl CompletionRejected
    \<and> fail_telegram_scheduler_job_run freq at db' = Inl FailureRejected
    \<and> run_action (ActComplete creq at) db' = db' \<and> run_action (ActFail freq at) db' = db'"
proof -
  have inv: "sched_inv db" using reach by (rule sched_reachable_inv)
  have "\<exists>r'. job_by_id db' j = Some r' \<and> sj_lease_token r' \<noteq> Some tok" unfolding db'
  proof (rule job_along_actions [where P = "\<lambda>r. sj_lease_token r \<noteq> Some tok", OF _ inv acts r lost])
    fix a and q q' :: job_row
    assume step: "row_step a q q'" and "a \<in> set acts" and "sj_lease_token q \<noteq> Some tok"
    then show "sj_lease_token q' \<noteq> Some tok"
      using fresh by (induction rule: row_step.induct) (auto simp: completed_row_def failed_row_def)
  qed
  then obtain r' where r': "job_by_id db' j = Some r'" and tok: "sj_lease_token r' \<noteq> Some tok" by blast
  have inv': "sched_inv db'" unfolding db' using inv acts by (rule run_actions_inv)
  have none: "sj_lease_token q \<noteq> Some tok" if "q \<in> set (sd_jobs db')" "sj_job_id q = j" for q
    using job_by_id_mem [OF inv' that(1)] that(2) r' tok by simp
  have "count_where (complete_hit creq) (sd_jobs db') = 0" "count_where (fail_hit freq) (sd_jobs db') = 0"
    using none cr fr by (auto simp: complete_hit_def fail_hit_def)
  then show ?thesis
    by (simp add: complete_telegram_scheduler_job_run_def fail_telegram_scheduler_job_run_def ensure_def Let_def
        del: count_where_0)
qed

theorem lost_lease_refused_witness:
  "complete_telegram_scheduler_job_run
     \<lparr> cr_channel = ''t'', cr_chat_id = 1, cr_job_id = ''j'', cr_lease_token = ''A'', cr_started_at = 101,
       cr_finished_at = 131, cr_next_run_at = None, cr_mark_completed = True \<rparr> 131 sx_reclaimed
     = Inl CompletionRejected
   \<and> fail_telegram_scheduler_job_run sx_fail 131 sx_reclaimed = Inl FailureRejected"
proof -
  let ?creq = "\<lparr> cr_channel = ''t'', cr_chat_id = 1, cr_job_id = ''j'', cr_lease_token = ''A'', cr_started_at = 101,
       cr_finished_at = 131, cr_next_run_at = None, cr_mark_completed = True \<rparr>"
  have fields: "fr_job_id sx_fail = ''j''" "fr_lease_token sx_fail = ''A''"
    by (simp_all add: sx_fail_def fail_request_def Let_def sx_job_def telegram_scheduler_job_from_row_def)
  have "complete_telegram_scheduler_job_run ?creq 131 sx_reclaimed = Inl CompletionRejected
    \<and> fail_telegram_scheduler_job_run sx_fail 131 sx_reclaimed = Inl FailureRejected
    \<and> run_action (ActComplete ?creq 131) sx_reclaimed = sx_reclaimed
    \<and> run_action (ActFail sx_fail 131) sx_reclaimed = sx_reclaimed"
    by (rule lost_lease_refused [OF sx_reclaimed_reachable sx_reclaimed_row, where acts = "[]"])
      (simp_all add: fields)
  then show ?thesis by blast
qed

section \<open>Jobs paused by their failures\<close>

text \<open>A job without a next run and without a lease.\<close>

definition dormant :: "job_row \<Rightarrow> bool" where
  "dormant r \<longleftrightarrow> sj_next_run_at_unix r = None \<and> sj_lease_token r = None"

lemma row_step_dormant:
  assumes "row_step a r r'" and "dormant r"
  shows "dormant r' \<and> sj_run_count r' = sj_run_count r"
  using assms
  by (induction rule: row_step.induct) (auto simp: dormant_def job_due_def complete_hit_def fail_hit_def)

lemma dormant_not_claimed:
  assumes "sched_inv db" and "job_by_id db j = Some r" and "dormant r"
  shows "j \<notin> sj_job_id ` set (snd (claim_due_telegram_scheduler_jobs ch now lim secs tok at db))"
  using assms(1,2)
  by (rule not_claimed) (use row_step_dormant assms(3) in \<open>force simp: dormant_def\<close>)

lemma resume_replies_done:
  assumes inv: "sched_inv db" and r: "job_by_id db j = Some r" and paused: "row_state r = Paused"
  shows "\<exists>db' r'. execute_scheduler_job_operation (sj_channel r) (sj_chat_id r) (sj_owner_user_id r)
      OpResume j inferred at db = (db', OperationDone OpResume j inferred)
    \<and> job_by_id db' j = Some r' \<and> row_state r' = Active"
proof -
  have mem: "r \<in> set (sd_jobs db)" and id: "sj_job_id r = j" using job_by_idD [OF r] by simp_all
  have status: "sj_status r = ''paused''" using job_by_id_ok [OF inv r] paused by (auto elim: status_cases)
  have "find (\<lambda>q. sj_channel q = sj_channel r \<and> sj_job_id q = j) (sd_jobs db) = Some r"
    using r by (auto simp: job_by_id_def find_Some_iff) 
  then have load: "load_telegram_scheduler_job (sj_channel r) j db = Some (telegram_scheduler_job_from_row r)"
    by (simp add: load_telegram_scheduler_job_def)
  let ?hit = "\<lambda>q. sj_channel q = sj_channel r \<and> sj_chat_id q = sj_chat_id r
      \<and> sj_owner_user_id q = sj_owner_user_id r \<and> sj_job_id q = j
      \<and> sj_status q \<notin> {''completed'', ''canceled''}"
  let ?up = "\<lambda>q. q\<lparr>sj_status := job_status_str JobActive, sj_lease_token := None,
      sj_lease_until_unix := None, sj_updated_at := at\<rparr>"
  let ?db = "db\<lparr>sd_jobs := update_where ?hit ?up (sd_jobs db)\<rparr>"
  have "count_where ?hit (sd_jobs db) \<noteq> 0" using mem id status by auto
  then have update: "update_telegram_scheduler_job_status (sj_channel r) (sj_chat_id r) (sj_owner_user_id r) j
      JobActive at db = (?db, True)"
    by (simp add: update_telegram_scheduler_job_status_def Let_def del: count_where_0)
  have "job_by_id ?db j = Some (?up r)"
    using r id status find_update_where [of ?hit "\<lambda>q. sj_job_id q = j" ?up "sd_jobs db"]
    by (simp add: job_by_id_def)
  moreover have "operation_target OpResume j (scheduler_state_from_job_status
      (sj_status (telegram_scheduler_job_from_row r))) = Inr JobActive"
    by (simp add: telegram_scheduler_job_from_row_def status job_status_from_db_def operation_target_def)
  moreover have "row_state (?up r) = Active" by (simp add: row_state_def job_status_from_db_def)
  ultimately show ?thesis
    using update by (auto simp: execute_scheduler_job_operation_def load telegram_scheduler_job_from_row_def)
qed

text \<open>
  C20: A job paused by its failures never runs again. Whatever commands and workers do
  afterwards, no claim returns it and its run count stays; while it is paused, the resume command
  reports success and makes it active, but with no next run it is still never due.
\<close>

theorem failure_paused_job_never_runs:
  assumes reach: "sched_reachable db" and fail: "fail_telegram_scheduler_job_run req at db = Inr db1"
    and plan: "req = fail_request lib tz channel token job env err" "fr_pause_job req"
    and acts: "list_all action_ok acts" and db': "db' = run_actions acts db1"
  shows "\<exists>r1 r. job_by_id db1 (fr_job_id req) = Some r1 \<and> row_state r1 = Paused
    \<and> job_by_id db' (fr_job_id req) = Some r \<and> sj_run_count r = sj_run_count r1
    \<and> (\<forall>ch now lim secs tok at. fr_job_id req
         \<notin> sj_job_id ` set (snd (claim_due_telegram_scheduler_jobs ch now lim secs tok at db')))
    \<and> (row_state r = Paused \<longrightarrow> (\<forall>inferred at. \<exists>db'' r''.
         execute_scheduler_job_operation (sj_channel r) (sj_chat_id r) (sj_owner_user_id r)
           OpResume (fr_job_id req) inferred at db' = (db'', OperationDone OpResume (fr_job_id req) inferred)
         \<and> job_by_id db'' (fr_job_id req) = Some r'' \<and> row_state r'' = Active))"
proof -
  let ?j = "fr_job_id req"
  have inv: "sched_inv db" using reach by (rule sched_reachable_inv)
  have next_none: "fr_next_run_at req = None" using plan by (simp add: fail_request_def Let_def)
  from fail obtain r0 where mem: "r0 \<in> set (sd_jobs db)" and hit: "fail_hit req r0"
    by (auto simp: fail_telegram_scheduler_job_run_def Let_def)
  then have r0: "job_by_id db ?j = Some r0" using job_by_id_mem [OF inv mem] by (simp add: fail_hit_def)
  let ?r1 = "failed_row req at r0"
  have db1: "db1 = run_action (ActFail req at) db" using fail_hits(1) [OF inv r0 hit, of at] fail by simp
  have inv1: "sched_inv db1" unfolding db1 using inv by (rule run_action_inv) simp
  have r1: "job_by_id db1 ?j = Some ?r1" unfolding db1 using inv r0 hit by (rule fail_hits(2))
  have "dormant ?r1" by (simp add: dormant_def failed_row_def next_none)
  then have "dormant ?r1 \<and> sj_run_count ?r1 = sj_run_count ?r1" by simp
  with inv1 acts r1 have "\<exists>r. job_by_id db' ?j = Some r \<and> (dormant r \<and> sj_run_count r = sj_run_count ?r1)"
    unfolding db' by (intro job_along_actions) (auto dest: row_step_dormant)
  then obtain r where r: "job_by_id db' ?j = Some r" and dorm: "dormant r" and runs: "sj_run_count r = sj_run_count ?r1"
    by blast
  have inv': "sched_inv db'" unfolding db' using inv1 acts by (rule run_actions_inv)
  have "row_state ?r1 = Paused" using plan(2) by (simp add: row_state_def failed_row_def job_status_from_db_def)
  with r1 r runs dormant_not_claimed [OF inv' r dorm] resume_replies_done [OF inv' r] show ?thesis by blast
qed

theorem failure_paused_job_never_runs_witness:
  "\<exists>r1 r. job_by_id (run_action (ActFail sx_fail 105) sx_claimed) ''j'' = Some r1 \<and> row_state r1 = Paused
    \<and> job_by_id (run_actions [ActOperate ''t'' 1 7 OpResume ''j'' Paused 200]
         (run_action (ActFail sx_fail 105) sx_claimed)) ''j'' = Some r
    \<and> sj_run_count r = sj_run_count r1
    \<and> (\<forall>ch now lim secs tok at. ''j'' \<notin> sj_job_id ` set (snd (claim_due_telegram_scheduler_jobs ch now lim secs tok at
         (run_actions [ActOperate ''t'' 1 7 OpResume ''j'' Paused 200]
           (run_action (ActFail sx_fail 105) sx_claimed)))))"
proof -
  have id: "fr_job_id sx_fail = ''j''"
    by (simp add: sx_fail_def fail_request_def Let_def sx_job_def telegram_scheduler_job_from_row_def)
  have hit: "fail_hit sx_fail sx_row"
    by (simp add: fail_hit_def sx_fail_def fail_request_def Let_def sx_job_def telegram_scheduler_job_from_row_def)
  have fail: "fail_telegram_scheduler_job_run sx_fail 105 sx_claimed = Inr (run_action (ActFail sx_fail 105) sx_claimed)"
    using sched_reachable_inv [OF sx_claimed_reachable] sx_claimed_row hit by (rule fail_hits(1))
  have ok: "list_all action_ok [ActOperate ''t'' 1 7 OpResume ''j'' Paused 200]" by simp
  from failure_paused_job_never_runs [OF sx_claimed_reachable fail sx_fail_def sx_fail_pauses ok refl]
  show ?thesis unfolding id by blast
qed

end
