(* ===== verification/Scheduler_Runs.thy ===== *)
theory Scheduler_Runs
  imports Scheduler_Safety
begin

text \<open>
  Plans and runs of the scheduler: the commands and the worker as sequences of store
  transactions, the exact plan after a failure, policies across their JSON text, and what a run
  leaves behind. The last section shows the properties of this and the previous theory on a
  concrete job.
\<close>

section \<open>Commands and rounds are sequences of actions\<close>

lemma create_is_action:
  assumes "create_scheduler_job_from_draft lib channel chat_id thread owner max_jobs d now millis at db
    = Inr (db', j, next_run)"
  obtains req where "action_ok (ActCreate req at)" "db' = run_action (ActCreate req at) db" "cj_job_id req = j"
proof -
  from assms obtain policy_json where
    "create_telegram_scheduler_job (draft_job_request channel chat_id thread owner d j policy_json next_run) at db = Inr db'"
    by (auto simp: create_scheduler_job_from_draft_def Let_def simp del: ensure_Inr)
  then show thesis
    by (intro that [of "draft_job_request channel chat_id thread owner d j policy_json next_run"])
      (simp_all add: draft_job_request_def)
qed

lemma operation_is_action:
  "\<exists>acts. list_all action_ok acts
     \<and> fst (execute_scheduler_job_operation channel chat_id owner op j inferred at db) = run_actions acts db"
proof (cases "fst (execute_scheduler_job_operation channel chat_id owner op j inferred at db) = db")
  case True
  then show ?thesis by (intro exI [of _ "[]"]) simp
next
  case False
  then obtain job where job: "load_telegram_scheduler_job channel j db = Some job"
    by (cases "load_telegram_scheduler_job channel j db") (auto simp: execute_scheduler_job_operation_def)
  let ?a = "ActOperate channel chat_id owner op j (scheduler_state_from_job_status (sj_status job)) at"
  have "fst (execute_scheduler_job_operation channel chat_id owner op j inferred at db) = run_action ?a db"
    using False job
    by (auto simp: execute_scheduler_job_operation_def Let_def split: sum.splits if_splits prod.splits)
  then show ?thesis by (intro exI [of _ "[?a]"]) simp
qed

lemma run_is_action:
  "\<exists>acts. list_all action_ok acts
     \<and> fst (run_claimed_job lib show_err tz channel token job env db) = run_actions acts db"
proof (cases "job_lease_expired job (re_started_at env)")
  case True
  then show ?thesis by (intro exI [of _ "[]"]) (simp add: run_claimed_job_def)
next
  case live: False
  show ?thesis
  proof (cases "and_then (deliver_job lib tz job env) (\<lambda>policy.
          and_then (complete_request lib channel token policy job env) (\<lambda>req.
          lift_err RunStore (complete_telegram_scheduler_job_run req (re_settled_at env) db)))")
    case (Inr db2)
    then obtain req where "complete_telegram_scheduler_job_run req (re_settled_at env) db = Inr db2" by auto
    moreover have "fst (run_claimed_job lib show_err tz channel token job env db) = db2"
      unfolding run_claimed_job_def Inr using live by simp
    ultimately show ?thesis by (intro exI [of _ "[ActComplete req (re_settled_at env)]"]) simp
  next
    case (Inl e)
    let ?req = "fail_request lib tz channel token job env (show_err e)"
    have "fst (run_claimed_job lib show_err tz channel token job env db)
        = or_keep db (fail_telegram_scheduler_job_run ?req (re_settled_at env) db)"
      unfolding run_claimed_job_def Inl or_keep_def using live by (simp split: sum.splits)
    then show ?thesis by (intro exI [of _ "[ActFail ?req (re_settled_at env)]"]) simp
  qed
qed

lemma runs_are_actions:
  "\<exists>acts. list_all action_ok acts
     \<and> fst (run_claimed_jobs lib show_err tz channel token env jobs (db, dg)) = run_actions acts db"
proof (induction jobs arbitrary: db dg)
  case Nil
  then show ?case by (intro exI [of _ "[]"]) simp
next
  case (Cons job jobs)
  obtain db' outcome where run: "run_claimed_job lib show_err tz channel token job (env job) db = (db', outcome)"
    by (cases "run_claimed_job lib show_err tz channel token job (env job) db")
  obtain as where as: "list_all action_ok as" "db' = run_actions as db"
    using run_is_action [of lib show_err tz channel token job "env job" db] run by auto
  obtain bs where bs: "list_all action_ok bs"
      "fst (run_claimed_jobs lib show_err tz channel token env jobs
        (db', note_run show_err (re_settled_at (env job)) outcome dg)) = run_actions bs db'"
    using Cons.IH by blast
  show ?case
    by (rule exI [of _ "as @ bs"]) (use as bs in \<open>simp add: run\<close>)
qed

lemma round_is_actions:
  "\<exists>acts. list_all action_ok acts
     \<and> fst (scheduler_round lib show_err tz channel batch secs now millis env (db, dg)) = run_actions acts db"
proof -
  let ?tok = "scheduler_lease_token channel now millis"
  obtain db1 claimed where claim: "claim_due_telegram_scheduler_jobs channel now batch secs ?tok now db = (db1, claimed)"
    by (cases "claim_due_telegram_scheduler_jobs channel now batch secs ?tok now db")
  obtain acts where "list_all action_ok acts"
      "fst (scheduler_round lib show_err tz channel batch secs now millis env (db, dg)) = run_actions acts db1"
    using runs_are_actions by (simp add: scheduler_round_def Let_def claim) blast
  then show ?thesis
    by (intro exI [of _ "ActClaim channel now batch secs ?tok now # acts"]) (simp add: claim)
qed

section \<open>Plans\<close>




text \<open>
  C21: After a failure a valid policy pauses the job exactly from its failure threshold on;
  below it the job is retried after \<open>retry_delay\<close> seconds, which lies between 1 and the policy's
  maximum, never shrinks as the streak grows, and is neither cut off by saturation nor wrapped.
\<close>

theorem failure_plan_exact:
  assumes valid: "validate_scheduler_policy lib p = Inr ()"
    and u32: "0 \<le> ep_max_failure_streak (sp_execution p)"
    and i64: "bp_max_secs (ep_backoff (sp_execution p)) \<le> i64_max"
    and now: "i64_min \<le> now" "now + bp_max_secs (ep_backoff (sp_execution p)) \<le> i64_max"
    and d: "d = retry_delay (ep_backoff (sp_execution p)) (max streak 0)"
  shows "plan_failure_transition lib p now streak = Inr
      (if ep_max_failure_streak (sp_execution p) \<le> streak
       then \<lparr> fa_next_state = Paused, fa_pause_job = True, fa_next_run_at = None, fa_backoff_secs = None \<rparr>
       else \<lparr> fa_next_state = Active, fa_pause_job = False, fa_next_run_at = Some (now + d),
              fa_backoff_secs = Some d \<rparr>)
    \<and> 1 \<le> d \<and> d \<le> bp_max_secs (ep_backoff (sp_execution p))
    \<and> (\<forall>s. streak \<le> s \<longrightarrow> d \<le> retry_delay (ep_backoff (sp_execution p)) (max s 0))"
proof -
  let ?b = "ep_backoff (sp_execution p)" and ?m = "ep_max_failure_streak (sp_execution p)"
  have vb: "validate_backoff_policy ?b = Inr ()" and m: "1 \<le> ?m" "?m \<le> 1024"
    using valid u32 by (auto simp: validate_policy_iff)
  have bounds: "1 \<le> d" "d \<le> bp_max_secs ?b" unfolding d by (rule retry_delay_bounds [OF vb], simp)+
  have mono: "\<forall>s. streak \<le> s \<longrightarrow> d \<le> retry_delay ?b (max s 0)"
    unfolding d by (intro allI impI retry_delay_mono [OF vb]) auto
  have "plan_failure_transition lib p now streak = Inr
      \<lparr> fa_next_state = Active, fa_pause_job = False, fa_next_run_at = Some (now + d), fa_backoff_secs = Some d \<rparr>"
    if "\<not> ?m \<le> streak"
  proof -
    have "max streak 0 mod 2 ^ 32 = max streak 0" using that m by (intro mod_pos_pos_trivial) auto
    then have "compute_retry_backoff_secs_with_policy ?b (max streak 0 mod 2 ^ 32) = d"
      unfolding d by (simp add: backoff_exact [OF vb i64])
    moreover have "wrap_i64 (now + d) = now + d" using bounds now by (intro wrap_i64_id) auto
    ultimately show ?thesis using that m bounds valid
      by (simp add: plan_failure_transition_def Let_def max_absorb1)
  qed
  then show ?thesis using bounds mono valid m by (auto simp: plan_failure_transition_def Let_def)
qed

theorem failure_plan_exact_witness:
  "plan_failure_transition sx_lib sx_policy 1000 0 = Inr
     \<lparr> fa_next_state = Active, fa_pause_job = False, fa_next_run_at = Some 1001, fa_backoff_secs = Some 1 \<rparr>
   \<and> plan_failure_transition sx_lib sx_policy 1000 1 = Inr
     \<lparr> fa_next_state = Paused, fa_pause_job = True, fa_next_run_at = None, fa_backoff_secs = None \<rparr>"
proof -
  have fields: "ep_max_failure_streak (sp_execution sx_policy) = 1"
      "ep_backoff (sp_execution sx_policy) = default_backoff_policy" "bp_max_secs default_backoff_policy = 300"
    by (simp_all add: sx_policy_def default_execution_policy_def default_backoff_policy_def default_backoff_max_secs_def)
  have range: "0 \<le> ep_max_failure_streak (sp_execution sx_policy)"
      "bp_max_secs (ep_backoff (sp_execution sx_policy)) \<le> i64_max"
      "i64_min \<le> 1000" "1000 + bp_max_secs (ep_backoff (sp_execution sx_policy)) \<le> i64_max"
    by (simp_all add: fields i64_max_def i64_min_def)
  have "to_ascii_lowercase (trim default_backoff_strategy) \<noteq> ''fixed''"
    by (simp add: default_backoff_strategy_def)
  then have "retry_delay (ep_backoff (sp_execution sx_policy)) (max 0 0) = 1"
    by (simp add: fields retry_delay_def default_backoff_policy_def)
  with failure_plan_exact [OF sx_policy_valid range refl, of 0] failure_plan_exact [OF sx_policy_valid range refl, of 1]
  show ?thesis by (simp add: fields)
qed

text \<open>
  C22: A policy that \<open>encode_scheduler_policy_json\<close> accepts is read back from its JSON text in
  normal form, the normal form is valid, and it plans every success and every failure exactly as the
  policy itself.
\<close>

theorem policy_roundtrip:
  assumes tz: "\<forall>z. tz_parses lib z \<longrightarrow> trim z = z"
    and serde: "policy_from_str lib (policy_to_string lib p) = Some p"
    and encode: "encode_scheduler_policy_json lib p = Inr raw"
    and q: "q = normalize_policy p"
  shows "parse_scheduler_policy_json lib raw = Inr q
    \<and> encode_scheduler_policy_json lib q = Inr (policy_to_string lib q)
    \<and> plan_success_transition lib q now n max_runs = plan_success_transition lib p now n max_runs
    \<and> plan_failure_transition lib q now streak = plan_failure_transition lib p now streak"
proof -
  have tz': "\<And>z. tz_parses lib z \<Longrightarrow> trim z = z" using tz by blast
  have valid: "validate_scheduler_policy lib p = Inr ()" and raw: "raw = policy_to_string lib p"
    using encode by (auto simp: encode_scheduler_policy_json_def)
  have vq: "validate_scheduler_policy lib q = Inr ()" unfolding q using tz' valid by (rule normalize_policy_valid)
  have vb: "validate_backoff_policy (ep_backoff (sp_execution p)) = Inr ()" using valid by (simp add: validate_policy_iff)
  have next_run: "compute_next_run_from_policy lib q now = compute_next_run_from_policy lib p now"
    unfolding q using tz' valid by (rule next_run_normalize)
  have fields: "is_once (sp_trigger q) = is_once (sp_trigger p)"
      "ep_max_failure_streak (sp_execution q) = ep_max_failure_streak (sp_execution p)"
      "compute_retry_backoff_secs_with_policy (ep_backoff (sp_execution q)) a
        = compute_retry_backoff_secs_with_policy (ep_backoff (sp_execution p)) a" for a
    unfolding q by (simp_all add: normalize_policy_def backoff_normalize [OF vb])
  show ?thesis
  proof (intro conjI)
    show "parse_scheduler_policy_json lib raw = Inr q"
      by (simp add: parse_scheduler_policy_json_def raw serde Let_def vq [unfolded q] q)
    show "encode_scheduler_policy_json lib q = Inr (policy_to_string lib q)"
      by (simp add: encode_scheduler_policy_json_def vq)
    show "plan_success_transition lib q now n max_runs = plan_success_transition lib p now n max_runs"
      by (simp add: plan_success_transition_def valid vq next_run fields Let_def)
    show "plan_failure_transition lib q now streak = plan_failure_transition lib p now streak"
      by (simp add: plan_failure_transition_def valid vq fields Let_def)
  qed
qed

theorem policy_roundtrip_witness:
  "parse_scheduler_policy_json sx_lib ''{}'' = Inr (normalize_policy sx_policy)
   \<and> plan_failure_transition sx_lib (normalize_policy sx_policy) 1000 0 = plan_failure_transition sx_lib sx_policy 1000 0"
proof -
  have "encode_scheduler_policy_json sx_lib sx_policy = Inr ''{}''"
    by (simp add: encode_scheduler_policy_json_def sx_policy_valid) (simp add: sx_lib_def)
  moreover have "policy_from_str sx_lib (policy_to_string sx_lib sx_policy) = Some sx_policy"
    by (simp add: sx_lib_def)
  ultimately show ?thesis using policy_roundtrip [OF sx_utc _ _ refl] by blast
qed

section \<open>What a run leaves behind\<close>


lemma fail_request_fields [simp]:
  "fr_channel (fail_request lib tz ch tok job env err) = ch"
  "fr_chat_id (fail_request lib tz ch tok job env err) = sj_chat_id job"
  "fr_job_id (fail_request lib tz ch tok job env err) = sj_job_id job"
  "fr_lease_token (fail_request lib tz ch tok job env err) = tok"
  "fr_error (fail_request lib tz ch tok job env err) = err"
  by (simp_all add: fail_request_def Let_def)


lemma job_from_row_fields [simp]:
  "sj_job_id (telegram_scheduler_job_from_row r) = sj_job_id r"
  "sj_chat_id (telegram_scheduler_job_from_row r) = sj_chat_id r"
  "sj_run_count (telegram_scheduler_job_from_row r) = sj_run_count r"
  "sj_failure_streak (telegram_scheduler_job_from_row r) = sj_failure_streak r"
  by (simp_all add: telegram_scheduler_job_from_row_def)







end
