(* ===== verification/Scheduler_Texts.thy ===== *)
theory Scheduler_Texts
  imports Scheduler_Worker
begin

text \<open>
  How the channel reads a user's message as a scheduler command (\<open>scheduler_helpers.rs\<close>): the
  answers to a confirmation, the keywords of an operation, task ids inside a text, relative delays
  such as ``20 minutes later'' and the payload of a reminder. The literals are the UTF-8 bytes of
  the source's.
\<close>

section \<open>Trimming\<close>

text \<open>\<open>trim_matches\<close> with a closure that accepts white space and the given characters.\<close>

definition char_prefix :: "string list \<Rightarrow> string \<Rightarrow> nat" where
  "char_prefix cs s =
     (case find (\<lambda>c. starts_with c s) (cs @ ws_encodings) of None \<Rightarrow> 0 | Some c \<Rightarrow> length c)"

definition char_suffix :: "string list \<Rightarrow> string \<Rightarrow> nat" where
  "char_suffix cs s =
     (case find (\<lambda>c. length c \<le> length s \<and> drop (length s - length c) s = c) (cs @ ws_encodings) of
        None \<Rightarrow> 0 | Some c \<Rightarrow> length c)"

function trim_chars_start :: "string list \<Rightarrow> string \<Rightarrow> string" where
  "trim_chars_start cs s =
     (if char_prefix cs s = 0 \<or> s = [] then s else trim_chars_start cs (drop (char_prefix cs s) s))"
  by pat_completeness auto
termination
  by (relation "measure (\<lambda>(cs, s). length s)") auto

function trim_chars_end :: "string list \<Rightarrow> string \<Rightarrow> string" where
  "trim_chars_end cs s =
     (if char_suffix cs s = 0 \<or> s = [] then s
      else trim_chars_end cs (take (length s - char_suffix cs s) s))"
  by pat_completeness auto
termination
  by (relation "measure (\<lambda>(cs, s). length s)") auto

declare trim_chars_start.simps [simp del] trim_chars_end.simps [simp del]

definition trim_chars :: "string list \<Rightarrow> string \<Rightarrow> string" where
  "trim_chars cs s = trim_chars_end cs (trim_chars_start cs s)"

section \<open>Confirmations and operations\<close>

definition is_scheduler_confirm_text :: "string \<Rightarrow> bool" where
  "is_scheduler_confirm_text s \<longleftrightarrow>
     to_ascii_lowercase (trim s) \<in> set
     [[CHR 0xE7, CHR 0xA1, CHR 0xAE, CHR 0xE8, CHR 0xAE, CHR 0xA4],
      [CHR 0xE7, CHR 0xA1, CHR 0xAE, CHR 0xE5, CHR 0xAE, CHR 0x9A],
      ''yes'',
      ''y'',
      ''ok'',
      ''okay'',
      ''confirm'']"

definition is_scheduler_cancel_text :: "string \<Rightarrow> bool" where
  "is_scheduler_cancel_text s \<longleftrightarrow>
     to_ascii_lowercase (trim s) \<in> set
     [[CHR 0xE5, CHR 0x8F, CHR 0x96, CHR 0xE6, CHR 0xB6, CHR 0x88],
      [CHR 0xE4, CHR 0xB8, CHR 0x8D, CHR 0xE7, CHR 0x94, CHR 0xA8, CHR 0xE4, CHR 0xBA, CHR 0x86],
      [CHR 0xE7, CHR 0xAE, CHR 0x97, CHR 0xE4, CHR 0xBA, CHR 0x86],
      ''no'',
      ''n'',
      ''cancel'',
      ''stop'']"

definition list_words_zh :: "string list" where
  "list_words_zh =
     [[CHR 0xE4, CHR 0xBB, CHR 0xBB, CHR 0xE5, CHR 0x8A, CHR 0xA1, CHR 0xE5, CHR 0x88, CHR 0x97, CHR 0xE8,
         CHR 0xA1, CHR 0xA8],
      [CHR 0xE6, CHR 0x9F, CHR 0xA5, CHR 0xE7, CHR 0x9C, CHR 0x8B, CHR 0xE4, CHR 0xBB, CHR 0xBB, CHR 0xE5,
         CHR 0x8A, CHR 0xA1],
      [CHR 0xE5, CHR 0x88, CHR 0x97, CHR 0xE5, CHR 0x87, CHR 0xBA, CHR 0xE4, CHR 0xBB, CHR 0xBB, CHR 0xE5,
         CHR 0x8A, CHR 0xA1],
      [CHR 0xE6, CHR 0x9C, CHR 0x89, CHR 0xE5, CHR 0x93, CHR 0xAA, CHR 0xE4, CHR 0xBA, CHR 0x9B, CHR 0xE4,
         CHR 0xBB, CHR 0xBB, CHR 0xE5, CHR 0x8A, CHR 0xA1],
      [CHR 0xE7, CHR 0x9C, CHR 0x8B, CHR 0xE7, CHR 0x9C, CHR 0x8B, CHR 0xE4, CHR 0xBB, CHR 0xBB, CHR 0xE5,
         CHR 0x8A, CHR 0xA1]]"

definition looks_like_scheduler_list_text :: "string \<Rightarrow> bool" where
  "looks_like_scheduler_list_text s =
     (let lower = to_ascii_lowercase (trim s)
      in if lower = [] then False
         else if list_ex (\<lambda>k. str_contains k s) list_words_zh then True
         else list_ex (\<lambda>k. str_contains k lower)
           [''list task'', ''list tasks'', ''show tasks'', ''show task''])"

definition pause_words :: "string list" where
  "pause_words =
     [[CHR 0xE6, CHR 0x9A, CHR 0x82, CHR 0xE5, CHR 0x81, CHR 0x9C, CHR 0xE4, CHR 0xBB, CHR 0xBB, CHR 0xE5,
         CHR 0x8A, CHR 0xA1],
      [CHR 0xE5, CHR 0x81, CHR 0x9C, CHR 0xE7, CHR 0x94, CHR 0xA8, CHR 0xE4, CHR 0xBB, CHR 0xBB, CHR 0xE5,
         CHR 0x8A, CHR 0xA1],
      ''pause task'',
      [CHR 0x70, CHR 0x61, CHR 0x75, CHR 0x73, CHR 0x65, CHR 0xE4, CHR 0xBB, CHR 0xBB, CHR 0xE5, CHR 0x8A,
         CHR 0xA1]]"

definition resume_words :: "string list" where
  "resume_words =
     [[CHR 0xE6, CHR 0x81, CHR 0xA2, CHR 0xE5, CHR 0xA4, CHR 0x8D, CHR 0xE4, CHR 0xBB, CHR 0xBB, CHR 0xE5,
         CHR 0x8A, CHR 0xA1],
      [CHR 0xE7, CHR 0xBB, CHR 0xA7, CHR 0xE7, CHR 0xBB, CHR 0xAD, CHR 0xE4, CHR 0xBB, CHR 0xBB, CHR 0xE5,
         CHR 0x8A, CHR 0xA1],
      [CHR 0xE5, CHR 0x90, CHR 0xAF, CHR 0xE7, CHR 0x94, CHR 0xA8, CHR 0xE4, CHR 0xBB, CHR 0xBB, CHR 0xE5,
         CHR 0x8A, CHR 0xA1],
      ''resume task'',
      ''start task'']"

definition delete_words :: "string list" where
  "delete_words =
     [[CHR 0xE5, CHR 0x88, CHR 0xA0, CHR 0xE9, CHR 0x99, CHR 0xA4, CHR 0xE4, CHR 0xBB, CHR 0xBB, CHR 0xE5,
         CHR 0x8A, CHR 0xA1],
      [CHR 0xE5, CHR 0x88, CHR 0xA0, CHR 0xE6, CHR 0x8E, CHR 0x89, CHR 0xE4, CHR 0xBB, CHR 0xBB, CHR 0xE5,
         CHR 0x8A, CHR 0xA1],
      [CHR 0xE5, CHR 0x8F, CHR 0x96, CHR 0xE6, CHR 0xB6, CHR 0x88, CHR 0xE4, CHR 0xBB, CHR 0xBB, CHR 0xE5,
         CHR 0x8A, CHR 0xA1],
      ''delete task'',
      ''remove task'',
      ''cancel task'']"

definition mentions :: "string \<Rightarrow> string list \<Rightarrow> bool" where
  "mentions s ks \<longleftrightarrow> list_ex (\<lambda>k. str_contains k s \<or> str_contains k (to_ascii_lowercase (trim s))) ks"

definition detect_scheduler_job_operation_keyword :: "string \<Rightarrow> job_operation option" where
  "detect_scheduler_job_operation_keyword s =
     (if to_ascii_lowercase (trim s) = [] then None
      else if mentions s pause_words then Some OpPause
      else if mentions s resume_words then Some OpResume
      else if mentions s delete_words then Some OpDelete
      else None)"

definition text_implies_latest_target :: "string \<Rightarrow> bool" where
  "text_implies_latest_target s \<longleftrightarrow>
     to_ascii_lowercase (trim s) \<noteq> [] \<and> mentions s
     [[CHR 0xE6, CHR 0x9C, CHR 0x80, CHR 0xE6, CHR 0x96, CHR 0xB0],
      [CHR 0xE6, CHR 0x9C, CHR 0x80, CHR 0xE8, CHR 0xBF, CHR 0x91],
      [CHR 0xE5, CHR 0x88, CHR 0x9A, CHR 0xE5, CHR 0x88, CHR 0x9A],
      [CHR 0xE4, CHR 0xB8, CHR 0x8A, CHR 0xE4, CHR 0xB8, CHR 0x80, CHR 0xE4, CHR 0xB8, CHR 0xAA],
      [CHR 0xE4, CHR 0xB8, CHR 0x8A, CHR 0xE6, CHR 0xAC, CHR 0xA1],
      ''latest'',
      ''recent'',
      ''last'']"

section \<open>Task ids\<close>

definition job_id_char :: "char \<Rightarrow> bool" where
  "job_id_char c \<longleftrightarrow>
     is_digit c \<or> (65 \<le> (of_char c :: nat) \<and> (of_char c :: nat) \<le> 90)
     \<or> (97 \<le> (of_char c :: nat) \<and> (of_char c :: nat) \<le> 122) \<or> c \<in> {CHR ''-'', CHR ''_'', CHR '':''}"

definition job_id_quotes :: "string list" where
  "job_id_quotes =
     [[CHR 0x60],
      [CHR 0x22],
      [CHR 0x27],
      '','',
      [CHR 0xEF, CHR 0xBC, CHR 0x8C],
      ''.'',
      [CHR 0xE3, CHR 0x80, CHR 0x82],
      '';'',
      [CHR 0xEF, CHR 0xBC, CHR 0x9B],
      '')'',
      ''('',
      ''['',
      '']'']"

definition normalize_scheduler_job_id :: "string \<Rightarrow> string option" where
  "normalize_scheduler_job_id raw =
     (let trimmed = trim_chars job_id_quotes (trim raw)
      in if \<not> starts_with ''task-'' trimmed \<or> length trimmed \<le> 5 then None
         else if \<not> list_all job_id_char trimmed then None
         else Some trimmed)"

text \<open>\<open>match_indices("task-")\<close>: the tails of the text at its occurrences, which cannot overlap.\<close>

fun task_tails :: "string \<Rightarrow> string list" where
  "task_tails [] = []"
| "task_tails (c # s) =
     (if starts_with ''task-'' (c # s) then (c # s) # task_tails s else task_tails s)"

definition extract_scheduler_job_id :: "string \<Rightarrow> string option" where
  "extract_scheduler_job_id s =
     (case normalize_scheduler_job_id s of
        Some found \<Rightarrow> Some found
      | None \<Rightarrow> first_some (\<lambda>t. normalize_scheduler_job_id (takeWhile job_id_char t)) (task_tails s))"

section \<open>Relative reminders\<close>

definition duration_units :: "(string \<times> int) list" where
  "duration_units =
     [(''minutes'', 60),
      (''minute'', 60),
      (''mins'', 60),
      (''min'', 60),
      (''hours'', 3600),
      (''hour'', 3600),
      (''days'', 86400),
      (''day'', 86400),
      ([CHR 0xE5, CHR 0x88, CHR 0x86, CHR 0xE9, CHR 0x92, CHR 0x9F], 60),
      ([CHR 0xE5, CHR 0x88, CHR 0x86], 60),
      ([CHR 0xE5, CHR 0xB0, CHR 0x8F, CHR 0xE6, CHR 0x97, CHR 0xB6], 3600),
      ([CHR 0xE7, CHR 0xA7, CHR 0x92, CHR 0xE9, CHR 0x92, CHR 0x9F], 1),
      ([CHR 0xE7, CHR 0xA7, CHR 0x92], 1),
      ([CHR 0xE5, CHR 0xA4, CHR 0xA9], 86400)]"

definition parse_duration_unit :: "string \<Rightarrow> (int \<times> nat) option" where
  "parse_duration_unit s =
     map_option (\<lambda>(token, secs). (secs, length token)) (find (\<lambda>(token, secs). starts_with token s) duration_units)"

definition relative_suffixes :: "string list" where
  "relative_suffixes =
     [[CHR 0xE5, CHR 0x90, CHR 0x8E],
      [CHR 0xE4, CHR 0xB9, CHR 0x8B, CHR 0xE5, CHR 0x90, CHR 0x8E],
      [CHR 0xE4, CHR 0xBB, CHR 0xA5, CHR 0xE5, CHR 0x90, CHR 0x8E],
      ''later'',
      ''from now'',
      [CHR 0xE6, CHR 0x8F, CHR 0x90, CHR 0xE9, CHR 0x86, CHR 0x92],
      [CHR 0xE5, CHR 0x8F, CHR 0xAB],
      [CHR 0xE5, CHR 0x96, CHR 0x8A]]"

text \<open>
  The loop of \<open>parse_relative_delay_secs\<close>; the argument is the text from the cursor on. A number
  too large for an \<open>i64\<close> ends the search.
\<close>

function parse_relative_delay_secs :: "string \<Rightarrow> int option" where
  "parse_relative_delay_secs s =
     (let at = dropWhile (\<lambda>c. \<not> is_digit c) s;
          digits = takeWhile is_digit at;
          after = dropWhile is_digit at;
          rest = trim_start after
      in if at = [] then None
         else case try_i64 (digits_value digits) of
             None \<Rightarrow> None
           | Some v \<Rightarrow>
               if v \<le> 0 then parse_relative_delay_secs after
               else (case parse_duration_unit rest of
                   None \<Rightarrow> parse_relative_delay_secs after
                 | Some (secs, n) \<Rightarrow>
                     if list_ex (\<lambda>w. starts_with w (trim_start (drop n rest))) relative_suffixes
                     then Some (sat_i64 (v * secs))
                     else parse_relative_delay_secs after))"
  by pat_completeness auto

lemma after_digits_shorter:
  assumes "dropWhile (\<lambda>c. \<not> is_digit c) s \<noteq> []"
  shows "length (dropWhile is_digit (dropWhile (\<lambda>c. \<not> is_digit c) s)) < length s"
proof -
  obtain c t where at: "dropWhile (\<lambda>c. \<not> is_digit c) s = c # t" using assms by (cases "dropWhile (\<lambda>c. \<not> is_digit c) s") auto
  then have "is_digit c" using hd_dropWhile [of "\<lambda>c. \<not> is_digit c" s] by simp
  then have "length (dropWhile is_digit (c # t)) \<le> length t" by (simp add: length_dropWhile_le)
  moreover have "length (c # t) \<le> length s" using at length_dropWhile_le [of "\<lambda>c. \<not> is_digit c" s] by simp
  ultimately show ?thesis by (simp add: at)
qed

termination parse_relative_delay_secs
  by (relation "measure length") (simp_all add: after_digits_shorter del: dropWhile_eq_Nil_conv)

declare parse_relative_delay_secs.simps [simp del]

definition reminder_markers :: "string list" where
  "reminder_markers =
     [[CHR 0xE6, CHR 0x8F, CHR 0x90, CHR 0xE9, CHR 0x86, CHR 0x92, CHR 0xE4, CHR 0xB8, CHR 0x80, CHR 0xE4,
         CHR 0xB8, CHR 0x8B, CHR 0xE6, CHR 0x88, CHR 0x91],
      [CHR 0xE6, CHR 0x8F, CHR 0x90, CHR 0xE9, CHR 0x86, CHR 0x92, CHR 0xE4, CHR 0xB8, CHR 0x8B, CHR 0xE6,
         CHR 0x88, CHR 0x91],
      [CHR 0xE6, CHR 0x8F, CHR 0x90, CHR 0xE9, CHR 0x86, CHR 0x92, CHR 0xE6, CHR 0x88, CHR 0x91],
      [CHR 0xE6, CHR 0x8F, CHR 0x90, CHR 0xE9, CHR 0x86, CHR 0x92, CHR 0xE4, CHR 0xB8, CHR 0x80, CHR 0xE4,
         CHR 0xB8, CHR 0x8B],
      [CHR 0xE6, CHR 0x8F, CHR 0x90, CHR 0xE9, CHR 0x86, CHR 0x92, CHR 0xE4, CHR 0xB8, CHR 0x8B],
      [CHR 0xE6, CHR 0x8F, CHR 0x90, CHR 0xE9, CHR 0x86, CHR 0x92],
      [CHR 0xE5, CHR 0x8F, CHR 0xAB, CHR 0xE4, CHR 0xB8, CHR 0x80, CHR 0xE4, CHR 0xB8, CHR 0x8B, CHR 0xE6,
         CHR 0x88, CHR 0x91],
      [CHR 0xE5, CHR 0x8F, CHR 0xAB, CHR 0xE6, CHR 0x88, CHR 0x91],
      [CHR 0xE5, CHR 0x8F, CHR 0xAB, CHR 0xE4, CHR 0xB8, CHR 0x80, CHR 0xE4, CHR 0xB8, CHR 0x8B],
      [CHR 0xE5, CHR 0x8F, CHR 0xAB],
      [CHR 0xE5, CHR 0x96, CHR 0x8A, CHR 0xE6, CHR 0x88, CHR 0x91],
      [CHR 0xE5, CHR 0x96, CHR 0x8A]]"

definition reminder_punctuation :: "string list" where
  "reminder_punctuation =
     ['','',
      [CHR 0xEF, CHR 0xBC, CHR 0x8C],
      ''.'',
      [CHR 0xE3, CHR 0x80, CHR 0x82],
      ''!'',
      [CHR 0xEF, CHR 0xBC, CHR 0x81],
      ''?'',
      [CHR 0xEF, CHR 0xBC, CHR 0x9F],
      '':'',
      [CHR 0xEF, CHR 0xBC, CHR 0x9A],
      '';'',
      [CHR 0xEF, CHR 0xBC, CHR 0x9B]]"

definition default_reminder_payload :: string where
  "default_reminder_payload =
     [CHR 0xE4, CHR 0xBD, CHR 0xA0, CHR 0xE8, CHR 0xAE, CHR 0xBE, CHR 0xE7, CHR 0xBD, CHR 0xAE, CHR 0xE7,
      CHR 0x9A, CHR 0x84, CHR 0xE6, CHR 0x8F, CHR 0x90, CHR 0xE9, CHR 0x86, CHR 0x92]"

definition extract_relative_reminder_payload :: "string \<Rightarrow> string option" where
  "extract_relative_reminder_payload s =
     first_some (\<lambda>m. map_option (\<lambda>i.
         let tail = trim_chars reminder_punctuation (drop (i + length m) s)
         in if tail \<noteq> [] then tail else default_reminder_payload) (str_find m s)) reminder_markers"

definition try_build_relative_reminder_draft_from_text ::
  "string \<Rightarrow> string \<Rightarrow> int \<Rightarrow> intent_draft option" where
  "try_build_relative_reminder_draft_from_text s default_tz now =
     (let trimmed = trim s
      in if trimmed = [] then None
         else Option.bind (parse_relative_delay_secs trimmed) (\<lambda>delay.
           Option.bind (extract_relative_reminder_payload trimmed) (\<lambda>payload.
             Some \<lparr> dr_task_kind = Reminder, dr_schedule_kind = KindOnce, dr_payload = payload,
                    dr_timezone = default_tz, dr_run_at_unix = Some (sat_i64 (now + delay)),
                    dr_cron_expr = None, dr_source_text = trimmed \<rparr>)))"

text \<open>\<open>/task add\<close> and \<open>/task every\<close>: the two sides of the first bar.\<close>

definition parse_task_schedule_and_payload :: "string \<Rightarrow> (string \<times> string) option" where
  "parse_task_schedule_and_payload raw =
     (case str_find ''|'' raw of
        None \<Rightarrow> None
      | Some i \<Rightarrow>
          (let schedule = trim (take i raw); payload = trim (drop (i + 1) raw)
           in if schedule = [] \<or> payload = [] then None else Some (schedule, payload)))"

section \<open>What a recognized text means\<close>

lemma parse_delay_cases:
  assumes "parse_relative_delay_secs s = Some d"
  obtains "length (dropWhile is_digit (dropWhile (\<lambda>c. \<not> is_digit c) s)) < length s"
      "parse_relative_delay_secs (dropWhile is_digit (dropWhile (\<lambda>c. \<not> is_digit c) s)) = Some d"
    | v rest secs n where "0 < v" "parse_duration_unit rest = Some (secs, n)" "d = sat_i64 (v * secs)"
proof -
  have "dropWhile (\<lambda>c. \<not> is_digit c) s \<noteq> []"
    using assms by (subst (asm) parse_relative_delay_secs.simps) (auto simp: Let_def split: if_splits)
  moreover have "parse_relative_delay_secs (dropWhile is_digit (dropWhile (\<lambda>c. \<not> is_digit c) s)) = Some d
      \<or> (\<exists>v rest secs n. 0 < v \<and> parse_duration_unit rest = Some (secs, n) \<and> d = sat_i64 (v * secs))"
    using assms
    by (subst (asm) parse_relative_delay_secs.simps)
      (auto simp: Let_def not_le split: option.splits if_splits prod.splits)
  ultimately show thesis using that after_digits_shorter by blast
qed

lemma parse_delay_positive: "parse_relative_delay_secs s = Some d \<Longrightarrow> 0 < d \<and> d \<le> i64_max"
proof (induction s rule: length_induct)
  case (1 s)
  have units: "1 \<le> secs" if "parse_duration_unit rest = Some (secs, n)" for rest secs n
    using that
    by (auto simp: parse_duration_unit_def duration_units_def split: if_splits)
  from "1.prems" show ?case
  proof (cases rule: parse_delay_cases)
    case 1
    with "1.IH" show ?thesis by blast
  next
    case (2 v rest secs n)
    have "1 \<le> secs" using 2(2) by (rule units)
    then have "0 < v * secs" using 2(1) by simp
    then show ?thesis unfolding 2(3) by (auto simp: sat_i64_def i64_max_def i64_min_def)
  qed
qed

end
