(* ===== verification/Scheduler_Dialog.thy ===== *)
theory Scheduler_Dialog
  imports Scheduler_Texts Scheduler_Example
begin

text \<open>
  The scheduler's conversation with a user (\<open>maybe_handle_telegram_scheduler_natural_language\<close>
  of \<open>telegram_commands.rs\<close>): a message may answer a pending draft, manage jobs, or propose a new
  job, which in a private chat waits for a confirmation. The intent detector (a language model),
  the JSON text of a draft and the clocks are arguments; a reply is a value of
  \<open>dialog_reply\<close>. An error leaves the tables as they are.
\<close>

section \<open>Intents\<close>

definition resolve_scheduler_job_operation_from_intent :: "scheduler_intent \<Rightarrow> job_operation option" where
  "resolve_scheduler_job_operation_from_intent i =
     (let named = (\<lambda>s. if s = ''pause'' then Some OpPause else if s = ''resume'' then Some OpResume
                     else if s = ''delete'' then Some OpDelete else None)
      in case Option.bind (in_job_operation i) named of
           Some op \<Rightarrow> Some op
         | None \<Rightarrow> named (in_action i))"

record dialog_settings =
  ds_default_tz :: string
  ds_require_confirm :: bool
  ds_max_jobs :: nat

text \<open>
  What the outside contributes to one message: the clock when it arrives, when a job is created
  and in the store, the milliseconds of a new job id, the
  detected intent with its confidence verdict, and the draft codec.
\<close>

record dialog_env =
  de_now :: int
  de_create_now :: int
  de_store_now :: int
  de_millis :: nat
  de_detect :: "string option \<Rightarrow> channel_error + (scheduler_intent \<times> bool) option"
  de_encode_draft :: "intent_draft \<Rightarrow> string"
  de_decode_draft :: "string \<Rightarrow> intent_draft option"

datatype dialog_reply =
    DraftBroken
  | JobCreated string int
  | ConfirmFailed channel_error
  | DraftCanceled
  | DraftUpdated intent_draft
  | DraftProposed intent_draft
  | JobList "job_record list"
  | OperationReply job_reply
  | NotHandled

record dialog_ctx =
  dc_lib :: schedule_lib
  dc_chrono :: time_lib
  dc_channel :: string
  dc_chat_id :: int
  dc_thread :: "int option"
  dc_owner :: int
  dc_group_chat :: bool
  dc_settings :: dialog_settings
  dc_env :: dialog_env

type_synonym dialog_result = "channel_error + sched_db \<times> dialog_reply"

definition pending_ttl_secs :: int where "pending_ttl_secs = 15 * 60"

definition telegram_scheduler_requires_confirm :: "bool \<Rightarrow> bool \<Rightarrow> bool" where
  "telegram_scheduler_requires_confirm require_confirm group_chat \<longleftrightarrow> require_confirm \<and> \<not> group_chat"

definition confirm_required :: "dialog_ctx \<Rightarrow> bool" where
  "confirm_required c =
     telegram_scheduler_requires_confirm (ds_require_confirm (dc_settings c)) (dc_group_chat c)"

definition upsert_scheduler_pending_intent ::
  "dialog_ctx \<Rightarrow> intent_draft \<Rightarrow> int \<Rightarrow> sched_db \<Rightarrow> channel_error + sched_db" where
  "upsert_scheduler_pending_intent c d expires_at db =
     lift_err StoreErr (upsert_telegram_scheduler_pending_intent
       \<lparr> ui_intent_id = ''pending:'' @ dc_channel c @ '':'' @ dec_int (dc_chat_id c) @ '':'' @ dec_int (dc_owner c),
         ui_channel = dc_channel c, ui_chat_id = dc_chat_id c, ui_owner_user_id = dc_owner c,
         ui_draft_json = de_encode_draft (dc_env c) d, ui_expires_at = expires_at \<rparr>
       (de_store_now (dc_env c)) db)"

definition drop_pending :: "dialog_ctx \<Rightarrow> sched_db \<Rightarrow> sched_db" where
  "drop_pending c db =
     fst (delete_telegram_scheduler_pending_intent (dc_channel c) (dc_chat_id c) (dc_owner c) db)"

definition create_from_draft ::
  "dialog_ctx \<Rightarrow> intent_draft \<Rightarrow> sched_db \<Rightarrow> channel_error + sched_db \<times> string \<times> int" where
  "create_from_draft c d db =
     create_scheduler_job_from_draft (dc_lib c) (dc_channel c) (dc_chat_id c) (dc_thread c) (dc_owner c)
       (ds_max_jobs (dc_settings c)) d (de_create_now (dc_env c)) (de_millis (dc_env c)) (de_store_now (dc_env c)) db"

section \<open>Managing jobs\<close>

definition run_operation ::
  "dialog_ctx \<Rightarrow> job_operation \<Rightarrow> string option \<Rightarrow> string \<Rightarrow> sched_db \<Rightarrow> sched_db \<times> dialog_reply" where
  "run_operation c op explicit s db =
     (let target = resolve_scheduler_job_target (dc_channel c) (dc_chat_id c) (dc_owner c) op explicit
            (text_implies_latest_target s) db;
          (db', reply) = execute_scheduler_job_operation_with_resolution (dc_channel c) (dc_chat_id c)
            (dc_owner c) op target (de_store_now (dc_env c)) db
      in (db', OperationReply reply))"

definition job_list :: "dialog_ctx \<Rightarrow> sched_db \<Rightarrow> dialog_reply" where
  "job_list c db =
     JobList (list_telegram_scheduler_jobs_by_owner (dc_channel c) (dc_chat_id c) (dc_owner c) 64 db)"

definition try_handle_scheduler_management_text ::
  "dialog_ctx \<Rightarrow> string \<Rightarrow> sched_db \<Rightarrow> (sched_db \<times> dialog_reply) option" where
  "try_handle_scheduler_management_text c s db =
     (if looks_like_scheduler_list_text s then Some (db, job_list c db)
      else map_option (\<lambda>op. run_operation c op (extract_scheduler_job_id s) s db)
        (detect_scheduler_job_operation_keyword s))"

section \<open>Drafts\<close>

text \<open>A draft is either stored to be confirmed or becomes a job at once.\<close>

definition propose_draft ::
  "dialog_ctx \<Rightarrow> (intent_draft \<Rightarrow> dialog_reply) \<Rightarrow> bool \<Rightarrow> intent_draft \<Rightarrow> sched_db \<Rightarrow> dialog_result" where
  "propose_draft c reply replaces_pending d db =
     (if confirm_required c
      then and_then (upsert_scheduler_pending_intent c d (wrap_i64 (de_now (dc_env c) + pending_ttl_secs)) db) (\<lambda>db'.
        Inr (db', reply d))
      else and_then (create_from_draft c d db) (\<lambda>(db', j, t).
        Inr (if replaces_pending then drop_pending c db' else db', JobCreated j t)))"

definition confirm_pending :: "dialog_ctx \<Rightarrow> intent_row \<Rightarrow> sched_db \<Rightarrow> dialog_result" where
  "confirm_pending c pending db =
     (case de_decode_draft (dc_env c) (pi_draft_json pending) of
        None \<Rightarrow> Inr (drop_pending c db, DraftBroken)
      | Some d \<Rightarrow>
          (case create_from_draft c d db of
             Inl e \<Rightarrow> Inr (db, ConfirmFailed e)
           | Inr (db', j, t) \<Rightarrow> Inr (drop_pending c db', JobCreated j t)))"

text \<open>The operation an intent asks for, and what a confident intent does.\<close>

definition intent_operation :: "scheduler_intent \<Rightarrow> job_operation option" where
  "intent_operation i =
     (case resolve_scheduler_job_operation_from_intent i of
        Some op \<Rightarrow> Some op
      | None \<Rightarrow> if in_action i = ''cancel'' then Some OpDelete else None)"

definition handle_intent :: "dialog_ctx \<Rightarrow> string \<Rightarrow> scheduler_intent \<Rightarrow> sched_db \<Rightarrow> dialog_result" where
  "handle_intent c s i db =
     (if in_action i = ''list'' then Inr (db, job_list c db)
      else if in_action i \<in> {''delete'', ''pause'', ''resume'', ''cancel''}
      then (case intent_operation i of
          None \<Rightarrow> Inr (db, NotHandled)
        | Some op \<Rightarrow>
            (let explicit = (case Option.bind (in_job_id i) normalize_scheduler_job_id of
                   Some j \<Rightarrow> Some j | None \<Rightarrow> extract_scheduler_job_id s)
             in Inr (run_operation c op explicit s db)))
      else if in_action i \<in> {''create'', ''update''}
      then and_then (build_scheduler_draft_from_intent (dc_lib c) (dc_chrono c) i s
               (ds_default_tz (dc_settings c)) (de_now (dc_env c))) (\<lambda>d.
             case d of None \<Rightarrow> Inr (db, NotHandled)
             | Some d \<Rightarrow> propose_draft c DraftProposed False d db)
      else Inr (db, NotHandled))"

text \<open>What a message does after the pending draft, if any, did not take it.\<close>

definition handle_fresh_message :: "dialog_ctx \<Rightarrow> string \<Rightarrow> sched_db \<Rightarrow> dialog_result" where
  "handle_fresh_message c s db =
     (case try_handle_scheduler_management_text c s db of
        Some r \<Rightarrow> Inr r
      | None \<Rightarrow>
          (case try_build_relative_reminder_draft_from_text s (ds_default_tz (dc_settings c)) (de_now (dc_env c)) of
             Some d \<Rightarrow> propose_draft c DraftProposed False d db
           | None \<Rightarrow>
               and_then (de_detect (dc_env c) None) (\<lambda>found.
                 case found of
                   None \<Rightarrow> Inr (db, NotHandled)
                 | Some (i, confident) \<Rightarrow>
                     if \<not> confident then Inr (db, NotHandled) else handle_intent c s i db)))"

definition maybe_handle_telegram_scheduler_natural_language ::
  "dialog_ctx \<Rightarrow> string \<Rightarrow> sched_db \<Rightarrow> dialog_result" where
  "maybe_handle_telegram_scheduler_natural_language c s db =
     (case load_telegram_scheduler_pending_intent (dc_channel c) (dc_chat_id c) (dc_owner c)
             (de_now (dc_env c)) db of
        None \<Rightarrow> handle_fresh_message c s db
      | Some pending \<Rightarrow>
          if is_scheduler_confirm_text s then confirm_pending c pending db
          else if is_scheduler_cancel_text s then Inr (drop_pending c db, DraftCanceled)
          else (case try_handle_scheduler_management_text c s db of
              Some r \<Rightarrow> Inr r
            | None \<Rightarrow>
                (case try_build_relative_reminder_draft_from_text s (ds_default_tz (dc_settings c)) (de_now (dc_env c)) of
                   Some d \<Rightarrow> propose_draft c DraftUpdated True d db
                 | None \<Rightarrow>
                     and_then (de_detect (dc_env c) (Some (pi_draft_json pending))) (\<lambda>found.
                       case found of
                         None \<Rightarrow> handle_fresh_message c s db
                       | Some (i, confident) \<Rightarrow>
                           if confident \<and> in_action i \<in> {''create'', ''update''}
                           then and_then (build_scheduler_draft_from_intent (dc_lib c) (dc_chrono c) i s
                                  (ds_default_tz (dc_settings c)) (de_now (dc_env c))) (\<lambda>d.
                                case d of None \<Rightarrow> handle_fresh_message c s db
                                | Some d \<Rightarrow> propose_draft c DraftUpdated True d db)
                           else handle_fresh_message c s db))))"

section \<open>What a message may change\<close>

definition job_ids :: "sched_db \<Rightarrow> string list" where
  "job_ids db = map sj_job_id (sd_jobs db)"

lemma operation_keeps_ids:
  "job_ids (fst (execute_scheduler_job_operation channel chat_id owner op j inferred at db)) = job_ids db"
  by (auto simp: execute_scheduler_job_operation_def update_telegram_scheduler_job_status_def Let_def job_ids_def
      map_update_where split: option.splits sum.splits prod.splits)

lemma run_operation_keeps_ids: "run_operation c op explicit s db = (db', reply) \<Longrightarrow> job_ids db' = job_ids db"
  by (auto simp: run_operation_def execute_scheduler_job_operation_with_resolution_def Let_def
      split: job_target.splits prod.splits) (metis fst_conv operation_keeps_ids)

lemma management_keeps_ids:
  "try_handle_scheduler_management_text c s db = Some (db', reply) \<Longrightarrow> job_ids db' = job_ids db"
  by (auto simp: try_handle_scheduler_management_text_def dest: run_operation_keeps_ids split: if_splits)

lemma drop_pending_jobs [simp]: "sd_jobs (drop_pending c db) = sd_jobs db"
  by (simp add: drop_pending_def delete_telegram_scheduler_pending_intent_def)

lemma proposing_keeps_ids:
  assumes "confirm_required c" and "propose_draft c reply replaces d db = Inr (db', r)"
  shows "job_ids db' = job_ids db"
  using assms
  by (auto simp: propose_draft_def upsert_scheduler_pending_intent_def job_ids_def
      upsert_telegram_scheduler_pending_intent_def Let_def)

lemma handle_intent_keeps_ids:
  assumes conf: "confirm_required c" and run: "handle_intent c s i db = Inr (db', r)"
  shows "job_ids db' = job_ids db"
proof -
  consider "in_action i = ''list''"
    | "in_action i \<noteq> ''list''" "in_action i \<in> {''delete'', ''pause'', ''resume'', ''cancel''}"
    | "in_action i \<noteq> ''list''" "in_action i \<notin> {''delete'', ''pause'', ''resume'', ''cancel''}" by blast
  then show ?thesis
  proof cases
    case 1
    then show ?thesis using run by (simp add: handle_intent_def)
  next
    case 2
    then show ?thesis using run run_operation_keeps_ids
      by (cases "intent_operation i") (auto simp: handle_intent_def Let_def)
  next
    case 3
    show ?thesis
    proof (cases "in_action i \<in> {''create'', ''update''}")
      case True
      then have "handle_intent c s i db = and_then (build_scheduler_draft_from_intent (dc_lib c) (dc_chrono c) i s
               (ds_default_tz (dc_settings c)) (de_now (dc_env c))) (\<lambda>d.
             case d of None \<Rightarrow> Inr (db, NotHandled)
             | Some d \<Rightarrow> propose_draft c DraftProposed False d db)"
        using 3 unfolding handle_intent_def by simp
      from run [unfolded this] show ?thesis by (auto dest: proposing_keeps_ids [OF conf] split: option.splits)
    qed (use 3 run in \<open>simp add: handle_intent_def\<close>)
  qed
qed

lemma fresh_message_keeps_ids:
  assumes conf: "confirm_required c" and run: "handle_fresh_message c s db = Inr (db', r)"
  shows "job_ids db' = job_ids db"
proof (cases "try_handle_scheduler_management_text c s db")
  case (Some x)
  then show ?thesis using run management_keeps_ids [of c s db db' r] by (simp add: handle_fresh_message_def)
next
  case unmanaged: None
  show ?thesis
  proof (cases "try_build_relative_reminder_draft_from_text s (ds_default_tz (dc_settings c)) (de_now (dc_env c))")
    case (Some d)
    then show ?thesis using run unmanaged proposing_keeps_ids [OF conf] by (simp add: handle_fresh_message_def)
  next
    case None
    then show ?thesis using run unmanaged
      by (auto simp: handle_fresh_message_def dest: handle_intent_keeps_ids [OF conf] split: option.splits if_splits)
  qed
qed

text \<open>
  C18: Where drafts need a confirmation, a message schedules a job only by confirming a stored
  draft that has not expired: the job is made from exactly that draft, which is then dropped. Every
  other message leaves the set of jobs as it is.
\<close>

theorem nothing_scheduled_unconfirmed:
  assumes conf: "confirm_required c"
    and run: "maybe_handle_telegram_scheduler_natural_language c s db = Inr (db', reply)"
  shows "map sj_job_id (sd_jobs db') = map sj_job_id (sd_jobs db)
    \<or> (is_scheduler_confirm_text s \<and> (\<exists>pending d db1 j t.
         load_telegram_scheduler_pending_intent (dc_channel c) (dc_chat_id c) (dc_owner c)
           (de_now (dc_env c)) db = Some pending
         \<and> de_decode_draft (dc_env c) (pi_draft_json pending) = Some d
         \<and> create_from_draft c d db = Inr (db1, j, t)
         \<and> db' = drop_pending c db1 \<and> reply = JobCreated j t))"
proof (cases "load_telegram_scheduler_pending_intent (dc_channel c) (dc_chat_id c) (dc_owner c) (de_now (dc_env c)) db")
  case None
  then have "job_ids db' = job_ids db"
    using run fresh_message_keeps_ids [OF conf] by (simp add: maybe_handle_telegram_scheduler_natural_language_def)
  then show ?thesis by (simp add: job_ids_def)
next
  case (Some pending)
  show ?thesis
  proof (cases "is_scheduler_confirm_text s")
    case True
    then have "confirm_pending c pending db = Inr (db', reply)"
      using run Some by (simp add: maybe_handle_telegram_scheduler_natural_language_def)
    with True Some show ?thesis
      by (auto simp: confirm_pending_def split: option.splits sum.splits prod.splits)
  next
    case noconf: False
    have "job_ids db' = job_ids db"
    proof (cases "is_scheduler_cancel_text s")
      case True
      then show ?thesis using run Some noconf
        by (auto simp: maybe_handle_telegram_scheduler_natural_language_def job_ids_def)
    next
      case nocancel: False
      note unfolded = run [unfolded maybe_handle_telegram_scheduler_natural_language_def]
      show ?thesis
      proof (cases "try_handle_scheduler_management_text c s db")
        case (Some x)
        then show ?thesis using unfolded \<open>_ = Some pending\<close> noconf nocancel management_keeps_ids [of c s db db' reply]
          by simp
      next
        case unmanaged: None
        show ?thesis
        proof (cases "try_build_relative_reminder_draft_from_text s (ds_default_tz (dc_settings c)) (de_now (dc_env c))")
          case (Some d)
          then show ?thesis
            using unfolded \<open>_ = Some pending\<close> noconf nocancel unmanaged proposing_keeps_ids [OF conf] by simp
        next
          case None
          then show ?thesis
            using unfolded \<open>_ = Some pending\<close> noconf nocancel unmanaged
            by (auto split: option.splits if_splits
                dest: proposing_keeps_ids [OF conf] fresh_message_keeps_ids [OF conf])
        qed
      qed
    qed
    then show ?thesis by (simp add: job_ids_def)
  qed
qed

section \<open>A confirmed draft\<close>

definition sx_draft :: intent_draft where
  "sx_draft = \<lparr> dr_task_kind = Reminder, dr_schedule_kind = KindOnce, dr_payload = ''tea'',
     dr_timezone = ''UTC'', dr_run_at_unix = Some 500, dr_cron_expr = None, dr_source_text = ''tea'' \<rparr>"

definition sx_ctx :: dialog_ctx where
  "sx_ctx = \<lparr> dc_lib = sx_lib, dc_chrono = \<lparr> parse_rfc3339 = (\<lambda>_. None), parse_local = (\<lambda>_ _ _. None) \<rparr>,
     dc_channel = ''t'', dc_chat_id = 1, dc_thread = None, dc_owner = 7, dc_group_chat = False,
     dc_settings = \<lparr> ds_default_tz = ''UTC'', ds_require_confirm = True, ds_max_jobs = 4 \<rparr>,
     dc_env = \<lparr> de_now = 100, de_create_now = 100, de_store_now = 100, de_millis = 5,
       de_detect = (\<lambda>_. Inr None), de_encode_draft = (\<lambda>_. ''d''), de_decode_draft = (\<lambda>_. Some sx_draft) \<rparr> \<rparr>"

definition sx_pending :: sched_db where
  "sx_pending = or_keep empty_sched_db (upsert_scheduler_pending_intent sx_ctx sx_draft 1000 empty_sched_db)"

lemma sx_confirm:
  "case maybe_handle_telegram_scheduler_natural_language sx_ctx ''yes'' sx_pending of
     Inr (db', reply) \<Rightarrow> map sj_job_id (sd_jobs db') = [''task-1-7-5''] | Inl _ \<Rightarrow> False"
  by code_simp

theorem nothing_scheduled_unconfirmed_witness:
  "\<exists>db1 j t. load_telegram_scheduler_pending_intent ''t'' 1 7 100 sx_pending \<noteq> None
     \<and> create_from_draft sx_ctx sx_draft sx_pending = Inr (db1, j, t)
     \<and> maybe_handle_telegram_scheduler_natural_language sx_ctx ''yes'' sx_pending
         = Inr (drop_pending sx_ctx db1, JobCreated j t)"
proof -
  obtain db' reply where run: "maybe_handle_telegram_scheduler_natural_language sx_ctx ''yes'' sx_pending = Inr (db', reply)"
    and ids: "map sj_job_id (sd_jobs db') = [''task-1-7-5'']"
    using sx_confirm by (auto split: sum.splits prod.splits)
  have conf: "confirm_required sx_ctx" by code_simp
  have "sd_jobs sx_pending = []" by code_simp
  with nothing_scheduled_unconfirmed [OF conf run] ids run show ?thesis
    by (auto simp: sx_ctx_def)
qed

end
