(* ===== verification/Loop_Tables.thy ===== *)
theory Loop_Tables
  imports Loop_Domain
begin

text \<open>
  The durable state of the loop engine: one list of rows per table of
  \<open>initialize_loop_engine_schema\<close> and its siblings, in insertion order (the order of the
  autoincrement sequences), and the helpers of \<open>store.rs\<close> every operation shares. A text column
  that holds JSON holds the value it encodes; an enum column holds the enum, whose spelling
  round-trips by \<open>state_codec\<close>. Primary keys and unique indexes are checks of the insertions.
\<close>

section \<open>Rows\<close>

record goal_row =
  g_id :: string
  g_objective :: string
  g_status :: goal_status
  g_revision :: int
  g_source_signal_ids :: "string list"
  g_request_id :: "string option"
  g_created_by :: string
  g_created_at :: int
  g_updated_at :: int
  g_internal_only :: bool

record workflow_row =
  p_id :: string
  p_goal_id :: string
  p_goal_revision :: int
  p_plan_hash :: string
  p_workflow :: workflow_spec
  p_acceptance :: "acceptance_criterion list"
  p_effects :: "effect_class list"
  p_created_by :: string
  p_created_at :: int

record approval_row =
  ap_id :: string
  ap_goal_id :: string
  ap_goal_revision :: int
  ap_plan_hash :: string
  ap_workflow_hash :: string
  ap_effects_hash :: string
  ap_acceptance_hash :: string
  ap_budget_hash :: string
  ap_approved_by :: string
  ap_created_at :: int

record budget_row =
  b_goal_id :: string
  b_max_provider_calls :: int
  b_deadline_secs :: int
  b_max_response_bytes :: int
  b_provider_calls :: int
  b_response_bytes :: int
  b_started_at :: "int option"
  b_updated_at :: int

record work_item_row =
  w_id :: string
  w_goal_id :: string
  w_workflow_id :: string
  w_step_id :: string
  w_status :: work_item_status
  w_handler :: string
  w_effect :: effect_class
  w_input :: json
  w_max_attempts :: int
  w_backoff_secs :: int
  w_ordinal :: int
  w_lease_token :: "string option"
  w_lease_until :: "int option"
  w_fencing :: int
  w_next_attempt_at :: "int option"
  w_last_error :: "string option"
  w_progress :: "work_phase_progress option"
  w_created_at :: int
  w_updated_at :: int

record dependency_row =
  d_work_item :: string
  d_depends_on :: string

record attempt_row =
  a_id :: string
  a_goal_id :: string
  a_work_item_id :: string
  a_number :: int
  a_status :: attempt_status
  a_worker_id :: string
  a_lease_token :: string
  a_fencing :: int
  a_started_at :: int
  a_finished_at :: "int option"
  a_error :: "string option"

record checkpoint_row =
  c_id :: string
  c_goal_id :: string
  c_work_item_id :: string
  c_attempt_id :: string
  c_phase :: checkpoint_phase
  c_idempotency_key :: string
  c_replay_safe :: bool
  c_outcome :: "work_outcome option"
  c_created_at :: int
  c_updated_at :: int

record event_row =
  ev_sequence :: int
  ev_goal_id :: "string option"
  ev_type :: string
  ev_actor :: string
  ev_details :: json
  ev_created_at :: int

record manual_row =
  m_goal_id :: string
  m_label :: string
  m_actor :: string
  m_created_at :: int

datatype signal_kind =
  Trajectory | UserFeedback | DeveloperFeedback | Community | SelfTest | SessionReplay
  | DeploymentOutcome | Manual

datatype signal_trust = Internal | Authenticated | External

datatype signal_status = Observed | Triaged | SignalProposed | Ignored

record signal_row =
  s_id :: string
  s_kind :: signal_kind
  s_trust :: signal_trust
  s_source :: string
  s_external_id :: "string option"
  s_content :: string
  s_content_hash :: string
  s_fingerprint :: string
  s_normalized_hash :: string
  s_metadata :: "(string \<times> string) list"
  s_created_by :: string
  s_created_at :: int

record signal_event_row =
  se_signal_id :: string
  se_status :: signal_status
  se_actor :: string
  se_details :: json
  se_created_at :: int

datatype artifact_kind =
  GoalTemplate | DynamicWorkflow | EvalSuite | SkillManifest | ReplayCorpus | DesktopView
  | AnalysisReport | SelfTestReport | EvolutionEvaluation | PromptPolicyRef

record artifact_row =
  f_id :: string
  f_kind :: artifact_kind
  f_name :: string
  f_version :: string
  f_content :: json
  f_content_hash :: string
  f_source_goal_id :: "string option"
  f_parent_artifact_id :: "string option"
  f_created_by :: string
  f_created_at :: int

record artifact_event_row =
  fe_artifact_id :: string
  fe_event_type :: string
  fe_actor :: string
  fe_details :: json
  fe_created_at :: int

datatype self_test_status = TestPassed | TestFailed

record self_test_case =
  tc_name :: string
  tc_passed :: bool
  tc_details :: string
  tc_duration_ms :: nat

record self_test_row =
  t_id :: string
  t_suite :: string
  t_status :: self_test_status
  t_cases :: "self_test_case list"
  t_started_at :: int
  t_finished_at :: int
  t_created_by :: string

datatype frame_capture = Full | Redacted | Truncated

record frame_row =
  fr_id :: string
  fr_trajectory_id :: string
  fr_call_index :: int
  fr_model :: string
  fr_provider_fingerprint :: string
  fr_request_messages :: "json list"
  fr_request_was_json :: bool
  fr_request_hash :: string
  fr_response :: string
  fr_response_hash :: string
  fr_capture :: frame_capture
  fr_created_by :: string
  fr_created_at :: int

datatype replay_status = ReplayPassed | ReplayFailed | Comparative

record replay_case =
  rc_frame_id :: string
  rc_call_index :: int
  rc_passed :: bool
  rc_details :: string

record replay_row =
  rp_id :: string
  rp_trajectory_id :: string
  rp_status :: replay_status
  rp_exact_replayable :: bool
  rp_live_tools_executed :: nat
  rp_cases :: "replay_case list"
  rp_created_by :: string
  rp_created_at :: int

section \<open>The database\<close>

record db =
  goals :: "goal_row list"
  workflows :: "workflow_row list"
  approvals :: "approval_row list"
  budgets :: "budget_row list"
  work_items :: "work_item_row list"
  deps :: "dependency_row list"
  attempts :: "attempt_row list"
  checkpoints :: "checkpoint_row list"
  events :: "event_row list"
  manuals :: "manual_row list"
  signals :: "signal_row list"
  signal_events :: "signal_event_row list"
  artifacts :: "artifact_row list"
  artifact_events :: "artifact_event_row list"
  self_tests :: "self_test_row list"
  frames :: "frame_row list"
  replays :: "replay_row list"

text \<open>The empty database \<open>initialize_loop_engine_schema\<close> leaves on a fresh file.\<close>

definition empty_db :: db where
  "empty_db = \<lparr>goals = [], workflows = [], approvals = [], budgets = [], work_items = [],
     deps = [], attempts = [], checkpoints = [], events = [], manuals = [], signals = [],
     signal_events = [], artifacts = [], artifact_events = [], self_tests = [], frames = [],
     replays = []\<rparr>"

text \<open>
  A transaction returns its result and the new database, or an error that leaves the database
  as it was; \<open>in_tx\<close> runs one and reports both.
\<close>

type_synonym 'a tx = "loop_error + ('a \<times> db)"
type_synonym 'a run = "(loop_error + 'a) \<times> db"

definition in_tx :: "'a tx \<Rightarrow> db \<Rightarrow> 'a run" where
  "in_tx r s = (case r of Inl e \<Rightarrow> (Inl e, s) | Inr (x, t) \<Rightarrow> (Inr x, t))"

definition upd_goals :: "(goal_row \<Rightarrow> bool) \<Rightarrow> (goal_row \<Rightarrow> goal_row) \<Rightarrow> db \<Rightarrow> db" where
  "upd_goals p f s = s\<lparr>goals := update_where p f (goals s)\<rparr>"

definition upd_items :: "(work_item_row \<Rightarrow> bool) \<Rightarrow> (work_item_row \<Rightarrow> work_item_row) \<Rightarrow> db \<Rightarrow> db" where
  "upd_items p f s = s\<lparr>work_items := update_where p f (work_items s)\<rparr>"

definition upd_attempts :: "(attempt_row \<Rightarrow> bool) \<Rightarrow> (attempt_row \<Rightarrow> attempt_row) \<Rightarrow> db \<Rightarrow> db" where
  "upd_attempts p f s = s\<lparr>attempts := update_where p f (attempts s)\<rparr>"

definition upd_checkpoints ::
  "(checkpoint_row \<Rightarrow> bool) \<Rightarrow> (checkpoint_row \<Rightarrow> checkpoint_row) \<Rightarrow> db \<Rightarrow> db" where
  "upd_checkpoints p f s = s\<lparr>checkpoints := update_where p f (checkpoints s)\<rparr>"

definition find_goal :: "db \<Rightarrow> string \<Rightarrow> goal_row option" where
  "find_goal s gid = find (\<lambda>g. g_id g = gid) (goals s)"

definition find_item :: "db \<Rightarrow> string \<Rightarrow> work_item_row option" where
  "find_item s wid = find (\<lambda>w. w_id w = wid) (work_items s)"

definition find_checkpoint :: "db \<Rightarrow> string \<Rightarrow> checkpoint_row option" where
  "find_checkpoint s cid = find (\<lambda>c. c_id c = cid) (checkpoints s)"

section \<open>Shared helpers of the store\<close>

definition ensure_valid_id :: "string \<Rightarrow> string \<Rightarrow> loop_error + 'a \<Rightarrow> loop_error + 'a" where
  "ensure_valid_id value label k = ensure (text_ok 160 value) (Goal (InvalidId label)) k"

definition next_sequence :: "event_row list \<Rightarrow> int" where
  "next_sequence es = (if es = [] then 1 else ev_sequence (last es) + 1)"

definition insert_event :: "int \<Rightarrow> string \<Rightarrow> string \<Rightarrow> string \<Rightarrow> json \<Rightarrow> db \<Rightarrow> db" where
  "insert_event now gid event_type actor details s =
     s\<lparr>events := events s @
        [\<lparr>ev_sequence = next_sequence (events s), ev_goal_id = Some gid, ev_type = event_type,
          ev_actor = actor, ev_details = details, ev_created_at = now\<rparr>]\<rparr>"

text \<open>\<open>new_loop_id\<close>: the prefix, the clock in nanoseconds and a process-wide counter, in hex.\<close>

definition new_loop_id :: "string \<Rightarrow> nat \<Rightarrow> nat \<Rightarrow> string" where
  "new_loop_id prefix nanos counter = prefix @ ''_'' @ hex_nat nanos @ ''_'' @ hex_nat counter"

text \<open>\<open>LIKE '<prefix>%'\<close> with the prefix escaped: a case-insensitive (ASCII) prefix match.\<close>

definition like_prefix :: "string \<Rightarrow> string \<Rightarrow> bool" where
  "like_prefix prefix s \<longleftrightarrow> starts_with (to_ascii_lowercase prefix) (to_ascii_lowercase s)"

definition decode_goal :: "goal_row \<Rightarrow> loop_error + goal_record" where
  "decode_goal g =
     fetch (try_u 32 (g_revision g)) (Goal GoalRevisionRange) (\<lambda>rev. Inr
       \<lparr>gr_id = g_id g, gr_objective = g_objective g, gr_status = g_status g,
        gr_revision = rev, gr_source_signal_ids = g_source_signal_ids g,
        gr_created_by = g_created_by g, gr_created_at = g_created_at g,
        gr_updated_at = g_updated_at g, gr_internal_only = g_internal_only g\<rparr>)"

definition decode_loop_event :: "event_row \<Rightarrow> loop_event_record" where
  "decode_loop_event e =
     \<lparr>er_sequence = ev_sequence e, er_goal_id = ev_goal_id e, er_event_type = ev_type e,
      er_actor = ev_actor e, er_details = ev_details e, er_created_at = ev_created_at e\<rparr>"

definition decode_work_item :: "work_item_row \<Rightarrow> loop_error + work_item_record" where
  "decode_work_item w =
     fetch (try_u 8 (w_max_attempts w)) (Work WorkItemRange) (\<lambda>ma.
     fetch (try_u 32 (w_ordinal w)) (Work WorkItemRange) (\<lambda>ord. Inr
       \<lparr>wr_id = w_id w, wr_goal_id = w_goal_id w, wr_status = w_status w,
        wr_step_id = w_step_id w, wr_handler = w_handler w, wr_effect = w_effect w,
        wr_input = w_input w, wr_max_attempts = ma, wr_ordinal = ord,
        wr_dependency_ids = [], wr_created_at = w_created_at w, wr_progress = w_progress w\<rparr>))"

definition decode_checkpoint :: "checkpoint_row \<Rightarrow> checkpoint_record" where
  "decode_checkpoint c =
     \<lparr>cr_id = c_id c, cr_goal_id = c_goal_id c, cr_work_item_id = c_work_item_id c,
      cr_attempt_id = c_attempt_id c, cr_phase = c_phase c,
      cr_idempotency_key = c_idempotency_key c, cr_replay_safe = c_replay_safe c,
      cr_outcome = c_outcome c, cr_created_at = c_created_at c, cr_updated_at = c_updated_at c\<rparr>"

definition decode_attempt :: "attempt_row \<Rightarrow> loop_error + attempt_record" where
  "decode_attempt a =
     fetch (try_u 8 (a_number a)) (Work AttemptNumberRange) (\<lambda>n.
     fetch (try_u 64 (a_fencing a)) (Work FencingTokenRange) (\<lambda>f. Inr
       \<lparr>ar_id = a_id a, ar_goal_id = a_goal_id a, ar_work_item_id = a_work_item_id a,
        ar_attempt_number = n, ar_status = a_status a, ar_worker_id = a_worker_id a,
        ar_lease_token = a_lease_token a, ar_fencing_token = f,
        ar_started_at = a_started_at a, ar_finished_at = a_finished_at a, ar_error = a_error a\<rparr>))"

text \<open>A goal row read back after a commit.\<close>

definition reload_goal :: "db \<Rightarrow> string \<Rightarrow> loop_error + goal_record" where
  "reload_goal s gid = fetch (find_goal s gid) (Goal GoalNotFound) decode_goal"

text \<open>Attempts that still hold their claim, and those that count against the budget.\<close>

definition live_attempt :: "attempt_row \<Rightarrow> bool" where
  "live_attempt a \<longleftrightarrow> a_status a = AttemptRunning \<or> a_status a = Committing"

definition attempt_count :: "db \<Rightarrow> string \<Rightarrow> nat" where
  "attempt_count s wid =
     count_where (\<lambda>a. a_work_item_id a = wid \<and> a_status a \<noteq> Void) (attempts s)"

definition ensure_claim_current :: "int \<Rightarrow> work_claim \<Rightarrow> db \<Rightarrow> loop_error + unit" where
  "ensure_claim_current now cl s =
     fetch (try_i64 (ar_fencing_token (cl_attempt cl))) (Work FencingTokenRange) (\<lambda>fencing.
     ensure (count_where (\<lambda>(w, a).
               a_work_item_id a = w_id w \<and>
               w_id w = wr_id (cl_work_item cl) \<and> w_goal_id w = ar_goal_id (cl_attempt cl) \<and>
               w_status w = Running \<and> w_lease_token w = Some (ar_lease_token (cl_attempt cl)) \<and>
               w_fencing w = fencing \<and>
               (case w_lease_until w of None \<Rightarrow> False | Some u \<Rightarrow> now \<le> u) \<and>
               a_id a = ar_id (cl_attempt cl) \<and>
               a_lease_token a = ar_lease_token (cl_attempt cl) \<and> a_fencing a = fencing \<and>
               live_attempt a)
             (List.product (work_items s) (attempts s)) = 1)
       (Work ClaimStale) (Inr ()))"

definition load_checkpoint_tx :: "db \<Rightarrow> string \<Rightarrow> loop_error + checkpoint_record" where
  "load_checkpoint_tx s cid =
     fetch (find_checkpoint s cid) (Work CheckpointNotFound) (\<lambda>c. Inr (decode_checkpoint c))"

definition reconcile_checkpoint_tx :: "int \<Rightarrow> checkpoint_record \<Rightarrow> db \<Rightarrow> loop_error + db" where
  "reconcile_checkpoint_tx now c s =
     ensure (cr_phase c = Committed) (Work NotCommitted) (Inr
       (upd_items (\<lambda>w. w_id w = cr_work_item_id c \<and> w_status w = Running)
          (\<lambda>w. w\<lparr>w_status := Succeeded, w_lease_token := None, w_lease_until := None,
                 w_next_attempt_at := None, w_progress := None, w_last_error := None,
                 w_updated_at := now\<rparr>)
       (upd_attempts (\<lambda>a. a_id a = cr_attempt_id c \<and> live_attempt a)
          (\<lambda>a. a\<lparr>a_status := AttemptSucceeded, a_finished_at := Some now, a_error := None\<rparr>)
       (upd_checkpoints (\<lambda>x. c_id x = cr_id c \<and> c_phase x = Committed)
          (\<lambda>x. x\<lparr>c_phase := Reconciled, c_updated_at := now\<rparr>) s))))"

text \<open>A pending item whose predecessors have all succeeded.\<close>

definition unlockable :: "db \<Rightarrow> string \<Rightarrow> work_item_row \<Rightarrow> bool" where
  "unlockable s gid w \<longleftrightarrow>
     w_goal_id w = gid \<and> w_status w = Pending \<and>
     \<not> list_ex (\<lambda>d. d_work_item d = w_id w \<and>
          list_ex (\<lambda>p. w_id p = d_depends_on d \<and> w_status p \<noteq> Succeeded) (work_items s)) (deps s)"

definition unlock_ready_work_tx :: "int \<Rightarrow> string \<Rightarrow> db \<Rightarrow> nat \<times> db" where
  "unlock_ready_work_tx now gid s =
     (count_where (unlockable s gid) (work_items s),
      upd_items (unlockable s gid) (\<lambda>w. w\<lparr>w_status := Ready, w_updated_at := now\<rparr>) s)"

text \<open>The workflow of the goal's highest approved revision.\<close>

definition approved_workflow_id :: "db \<Rightarrow> string \<Rightarrow> string option" where
  "approved_workflow_id s gid =
     (let revs = map ap_goal_revision (filter (\<lambda>a. ap_goal_id a = gid) (approvals s))
      in if revs = [] then None
         else map_option p_id (find (\<lambda>p. p_goal_id p = gid \<and> p_goal_revision p = Max (set revs))
                (workflows s)))"

definition current_items :: "db \<Rightarrow> string \<Rightarrow> work_item_row list" where
  "current_items s gid =
     filter (\<lambda>w. w_goal_id w = gid \<and> approved_workflow_id s gid = Some (w_workflow_id w))
       (work_items s)"

definition next_goal_status :: "work_item_row list \<Rightarrow> goal_status option" where
  "next_goal_status ws =
     (let total = length ws;
          succeeded = count_where (\<lambda>w. w_status w = Succeeded) ws;
          failed = count_where (\<lambda>w. w_status w = Failed) ws;
          progressed = count_where
            (\<lambda>w. w_status w \<in> {Running, Succeeded, WaitingConfirmation}) ws
      in if 0 < total \<and> succeeded = total then Some Verifying
         else if 0 < failed then Some GoalFailed
         else if 0 < progressed then Some Active
         else None)"

definition refresh_goal_status_tx :: "int \<Rightarrow> string \<Rightarrow> db \<Rightarrow> db" where
  "refresh_goal_status_tx now gid s =
     (case next_goal_status (current_items s gid) of
        None \<Rightarrow> s
      | Some status \<Rightarrow>
          upd_goals (\<lambda>g. g_id g = gid \<and> g_status g \<in> {Approved, Active, Verifying, GoalFailed})
            (\<lambda>g. g\<lparr>g_status := status,
                   g_revision := (if g_status g \<noteq> status then g_revision g + 1 else g_revision g),
                   g_updated_at := now\<rparr>) s)"

definition load_goal_work_items :: "db \<Rightarrow> string \<Rightarrow> loop_error + work_item_record list" where
  "load_goal_work_items s gid =
     collect (\<lambda>w. and_then (decode_work_item w) (\<lambda>r. Inr
                (r\<lparr>wr_dependency_ids :=
                    sort (map d_depends_on (filter (\<lambda>d. d_work_item d = w_id w) (deps s)))\<rparr>)))
       (select_ordered (\<lambda>w. (w_ordinal w, w_id w)) (\<lambda>w. w_goal_id w = gid) (work_items s))"

end
