(* ===== verification/Loop_Signals.thy ===== *)
theory Loop_Signals
  imports Loop_Tables
begin

text \<open>
  The signal inbox (\<open>src/harness/loop_engine/signals.rs\<close>): ingestion with its three layers of
  deduplication, the append-only status events, triage and ignoring. Unicode's tables of
  alphanumeric characters and lower case are parameters. A Jaccard similarity is kept as the
  pair of its two counts: for token sets below \<open>2^26\<close> entries two different quotients, and a
  quotient and \<open>0.9\<close>, are further apart than the rounding of \<open>f64\<close>, so comparing the fractions
  exactly gives the order the code sees.
\<close>

section \<open>Codecs\<close>

fun signal_kind_as_str :: "signal_kind \<Rightarrow> string" where
  "signal_kind_as_str Trajectory = ''trajectory''"
| "signal_kind_as_str UserFeedback = ''user_feedback''"
| "signal_kind_as_str DeveloperFeedback = ''developer_feedback''"
| "signal_kind_as_str Community = ''community''"
| "signal_kind_as_str SelfTest = ''self_test''"
| "signal_kind_as_str SessionReplay = ''session_replay''"
| "signal_kind_as_str DeploymentOutcome = ''deployment_outcome''"
| "signal_kind_as_str Manual = ''manual''"

definition signal_kind_from_db :: "string \<Rightarrow> loop_error + signal_kind" where
  "signal_kind_from_db s =
    (if s = ''trajectory'' then Inr Trajectory else if s = ''user_feedback'' then Inr UserFeedback
     else if s = ''developer_feedback'' then Inr DeveloperFeedback
     else if s = ''community'' then Inr Community else if s = ''self_test'' then Inr SelfTest
     else if s = ''session_replay'' then Inr SessionReplay
     else if s = ''deployment_outcome'' then Inr DeploymentOutcome
     else if s = ''manual'' then Inr Manual else Inl (Records (SignalInvalid s)))"

fun signal_trust_as_str :: "signal_trust \<Rightarrow> string" where
  "signal_trust_as_str Internal = ''internal''"
| "signal_trust_as_str Authenticated = ''authenticated''"
| "signal_trust_as_str External = ''external''"

definition signal_trust_from_db :: "string \<Rightarrow> loop_error + signal_trust" where
  "signal_trust_from_db s =
    (if s = ''internal'' then Inr Internal else if s = ''authenticated'' then Inr Authenticated
     else if s = ''external'' then Inr External else Inl (Records (SignalInvalid s)))"

fun signal_status_as_str :: "signal_status \<Rightarrow> string" where
  "signal_status_as_str Observed = ''observed''"
| "signal_status_as_str Triaged = ''triaged''"
| "signal_status_as_str SignalProposed = ''proposed''"
| "signal_status_as_str Ignored = ''ignored''"

definition signal_status_from_db :: "string \<Rightarrow> loop_error + signal_status" where
  "signal_status_from_db s =
    (if s = ''observed'' then Inr Observed else if s = ''triaged'' then Inr Triaged
     else if s = ''proposed'' then Inr SignalProposed else if s = ''ignored'' then Inr Ignored
     else Inl (Records (SignalInvalid s)))"

interpretation signal_kind: state_codec signal_kind_as_str signal_kind_from_db
proof
  show "signal_kind_from_db (signal_kind_as_str x) = Inr x" for x
    by (cases x) (simp_all add: signal_kind_from_db_def)
  show "signal_kind_from_db s = Inr x \<Longrightarrow> signal_kind_as_str x = s" for s x
    by (auto simp: signal_kind_from_db_def split: if_splits)
qed

interpretation signal_trust: state_codec signal_trust_as_str signal_trust_from_db
proof
  show "signal_trust_from_db (signal_trust_as_str x) = Inr x" for x
    by (cases x) (simp_all add: signal_trust_from_db_def)
  show "signal_trust_from_db s = Inr x \<Longrightarrow> signal_trust_as_str x = s" for s x
    by (auto simp: signal_trust_from_db_def split: if_splits)
qed

interpretation signal_status: state_codec signal_status_as_str signal_status_from_db
proof
  show "signal_status_from_db (signal_status_as_str x) = Inr x" for x
    by (cases x) (simp_all add: signal_status_from_db_def)
  show "signal_status_from_db s = Inr x \<Longrightarrow> signal_status_as_str x = s" for s x
    by (auto simp: signal_status_from_db_def split: if_splits)
qed

section \<open>Requests\<close>

record create_signal_request =
  cs_kind :: signal_kind
  cs_trust :: signal_trust
  cs_source :: string
  cs_external_id :: "string option"
  cs_content :: string
  cs_metadata :: "(string \<times> string) list"

definition metadata_to_json :: "(string \<times> string) list \<Rightarrow> json" where
  "metadata_to_json m = JObj (map (\<lambda>(k, v). (k, JStr v)) m)"

definition signal_request_to_json :: "create_signal_request \<Rightarrow> json" where
  "signal_request_to_json r = JObj
     [(''kind'', JStr (signal_kind_as_str (cs_kind r))),
      (''trust'', JStr (signal_trust_as_str (cs_trust r))),
      (''source'', JStr (cs_source r)), (''external_id'', opt_str (cs_external_id r)),
      (''content'', JStr (cs_content r)), (''metadata'', metadata_to_json (cs_metadata r))]"

fun check_metadata :: "(string \<times> string) list \<Rightarrow> loop_error + unit" where
  "check_metadata [] = Inr ()"
| "check_metadata ((k, v) # m) =
     ensure (text_ok 96 k \<and> length v \<le> 1024) (Records (SignalInvalid ''metadata entry''))
     (check_metadata m)"

definition signal_request_validate :: "crates \<Rightarrow> create_signal_request \<Rightarrow> loop_error + unit" where
  "signal_request_validate c r =
     ensure (text_ok 160 (cs_source r)) (Records (SignalInvalid ''source''))
     (ensure (case cs_external_id r of None \<Rightarrow> True | Some e \<Rightarrow> text_ok 200 e)
        (Records (SignalInvalid ''external id''))
     (ensure (trim (cs_content r) \<noteq> [] \<and> chars_count (cs_content r) \<le> 16384)
        (Records (SignalInvalid ''content''))
     (ensure (length (cs_metadata r) \<le> 64) (Records (SignalInvalid ''metadata count''))
     (and_then (check_metadata (cs_metadata r)) (\<lambda>_.
      ensure (length (json_text c (metadata_to_json (cs_metadata r))) \<le> 8192)
        (Records (SignalInvalid ''metadata size''))
     (Inr ()))))))"

record signal_record =
  sr_id :: string
  sr_kind :: signal_kind
  sr_trust :: signal_trust
  sr_status :: signal_status
  sr_source :: string
  sr_external_id :: "string option"
  sr_content :: string
  sr_content_hash :: string
  sr_metadata :: "(string \<times> string) list"
  sr_created_at :: int

record signal_ingest_result =
  si_signal :: signal_record
  si_deduplicated :: bool

section \<open>Normalization and similarity\<close>

record unicode =
  is_alphanumeric :: "string \<Rightarrow> bool"
  to_lowercase :: "string \<Rightarrow> string"

fun normalize_chars :: "unicode \<Rightarrow> string list \<Rightarrow> bool \<Rightarrow> string \<Rightarrow> string" where
  "normalize_chars u [] pending_space normalized = normalized"
| "normalize_chars u (ch # chs) pending_space normalized =
     (if is_alphanumeric u ch
      then normalize_chars u chs False
        ((if pending_space \<and> normalized \<noteq> [] then normalized @ '' '' else normalized) @ to_lowercase u ch)
      else normalize_chars u chs True normalized)"

definition normalize_for_tokens :: "unicode \<Rightarrow> string \<Rightarrow> string" where
  "normalize_for_tokens u content = normalize_chars u (utf8_chars (trim content)) False []"

definition normalized_signal_hash :: "crates \<Rightarrow> unicode \<Rightarrow> signal_kind \<Rightarrow> string \<Rightarrow> string" where
  "normalized_signal_hash c u kind content =
     (let normalized = normalize_for_tokens u content;
          hash_input = (if normalized = [] then trim content else normalized)
      in hash_serializable c (JArr [JStr (signal_kind_as_str kind), JStr hash_input]))"

fun split_spaces :: "string \<Rightarrow> string \<Rightarrow> string list" where
  "split_spaces acc [] = [acc]"
| "split_spaces acc (c # s) =
     (if c = CHR '' '' then acc # split_spaces [] s else split_spaces (acc @ [c]) s)"

definition signal_tokens :: "unicode \<Rightarrow> string \<Rightarrow> string list" where
  "signal_tokens u content =
     remdups (filter (\<lambda>t. t \<noteq> []) (split_spaces [] (normalize_for_tokens u content)))"

definition jaccard_similarity :: "string list \<Rightarrow> string list \<Rightarrow> nat \<times> nat" where
  "jaccard_similarity left right =
     (if left = [] \<or> right = [] then (0, 1)
      else (length (filter (\<lambda>t. t \<in> set right) left),
            length (remdups (left @ right))))"

definition near_duplicate :: "nat \<times> nat \<Rightarrow> bool" where
  "near_duplicate score \<longleftrightarrow> 9 * snd score \<le> 10 * fst score"

text \<open>\<open>max_by\<close> keeps the last of equal maxima.\<close>

fun max_by_score :: "(string \<times> nat \<times> nat) list \<Rightarrow> (string \<times> nat \<times> nat) option" where
  "max_by_score [] = None"
| "max_by_score (x # xs) =
     (case max_by_score xs of
        None \<Rightarrow> Some x
      | Some y \<Rightarrow> Some (if fst (snd y) * snd (snd x) < fst (snd x) * snd (snd y) then x else y))"

section \<open>Operations\<close>

definition signal_status_of :: "db \<Rightarrow> string \<Rightarrow> signal_status" where
  "signal_status_of s sid =
     (case last_row (filter (\<lambda>e. se_signal_id e = sid) (signal_events s)) of
        None \<Rightarrow> Observed | Some e \<Rightarrow> se_status e)"

definition decode_signal :: "db \<Rightarrow> signal_row \<Rightarrow> signal_record" where
  "decode_signal s r =
     \<lparr>sr_id = s_id r, sr_kind = s_kind r, sr_trust = s_trust r,
      sr_status = signal_status_of s (s_id r), sr_source = s_source r,
      sr_external_id = s_external_id r, sr_content = s_content r,
      sr_content_hash = s_content_hash r, sr_metadata = s_metadata r,
      sr_created_at = s_created_at r\<rparr>"

definition get_signal :: "db \<Rightarrow> string \<Rightarrow> signal_record option" where
  "get_signal s sid = map_option (decode_signal s) (find (\<lambda>r. s_id r = sid) (signals s))"

definition list_signals :: "db \<Rightarrow> nat \<Rightarrow> signal_status option \<Rightarrow> signal_record list" where
  "list_signals s limit status =
     map (decode_signal s) (take (max 1 (min 500 limit))
       (rev (select_ordered (\<lambda>r. (s_created_at r, s_id r))
          (\<lambda>r. case status of None \<Rightarrow> True | Some st \<Rightarrow> signal_status_of s (s_id r) = st)
          (signals s))))"

definition insert_signal_event_tx ::
  "int \<Rightarrow> string \<Rightarrow> signal_status \<Rightarrow> string \<Rightarrow> json \<Rightarrow> db \<Rightarrow> db" where
  "insert_signal_event_tx now sid status actor details s =
     s\<lparr>signal_events := signal_events s @
        [\<lparr>se_signal_id = sid, se_status = status, se_actor = actor, se_details = details,
          se_created_at = now\<rparr>]\<rparr>"

text \<open>The three layers of deduplication, in order.\<close>

definition find_by_identity :: "string \<Rightarrow> create_signal_request \<Rightarrow> db \<Rightarrow> signal_row option" where
  "find_by_identity fingerprint r s =
     (case cs_external_id r of
        Some e \<Rightarrow> first_row (select_ordered s_created_at
          (\<lambda>x. s_source x = trim (cs_source r) \<and>
               (s_external_id x = Some e \<or> s_fingerprint x = fingerprint)) (signals s))
      | None \<Rightarrow> find (\<lambda>x. s_source x = trim (cs_source r) \<and> s_fingerprint x = fingerprint) (signals s))"

definition find_by_normalized :: "string \<Rightarrow> create_signal_request \<Rightarrow> db \<Rightarrow> signal_row option" where
  "find_by_normalized h r s =
     first_row (select_ordered s_created_at
       (\<lambda>x. s_source x = trim (cs_source r) \<and> s_normalized_hash x = h) (signals s))"

definition find_near_duplicate :: "unicode \<Rightarrow> create_signal_request \<Rightarrow> db \<Rightarrow> string option" where
  "find_near_duplicate u r s =
     (let tokens = signal_tokens u (cs_content r)
      in if tokens = [] then None
         else map_option fst (max_by_score (filter (\<lambda>(i, sc). near_duplicate sc)
           (map (\<lambda>x. (s_id x, jaccard_similarity tokens (signal_tokens u (s_content x))))
             (take 128 (rev (select_ordered (\<lambda>x. (s_created_at x, s_id x))
                (\<lambda>x. s_source x = trim (cs_source r) \<and> s_kind x = cs_kind r) (signals s))))))))"

definition existing_signal ::
  "crates \<Rightarrow> unicode \<Rightarrow> create_signal_request \<Rightarrow> db \<Rightarrow> string option" where
  "existing_signal c u r s =
     (case find_by_identity (hash_serializable c (signal_request_to_json r)) r s of
        Some x \<Rightarrow> Some (s_id x)
      | None \<Rightarrow>
         (case find_by_normalized (normalized_signal_hash c u (cs_kind r) (cs_content r)) r s of
            Some x \<Rightarrow> Some (s_id x)
          | None \<Rightarrow> find_near_duplicate u r s))"

definition new_signal_row ::
  "crates \<Rightarrow> unicode \<Rightarrow> int \<Rightarrow> string \<Rightarrow> create_signal_request \<Rightarrow> string \<Rightarrow> signal_row" where
  "new_signal_row c u now sid r actor =
     \<lparr>s_id = sid, s_kind = cs_kind r, s_trust = cs_trust r, s_source = trim (cs_source r),
      s_external_id = cs_external_id r, s_content = trim (cs_content r),
      s_content_hash = hash_serializable c (JStr (cs_content r)),
      s_fingerprint = hash_serializable c (signal_request_to_json r),
      s_normalized_hash = normalized_signal_hash c u (cs_kind r) (cs_content r),
      s_metadata = cs_metadata r, s_created_by = actor, s_created_at = now\<rparr>"

text \<open>The unique indexes of the signal table: no two rows \<open>clash\<close>.\<close>

definition signal_clash :: "signal_row \<Rightarrow> signal_row \<Rightarrow> bool" where
  "signal_clash x y \<longleftrightarrow>
     s_id x = s_id y \<or>
     (s_source x = s_source y \<and>
      (s_fingerprint x = s_fingerprint y \<or>
       (s_external_id x = s_external_id y \<and> s_external_id x \<noteq> None) \<or>
       s_normalized_hash x = s_normalized_hash y))"

definition ingest_signal ::
  "crates \<Rightarrow> unicode \<Rightarrow> int \<Rightarrow> string \<Rightarrow> create_signal_request \<Rightarrow> string \<Rightarrow> db \<Rightarrow> signal_ingest_result tx" where
  "ingest_signal c u now sid r actor s =
     (case existing_signal c u r s of
        Some existing \<Rightarrow>
          fetch (get_signal s existing) (Records SignalNotFound) (\<lambda>sig.
            Inr (\<lparr>si_signal = sig, si_deduplicated = True\<rparr>, s))
      | None \<Rightarrow>
          (let row = new_signal_row c u now sid r actor
           in ensure (list_all (\<lambda>x. \<not> signal_clash x row) (signals s))
                (Goal (ConstraintFailed ''harness_signals''))
              (let t = insert_signal_event_tx now sid Observed actor
                         (JObj [(''fingerprint'', JStr (s_fingerprint row))])
                         (s\<lparr>signals := signals s @ [row]\<rparr>)
               in fetch (get_signal t sid) (Records SignalNotFound) (\<lambda>sig.
                    Inr (\<lparr>si_signal = sig, si_deduplicated = False\<rparr>, t)))))"

definition ignore_signal :: "int \<Rightarrow> string \<Rightarrow> string \<Rightarrow> string \<Rightarrow> db \<Rightarrow> signal_record tx" where
  "ignore_signal now sid reason actor s =
     ensure (trim reason \<noteq> [] \<and> chars_count reason \<le> 512) (Records (SignalInvalid ''reason''))
     (fetch (get_signal s sid) (Records SignalNotFound) (\<lambda>sig.
      ensure (sr_status sig \<in> {Observed, Triaged})
        (Records (SignalStatusRefused (signal_status_as_str (sr_status sig))))
      (let t = insert_signal_event_tx now sid Ignored actor (JObj [(''reason'', JStr (trim reason))]) s
       in fetch (get_signal t sid) (Records SignalNotFound) (\<lambda>sig'. Inr (sig', t)))))"

definition triage_signal :: "int \<Rightarrow> string \<Rightarrow> string \<Rightarrow> db \<Rightarrow> signal_record tx" where
  "triage_signal now sid actor s =
     fetch (get_signal s sid) (Records SignalNotFound) (\<lambda>sig.
     if sr_status sig = Triaged then Inr (sig, s)
     else ensure (sr_status sig = Observed)
        (Records (SignalStatusRefused (signal_status_as_str (sr_status sig))))
      (let t = insert_signal_event_tx now sid Triaged actor (JObj []) s
       in fetch (get_signal t sid) (Records SignalNotFound) (\<lambda>sig'. Inr (sig', t))))"

definition mark_signal_proposed :: "int \<Rightarrow> string \<Rightarrow> string \<Rightarrow> string \<Rightarrow> db \<Rightarrow> unit tx" where
  "mark_signal_proposed now sid gid actor s =
     ensure (count_where (\<lambda>x. s_id x = sid) (signals s) = 1) (Records SignalNotFound)
     (Inr ((), insert_signal_event_tx now sid SignalProposed actor
                 (JObj [(''goal_id'', JStr gid)]) s))"

end
