(* ===== verification/Loop_Recovery.thy ===== *)
theory Loop_Recovery
  imports Loop_Signals
begin

text \<open>
  Crash recovery (\<open>recover_goal_state\<close> and \<open>resume_goal\<close> of
  \<open>src/harness/loop_engine/store.rs\<close>): reconciling committed checkpoints, expiring leases,
  parking ambiguous effects, unlocking successors and refreshing the goal. Recovery runs in one
  transaction; the signals for parked items and the resume event are written after its commit.
  The clock readings (\<open>now\<close> in the transaction, \<open>later\<close> after it) and the ids of new signals
  are arguments.
\<close>

text \<open>What is fixed for a running engine: third-party functions and the two policies.\<close>

record env =
  env_crates :: crates
  env_unicode :: unicode
  env_internal_policy :: internal_approval_policy
  env_external_write :: external_write_policy

section \<open>Recovery\<close>

text \<open>The row of the query for expired leases.\<close>

record expired_row =
  x_id :: string
  x_effect :: effect_class
  x_max_attempts :: int
  x_backoff_secs :: int
  x_attempt_count :: nat
  x_has_prepared :: bool
  x_has_unsafe_prepared :: bool

definition prepared_by_live :: "db \<Rightarrow> (checkpoint_row \<Rightarrow> bool) \<Rightarrow> string \<Rightarrow> bool" where
  "prepared_by_live s p wid \<longleftrightarrow>
     list_ex (\<lambda>c. c_work_item_id c = wid \<and> c_phase c = Prepared \<and> p c \<and>
       list_ex (\<lambda>la. a_id la = c_attempt_id c \<and> live_attempt la) (attempts s)) (checkpoints s)"

definition lease_expired :: "int \<Rightarrow> work_item_row \<Rightarrow> bool" where
  "lease_expired now w \<longleftrightarrow> (case w_lease_until w of None \<Rightarrow> False | Some u \<Rightarrow> u < now)"

definition expired_rows :: "int \<Rightarrow> string \<Rightarrow> db \<Rightarrow> expired_row list" where
  "expired_rows now gid s =
     map (\<lambda>w. \<lparr>x_id = w_id w, x_effect = w_effect w, x_max_attempts = w_max_attempts w,
               x_backoff_secs = w_backoff_secs w, x_attempt_count = attempt_count s (w_id w),
               x_has_prepared = prepared_by_live s (\<lambda>_. True) (w_id w),
               x_has_unsafe_prepared = prepared_by_live s (\<lambda>c. \<not> c_replay_safe c) (w_id w)\<rparr>)
       (filter (\<lambda>w. w_goal_id w = gid \<and> w_status w = Running \<and> lease_expired now w) (work_items s))"

definition parks :: "expired_row \<Rightarrow> bool" where
  "parks x \<longleftrightarrow> (x_effect x = ExternalWrite \<and> x_has_prepared x) \<or> x_has_unsafe_prepared x"

definition expiry_verdict ::
  "int \<Rightarrow> expired_row \<Rightarrow> work_item_status \<times> attempt_status \<times> string \<times> int option" where
  "expiry_verdict now x =
     (if parks x then (WaitingConfirmation, AttemptWaiting,
        ''ambiguous effect outcome requires confirmation'', None)
      else if x_max_attempts x \<le> int (x_attempt_count x) then (Failed, AttemptFailed,
        ''attempt budget exhausted after lease expiry'', None)
      else (Ready, Abandoned, ''worker lease expired before commit'',
        Some (now + x_backoff_secs x)))"

definition live_attempt_ids :: "db \<Rightarrow> string \<Rightarrow> string list" where
  "live_attempt_ids s wid =
     map a_id (filter (\<lambda>a. a_work_item_id a = wid \<and> live_attempt a) (attempts s))"

definition expire_item :: "int \<Rightarrow> expired_row \<Rightarrow> db \<Rightarrow> db" where
  "expire_item now x s =
     (case expiry_verdict now x of (work_status, attempt_status, error, next_at) \<Rightarrow>
        upd_items (\<lambda>w. w_id w = x_id x \<and> w_status w = Running)
          (\<lambda>w. w\<lparr>w_status := work_status, w_lease_token := None, w_lease_until := None,
                 w_next_attempt_at := next_at, w_last_error := Some error, w_updated_at := now\<rparr>)
        (upd_attempts (\<lambda>a. a_work_item_id a = x_id x \<and> live_attempt a)
          (\<lambda>a. a\<lparr>a_status := attempt_status, a_finished_at := Some now, a_error := Some error\<rparr>)
        (if parks x then s
         else upd_checkpoints
           (\<lambda>c. c_phase c = Prepared \<and> c_attempt_id c \<in> set (live_attempt_ids s (x_id x)))
           (\<lambda>c. c\<lparr>c_phase := Voided, c_updated_at := now\<rparr>) s)))"

fun reconcile_all :: "int \<Rightarrow> checkpoint_record list \<Rightarrow> db \<Rightarrow> loop_error + db" where
  "reconcile_all now [] s = Inr s"
| "reconcile_all now (c # cs) s =
     and_then (reconcile_checkpoint_tx now c s) (reconcile_all now cs)"

definition committed_checkpoints :: "db \<Rightarrow> string \<Rightarrow> checkpoint_record list" where
  "committed_checkpoints s gid =
     map decode_checkpoint
       (filter (\<lambda>c. c_goal_id c = gid \<and> c_phase c = Committed) (checkpoints s))"

definition recover_tx :: "int \<Rightarrow> string \<Rightarrow> string \<Rightarrow> db \<Rightarrow> string list tx" where
  "recover_tx now gid actor s =
     ensure_valid_id gid ''goal id''
     (if count_where (\<lambda>g. g_id g = gid) (goals s) = 0 then Inr ([], s)
      else let committed = committed_checkpoints s gid
        in and_then (reconcile_all now committed s) (\<lambda>s1.
           let expired = expired_rows now gid s1;
               s2 = fold (expire_item now) expired s1;
               recovered = length committed + length expired;
               (unlocked, s3) = unlock_ready_work_tx now gid s2;
               s4 = refresh_goal_status_tx now gid s3;
               s5 = (if 0 < recovered \<or> 0 < unlocked
                     then insert_event now gid ''goal.recovered'' actor
                       (JObj [(''reconciled_or_expired'', JInt (int recovered)),
                              (''unlocked_work_items'', JInt (int unlocked))]) s4
                     else s4)
           in Inr (map x_id (filter parks expired), s5)))"

definition parked_signal :: "string \<Rightarrow> string \<Rightarrow> create_signal_request" where
  "parked_signal gid wid =
     \<lparr>cs_kind = Manual, cs_trust = Internal, cs_source = ''internal:confirmation'',
      cs_external_id = Some (''confirm:'' @ wid),
      cs_content = ''goal '' @ gid @ '': work item '' @ wid @ '' parked awaiting confirmation ''
        @ [CHR 0xE2, CHR 0x80, CHR 0x94]
        @ '' an external effect may or may not have landed before the crash'',
      cs_metadata = [(''goal_id'', gid), (''work_item_id'', wid)]\<rparr>"

text \<open>A failed ingestion is only logged.\<close>

definition emit_parked_signal ::
  "env \<Rightarrow> int \<Rightarrow> (string \<Rightarrow> string) \<Rightarrow> string \<Rightarrow> string \<Rightarrow> string \<Rightarrow> db \<Rightarrow> db" where
  "emit_parked_signal E later sid gid actor wid s =
     snd (in_tx (ingest_signal (env_crates E) (env_unicode E) later (sid wid)
       (parked_signal gid wid) actor s) s)"

definition recover_goal_state ::
  "env \<Rightarrow> int \<Rightarrow> int \<Rightarrow> (string \<Rightarrow> string) \<Rightarrow> string \<Rightarrow> string \<Rightarrow> db \<Rightarrow> unit run" where
  "recover_goal_state E now later sid gid actor s =
     (case recover_tx now gid actor s of
        Inl e \<Rightarrow> (Inl e, s)
      | Inr (parked, s1) \<Rightarrow> (Inr (), fold (emit_parked_signal E later sid gid actor) parked s1))"

section \<open>Resuming\<close>

definition get_goal :: "db \<Rightarrow> string \<Rightarrow> loop_error + goal_record option" where
  "get_goal s gid =
     ensure_valid_id gid ''goal id''
     (case find_goal s gid of
        None \<Rightarrow> Inr None
      | Some g \<Rightarrow> and_then (decode_goal g) (\<lambda>r. Inr (Some r)))"

definition load_report :: "db \<Rightarrow> string \<Rightarrow> goal_record \<Rightarrow> loop_error + resume_report" where
  "load_report s gid g =
     and_then (load_goal_work_items s gid) (\<lambda>items.
     and_then (collect decode_attempt
        (select_ordered (\<lambda>a. (a_started_at a, a_id a)) (\<lambda>a. a_goal_id a = gid) (attempts s))) (\<lambda>ats.
     Inr \<lparr>rr_goal = g, rr_work_items = items, rr_attempts = ats,
          rr_latest_checkpoint = map_option decode_checkpoint
            (last_row (filter (\<lambda>c. c_goal_id c = gid) (checkpoints s)))\<rparr>))"

definition latest_event_type :: "db \<Rightarrow> string \<Rightarrow> string option" where
  "latest_event_type s gid =
     map_option ev_type (last_row (filter (\<lambda>e. ev_goal_id e = Some gid) (events s)))"

definition resume_goal ::
  "env \<Rightarrow> int \<Rightarrow> int \<Rightarrow> (string \<Rightarrow> string) \<Rightarrow> string \<Rightarrow> string \<Rightarrow> db \<Rightarrow> resume_report option run" where
  "resume_goal E now later sid gid actor s =
     (case recover_goal_state E now later sid gid actor s of
        (Inl e, s1) \<Rightarrow> (Inl e, s1)
      | (Inr _, s1) \<Rightarrow>
          (case get_goal s1 gid of
             Inl e \<Rightarrow> (Inl e, s1)
           | Inr None \<Rightarrow> (Inr None, s1)
           | Inr (Some g) \<Rightarrow>
               (case load_report s1 gid g of
                  Inl e \<Rightarrow> (Inl e, s1)
                | Inr report \<Rightarrow>
                    (Inr (Some report),
                     if latest_event_type s1 gid = Some ''goal.resumed'' then s1
                     else insert_event later gid ''goal.resumed'' actor (JObj []) s1))))"

text \<open>Operations that commit and then resume the goal for their report.\<close>

definition then_resume ::
  "env \<Rightarrow> int \<Rightarrow> int \<Rightarrow> (string \<Rightarrow> string) \<Rightarrow> string \<Rightarrow> string \<Rightarrow> unit run \<Rightarrow> resume_report run" where
  "then_resume E now later sid gid actor r =
     (case r of
        (Inl e, s) \<Rightarrow> (Inl e, s)
      | (Inr _, s) \<Rightarrow>
          (case resume_goal E now later sid gid actor s of
             (Inl e, s1) \<Rightarrow> (Inl e, s1)
           | (Inr None, s1) \<Rightarrow> (Inl (Goal GoalNotFound), s1)
           | (Inr (Some report), s1) \<Rightarrow> (Inr report, s1)))"

end
