(* ===== verification/Loop_Artifacts.thy ===== *)
theory Loop_Artifacts
  imports Loop_Tables
begin

text \<open>
  The versioned artifact registry (\<open>src/harness/loop_engine/artifacts.rs\<close>): validation of a
  publication, publication with deduplication by identity and content hash, and the lookups.
\<close>

fun artifact_kind_as_str :: "artifact_kind \<Rightarrow> string" where
  "artifact_kind_as_str GoalTemplate = ''goal_template''"
| "artifact_kind_as_str DynamicWorkflow = ''dynamic_workflow''"
| "artifact_kind_as_str EvalSuite = ''eval_suite''"
| "artifact_kind_as_str SkillManifest = ''skill_manifest''"
| "artifact_kind_as_str ReplayCorpus = ''replay_corpus''"
| "artifact_kind_as_str DesktopView = ''desktop_view''"
| "artifact_kind_as_str AnalysisReport = ''analysis_report''"
| "artifact_kind_as_str SelfTestReport = ''self_test_report''"
| "artifact_kind_as_str EvolutionEvaluation = ''evolution_evaluation''"
| "artifact_kind_as_str PromptPolicyRef = ''prompt_policy_ref''"

definition artifact_kind_from_db :: "string \<Rightarrow> loop_error + artifact_kind" where
  "artifact_kind_from_db s =
    (if s = ''goal_template'' then Inr GoalTemplate
     else if s = ''dynamic_workflow'' then Inr DynamicWorkflow
     else if s = ''eval_suite'' then Inr EvalSuite
     else if s = ''skill_manifest'' then Inr SkillManifest
     else if s = ''replay_corpus'' then Inr ReplayCorpus
     else if s = ''desktop_view'' then Inr DesktopView
     else if s = ''analysis_report'' then Inr AnalysisReport
     else if s = ''self_test_report'' then Inr SelfTestReport
     else if s = ''evolution_evaluation'' then Inr EvolutionEvaluation
     else if s = ''prompt_policy_ref'' then Inr PromptPolicyRef
     else Inl (Records (ArtifactInvalid s)))"

interpretation artifact_kind: state_codec artifact_kind_as_str artifact_kind_from_db
proof
  show "artifact_kind_from_db (artifact_kind_as_str x) = Inr x" for x
    by (cases x) (simp_all add: artifact_kind_from_db_def)
  show "artifact_kind_from_db s = Inr x \<Longrightarrow> artifact_kind_as_str x = s" for s x
    by (auto simp: artifact_kind_from_db_def split: if_splits)
qed

record publish_artifact_request =
  pa_kind :: artifact_kind
  pa_name :: string
  pa_version :: string
  pa_content :: json
  pa_source_goal_id :: "string option"
  pa_parent_artifact_id :: "string option"

definition opt_text_ok :: "string option \<Rightarrow> bool" where
  "opt_text_ok v \<longleftrightarrow> (case v of None \<Rightarrow> True | Some x \<Rightarrow> text_ok 160 x)"

text \<open>A policy reference names a candidate and, optionally, a deployment, and nothing else.\<close>

definition check_policy_ref :: "json \<Rightarrow> loop_error + unit" where
  "check_policy_ref content =
     fetch (as_object content) (Records (ArtifactInvalid ''object'')) (\<lambda>kvs.
     ensure (list_all (\<lambda>k. k = ''evolution_candidate_id'' \<or> k = ''deployment_id'') (map fst kvs))
       (Records (ArtifactInvalid ''keys''))
     (ensure (text_ok 160 (case get_str ''evolution_candidate_id'' content of None \<Rightarrow> [] | Some x \<Rightarrow> x))
       (Records (ArtifactInvalid ''candidate''))
     (ensure (opt_text_ok (get_str ''deployment_id'' content))
       (Records (ArtifactInvalid ''deployment''))
     (Inr ()))))"

definition publish_validate :: "crates \<Rightarrow> publish_artifact_request \<Rightarrow> loop_error + unit" where
  "publish_validate c r =
     ensure (text_ok 160 (pa_name r)) (Records (ArtifactInvalid ''name''))
     (ensure (text_ok 80 (pa_version r)) (Records (ArtifactInvalid ''version''))
     (ensure (length (json_text c (pa_content r)) \<le> 32768) (Records (ArtifactInvalid ''content''))
     (ensure (opt_text_ok (pa_source_goal_id r)) (Records (ArtifactInvalid ''source goal id''))
     (ensure (opt_text_ok (pa_parent_artifact_id r)) (Records (ArtifactInvalid ''parent artifact id''))
     (if pa_kind r = PromptPolicyRef then check_policy_ref (pa_content r) else Inr ())))))"

definition find_artifact :: "db \<Rightarrow> artifact_kind \<Rightarrow> string \<Rightarrow> string \<Rightarrow> artifact_row option" where
  "find_artifact s kind name version =
     find (\<lambda>f. f_kind f = kind \<and> f_name f = name \<and> f_version f = version) (artifacts s)"

definition get_artifact :: "db \<Rightarrow> string \<Rightarrow> artifact_row option" where
  "get_artifact s fid = find (\<lambda>f. f_id f = fid) (artifacts s)"

definition list_artifacts :: "db \<Rightarrow> nat \<Rightarrow> artifact_row list" where
  "list_artifacts s limit =
     take (max 1 (min 500 limit))
       (rev (select_ordered (\<lambda>f. (f_created_at f, f_id f)) (\<lambda>_. True) (artifacts s)))"

definition new_artifact_row ::
  "crates \<Rightarrow> int \<Rightarrow> string \<Rightarrow> publish_artifact_request \<Rightarrow> string \<Rightarrow> artifact_row" where
  "new_artifact_row c now fid r actor =
     \<lparr>f_id = fid, f_kind = pa_kind r, f_name = trim (pa_name r), f_version = trim (pa_version r),
      f_content = pa_content r, f_content_hash = hash_serializable c (pa_content r),
      f_source_goal_id = pa_source_goal_id r, f_parent_artifact_id = pa_parent_artifact_id r,
      f_created_by = actor, f_created_at = now\<rparr>"

definition publish_artifact ::
  "crates \<Rightarrow> int \<Rightarrow> string \<Rightarrow> publish_artifact_request \<Rightarrow> string \<Rightarrow> db \<Rightarrow> (artifact_row \<times> bool) tx" where
  "publish_artifact c now fid r actor s =
     ensure (case pa_source_goal_id r of None \<Rightarrow> True
             | Some g \<Rightarrow> count_where (\<lambda>x. g_id x = g) (goals s) = 1)
       (Goal GoalNotFound)
     (ensure (case pa_parent_artifact_id r of None \<Rightarrow> True
              | Some p \<Rightarrow> count_where (\<lambda>x. f_id x = p) (artifacts s) = 1)
       (Records (ArtifactInvalid ''parent artifact not found''))
     (case find_artifact s (pa_kind r) (trim (pa_name r)) (trim (pa_version r)) of
        Some existing \<Rightarrow>
          ensure (f_content_hash existing = hash_serializable c (pa_content r))
            (Records ArtifactConflict)
          (Inr ((existing, True), s))
      | None \<Rightarrow>
          ensure (list_all (\<lambda>x. f_id x \<noteq> fid) (artifacts s))
            (Goal (ConstraintFailed ''harness_artifacts''))
          (let row = new_artifact_row c now fid r actor
           in Inr ((row, False),
                s\<lparr>artifacts := artifacts s @ [row],
                  artifact_events := artifact_events s @
                    [\<lparr>fe_artifact_id = fid, fe_event_type = ''artifact.published'', fe_actor = actor,
                      fe_details = JObj [(''content_hash'', JStr (f_content_hash row))],
                      fe_created_at = now\<rparr>]\<rparr>))))"

end
