(* ===== verification/Loop_Goals.thy ===== *)
theory Loop_Goals
  imports Loop_Recovery Loop_Artifacts
begin

text \<open>
  The goal lifecycle of the store (\<open>src/harness/loop_engine/store.rs\<close>): idempotent admission,
  planning, approval with its materialized work items, cancellation, pausing, rejection, replan,
  expiry, verification, manual verification and the execution budget.
\<close>

text \<open>A committed transaction followed by reading the goal back.\<close>

definition commit_goal :: "string \<Rightarrow> unit tx \<Rightarrow> db \<Rightarrow> goal_record run" where
  "commit_goal gid r s =
     (case r of Inl e \<Rightarrow> (Inl e, s) | Inr (_, t) \<Rightarrow> (reload_goal t gid, t))"

section \<open>Admission\<close>

definition find_goal_by_request :: "db \<Rightarrow> string \<Rightarrow> goal_row option" where
  "find_goal_by_request s rid = find (\<lambda>g. g_request_id g = Some rid) (goals s)"

definition get_goal_by_request_id :: "db \<Rightarrow> string \<Rightarrow> loop_error + goal_record option" where
  "get_goal_by_request_id s rid =
     (case find_goal_by_request s rid of
        None \<Rightarrow> Inr None
      | Some g \<Rightarrow> and_then (decode_goal g) (\<lambda>r. Inr (Some r)))"

definition new_goal_row :: "int \<Rightarrow> string \<Rightarrow> create_goal_request \<Rightarrow> string \<Rightarrow> goal_row" where
  "new_goal_row now gid r actor =
     \<lparr>g_id = gid, g_objective = trim (cg_objective r), g_status = Proposed, g_revision = 1,
      g_source_signal_ids = cg_source_signal_ids r, g_request_id = cg_request_id r,
      g_created_by = actor, g_created_at = now, g_updated_at = now,
      g_internal_only = cg_internal_only r\<rparr>"

text \<open>The row already admitted under the request's key, if any.\<close>

definition admitted :: "db \<Rightarrow> create_goal_request \<Rightarrow> goal_row option" where
  "admitted s r = (case cg_request_id r of None \<Rightarrow> None | Some rid \<Rightarrow> find_goal_by_request s rid)"

definition read_admitted :: "db \<Rightarrow> string \<Rightarrow> bool \<Rightarrow> loop_error + goal_record \<times> bool" where
  "read_admitted s gid created =
     and_then (get_goal s gid) (\<lambda>g. fetch g (Goal GoalNotFound) (\<lambda>r. Inr (r, created)))"

definition create_goal_admission ::
  "int \<Rightarrow> string \<Rightarrow> create_goal_request \<Rightarrow> string \<Rightarrow> db \<Rightarrow> (goal_record \<times> bool) run" where
  "create_goal_admission now gid r actor s =
     (case admitted s r of
        Some g \<Rightarrow> (read_admitted s (g_id g) False, s)
      | None \<Rightarrow>
          if \<not> list_all (\<lambda>g. g_id g \<noteq> gid) (goals s)
          then \<comment> \<open>the insert failed: rolled back, and the key is looked up once more\<close>
            (Inl (Goal (ConstraintFailed ''harness_goals'')), s)
          else
            let t = insert_event now gid ''goal.created'' actor (JObj [])
                      (s\<lparr>goals := goals s @ [new_goal_row now gid r actor]\<rparr>)
            in (read_admitted t gid True, t))"

definition list_goals :: "db \<Rightarrow> nat \<Rightarrow> loop_error + goal_record list" where
  "list_goals s limit =
     collect decode_goal (take (max 1 (min 500 limit))
       (rev (select_ordered (\<lambda>g. (g_updated_at g, g_id g)) (\<lambda>_. True) (goals s))))"

section \<open>Operator transitions\<close>

definition budget_overdue :: "int \<Rightarrow> budget_row \<Rightarrow> bool" where
  "budget_overdue now b \<longleftrightarrow>
     (case b_started_at b of None \<Rightarrow> False | Some t \<Rightarrow> t + b_deadline_secs b < now)"

definition overdue :: "int \<Rightarrow> db \<Rightarrow> goal_row \<Rightarrow> bool" where
  "overdue now s g \<longleftrightarrow>
     list_ex (\<lambda>b. b_goal_id b = g_id g \<and> budget_overdue now b) (budgets s)"

definition expire_goal :: "int \<Rightarrow> string \<Rightarrow> db \<Rightarrow> db" where
  "expire_goal now gid s =
     insert_event now gid ''goal.expired'' ''internal:janitor''
       (JObj [(''now'', JInt now), (''reason'', JStr ''deadline_exceeded'')])
     (upd_goals (\<lambda>g. g_id g = gid) (\<lambda>g. g\<lparr>g_status := GoalFailed, g_updated_at := now\<rparr>) s)"

definition expire_overdue_goals :: "int \<Rightarrow> nat \<Rightarrow> db \<Rightarrow> string list tx" where
  "expire_overdue_goals now limit s =
     (let overdue_ids = map g_id (take (max 1 (min 128 limit))
            (filter (\<lambda>g. g_status g \<in> {Approved, Active, GoalBlocked, Verifying} \<and>
                         \<not> g_internal_only g \<and> overdue now s g) (goals s)))
      in Inr (overdue_ids, fold (expire_goal now) overdue_ids s))"

text \<open>Ending every attempt that could still report: it loses its claim.\<close>

definition abandon_attempts :: "int \<Rightarrow> string \<Rightarrow> string \<Rightarrow> db \<Rightarrow> db" where
  "abandon_attempts now gid error =
     upd_attempts (\<lambda>a. a_goal_id a = gid \<and> (live_attempt a \<or> a_status a = AttemptWaiting))
       (\<lambda>a. a\<lparr>a_status := Abandoned, a_finished_at := Some now, a_error := Some error\<rparr>)"

definition set_goal_status :: "int \<Rightarrow> string \<Rightarrow> goal_status \<Rightarrow> db \<Rightarrow> db" where
  "set_goal_status now gid status =
     upd_goals (\<lambda>g. g_id g = gid) (\<lambda>g. g\<lparr>g_status := status, g_updated_at := now\<rparr>)"

definition reason_json :: "string \<Rightarrow> json" where
  "reason_json reason = JObj [(''reason'', JStr reason)]"

definition cancel_goal :: "int \<Rightarrow> string \<Rightarrow> string \<Rightarrow> string \<Rightarrow> db \<Rightarrow> goal_record run" where
  "cancel_goal now gid reason0 actor s = commit_goal gid
     (let reason = trim reason0
      in ensure_valid_id gid ''goal id''
        (ensure (reason \<noteq> [] \<and> length reason \<le> 512) (Goal CancelReason)
        (fetch (find_goal s gid) (Goal GoalNotFound) (\<lambda>g.
         ensure (g_status g \<in> {Proposed, Planning, ReviewReady, Approved, Active, GoalBlocked, Verifying})
           (Goal (GoalAlreadyTerminal (goal_status_as_str (g_status g))))
        (Inr ((),
           insert_event now gid ''goal.canceled'' actor (reason_json reason)
          (set_goal_status now gid GoalCanceled
          (upd_items (\<lambda>w. w_goal_id w = gid \<and> w_status w \<notin> {Succeeded, Failed})
             (\<lambda>w. w\<lparr>w_status := Failed, w_lease_token := None, w_lease_until := None,
                    w_next_attempt_at := None,
                    w_last_error := Some (''goal canceled: '' @ reason), w_updated_at := now\<rparr>)
          (abandon_attempts now gid (''goal canceled: '' @ reason) s))))))))) s"

definition reject_goal :: "int \<Rightarrow> string \<Rightarrow> string \<Rightarrow> string \<Rightarrow> db \<Rightarrow> goal_record run" where
  "reject_goal now gid reason0 actor s = commit_goal gid
     (let reason = trim reason0
      in ensure_valid_id gid ''goal id''
        (ensure (reason \<noteq> [] \<and> length reason \<le> 512) (Goal RejectReason)
        (fetch (find_goal s gid) (Goal GoalNotFound) (\<lambda>g.
         ensure (g_status g \<in> {Proposed, Planning, ReviewReady})
           (Goal (RejectStatus (goal_status_as_str (g_status g))))
        (Inr ((),
           insert_event now gid ''goal.rejected'' actor (reason_json reason)
          (set_goal_status now gid Rejected s))))))) s"

definition mark_goal_for_replan :: "int \<Rightarrow> string \<Rightarrow> string \<Rightarrow> string \<Rightarrow> db \<Rightarrow> goal_record run" where
  "mark_goal_for_replan now gid reason0 actor s = commit_goal gid
     (let reason = trim reason0
      in ensure_valid_id gid ''goal id''
        (ensure (reason \<noteq> [] \<and> length reason \<le> 512) (Goal ReplanReason)
        (fetch (find_goal s gid) (Goal GoalNotFound) (\<lambda>g.
         ensure (g_status g \<in> {GoalFailed, GoalCanceled, Rejected, GoalBlocked})
           (Goal (ReplanStatus (goal_status_as_str (g_status g))))
        (Inr ((),
           insert_event now gid ''goal.replan'' actor (reason_json reason)
          (set_goal_status now gid Replan
          (upd_items (\<lambda>w. w_goal_id w = gid \<and> w_status w \<notin> {Succeeded, Failed, Canceled})
             (\<lambda>w. w\<lparr>w_status := Canceled, w_lease_token := None, w_lease_until := None,
                    w_next_attempt_at := None,
                    w_last_error := Some (''superseded by replan: '' @ reason), w_updated_at := now\<rparr>)
          (abandon_attempts now gid ''superseded by replan'' s))))))))) s"

definition set_goal_paused ::
  "int \<Rightarrow> string \<Rightarrow> bool \<Rightarrow> string option \<Rightarrow> string \<Rightarrow> db \<Rightarrow> goal_record run" where
  "set_goal_paused now gid paused reason actor s = commit_goal gid
     (ensure_valid_id gid ''goal id''
     (ensure (case reason of None \<Rightarrow> True | Some r \<Rightarrow> trim r \<noteq> [] \<and> length (trim r) \<le> 512)
        (Goal PauseReason)
     (fetch (find_goal s gid) (Goal GoalNotFound) (\<lambda>g.
      ensure (g_status g \<in> (if paused then {Approved, Active, GoalBlocked, Verifying} else {Paused}))
        (Goal (PauseStatus (goal_status_as_str (g_status g))))
     (Inr ((),
        insert_event now gid (if paused then ''goal.paused'' else ''goal.unpaused'') actor
          (JObj [(''reason'', opt_str (map_option trim reason))])
       (set_goal_status now gid (if paused then Paused else Active) s))))))) s"

definition pause_goal :: "int \<Rightarrow> string \<Rightarrow> string \<Rightarrow> string \<Rightarrow> db \<Rightarrow> goal_record run" where
  "pause_goal now gid reason actor s = set_goal_paused now gid True (Some reason) actor s"

definition unpause_goal :: "int \<Rightarrow> string \<Rightarrow> string \<Rightarrow> db \<Rightarrow> goal_record run" where
  "unpause_goal now gid actor s = set_goal_paused now gid False None actor s"

section \<open>Reading\<close>

definition list_goal_events ::
  "db \<Rightarrow> string \<Rightarrow> int \<Rightarrow> nat \<Rightarrow> loop_error + loop_event_record list" where
  "list_goal_events s gid after_sequence limit =
     ensure_valid_id gid ''goal id''
     (ensure (0 \<le> after_sequence) (Goal EventCursorNegative)
     (Inr (map decode_loop_event (take (max 1 (min 500 limit))
        (select_ordered ev_sequence
          (\<lambda>e. ev_goal_id e = Some gid \<and> after_sequence < ev_sequence e) (events s))))))"

definition list_dispatchable_goal_ids :: "int \<Rightarrow> db \<Rightarrow> nat \<Rightarrow> string list" where
  "list_dispatchable_goal_ids now s limit =
     map g_id (take (max 1 (min 500 limit))
       (select_ordered (\<lambda>g. (g_created_at g, g_id g))
         (\<lambda>g. g_status g \<in> {Approved, Active, Verifying} \<and> \<not> g_internal_only g \<and> \<not> overdue now s g)
         (goals s)))"

definition list_attempts :: "db \<Rightarrow> string \<Rightarrow> loop_error + attempt_record list" where
  "list_attempts s gid =
     ensure_valid_id gid ''goal id''
     (collect decode_attempt
       (select_ordered (\<lambda>a. (a_number a, a_id a)) (\<lambda>a. a_goal_id a = gid) (attempts s)))"

definition list_checkpoints :: "db \<Rightarrow> string \<Rightarrow> loop_error + checkpoint_record list" where
  "list_checkpoints s gid =
     ensure_valid_id gid ''goal id''
     (Inr (map decode_checkpoint (filter (\<lambda>c. c_goal_id c = gid) (checkpoints s))))"

section \<open>Planning and approval\<close>

definition latest_workflow :: "db \<Rightarrow> string \<Rightarrow> workflow_row option" where
  \<comment> \<open>\<open>ORDER BY goal_revision DESC LIMIT 1\<close>\<close>
  "latest_workflow s gid =
     last_row (select_ordered p_goal_revision (\<lambda>p. p_goal_id p = gid) (workflows s))"

definition plan_goal_tx ::
  "crates \<Rightarrow> int \<Rightarrow> string \<Rightarrow> string \<Rightarrow> plan_goal_request \<Rightarrow> string \<Rightarrow> db \<Rightarrow> unit tx" where
  "plan_goal_tx c now plan_id gid r actor s =
     ensure_valid_id gid ''goal id''
     (fetch (find_goal s gid) (Goal GoalNotFound) (\<lambda>g.
      ensure (g_status g \<in> {Proposed, Replan}) (Goal (PlanStatus (goal_status_as_str (g_status g))))
     (ensure (list_all (\<lambda>p. p_id p \<noteq> plan_id \<and>
                 \<not> (p_goal_id p = gid \<and> p_goal_revision p = g_revision g + 1)) (workflows s))
        (Goal (ConstraintFailed ''harness_workflows''))
     (let revision = g_revision g; next_revision = revision + 1;
          same = (\<lambda>x. g_id x = gid \<and> g_revision x = revision \<and> g_status x = g_status g);
          row = \<lparr>p_id = plan_id, p_goal_id = gid, p_goal_revision = next_revision,
                 p_plan_hash = plan_hash c r, p_workflow = pg_workflow r,
                 p_acceptance = pg_acceptance r, p_effects = effect_manifest r,
                 p_created_by = actor, p_created_at = now\<rparr>
      in ensure (count_where same (goals s) = 1) (Goal GoalChangedPlanning)
        (Inr ((),
           insert_event now gid ''goal.planned'' actor
             (JObj [(''goal_revision'', JInt next_revision), (''plan_hash'', JStr (plan_hash c r))])
          (upd_goals same
             (\<lambda>x. x\<lparr>g_status := ReviewReady, g_revision := next_revision, g_updated_at := now\<rparr>)
          (s\<lparr>workflows := workflows s @ [row]\<rparr>))))))))"

definition plan_goal ::
  "crates \<Rightarrow> int \<Rightarrow> string \<Rightarrow> string \<Rightarrow> plan_goal_request \<Rightarrow> string \<Rightarrow> db \<Rightarrow> planned_goal run" where
  "plan_goal c now plan_id gid r actor s =
     (case plan_goal_tx c now plan_id gid r actor s of
        Inl e \<Rightarrow> (Inl e, s)
      | Inr (_, t) \<Rightarrow>
          (and_then (reload_goal t gid) (\<lambda>g. Inr
             \<lparr>pl_goal = g, pl_plan_hash = plan_hash c r, pl_workflow = pg_workflow r,
              pl_acceptance = pg_acceptance r, pl_effects = effect_manifest r\<rparr>), t))"

definition latest_plan :: "db \<Rightarrow> string \<Rightarrow> loop_error + planned_goal option" where
  "latest_plan s gid =
     and_then (get_goal s gid) (\<lambda>g. case g of
        None \<Rightarrow> Inr None
      | Some goal \<Rightarrow> Inr (map_option (\<lambda>p.
          \<lparr>pl_goal = goal, pl_plan_hash = p_plan_hash p, pl_workflow = p_workflow p,
           pl_acceptance = p_acceptance p, pl_effects = p_effects p\<rparr>)
         (last_row (select_ordered (\<lambda>p. (p_created_at p, p_id p))
            (\<lambda>p. p_goal_id p = gid) (workflows s)))))"

definition insert_item :: "work_item_row \<Rightarrow> db \<Rightarrow> loop_error + db" where
  "insert_item row s =
     ensure (list_all (\<lambda>w. w_id w \<noteq> w_id row \<and>
               \<not> (w_workflow_id w = w_workflow_id row \<and> w_step_id w = w_step_id row)) (work_items s))
       (Goal (ConstraintFailed ''harness_work_items''))
     (Inr (s\<lparr>work_items := work_items s @ [row]\<rparr>))"

fun insert_items :: "work_item_row list \<Rightarrow> db \<Rightarrow> loop_error + db" where
  "insert_items [] s = Inr s"
| "insert_items (row # rows) s = and_then (insert_item row s) (insert_items rows)"

definition insert_dep :: "dependency_row \<Rightarrow> db \<Rightarrow> loop_error + db" where
  "insert_dep d s =
     ensure (d \<notin> set (deps s)) (Goal (ConstraintFailed ''harness_work_item_dependencies''))
     (Inr (s\<lparr>deps := deps s @ [d]\<rparr>))"

fun insert_deps :: "dependency_row list \<Rightarrow> db \<Rightarrow> loop_error + db" where
  "insert_deps [] s = Inr s"
| "insert_deps (d # ds) s = and_then (insert_dep d s) (insert_deps ds)"

definition new_item_row ::
  "int \<Rightarrow> string \<Rightarrow> string \<Rightarrow> string \<Rightarrow> work_item_status \<Rightarrow> workflow_step \<Rightarrow> int \<Rightarrow> work_item_row" where
  "new_item_row now wid gid workflow_id status step ordinal =
     \<lparr>w_id = wid, w_goal_id = gid, w_workflow_id = workflow_id, w_step_id = step_id step,
      w_status = status, w_handler = step_handler step, w_effect = step_effect step,
      w_input = step_input step, w_max_attempts = int (max_attempts (step_retry step)),
      w_backoff_secs = int (backoff_secs (step_retry step)), w_ordinal = ordinal,
      w_lease_token = None, w_lease_until = None, w_fencing = 0, w_next_attempt_at = None,
      w_last_error = None, w_progress = None, w_created_at = now, w_updated_at = now\<rparr>"

definition plan_items ::
  "int \<Rightarrow> (nat \<Rightarrow> string) \<Rightarrow> string \<Rightarrow> string \<Rightarrow> workflow_spec \<Rightarrow> work_item_row list" where
  "plan_items now wid gid workflow_id w =
     map (\<lambda>(i, step).
        new_item_row now (wid i) gid workflow_id
          (if list_ex (\<lambda>e. edge_to e = step_id step) (wf_edges w) then Pending else Ready)
          step (int i))
       (enumerate 0 (wf_steps w))"

text \<open>Edges become dependencies between the ids of the new items; a missing id is a panic.\<close>

definition work_id_of :: "work_item_row list \<Rightarrow> string \<Rightarrow> string option" where
  "work_id_of rows sid = map_option w_id (last_row (filter (\<lambda>w. w_step_id w = sid) rows))"

definition plan_deps ::
  "work_item_row list \<Rightarrow> workflow_spec \<Rightarrow> loop_error + dependency_row list" where
  "plan_deps rows w =
     collect (\<lambda>e. fetch (work_id_of rows (edge_to e)) (Goal ApprovePanic) (\<lambda>t.
                  fetch (work_id_of rows (edge_from e)) (Goal ApprovePanic) (\<lambda>f.
                  Inr \<lparr>d_work_item = t, d_depends_on = f\<rparr>)))
       (wf_edges w)"

fun recheck_external :: "external_write_policy \<Rightarrow> workflow_step list \<Rightarrow> loop_error + unit" where
  "recheck_external p [] = Inr ()"
| "recheck_external p (s # ss) =
     ensure (step_effect s \<noteq> ExternalWrite \<or> ew_allows p (step_handler s))
       (Domain (ExternalWriteRefused (step_handler s)))
     (recheck_external p ss)"

definition new_approval_row ::
  "crates \<Rightarrow> int \<Rightarrow> string \<Rightarrow> string \<Rightarrow> workflow_row \<Rightarrow> string \<Rightarrow> approval_row" where
  "new_approval_row c now aid gid p actor =
     \<lparr>ap_id = aid, ap_goal_id = gid, ap_goal_revision = p_goal_revision p,
      ap_plan_hash = p_plan_hash p,
      ap_workflow_hash = hash_serializable c (workflow_to_json (p_workflow p)),
      ap_effects_hash = hash_serializable c (effects_to_json (p_effects p)),
      ap_acceptance_hash = hash_serializable c (acceptance_to_json (p_acceptance p)),
      ap_budget_hash = hash_serializable c (budget_to_json (wf_budget (p_workflow p))),
      ap_approved_by = actor, ap_created_at = now\<rparr>"

text \<open>\<open>INSERT OR REPLACE\<close>: the old row of the goal goes, the new one starts its clock afresh.\<close>

definition replace_budget :: "int \<Rightarrow> string \<Rightarrow> execution_budget \<Rightarrow> db \<Rightarrow> db" where
  "replace_budget now gid b s =
     s\<lparr>budgets := filter (\<lambda>x. b_goal_id x \<noteq> gid) (budgets s) @
        [\<lparr>b_goal_id = gid, b_max_provider_calls = int (max_provider_calls b),
          b_deadline_secs = int (deadline_secs b),
          b_max_response_bytes = int (max_response_bytes b), b_provider_calls = 0,
          b_response_bytes = 0, b_started_at = None, b_updated_at = now\<rparr>]\<rparr>"

definition approve_tx ::
  "env \<Rightarrow> int \<Rightarrow> string \<Rightarrow> (nat \<Rightarrow> string) \<Rightarrow> string \<Rightarrow> approve_goal_request \<Rightarrow> string \<Rightarrow> db \<Rightarrow> unit tx" where
  "approve_tx E now aid wid gid r actor s =
     ensure_valid_id gid ''goal id''
     (ensure (starts_with ''sha256:'' (expected_plan_hash r)) (Goal PlanHashNotSha)
     (fetch (find_goal s gid) (Goal GoalNotFound) (\<lambda>g.
      ensure (g_status g = ReviewReady) (Goal NotReviewReady)
     (ensure (g_revision g = int (expected_goal_revision r)) (Goal RevisionChanged)
     (fetch (last_row (select_ordered p_created_at
              (\<lambda>p. p_goal_id p = gid \<and> p_goal_revision p = g_revision g) (workflows s)))
        (Goal ReviewedWorkflowMissing) (\<lambda>p.
      ensure (p_plan_hash p = expected_plan_hash r) (Goal PlanHashMismatch)
     (and_then (recheck_external (env_external_write E) (wf_steps (p_workflow p))) (\<lambda>_.
      and_then (if actor = internal_auto_actor
                then check_plan (env_internal_policy E) (p_workflow p) (p_effects p)
                else Inr ()) (\<lambda>_.
      ensure (list_all (\<lambda>a. ap_id a \<noteq> aid \<and>
                 \<not> (ap_goal_id a = gid \<and> ap_goal_revision a = g_revision g)) (approvals s))
        (Goal (ConstraintFailed ''harness_goal_approvals''))
     (let rows = plan_items now wid gid (p_id p) (p_workflow p);
          s1 = replace_budget now gid (wf_budget (p_workflow p))
                 (s\<lparr>approvals := approvals s @ [new_approval_row (env_crates E) now aid gid p actor]\<rparr>);
          same = (\<lambda>x. g_id x = gid \<and> g_status x = ReviewReady \<and> g_revision x = g_revision g)
      in and_then (insert_items rows s1) (\<lambda>s2.
         and_then (plan_deps rows (p_workflow p)) (\<lambda>ds.
         and_then (insert_deps ds s2) (\<lambda>s3.
         ensure (count_where same (goals s3) = 1) (Goal GoalChangedApproving)
        (Inr ((),
           insert_event now gid ''goal.approved'' actor
             (JObj [(''approval_id'', JStr aid), (''plan_hash'', JStr (p_plan_hash p))])
          (upd_goals same
             (\<lambda>x. x\<lparr>g_status := Approved, g_revision := g_revision x + 1, g_updated_at := now\<rparr>)
             s3))))))))))))))))"

definition approve_goal ::
  "env \<Rightarrow> int \<Rightarrow> int \<Rightarrow> int \<Rightarrow> (string \<Rightarrow> string) \<Rightarrow> string \<Rightarrow> (nat \<Rightarrow> string) \<Rightarrow> string \<Rightarrow>
    approve_goal_request \<Rightarrow> string \<Rightarrow> db \<Rightarrow> resume_report run" where
  "approve_goal E now now2 later sid aid wid gid r actor s =
     then_resume E now2 later sid gid actor (in_tx (approve_tx E now aid wid gid r actor s) s)"

section \<open>Verification\<close>

definition goal_outcomes :: "db \<Rightarrow> string \<Rightarrow> work_outcome list" where
  "goal_outcomes s gid =
     List.map_filter c_outcome
       (filter (\<lambda>c. c_goal_id c = gid \<and> c_phase c = Reconciled) (checkpoints s))"

text \<open>Whether a criterion is met by the reconciled outcomes and the durable evidence.\<close>

definition criterion_met :: "db \<Rightarrow> string \<Rightarrow> work_outcome list \<Rightarrow> acceptance_criterion \<Rightarrow> bool" where
  "criterion_met s gid outcomes a =
     (case a of
        ArtifactExists artifact_type \<Rightarrow>
          list_ex (\<lambda>fid. map_option (artifact_kind_as_str \<circ> f_kind) (get_artifact s fid) = Some artifact_type)
            (concat (map wo_artifact_ids outcomes))
      | SelfTestSuite suite \<Rightarrow>
          list_ex (\<lambda>run_id. count_where
              (\<lambda>t. t_id t = run_id \<and> t_suite t = suite \<and> t_status t = TestPassed) (self_tests s) = 1)
            (List.map_filter (\<lambda>x. get_str ''self_test_run_id'' (wo_evidence x))
              (filter (\<lambda>x. get_str ''suite'' (wo_evidence x) = Some suite) outcomes))
      | ManualApproval label \<Rightarrow>
          count_where (\<lambda>m. m_goal_id m = gid \<and> m_label m = label) (manuals s) \<noteq> 0)"

definition criterion_name :: "acceptance_criterion \<Rightarrow> string" where
  "criterion_name a =
     (case a of
        ArtifactExists t \<Rightarrow> ''artifact_exists:'' @ t
      | SelfTestSuite t \<Rightarrow> ''self_test_suite:'' @ t
      | ManualApproval l \<Rightarrow> ''manual_approval:'' @ l)"

definition verify_tx :: "int \<Rightarrow> string \<Rightarrow> string \<Rightarrow> db \<Rightarrow> (bool \<times> string list) tx" where
  "verify_tx now gid actor s =
     ensure_valid_id gid ''goal id''
     (fetch (find_goal s gid) (Goal GoalNotFound) (\<lambda>g.
      if g_status g = Achieved then Inr ((True, []), s)
      else ensure (g_status g = Verifying) (Goal VerifyNotReady)
       (fetch (latest_workflow s gid) (Goal WorkflowRowMissing) (\<lambda>p.
        let unmet = map criterion_name
              (filter (\<lambda>a. \<not> criterion_met s gid (goal_outcomes s gid) a) (p_acceptance p));
            achieved = (unmet = [])
        in Inr ((achieved, unmet),
             insert_event now gid
               (if achieved then ''goal.achieved'' else ''goal.verification_pending'') actor
               (JObj [(''unmet_criteria'', JArr (map JStr unmet))])
            (if achieved
             then upd_goals (\<lambda>x. g_id x = gid \<and> g_status x = Verifying)
               (\<lambda>x. x\<lparr>g_status := Achieved, g_revision := g_revision x + 1, g_updated_at := now\<rparr>) s
             else s))))))"

definition verify_goal :: "int \<Rightarrow> string \<Rightarrow> string \<Rightarrow> db \<Rightarrow> goal_verification_report run" where
  "verify_goal now gid actor s =
     (case verify_tx now gid actor s of
        Inl e \<Rightarrow> (Inl e, s)
      | Inr ((achieved, unmet), t) \<Rightarrow>
          (and_then (reload_goal t gid) (\<lambda>g.
             Inr \<lparr>vr_goal = g, vr_achieved = achieved, vr_unmet = unmet\<rparr>), t))"

definition record_manual_verification ::
  "int \<Rightarrow> string \<Rightarrow> string \<Rightarrow> string \<Rightarrow> db \<Rightarrow> goal_record run" where
  "record_manual_verification now gid label0 actor s = commit_goal gid
     (let label = trim label0
      in ensure_valid_id gid ''goal id''
        (ensure (label \<noteq> [] \<and> length label \<le> 160) (Goal ManualLabel)
        (fetch (find_goal s gid) (Goal GoalNotFound) (\<lambda>g.
         ensure (g_status g \<in> {Verifying, Achieved}) (Goal ManualNotReady)
        (fetch (latest_workflow s gid) (Goal WorkflowRowMissing) (\<lambda>p.
         ensure (ManualApproval label \<in> set (p_acceptance p)) (Goal ManualLabelUnknown)
        (Inr ((),
           if list_ex (\<lambda>m. m_goal_id m = gid \<and> m_label m = label) (manuals s) then s
           else insert_event now gid ''goal.manual_verified'' actor (JObj [(''label'', JStr label)])
             (s\<lparr>manuals := manuals s @
                [\<lparr>m_goal_id = gid, m_label = label, m_actor = actor, m_created_at = now\<rparr>]\<rparr>))))))))) s"

section \<open>The execution budget\<close>

definition find_budget :: "db \<Rightarrow> string \<Rightarrow> budget_row option" where
  "find_budget s gid = find (\<lambda>b. b_goal_id b = gid) (budgets s)"

definition reserve_provider_call ::
  "int \<Rightarrow> string \<Rightarrow> db \<Rightarrow> provider_budget_reservation run" where
  "reserve_provider_call now gid s =
     (case ensure_valid_id gid ''goal id''
        (fetch (find_budget s gid) (Goal BudgetMissing) (\<lambda>b.
         let deadline_at = (case b_started_at b of None \<Rightarrow> now | Some t \<Rightarrow> t) + b_deadline_secs b
         in ensure (now \<le> deadline_at) (Goal DeadlineExhausted)
           (ensure (b_provider_calls b < b_max_provider_calls b) (Goal CallBudgetExhausted)
           (Inr (b, deadline_at))))) of
        Inl e \<Rightarrow> (Inl e, s)
      | Inr (b, deadline_at) \<Rightarrow>
          (fetch (try_u 32 (b_max_provider_calls b - b_provider_calls b - 1)) (Goal RemainingCallsRange) (\<lambda>calls.
           fetch (try_u 32 (b_max_response_bytes b - b_response_bytes b)) (Goal RemainingBytesRange) (\<lambda>bytes.
           Inr \<lparr>pb_deadline_at = deadline_at, pb_remaining_calls = calls, pb_remaining_bytes = bytes\<rparr>)),
           s\<lparr>budgets := update_where
               (\<lambda>x. b_goal_id x = gid \<and> b_provider_calls x < b_max_provider_calls x)
               (\<lambda>x. x\<lparr>b_provider_calls := b_provider_calls x + 1,
                      b_started_at := Some (case b_started_at x of None \<Rightarrow> now | Some t \<Rightarrow> t),
                      b_updated_at := now\<rparr>) (budgets s)\<rparr>))"

definition record_provider_response_bytes :: "int \<Rightarrow> string \<Rightarrow> nat \<Rightarrow> db \<Rightarrow> unit tx" where
  "record_provider_response_bytes now gid bytes s =
     (let fits = (\<lambda>b. b_goal_id b = gid \<and> b_response_bytes b + int bytes \<le> b_max_response_bytes b)
      in ensure_valid_id gid ''goal id''
        (ensure (count_where fits (budgets s) = 1) (Goal ByteBudgetExhausted)
        (Inr ((), s\<lparr>budgets := update_where fits
            (\<lambda>b. b\<lparr>b_response_bytes := b_response_bytes b + int bytes, b_updated_at := now\<rparr>)
            (budgets s)\<rparr>))))"

end
