(* ===== verification/Loop_Attempts.thy ===== *)
theory Loop_Attempts
  imports Loop_Goals
begin

text \<open>
  The work side of the store (\<open>src/harness/loop_engine/store.rs\<close>): claiming, the checkpoint
  protocol, the ways an attempt ends, the operator's verdict on parked items, requeueing, phase
  progress and the dynamic extension of an approved workflow. Every operation a worker calls
  first checks that its claim is current.
\<close>

section \<open>Claiming\<close>

definition claimable :: "int \<Rightarrow> string \<Rightarrow> string option \<Rightarrow> db \<Rightarrow> work_item_row \<Rightarrow> bool" where
  "claimable now gid step s w \<longleftrightarrow>
     w_goal_id w = gid \<and> (case step of None \<Rightarrow> True | Some sid \<Rightarrow> w_step_id w = sid) \<and>
     w_status w = Ready \<and>
     (case w_next_attempt_at w of None \<Rightarrow> True | Some t \<Rightarrow> t \<le> now) \<and>
     int (attempt_count s (w_id w)) < w_max_attempts w"

definition select_claim :: "int \<Rightarrow> string \<Rightarrow> string option \<Rightarrow> db \<Rightarrow> work_item_row option" where
  "select_claim now gid step s =
     (case step of
        Some _ \<Rightarrow> find (claimable now gid step s) (work_items s)
      | None \<Rightarrow> first_row (select_ordered (\<lambda>w. (w_ordinal w, w_id w)) (claimable now gid step s) (work_items s)))"

text \<open>The three ways one round of the claim loop ends.\<close>

datatype claim_round =
    NoWork
  | LostRace
  | Won work_item_record int int execution_budget

definition new_attempt_row ::
  "int \<Rightarrow> string \<Rightarrow> string \<Rightarrow> string \<Rightarrow> int \<Rightarrow> string \<Rightarrow> string \<Rightarrow> int \<Rightarrow> attempt_row" where
  "new_attempt_row now aid gid wid number worker lease fencing =
     \<lparr>a_id = aid, a_goal_id = gid, a_work_item_id = wid, a_number = number,
      a_status = AttemptRunning, a_worker_id = worker, a_lease_token = lease,
      a_fencing = fencing, a_started_at = now, a_finished_at = None, a_error = None\<rparr>"

definition claim_tx ::
  "int \<Rightarrow> string \<Rightarrow> string \<Rightarrow> string \<Rightarrow> string option \<Rightarrow> string \<Rightarrow> nat \<Rightarrow> string \<Rightarrow> db \<Rightarrow> claim_round tx" where
  "claim_tx now lease aid gid step worker lease_secs actor s =
     fetch (find_goal s gid) (Goal GoalNotFound) (\<lambda>g.
     ensure (g_status g \<in> {Approved, Active}) (Work GoalNotDispatchable)
    (ensure (step \<noteq> None \<or> \<not> g_internal_only g) (Work GoalInternalOnly)
    (case select_claim now gid step s of
       None \<Rightarrow> Inr (NoWork, s)
     | Some row \<Rightarrow>
         and_then (decode_work_item row) (\<lambda>item.
         fetch (find (\<lambda>p. p_id p = w_workflow_id row) (workflows s)) (Work ClaimWorkflowMissing) (\<lambda>p.
         let ready = (\<lambda>w. w_id w = w_id row \<and> w_status w = Ready);
             s1 = upd_items ready
                    (\<lambda>w. w\<lparr>w_status := Running, w_lease_token := Some lease,
                           w_lease_until := Some (now + int lease_secs),
                           w_fencing := w_fencing w + 1, w_updated_at := now\<rparr>) s
         in if count_where ready (work_items s) \<noteq> 1 then Inr (LostRace, s)
            else fetch (find_item s1 (w_id row)) (Work WorkItemNotFound) (\<lambda>w.
              let fencing = w_fencing w;
                  number = int (count_where (\<lambda>a. a_work_item_id a = w_id row) (attempts s)) + 1
              in ensure (list_all (\<lambda>a. a_id a \<noteq> aid \<and>
                           \<not> (a_work_item_id a = w_id row \<and> a_number a = number)) (attempts s))
                   (Goal (ConstraintFailed ''harness_attempts''))
                (Inr (Won item number fencing (wf_budget (p_workflow p)),
                   insert_event now gid ''work.claimed'' actor
                     (JObj [(''attempt_id'', JStr aid), (''fencing_token'', JInt fencing),
                            (''work_item_id'', JStr (w_id row)), (''worker_id'', JStr worker)])
                  (upd_goals (\<lambda>x. g_id x = gid \<and> g_status x = Approved)
                     (\<lambda>x. x\<lparr>g_status := Active, g_updated_at := now\<rparr>)
                  (s1\<lparr>attempts := attempts s1 @
                     [new_attempt_row now aid gid (w_id row) number worker lease fencing]\<rparr>))))))))))"

text \<open>The claim handed to the worker, built after the commit.\<close>

definition build_claim ::
  "int \<Rightarrow> string \<Rightarrow> string \<Rightarrow> string \<Rightarrow> string \<Rightarrow> nat \<Rightarrow> work_item_record \<Rightarrow> int \<Rightarrow> int \<Rightarrow>
    execution_budget \<Rightarrow> loop_error + work_claim" where
  "build_claim now lease aid gid worker lease_secs item number fencing budget =
     fetch (try_u 8 number) (Work AttemptNumberRange) (\<lambda>n.
     fetch (try_u 64 fencing) (Work FencingTokenRange) (\<lambda>f. Inr
       \<lparr>cl_work_item = item\<lparr>wr_status := Running\<rparr>,
        cl_attempt = \<lparr>ar_id = aid, ar_goal_id = gid, ar_work_item_id = wr_id item,
          ar_attempt_number = n, ar_status = AttemptRunning, ar_worker_id = worker,
          ar_lease_token = lease, ar_fencing_token = f, ar_started_at = now,
          ar_finished_at = None, ar_error = None\<rparr>,
        cl_lease_until = now + int lease_secs, cl_budget = budget\<rparr>))"

text \<open>The rounds of the loop, each with its clock reading and fresh lease and attempt ids.\<close>

fun claim_rounds ::
  "(int \<times> string \<times> string) list \<Rightarrow> string \<Rightarrow> string option \<Rightarrow> string \<Rightarrow> nat \<Rightarrow> string \<Rightarrow> db \<Rightarrow>
    work_claim option run" where
  "claim_rounds [] gid step worker lease_secs actor s = (Inr None, s)"
| "claim_rounds ((now, lease, aid) # rounds) gid step worker lease_secs actor s =
     (case claim_tx now lease aid gid step worker lease_secs actor s of
        Inl e \<Rightarrow> (Inl e, s)
      | Inr (NoWork, t) \<Rightarrow> (Inr None, t)
      | Inr (LostRace, t) \<Rightarrow> claim_rounds rounds gid step worker lease_secs actor s
      | Inr (Won item number fencing budget, t) \<Rightarrow>
          (and_then (build_claim now lease aid gid worker lease_secs item number fencing budget)
             (\<lambda>c. Inr (Some c)), t))"

definition claim_ready_work_item ::
  "env \<Rightarrow> int \<Rightarrow> int \<Rightarrow> (string \<Rightarrow> string) \<Rightarrow> (int \<times> string \<times> string) list \<Rightarrow> string \<Rightarrow> string option \<Rightarrow>
    string \<Rightarrow> nat \<Rightarrow> string \<Rightarrow> db \<Rightarrow> work_claim option run" where
  "claim_ready_work_item E now later sid rounds gid step worker lease_secs actor s =
     (case ensure_valid_id gid ''goal id'' (Inr ()) of
        Inl e \<Rightarrow> (Inl e, s)
      | Inr _ \<Rightarrow>
          (case recover_goal_state E now later sid gid actor s of
             (Inl e, s1) \<Rightarrow> (Inl e, s1)
           | (Inr _, s1) \<Rightarrow> claim_rounds (take 3 rounds) gid step worker lease_secs actor s1))"

definition claim_work_item ::
  "env \<Rightarrow> int \<Rightarrow> int \<Rightarrow> (string \<Rightarrow> string) \<Rightarrow> (int \<times> string \<times> string) list \<Rightarrow> string \<Rightarrow> string \<Rightarrow>
    string \<Rightarrow> nat \<Rightarrow> string \<Rightarrow> db \<Rightarrow> work_claim option run" where
  "claim_work_item E now later sid rounds gid step worker lease_secs actor s =
     (case ensure_valid_id step ''step id'' (Inr ()) of
        Inl e \<Rightarrow> (Inl e, s)
      | Inr _ \<Rightarrow> claim_ready_work_item E now later sid rounds gid (Some step) worker lease_secs actor s)"

section \<open>The checkpoint protocol\<close>

definition prepare_checkpoint ::
  "int \<Rightarrow> string \<Rightarrow> work_claim \<Rightarrow> string \<Rightarrow> bool \<Rightarrow> string \<Rightarrow> db \<Rightarrow> checkpoint_record tx" where
  "prepare_checkpoint now cid cl key replay_safe actor s =
     ensure (text_ok 200 key) (Work IdempotencyKeyLength)
     (and_then (ensure_claim_current now cl s) (\<lambda>_.
      case find (\<lambda>c. c_work_item_id c = wr_id (cl_work_item cl) \<and> c_idempotency_key c = key)
             (checkpoints s) of
        Some c \<Rightarrow>
          ensure (c_attempt_id c = ar_id (cl_attempt cl)) (Work IdempotencyKeyTaken)
          (Inr (decode_checkpoint c, s))
      | None \<Rightarrow>
          ensure (list_all (\<lambda>c. c_id c \<noteq> cid) (checkpoints s))
            (Goal (ConstraintFailed ''harness_checkpoints''))
          (let row = \<lparr>c_id = cid, c_goal_id = ar_goal_id (cl_attempt cl),
                      c_work_item_id = wr_id (cl_work_item cl), c_attempt_id = ar_id (cl_attempt cl),
                      c_phase = Prepared, c_idempotency_key = key, c_replay_safe = replay_safe,
                      c_outcome = None, c_created_at = now, c_updated_at = now\<rparr>;
               t = insert_event now (ar_goal_id (cl_attempt cl)) ''checkpoint.prepared'' actor
                     (JObj [(''attempt_id'', JStr (ar_id (cl_attempt cl))), (''checkpoint_id'', JStr cid)])
                     (s\<lparr>checkpoints := checkpoints s @ [row]\<rparr>)
           in and_then (load_checkpoint_tx t cid) (\<lambda>c. Inr (c, t)))))"

definition renew_claim :: "int \<Rightarrow> work_claim \<Rightarrow> nat \<Rightarrow> db \<Rightarrow> int tx" where
  "renew_claim now cl lease_secs s =
     ensure (1 \<le> lease_secs \<and> lease_secs \<le> 3600) (Work LeaseDuration)
     (fetch (try_i64 (ar_fencing_token (cl_attempt cl))) (Work FencingTokenRange) (\<lambda>fencing.
      let held = (\<lambda>w. w_id w = wr_id (cl_work_item cl) \<and> w_status w = Running \<and>
                   w_lease_token w = Some (ar_lease_token (cl_attempt cl)) \<and> w_fencing w = fencing \<and>
                   (case w_lease_until w of None \<Rightarrow> False | Some u \<Rightarrow> now \<le> u));
          lease_until = now + int lease_secs
      in ensure (count_where held (work_items s) = 1) (Work RenewStale)
        (Inr (lease_until,
           upd_items held (\<lambda>w. w\<lparr>w_lease_until := Some lease_until, w_updated_at := now\<rparr>) s))))"

definition commit_checkpoint ::
  "int \<Rightarrow> work_claim \<Rightarrow> string \<Rightarrow> work_outcome \<Rightarrow> string \<Rightarrow> db \<Rightarrow> checkpoint_record tx" where
  "commit_checkpoint now cl cid outcome actor s =
     ensure_valid_id cid ''checkpoint id''
     (and_then (ensure_claim_current now cl s) (\<lambda>_.
      and_then (load_checkpoint_tx s cid) (\<lambda>current.
      ensure (cr_attempt_id current = ar_id (cl_attempt cl)) (Work CheckpointOfOther)
     (if cr_phase current = Committed
      then ensure (cr_outcome current = Some outcome) (Work CommittedDifferently) (Inr (current, s))
      else ensure (cr_phase current = Prepared) (Work CheckpointNotPrepared)
       (let same = (\<lambda>c. c_id c = cid \<and> c_phase c = Prepared \<and> c_attempt_id c = ar_id (cl_attempt cl));
            t = insert_event now (ar_goal_id (cl_attempt cl)) ''checkpoint.committed'' actor
                  (JObj [(''checkpoint_id'', JStr cid)])
               (upd_attempts (\<lambda>a. a_id a = ar_id (cl_attempt cl) \<and> a_status a = AttemptRunning)
                  (\<lambda>a. a\<lparr>a_status := Committing\<rparr>)
               (upd_checkpoints same
                  (\<lambda>c. c\<lparr>c_phase := Committed, c_outcome := Some outcome, c_updated_at := now\<rparr>) s))
        in ensure (count_where same (checkpoints s) = 1) (Work CheckpointChanged)
          (and_then (load_checkpoint_tx t cid) (\<lambda>c. Inr (c, t))))))))"

definition finish_tx :: "int \<Rightarrow> work_claim \<Rightarrow> string \<Rightarrow> string \<Rightarrow> db \<Rightarrow> unit tx" where
  "finish_tx now cl cid actor s =
     (let gid = ar_goal_id (cl_attempt cl)
      in and_then (ensure_claim_current now cl s) (\<lambda>_.
         and_then (load_checkpoint_tx s cid) (\<lambda>c.
         ensure (cr_attempt_id c = ar_id (cl_attempt cl) \<and> cr_phase c = Committed)
           (Work NoCommittedCheckpoint)
        (and_then (reconcile_checkpoint_tx now c s) (\<lambda>s1.
         Inr ((),
           insert_event now gid ''attempt.finished'' actor
             (JObj [(''attempt_id'', JStr (ar_id (cl_attempt cl))), (''checkpoint_id'', JStr cid)])
          (refresh_goal_status_tx now gid (snd (unlock_ready_work_tx now gid s1)))))))))"

definition finish_attempt ::
  "env \<Rightarrow> int \<Rightarrow> int \<Rightarrow> int \<Rightarrow> (string \<Rightarrow> string) \<Rightarrow> work_claim \<Rightarrow> string \<Rightarrow> string \<Rightarrow> db \<Rightarrow> resume_report run" where
  "finish_attempt E now now2 later sid cl cid actor s =
     then_resume E now2 later sid (ar_goal_id (cl_attempt cl)) actor
       (in_tx (finish_tx now cl cid actor s) s)"

section \<open>Failing\<close>

text \<open>
  The recursive query over the dependency table: the direct dependents, and one round of its
  recursive member. It reaches its fixed point after at most as many rounds as there are rows.
\<close>

definition dependents :: "dependency_row list \<Rightarrow> string \<Rightarrow> string list" where
  "dependents ds wid = map d_work_item (filter (\<lambda>d. d_depends_on d = wid) ds)"

definition downstream_round :: "dependency_row list \<Rightarrow> string list \<Rightarrow> string list" where
  "downstream_round ds xs =
     remdups (xs @ map d_work_item (filter (\<lambda>d. d_depends_on d \<in> set xs) ds))"

definition downstream :: "dependency_row list \<Rightarrow> string \<Rightarrow> string list" where
  "downstream ds wid = (downstream_round ds ^^ length ds) (dependents ds wid)"

definition fail_tx :: "int \<Rightarrow> work_claim \<Rightarrow> string \<Rightarrow> bool \<Rightarrow> string \<Rightarrow> db \<Rightarrow> unit tx" where
  "fail_tx now cl error0 retryable actor s =
     (let error = chars_take 2000 error0; gid = ar_goal_id (cl_attempt cl);
          wid = wr_id (cl_work_item cl)
      in and_then (ensure_claim_current now cl s) (\<lambda>_.
         fetch (find_item s wid) (Work WorkItemNotFound) (\<lambda>w.
         let will_retry = (retryable \<and> int (attempt_count s wid) < w_max_attempts w);
             s1 = upd_attempts (\<lambda>a. a_id a = ar_id (cl_attempt cl) \<and> live_attempt a)
                    (\<lambda>a. a\<lparr>a_status := AttemptFailed, a_finished_at := Some now, a_error := Some error\<rparr>) s;
             s2 = upd_items (\<lambda>x. w_id x = wid \<and> w_status x = Running)
                    (\<lambda>x. x\<lparr>w_status := (if will_retry then Ready else Failed),
                           w_lease_token := None, w_lease_until := None,
                           w_next_attempt_at := (if will_retry then Some (now + w_backoff_secs w) else None),
                           w_last_error := Some error, w_updated_at := now\<rparr>) s1;
             s3 = (if will_retry then s2
                   else upd_items (\<lambda>x. w_id x \<in> set (downstream (deps s2) wid) \<and>
                                       w_status x \<in> {Pending, Ready})
                          (\<lambda>x. x\<lparr>w_status := Blocked, w_updated_at := now\<rparr>) s2)
         in Inr ((),
              insert_event now gid ''attempt.failed'' actor
                (JObj [(''attempt_id'', JStr (ar_id (cl_attempt cl))), (''error'', JStr error),
                       (''retryable'', JBool retryable), (''will_retry'', JBool will_retry)])
             (refresh_goal_status_tx now gid s3)))))"

definition fail_attempt ::
  "env \<Rightarrow> int \<Rightarrow> int \<Rightarrow> int \<Rightarrow> (string \<Rightarrow> string) \<Rightarrow> work_claim \<Rightarrow> string \<Rightarrow> bool \<Rightarrow> string \<Rightarrow> db \<Rightarrow>
    resume_report run" where
  "fail_attempt E now now2 later sid cl error retryable actor s =
     then_resume E now2 later sid (ar_goal_id (cl_attempt cl)) actor
       (in_tx (fail_tx now cl error retryable actor s) s)"

section \<open>Yielding\<close>

text \<open>The two statements every yield shares: voiding prepared checkpoints and the attempt.\<close>

definition void_prepared :: "int \<Rightarrow> string \<Rightarrow> db \<Rightarrow> db" where
  "void_prepared now aid =
     upd_checkpoints (\<lambda>c. c_phase c = Prepared \<and> c_attempt_id c = aid)
       (\<lambda>c. c\<lparr>c_phase := Voided, c_updated_at := now\<rparr>)"

definition void_attempt :: "int \<Rightarrow> string \<Rightarrow> string \<Rightarrow> db \<Rightarrow> db" where
  "void_attempt now aid error =
     upd_attempts (\<lambda>a. a_id a = aid \<and> live_attempt a)
       (\<lambda>a. a\<lparr>a_status := Void, a_finished_at := Some now, a_error := Some error\<rparr>)"

definition block_work_item ::
  "int \<Rightarrow> work_claim \<Rightarrow> string \<Rightarrow> string \<Rightarrow> db \<Rightarrow> work_item_record run" where
  "block_work_item now cl reason0 actor s =
     (let reason = chars_take 2000 reason0; wid = wr_id (cl_work_item cl);
          aid = ar_id (cl_attempt cl);
          running = (\<lambda>w. w_id w = wid \<and> w_status w = Running)
      in case and_then (ensure_claim_current now cl s) (\<lambda>_.
           ensure (count_where running (work_items s) = 1) (Work WorkItemNotRunning)
          (Inr (insert_event now (ar_goal_id (cl_attempt cl)) ''work.blocked'' actor
                 (JObj [(''attempt_id'', JStr aid), (''handler'', JStr (wr_handler (cl_work_item cl))),
                        (''reason'', JStr reason), (''work_item_id'', JStr wid)])
               (upd_items running
                 (\<lambda>w. w\<lparr>w_status := Blocked, w_lease_token := None, w_lease_until := None,
                        w_next_attempt_at := None, w_last_error := Some reason, w_updated_at := now\<rparr>)
               (void_attempt now aid reason (void_prepared now aid s)))))) of
           Inl e \<Rightarrow> (Inl e, s)
         | Inr t \<Rightarrow> (fetch (find_item t wid) (Work WorkItemNotFound) decode_work_item, t))"

definition requeue_blocked_items ::
  "int \<Rightarrow> string \<Rightarrow> string \<Rightarrow> string list \<Rightarrow> string \<Rightarrow> db \<Rightarrow> nat tx" where
  "requeue_blocked_items now gid reason_prefix handlers actor s =
     ensure_valid_id gid ''goal id''
     (ensure (length reason_prefix \<le> 120) (Work ReasonPrefixLength)
     (if handlers = [] then Inr (0, s)
      else ensure (length handlers \<le> 64) (Work HandlerListLength)
       (let matches = (\<lambda>w. w_goal_id w = gid \<and> w_status w = Blocked \<and>
              (case w_last_error w of None \<Rightarrow> False | Some e \<Rightarrow> like_prefix reason_prefix e) \<and>
              w_handler w \<in> set handlers);
            requeued = count_where matches (work_items s);
            t = upd_items matches
                  (\<lambda>w. w\<lparr>w_status := Ready, w_next_attempt_at := None, w_last_error := None,
                         w_updated_at := now\<rparr>) s
        in Inr (requeued,
             if 0 < requeued
             then insert_event now gid ''work.requeued'' actor
                    (JObj [(''reason_prefix'', JStr reason_prefix),
                           (''requeued_work_items'', JInt (int requeued))]) t
             else t))))"

definition defer_tx :: "int \<Rightarrow> work_claim \<Rightarrow> int \<Rightarrow> string \<Rightarrow> db \<Rightarrow> unit tx" where
  "defer_tx now cl until actor s =
     (let wid = wr_id (cl_work_item cl); aid = ar_id (cl_attempt cl)
      in ensure (0 < until) (Work DeferTime)
        (and_then (ensure_claim_current now cl s) (\<lambda>_. Inr ((),
           insert_event now (ar_goal_id (cl_attempt cl)) ''attempt.deferred'' actor
             (JObj [(''attempt_id'', JStr aid), (''until_unix'', JInt until), (''work_item_id'', JStr wid)])
          (upd_items (\<lambda>w. w_id w = wid \<and> w_status w = Running)
             (\<lambda>w. w\<lparr>w_status := Ready, w_lease_token := None, w_lease_until := None,
                    w_next_attempt_at := Some until, w_last_error := None, w_updated_at := now\<rparr>)
          (void_attempt now aid (''deferred until '' @ dec_int until) (void_prepared now aid s)))))))"

definition defer_attempt ::
  "env \<Rightarrow> int \<Rightarrow> int \<Rightarrow> int \<Rightarrow> (string \<Rightarrow> string) \<Rightarrow> work_claim \<Rightarrow> int \<Rightarrow> string \<Rightarrow> db \<Rightarrow> resume_report run" where
  "defer_attempt E now now2 later sid cl until actor s =
     then_resume E now2 later sid (ar_goal_id (cl_attempt cl)) actor
       (in_tx (defer_tx now cl until actor s) s)"

definition next_phase_progress ::
  "string \<Rightarrow> work_continuation \<Rightarrow> db \<Rightarrow> loop_error + work_phase_progress" where
  "next_phase_progress wid k s =
     fetch (find_item s wid) (Work WorkItemNotFound) (\<lambda>w.
     let continues = min (2 ^ 32 - 1) ((case w_progress w of None \<Rightarrow> 0 | Some p \<Rightarrow> pr_continues p) + 1)
     in ensure (continues \<le> max_phase_continues) (Work PhaseBudgetExhausted)
       (Inr \<lparr>pr_phase = co_phase k, pr_state = co_state k, pr_continues = continues\<rparr>))"

definition record_phase_progress ::
  "crates \<Rightarrow> int \<Rightarrow> work_claim \<Rightarrow> work_continuation \<Rightarrow> string \<Rightarrow> db \<Rightarrow> work_phase_progress tx" where
  "record_phase_progress c now cl k actor s =
     (let wid = wr_id (cl_work_item cl)
      in and_then (continuation_validate c k) (\<lambda>_.
         and_then (ensure_claim_current now cl s) (\<lambda>_.
         and_then (next_phase_progress wid k s) (\<lambda>p. Inr (p,
           insert_event now (ar_goal_id (cl_attempt cl)) ''attempt.phase_progressed'' actor
             (JObj [(''attempt_id'', JStr (ar_id (cl_attempt cl))),
                    (''continues'', JInt (int (pr_continues p))), (''phase'', JStr (pr_phase p)),
                    (''work_item_id'', JStr wid)])
          (upd_items (\<lambda>w. w_id w = wid)
             (\<lambda>w. w\<lparr>w_progress := Some p, w_updated_at := now\<rparr>) s))))))"

definition continue_tx ::
  "crates \<Rightarrow> int \<Rightarrow> work_claim \<Rightarrow> work_continuation \<Rightarrow> string \<Rightarrow> db \<Rightarrow> unit tx" where
  "continue_tx c now cl k actor s =
     (let wid = wr_id (cl_work_item cl); aid = ar_id (cl_attempt cl);
          until = map_option (\<lambda>d. sat_i64 (now + int d)) (co_delay_secs k);
          running = (\<lambda>w. w_id w = wid \<and> w_status w = Running)
      in and_then (continuation_validate c k) (\<lambda>_.
         and_then (ensure_claim_current now cl s) (\<lambda>_.
         and_then (next_phase_progress wid k s) (\<lambda>p.
         ensure (count_where running (work_items s) = 1) (Work ContinuedNotRunning)
        (Inr ((),
           insert_event now (ar_goal_id (cl_attempt cl)) ''attempt.continued'' actor
             (JObj [(''attempt_id'', JStr aid), (''continues'', JInt (int (pr_continues p))),
                    (''phase'', JStr (pr_phase p)), (''until_unix'', opt_int until),
                    (''work_item_id'', JStr wid)])
          (upd_items running
             (\<lambda>w. w\<lparr>w_status := Ready, w_lease_token := None, w_lease_until := None,
                    w_next_attempt_at := until, w_progress := Some p, w_last_error := None,
                    w_updated_at := now\<rparr>)
          (void_attempt now aid (''continued: '' @ co_phase k) (void_prepared now aid s)))))))))"

definition continue_attempt ::
  "env \<Rightarrow> int \<Rightarrow> int \<Rightarrow> int \<Rightarrow> (string \<Rightarrow> string) \<Rightarrow> work_claim \<Rightarrow> work_continuation \<Rightarrow> string \<Rightarrow> db \<Rightarrow>
    resume_report run" where
  "continue_attempt E now now2 later sid cl k actor s =
     then_resume E now2 later sid (ar_goal_id (cl_attempt cl)) actor
       (in_tx (continue_tx (env_crates E) now cl k actor s) s)"

section \<open>Outcomes\<close>

definition has_outcome :: "checkpoint_row \<Rightarrow> bool" where
  "has_outcome c \<longleftrightarrow> c_phase c \<in> {Committed, Reconciled} \<and> c_outcome c \<noteq> None"

definition work_item_outcome :: "db \<Rightarrow> string \<Rightarrow> work_outcome option" where
  "work_item_outcome s wid =
     Option.bind (last_row (select_ordered (\<lambda>c. (c_updated_at c, c_id c))
       (\<lambda>c. c_work_item_id c = wid \<and> has_outcome c) (checkpoints s))) c_outcome"

definition upstream_outcomes :: "db \<Rightarrow> string \<Rightarrow> (string \<times> work_outcome) list" where
  "upstream_outcomes s wid =
     List.map_filter (\<lambda>dep. Option.bind (find_item s dep) (\<lambda>w.
         map_option (\<lambda>x. (w_step_id w, x)) (work_item_outcome s dep)))
       (remdups (map d_depends_on (filter (\<lambda>d. d_work_item d = wid) (deps s))))"

section \<open>The operator's verdict\<close>

definition confirmed_outcome :: "string \<Rightarrow> work_outcome" where
  "confirmed_outcome reason =
     \<lparr>wo_summary = ''operator confirmed external delivery: '' @ reason, wo_artifact_ids = [],
      wo_evidence = JObj [(''confirmation'', JStr ''operator''), (''reason'', JStr reason),
                          (''resolution'', JStr ''confirmed'')],
      wo_sleep_until = None, wo_continuation = None\<rparr>"

text \<open>The three branches of the \<open>match\<close> on the resolution.\<close>

definition resolve_checkpoint ::
  "int \<Rightarrow> confirmation_resolution \<Rightarrow> string \<Rightarrow> string \<Rightarrow> db \<Rightarrow> db" where
  "resolve_checkpoint now res reason cid s =
     (case res of
        Confirmed \<Rightarrow>
          upd_checkpoints (\<lambda>c. c_id c = cid \<and> c_phase c = Committed)
            (\<lambda>c. c\<lparr>c_phase := Reconciled, c_updated_at := now\<rparr>)
         (upd_checkpoints (\<lambda>c. c_id c = cid \<and> c_phase c = Prepared)
            (\<lambda>c. c\<lparr>c_phase := Committed, c_outcome := Some (confirmed_outcome reason),
                   c_updated_at := now\<rparr>) s)
      | _ \<Rightarrow>
          upd_checkpoints (\<lambda>c. c_id c = cid \<and> c_phase c = Prepared)
            (\<lambda>c. c\<lparr>c_phase := Voided, c_updated_at := now\<rparr>) s)"

definition resolve_attempt ::
  "int \<Rightarrow> confirmation_resolution \<Rightarrow> string \<Rightarrow> string \<Rightarrow> db \<Rightarrow> db" where
  "resolve_attempt now res reason aid =
     upd_attempts (\<lambda>a. a_id a = aid \<and> a_status a = AttemptWaiting)
       (\<lambda>a. a\<lparr>a_status := (case res of Confirmed \<Rightarrow> AttemptSucceeded | Retry \<Rightarrow> Abandoned
                               | ResolveAbandoned \<Rightarrow> AttemptFailed),
              a_finished_at := Some now,
              a_error := (case res of Confirmed \<Rightarrow> None
                | Retry \<Rightarrow> Some (''operator: effect not delivered, retry authorized ('' @ reason @ '')'')
                | ResolveAbandoned \<Rightarrow> Some (''operator abandoned: '' @ reason))\<rparr>)"

definition resolve_item_fields ::
  "int \<Rightarrow> confirmation_resolution \<Rightarrow> string \<Rightarrow> bool \<Rightarrow> work_item_status \<times> int option \<times> string option" where
  "resolve_item_fields now res reason exhausted =
     (case res of
        Confirmed \<Rightarrow> (Succeeded, None, None)
      | Retry \<Rightarrow>
          if exhausted then (Failed, None, Some ''attempt budget exhausted after operator retry'')
          else (Ready, Some now, Some (''retry authorized: '' @ reason))
      | ResolveAbandoned \<Rightarrow> (Failed, None, Some (''operator abandoned: '' @ reason)))"

definition resolve_item ::
  "int \<Rightarrow> confirmation_resolution \<Rightarrow> string \<Rightarrow> bool \<Rightarrow> string \<Rightarrow> db \<Rightarrow> db" where
  "resolve_item now res reason exhausted wid =
     (case resolve_item_fields now res reason exhausted of (status, next_at, last_error) \<Rightarrow>
        upd_items (\<lambda>w. w_id w = wid \<and> w_status w = WaitingConfirmation)
          (\<lambda>w. w\<lparr>w_status := status, w_lease_token := None, w_lease_until := None,
                 w_next_attempt_at := next_at, w_last_error := last_error, w_updated_at := now\<rparr>))"

definition resolve_tx ::
  "int \<Rightarrow> string \<Rightarrow> string \<Rightarrow> confirmation_resolution \<Rightarrow> string \<Rightarrow> string \<Rightarrow> db \<Rightarrow> unit tx" where
  "resolve_tx now gid wid res reason0 actor s =
     (let reason = trim reason0
      in ensure_valid_id gid ''goal id''
        (ensure_valid_id wid ''work item id''
        (ensure (reason \<noteq> [] \<and> length reason \<le> 512) (Work ConfirmationReason)
        (fetch (find (\<lambda>w. w_id w = wid \<and> w_goal_id w = gid) (work_items s)) (Work WorkItemNotFound) (\<lambda>row.
         and_then (decode_work_item row) (\<lambda>item.
         ensure (wr_status item = WaitingConfirmation) (Work NotAwaitingConfirmation)
        (fetch (last_row (select_ordered a_number
                  (\<lambda>a. a_work_item_id a = wid \<and> a_status a = AttemptWaiting) (attempts s)))
           (Work NoParkedAttempt) (\<lambda>arow.
         and_then (decode_attempt arow) (\<lambda>attempt.
         fetch (last_row (filter (\<lambda>c. c_attempt_id c = ar_id attempt \<and> c_phase c = Prepared) (checkpoints s)))
           (Work NoPreparedCheckpoint) (\<lambda>crow.
         ensure (wr_effect item = ExternalWrite \<or> \<not> c_replay_safe crow) (Work EffectNotAmbiguous)
        (let s1 = resolve_attempt now res reason (ar_id attempt)
                    (resolve_checkpoint now res reason (c_id crow) s);
             exhausted = (wr_max_attempts item \<le> int (attempt_count s1 wid));
             s2 = resolve_item now res reason exhausted wid s1
         in Inr ((),
              insert_event now gid ''confirmation.resolved'' actor
                (JObj [(''attempt_id'', JStr (ar_id attempt)), (''checkpoint_id'', JStr (c_id crow)),
                       (''reason'', JStr reason), (''resolution'', JStr (resolution_as_str res)),
                       (''work_item_id'', JStr wid)])
             (refresh_goal_status_tx now gid (snd (unlock_ready_work_tx now gid s2)))))))))))))))"

text \<open>After the commit the gate's own signal is triaged out; a failure to do so is ignored.\<close>

definition pending_confirmation_signal :: "db \<Rightarrow> string \<Rightarrow> string option" where
  "pending_confirmation_signal s wid =
     map_option s_id (last_row (select_ordered s_created_at
       (\<lambda>x. s_source x = ''internal:confirmation'' \<and> s_external_id x = Some (''confirm:'' @ wid) \<and>
            signal_status_of s (s_id x) \<in> {Observed, Triaged}) (signals s)))"

definition resolve_waiting_confirmation ::
  "int \<Rightarrow> int \<Rightarrow> string \<Rightarrow> string \<Rightarrow> confirmation_resolution \<Rightarrow> string \<Rightarrow> string \<Rightarrow> db \<Rightarrow> work_item_record run" where
  "resolve_waiting_confirmation now later gid wid res reason actor s =
     (case resolve_tx now gid wid res reason actor s of
        Inl e \<Rightarrow> (Inl e, s)
      | Inr (_, t) \<Rightarrow>
          (let t1 = (case pending_confirmation_signal t wid of
                       None \<Rightarrow> t
                     | Some sid \<Rightarrow> snd (in_tx (ignore_signal later sid ''confirmation resolved'' actor t) t))
           in (fetch (find_item t1 wid) (Work WorkItemNotFound) decode_work_item, t1)))"

end
