(* ===== verification/Loop_Extend.thy ===== *)
theory Loop_Extend
  imports Loop_Attempts
begin

text \<open>
  Dynamic extension of an approved workflow (\<open>extend_workflow\<close> of
  \<open>src/harness/loop_engine/store.rs\<close>): internal actors append steps within the bounds of the
  expansion marker the approved plan declared; dependencies name steps that already exist.
\<close>

fun check_extension_steps ::
  "crates \<Rightarrow> external_write_policy \<Rightarrow> effect_class list \<Rightarrow> string list \<Rightarrow> workflow_step list \<Rightarrow>
    loop_error + unit" where
  "check_extension_steps c p manifest seen [] = Inr ()"
| "check_extension_steps c p manifest seen (s # ss) =
     ensure (text_ok 96 (step_id s)) (Domain StepIdLength)
     (ensure (step_id s \<notin> set seen) (Domain DuplicateStepId)
     (ensure (step_handler s \<in> set allowed_workflow_handlers)
        (Domain (UnregisteredHandler (step_handler s)))
     (ensure (step_effect s \<noteq> ExternalWrite \<or> ew_allows p (step_handler s))
        (Domain (ExternalWriteRefused (step_handler s)))
     (ensure (step_effect s \<in> set manifest) (Work EffectOutsideManifest)
     (ensure (1 \<le> max_attempts (step_retry s) \<and> max_attempts (step_retry s) \<le> 10)
        (Domain MaxAttemptsRange)
     (ensure (backoff_secs (step_retry s) \<le> 3600) (Domain BackoffRange)
     (ensure (length (json_text c (step_input s)) \<le> 8192) (Domain StepInputSize)
     (check_extension_steps c p manifest (seen @ [step_id s]) ss))))))))"

definition declared_deps :: "workflow_step \<Rightarrow> string list" where
  "declared_deps s =
     (case Option.bind (json_get ''depends_on'' (step_input s)) as_array of
        None \<Rightarrow> [] | Some vs \<Rightarrow> List.map_filter as_string vs)"

fun check_deps :: "string list \<Rightarrow> string \<Rightarrow> string list \<Rightarrow> loop_error + unit" where
  "check_deps known sid [] = Inr ()"
| "check_deps known sid (d # ds) =
     ensure (d \<in> set known) (Work (UnknownDependency d))
     (ensure (d \<noteq> sid) (Work SelfDependencyExtended) (check_deps known sid ds))"

text \<open>\<open>known\<close> are the steps already materialized and the earlier steps of the batch.\<close>

fun collect_deps :: "string list \<Rightarrow> workflow_step list \<Rightarrow> loop_error + string list list" where
  "collect_deps known [] = Inr []"
| "collect_deps known (s # ss) =
     ensure (length (declared_deps s) \<le> 16) (Work TooManyDependencies)
     (and_then (check_deps known (step_id s) (declared_deps s)) (\<lambda>_.
      and_then (collect_deps (known @ [step_id s]) ss) (\<lambda>rest. Inr (declared_deps s # rest))))"

definition expansion_root :: "workflow_spec \<Rightarrow> workflow_step option" where
  "expansion_root w =
     find (\<lambda>s. Option.bind (json_get ''swarm_root'' (step_input s)) as_bool = Some True) (wf_steps w)"

definition extension_rows ::
  "int \<Rightarrow> (nat \<Rightarrow> string) \<Rightarrow> string \<Rightarrow> string \<Rightarrow> int \<Rightarrow> workflow_step list \<Rightarrow> work_item_row list" where
  "extension_rows now wid gid workflow_id max_ordinal steps =
     map (\<lambda>(i, s). new_item_row now (wid i) gid workflow_id
            (if declared_deps s = [] then Ready else Pending) s (max_ordinal + 1 + int i))
       (enumerate 0 steps)"

text \<open>A dependency names a step of the batch, or else the first item of the goal with that step id.\<close>

definition resolve_dep ::
  "string \<Rightarrow> work_item_row list \<Rightarrow> db \<Rightarrow> string \<Rightarrow> loop_error + string" where
  "resolve_dep gid batch s dep =
     (case find (\<lambda>w. w_step_id w = dep) batch of
        Some w \<Rightarrow> Inr (w_id w)
      | None \<Rightarrow> fetch (find (\<lambda>w. w_goal_id w = gid \<and> w_step_id w = dep) (work_items s))
                  (Work WorkItemNotFound) (\<lambda>w. Inr (w_id w)))"

definition extension_deps ::
  "string \<Rightarrow> work_item_row list \<Rightarrow> string list list \<Rightarrow> db \<Rightarrow> loop_error + dependency_row list" where
  "extension_deps gid batch depends_on s =
     collect (\<lambda>(w, dep). and_then (resolve_dep gid batch s dep) (\<lambda>d.
                 Inr \<lparr>d_work_item = w_id w, d_depends_on = d\<rparr>))
       (concat (map (\<lambda>(w, ds). map (Pair w) ds) (zip batch depends_on)))"

definition open_items :: "string \<Rightarrow> db \<Rightarrow> work_item_row list" where
  "open_items gid s = filter (\<lambda>w. w_goal_id w = gid \<and> w_status w \<noteq> Canceled) (work_items s)"

definition max_ordinal :: "work_item_row list \<Rightarrow> int" where
  "max_ordinal ws = (if ws = [] then -1 else Max (w_ordinal ` set ws))"

definition extend_workflow ::
  "env \<Rightarrow> int \<Rightarrow> (nat \<Rightarrow> string) \<Rightarrow> string \<Rightarrow> workflow_step list \<Rightarrow> string \<Rightarrow> db \<Rightarrow> work_item_record list tx" where
  "extend_workflow E now wid gid steps actor s =
     ensure_valid_id gid ''goal id''
     (ensure (starts_with internal_actor_prefix actor) (Work ExtendActor)
     (ensure (steps \<noteq> [] \<and> length steps \<le> 32) (Work ExtendStepCount)
     (fetch (find_goal s gid) (Goal GoalNotFound) (\<lambda>g.
      ensure (g_status g \<in> {Approved, Active, Verifying}) (Work NotExtensible)
     (fetch (latest_workflow s gid) (Work NoWorkflowToExtend) (\<lambda>p.
      fetch (expansion_root (p_workflow p)) (Work NoExpansionMarker) (\<lambda>root.
      fetch (Option.bind (json_get ''max_nodes'' (step_input root)) as_u64) (Work NoMaxNodes) (\<lambda>max_nodes.
      let existing = open_items gid s; known = map w_step_id existing
      in ensure (int (length existing + length steps) \<le> min max_nodes 32) (Work ExpansionBudget)
        (and_then (check_extension_steps (env_crates E) (env_external_write E) (p_effects p) known steps) (\<lambda>_.
         and_then (collect_deps known steps) (\<lambda>depends_on.
         let rows = extension_rows now wid gid (p_id p) (max_ordinal existing) steps
         in and_then (insert_items rows s) (\<lambda>s1.
            and_then (collect decode_work_item rows) (\<lambda>records.
            and_then (extension_deps gid rows depends_on s1) (\<lambda>ds.
            and_then (insert_deps ds s1) (\<lambda>s2.
            Inr (records,
              refresh_goal_status_tx now gid
               (insert_event now gid ''workflow.extended'' actor
                 (JObj [(''step_ids'', JArr (map (\<lambda>x. JStr (step_id x)) steps)),
                        (''workflow_id'', JStr (p_id p))]) s2)))))))))))))))))"

end
