(* ===== verification/Loop_SelfTest.thy ===== *)
theory Loop_SelfTest
  imports Loop_Tables
begin

text \<open>
  The core self-test suite (\<open>src/harness/loop_engine/self_test.rs\<close>): counting queries over the
  durable tables with an expected result each, and the persisted run. The first two cases look
  at the schema, which the model has by construction; the others are counts over its tables.
\<close>

fun self_test_status_as_str :: "self_test_status \<Rightarrow> string" where
  "self_test_status_as_str TestPassed = ''passed''"
| "self_test_status_as_str TestFailed = ''failed''"

definition self_test_status_from_db :: "string \<Rightarrow> loop_error + self_test_status" where
  "self_test_status_from_db s =
    (if s = ''passed'' then Inr TestPassed else if s = ''failed'' then Inr TestFailed
     else Inl (Records (SuiteUnknown s)))"

interpretation self_test_status: state_codec self_test_status_as_str self_test_status_from_db
proof
  show "self_test_status_from_db (self_test_status_as_str x) = Inr x" for x
    by (cases x) (simp_all add: self_test_status_from_db_def)
  show "self_test_status_from_db s = Inr x \<Longrightarrow> self_test_status_as_str x = s" for s x
    by (auto simp: self_test_status_from_db_def split: if_splits)
qed

definition count_case :: "string \<Rightarrow> nat \<Rightarrow> nat \<Rightarrow> string \<Rightarrow> nat \<Rightarrow> self_test_case" where
  "count_case name actual expected success_details duration =
     \<lparr>tc_name = name, tc_passed = (actual = expected),
      tc_details = (if actual = expected then success_details
        else ''expected count '' @ dec_nat expected @ '', observed '' @ dec_nat actual),
      tc_duration_ms = duration\<rparr>"

definition dangling_work_items :: "db \<Rightarrow> nat" where
  "dangling_work_items s =
     count_where (\<lambda>w. \<not> list_ex (\<lambda>g. g_id g = w_goal_id w) (goals s) \<or>
                      \<not> list_ex (\<lambda>p. p_id p = w_workflow_id w) (workflows s)) (work_items s)"

definition outcomeless_checkpoints :: "db \<Rightarrow> nat" where
  "outcomeless_checkpoints s =
     count_where (\<lambda>c. c_phase c \<in> {Committed, Reconciled} \<and> c_outcome c = None) (checkpoints s)"

definition dangling_signal_events :: "db \<Rightarrow> nat" where
  "dangling_signal_events s =
     count_where (\<lambda>e. \<not> list_ex (\<lambda>x. s_id x = se_signal_id e) (signals s)) (signal_events s)"

text \<open>A left join: one row per matching workflow, or one row of nulls.\<close>

definition unbound_approvals :: "db \<Rightarrow> nat" where
  "unbound_approvals s =
     sum_list (map (\<lambda>a.
       let ps = filter (\<lambda>p. p_goal_id p = ap_goal_id a \<and> p_goal_revision p = ap_goal_revision a) (workflows s)
       in if ps = [] then 1 else count_where (\<lambda>p. p_plan_hash p \<noteq> ap_plan_hash a) ps) (approvals s))"

definition core_cases :: "(nat \<Rightarrow> nat) \<Rightarrow> db \<Rightarrow> self_test_case list" where
  "core_cases duration s =
     [count_case ''required_schema'' 20 20 ''all durable loop tables are present'' (duration 0),
      count_case ''schema_version'' 1 1 ''loop engine schema version 1 is applied'' (duration 1),
      count_case ''work_item_references'' (dangling_work_items s) 0
        ''all work items reference a goal and immutable workflow'' (duration 2),
      count_case ''checkpoint_outcomes'' (outcomeless_checkpoints s) 0
        ''committed checkpoints always retain their durable outcome'' (duration 3),
      count_case ''signal_event_references'' (dangling_signal_events s) 0
        ''append-only signal events always reference immutable signals'' (duration 4),
      count_case ''approval_bindings'' (unbound_approvals s) 0
        ''every approval still resolves to the reviewed workflow hash'' (duration 5)]"

definition run_self_tests ::
  "int \<Rightarrow> int \<Rightarrow> (nat \<Rightarrow> nat) \<Rightarrow> string \<Rightarrow> string \<Rightarrow> string \<Rightarrow> db \<Rightarrow> self_test_row tx" where
  "run_self_tests started finished duration rid suite actor s =
     ensure (suite = ''core'') (Records (SuiteUnknown suite))
     (let cases = core_cases duration s;
          run = \<lparr>t_id = rid, t_suite = suite,
                 t_status = (if list_all tc_passed cases then TestPassed else TestFailed),
                 t_cases = cases, t_started_at = started, t_finished_at = finished,
                 t_created_by = actor\<rparr>
      in ensure (list_all (\<lambda>t. t_id t \<noteq> rid) (self_tests s))
           (Goal (ConstraintFailed ''harness_self_test_runs''))
        (Inr (run, s\<lparr>self_tests := self_tests s @ [run]\<rparr>)))"

definition get_self_test_run :: "db \<Rightarrow> string \<Rightarrow> self_test_row option" where
  "get_self_test_run s rid = find (\<lambda>t. t_id t = rid) (self_tests s)"

lemma tc_passed_count_case [simp]: "tc_passed (count_case name actual expected ok d) \<longleftrightarrow> actual = expected"
  by (simp add: count_case_def)

lemma core_cases_passed:
  "list_all tc_passed (core_cases duration s) \<longleftrightarrow>
     dangling_work_items s = 0 \<and> outcomeless_checkpoints s = 0 \<and>
     dangling_signal_events s = 0 \<and> unbound_approvals s = 0"
  by (simp add: core_cases_def)

lemma run_self_tests_status:
  assumes "run_self_tests started finished duration rid suite actor s = Inr (run, t)"
  shows "t_status run = TestPassed \<longleftrightarrow> list_all tc_passed (core_cases duration s)"
  using assms by (auto simp: run_self_tests_def Let_def split: if_splits)

end
