(* ===== verification/Loop_Replay.thy ===== *)
theory Loop_Replay
  imports Loop_Tables
begin

text \<open>
  Trajectory frames and their structural replay (\<open>src/harness/loop_engine/replay.rs\<close>): a frame
  records one provider call with the hashes of its request and response; a structural replay
  recomputes the hashes and checks the order without calling any tool.
\<close>

fun frame_capture_as_str :: "frame_capture \<Rightarrow> string" where
  "frame_capture_as_str Full = ''full''"
| "frame_capture_as_str Redacted = ''redacted''"
| "frame_capture_as_str Truncated = ''truncated''"

definition frame_capture_from_db :: "string \<Rightarrow> loop_error + frame_capture" where
  "frame_capture_from_db s =
    (if s = ''full'' then Inr Full else if s = ''redacted'' then Inr Redacted
     else if s = ''truncated'' then Inr Truncated else Inl (Records (FrameInvalid s)))"

interpretation frame_capture: state_codec frame_capture_as_str frame_capture_from_db
proof
  show "frame_capture_from_db (frame_capture_as_str x) = Inr x" for x
    by (cases x) (simp_all add: frame_capture_from_db_def)
  show "frame_capture_from_db s = Inr x \<Longrightarrow> frame_capture_as_str x = s" for s x
    by (auto simp: frame_capture_from_db_def split: if_splits)
qed

text \<open>Messages are kept as the JSON values they serialize to.\<close>

record frame_draft =
  fd_trajectory_id :: string
  fd_call_index :: nat
  fd_model :: string
  fd_provider_fingerprint :: string
  fd_request_messages :: "json list"
  fd_request_was_json :: bool
  fd_response :: string
  fd_capture :: frame_capture

definition frame_draft_validate :: "crates \<Rightarrow> frame_draft \<Rightarrow> loop_error + unit" where
  "frame_draft_validate c d =
     ensure (text_ok 160 (fd_trajectory_id d)) (Records (FrameInvalid ''trajectory id''))
     (ensure (fd_call_index d \<le> 1024) (Records (FrameInvalid ''call index''))
     (ensure (text_ok 200 (fd_model d)) (Records (FrameInvalid ''model''))
     (ensure (text_ok 300 (fd_provider_fingerprint d)) (Records (FrameInvalid ''fingerprint''))
     (ensure (fd_request_messages d \<noteq> [] \<and> length (fd_request_messages d) \<le> 256)
        (Records (FrameInvalid ''message count''))
     (ensure (length (json_text c (JArr (fd_request_messages d))) \<le> 131072)
        (Records (FrameInvalid ''request size''))
     (ensure (length (fd_response d) \<le> 262144) (Records (FrameInvalid ''response size''))
     (Inr ())))))))"

definition request_hash :: "crates \<Rightarrow> json list \<Rightarrow> bool \<Rightarrow> string" where
  "request_hash c messages was_json = hash_serializable c (JArr [JArr messages, JBool was_json])"

definition new_frame_row :: "crates \<Rightarrow> int \<Rightarrow> string \<Rightarrow> frame_draft \<Rightarrow> string \<Rightarrow> frame_row" where
  "new_frame_row c now fid d actor =
     \<lparr>fr_id = fid, fr_trajectory_id = fd_trajectory_id d, fr_call_index = int (fd_call_index d),
      fr_model = fd_model d, fr_provider_fingerprint = fd_provider_fingerprint d,
      fr_request_messages = fd_request_messages d, fr_request_was_json = fd_request_was_json d,
      fr_request_hash = request_hash c (fd_request_messages d) (fd_request_was_json d),
      fr_response = fd_response d, fr_response_hash = hash_serializable c (JStr (fd_response d)),
      fr_capture = fd_capture d, fr_created_by = actor, fr_created_at = now\<rparr>"

definition decode_frame :: "frame_row \<Rightarrow> loop_error + frame_row" where
  "decode_frame f = fetch (try_u 32 (fr_call_index f)) (Records (FrameInvalid ''call index'')) (\<lambda>_. Inr f)"

definition record_trajectory_frame ::
  "crates \<Rightarrow> int \<Rightarrow> string \<Rightarrow> frame_draft \<Rightarrow> string \<Rightarrow> db \<Rightarrow> frame_row tx" where
  "record_trajectory_frame c now fid d actor s =
     (let row = new_frame_row c now fid d actor
      in case find (\<lambda>f. fr_trajectory_id f = fd_trajectory_id d \<and>
                        fr_call_index f = int (fd_call_index d)) (frames s) of
           Some existing \<Rightarrow>
             and_then (decode_frame existing) (\<lambda>f.
             ensure (fr_request_hash f = fr_request_hash row \<and> fr_response_hash f = fr_response_hash row)
               (Records FrameConflict) (Inr (f, s)))
         | None \<Rightarrow>
             ensure (list_all (\<lambda>f. fr_id f \<noteq> fid) (frames s))
               (Goal (ConstraintFailed ''harness_trajectory_frames''))
             (and_then (decode_frame row) (\<lambda>f. Inr (f, s\<lparr>frames := frames s @ [row]\<rparr>))))"

definition list_frames :: "db \<Rightarrow> string \<Rightarrow> loop_error + frame_row list" where
  "list_frames s tid =
     collect decode_frame (select_ordered fr_call_index (\<lambda>f. fr_trajectory_id f = tid) (frames s))"

definition bool_str :: "bool \<Rightarrow> string" where
  "bool_str b = (if b then ''true'' else ''false'')"

definition replay_frame :: "crates \<Rightarrow> nat \<Rightarrow> frame_row \<Rightarrow> replay_case" where
  "replay_frame c expected f =
     (let request_matches = (request_hash c (fr_request_messages f) (fr_request_was_json f) = fr_request_hash f);
          response_matches = (hash_serializable c (JStr (fr_response f)) = fr_response_hash f);
          ordered = (fr_call_index f = int expected);
          passed = (ordered \<and> request_matches \<and> response_matches)
      in \<lparr>rc_frame_id = fr_id f, rc_call_index = fr_call_index f, rc_passed = passed,
          rc_details = (if passed then ''frame hashes and order are intact; no live tools executed''
            else ''ordered='' @ bool_str ordered @ '', request_hash_valid='' @ bool_str request_matches
              @ '', response_hash_valid='' @ bool_str response_matches)\<rparr>)"

definition run_structural_replay ::
  "crates \<Rightarrow> int \<Rightarrow> string \<Rightarrow> string \<Rightarrow> string \<Rightarrow> db \<Rightarrow> replay_row tx" where
  "run_structural_replay c now rid tid actor s =
     and_then (list_frames s tid) (\<lambda>fs.
     ensure (fs \<noteq> []) (Records ReplayNoFrames)
     (let fingerprint = fr_provider_fingerprint (hd fs);
          exact = list_all (\<lambda>f. fr_capture f = Full \<and> fr_provider_fingerprint f = fingerprint) fs;
          cases = map (\<lambda>(i, f). replay_frame c i f) (enumerate 0 fs);
          run = \<lparr>rp_id = rid, rp_trajectory_id = tid,
                 rp_status = (if list_all rc_passed cases then ReplayPassed else ReplayFailed),
                 rp_exact_replayable = exact, rp_live_tools_executed = 0, rp_cases = cases,
                 rp_created_by = actor, rp_created_at = now\<rparr>
      in ensure (length fs \<le> 2 ^ 32) (Records (FrameInvalid ''too many replay frames''))
        (ensure (list_all (\<lambda>r. rp_id r \<noteq> rid) (replays s))
           (Goal (ConstraintFailed ''harness_replay_runs''))
        (Inr (run, s\<lparr>replays := replays s @ [run]\<rparr>)))))"

end
