(* ===== verification/Loop_Engine.thy ===== *)
theory Loop_Engine
  imports Loop_Extend Loop_SelfTest Loop_Replay
begin

text \<open>
  The engine's facade (\<open>src/harness/loop_engine/engine.rs\<close>): it validates requests and actors
  and calls the store. The broadcast notifications it sends after a commit carry no state and
  are not modelled. Clock readings and fresh ids are arguments, as in the store.
\<close>

definition checked :: "loop_error + unit \<Rightarrow> 'a run \<Rightarrow> db \<Rightarrow> 'a run" where
  "checked v r s = (case v of Inl e \<Rightarrow> (Inl e, s) | Inr _ \<Rightarrow> r)"

definition both :: "loop_error + unit \<Rightarrow> loop_error + unit \<Rightarrow> loop_error + unit" where
  "both v w = and_then v (\<lambda>_. w)"

section \<open>Goals\<close>

definition engine_create_goal_admission ::
  "int \<Rightarrow> string \<Rightarrow> create_goal_request \<Rightarrow> string \<Rightarrow> db \<Rightarrow> (goal_record \<times> bool) run" where
  "engine_create_goal_admission now gid r actor s =
     checked (both (create_goal_validate r) (validate_actor actor))
       (create_goal_admission now gid r actor s) s"

definition engine_plan_goal ::
  "env \<Rightarrow> int \<Rightarrow> string \<Rightarrow> string \<Rightarrow> plan_goal_request \<Rightarrow> string \<Rightarrow> db \<Rightarrow> planned_goal run" where
  "engine_plan_goal E now plan_id gid r actor s =
     checked (both (validate_plan (env_crates E) (env_external_write E) r) (validate_actor actor))
       (plan_goal (env_crates E) now plan_id gid r actor s) s"

definition recommended_plan :: "string \<Rightarrow> plan_goal_request" where
  "recommended_plan objective =
     \<lparr>pg_workflow =
        \<lparr>wf_steps =
           [\<lparr>step_id = ''analyze-goal'', step_handler = ''provider_analysis'',
             step_effect = LocalWrite, step_input = JObj [(''objective'', JStr objective)],
             step_retry = \<lparr>max_attempts = 2, backoff_secs = 2\<rparr>\<rparr>,
            \<lparr>step_id = ''run-core-self-tests'', step_handler = ''self_test_suite'',
             step_effect = LocalWrite, step_input = JObj [(''suite'', JStr ''core'')],
             step_retry = \<lparr>max_attempts = 2, backoff_secs = 2\<rparr>\<rparr>],
         wf_edges = [\<lparr>edge_from = ''analyze-goal'', edge_to = ''run-core-self-tests''\<rparr>],
         wf_budget = \<lparr>max_provider_calls = 2, deadline_secs = 300, max_response_bytes = 262144\<rparr>\<rparr>,
      pg_acceptance = [ArtifactExists ''analysis_report'', SelfTestSuite ''core'']\<rparr>"

definition plan_goal_recommended ::
  "env \<Rightarrow> int \<Rightarrow> string \<Rightarrow> string \<Rightarrow> string \<Rightarrow> db \<Rightarrow> planned_goal run" where
  "plan_goal_recommended E now plan_id gid actor s =
     (case get_goal s gid of
        Inl e \<Rightarrow> (Inl e, s)
      | Inr None \<Rightarrow> (Inl (Goal GoalNotFound), s)
      | Inr (Some g) \<Rightarrow> engine_plan_goal E now plan_id gid (recommended_plan (gr_objective g)) actor s)"

definition engine_approve_goal ::
  "env \<Rightarrow> int \<Rightarrow> int \<Rightarrow> int \<Rightarrow> (string \<Rightarrow> string) \<Rightarrow> string \<Rightarrow> (nat \<Rightarrow> string) \<Rightarrow> string \<Rightarrow>
    approve_goal_request \<Rightarrow> string \<Rightarrow> db \<Rightarrow> resume_report run" where
  "engine_approve_goal E now now2 later sid aid wid gid r actor s =
     checked (validate_actor actor) (approve_goal E now now2 later sid aid wid gid r actor s) s"

definition engine_extend_workflow ::
  "env \<Rightarrow> int \<Rightarrow> (nat \<Rightarrow> string) \<Rightarrow> string \<Rightarrow> workflow_step list \<Rightarrow> string \<Rightarrow> db \<Rightarrow> work_item_record list run" where
  "engine_extend_workflow E now wid gid steps actor s =
     checked (validate_actor actor) (in_tx (extend_workflow E now wid gid steps actor s) s) s"

definition engine_verify_goal :: "int \<Rightarrow> string \<Rightarrow> string \<Rightarrow> db \<Rightarrow> goal_verification_report run" where
  "engine_verify_goal now gid actor s = checked (validate_actor actor) (verify_goal now gid actor s) s"

definition engine_record_manual_verification ::
  "int \<Rightarrow> string \<Rightarrow> string \<Rightarrow> string \<Rightarrow> db \<Rightarrow> goal_record run" where
  "engine_record_manual_verification now gid label actor s =
     checked (validate_actor actor) (record_manual_verification now gid label actor s) s"

definition engine_resume_goal ::
  "env \<Rightarrow> int \<Rightarrow> int \<Rightarrow> (string \<Rightarrow> string) \<Rightarrow> string \<Rightarrow> string \<Rightarrow> db \<Rightarrow> resume_report run" where
  "engine_resume_goal E now later sid gid actor s =
     checked (validate_actor actor)
       (case resume_goal E now later sid gid actor s of
          (Inl e, t) \<Rightarrow> (Inl e, t)
        | (Inr None, t) \<Rightarrow> (Inl (Goal GoalNotFound), t)
        | (Inr (Some report), t) \<Rightarrow> (Inr report, t)) s"

section \<open>Work\<close>

definition lease_ok :: "nat \<Rightarrow> loop_error + unit" where
  "lease_ok lease_secs = ensure (1 \<le> lease_secs \<and> lease_secs \<le> 3600) (Work LeaseDuration) (Inr ())"

definition engine_claim_goal_work ::
  "env \<Rightarrow> int \<Rightarrow> int \<Rightarrow> (string \<Rightarrow> string) \<Rightarrow> (int \<times> string \<times> string) list \<Rightarrow> string \<Rightarrow> string \<Rightarrow> nat \<Rightarrow>
    string \<Rightarrow> db \<Rightarrow> work_claim option run" where
  "engine_claim_goal_work E now later sid rounds gid worker lease_secs actor s =
     checked (both (validate_actor worker) (both (validate_actor actor) (lease_ok lease_secs)))
       (claim_ready_work_item E now later sid rounds gid None worker lease_secs actor s) s"

definition engine_claim_work_item ::
  "env \<Rightarrow> int \<Rightarrow> int \<Rightarrow> (string \<Rightarrow> string) \<Rightarrow> (int \<times> string \<times> string) list \<Rightarrow> string \<Rightarrow> string \<Rightarrow> string \<Rightarrow> nat \<Rightarrow>
    string \<Rightarrow> db \<Rightarrow> work_claim option run" where
  "engine_claim_work_item E now later sid rounds gid step worker lease_secs actor s =
     checked (both (validate_actor worker) (both (validate_actor actor) (lease_ok lease_secs)))
       (claim_work_item E now later sid rounds gid step worker lease_secs actor s) s"

definition engine_prepare_checkpoint ::
  "int \<Rightarrow> string \<Rightarrow> work_claim \<Rightarrow> string \<Rightarrow> bool \<Rightarrow> string \<Rightarrow> db \<Rightarrow> checkpoint_record run" where
  "engine_prepare_checkpoint now cid cl key replay_safe actor s =
     checked (validate_actor actor) (in_tx (prepare_checkpoint now cid cl key replay_safe actor s) s) s"

definition engine_commit_checkpoint ::
  "env \<Rightarrow> int \<Rightarrow> work_claim \<Rightarrow> string \<Rightarrow> work_outcome \<Rightarrow> string \<Rightarrow> db \<Rightarrow> checkpoint_record run" where
  "engine_commit_checkpoint E now cl cid outcome actor s =
     checked (both (validate_actor actor) (outcome_validate (env_crates E) outcome))
       (in_tx (commit_checkpoint now cl cid outcome actor s) s) s"

definition engine_finish_attempt ::
  "env \<Rightarrow> int \<Rightarrow> int \<Rightarrow> int \<Rightarrow> (string \<Rightarrow> string) \<Rightarrow> work_claim \<Rightarrow> string \<Rightarrow> string \<Rightarrow> db \<Rightarrow> resume_report run" where
  "engine_finish_attempt E now now2 later sid cl cid actor s =
     checked (validate_actor actor) (finish_attempt E now now2 later sid cl cid actor s) s"

definition engine_fail_attempt ::
  "env \<Rightarrow> int \<Rightarrow> int \<Rightarrow> int \<Rightarrow> (string \<Rightarrow> string) \<Rightarrow> work_claim \<Rightarrow> string \<Rightarrow> bool \<Rightarrow> string \<Rightarrow> db \<Rightarrow>
    resume_report run" where
  "engine_fail_attempt E now now2 later sid cl error retryable actor s =
     checked (validate_actor actor) (fail_attempt E now now2 later sid cl error retryable actor s) s"

definition engine_block_work_item ::
  "int \<Rightarrow> work_claim \<Rightarrow> string \<Rightarrow> string \<Rightarrow> db \<Rightarrow> work_item_record run" where
  "engine_block_work_item now cl reason actor s =
     checked (validate_actor actor) (block_work_item now cl reason actor s) s"

definition engine_requeue_blocked_items ::
  "int \<Rightarrow> string \<Rightarrow> string \<Rightarrow> string list \<Rightarrow> string \<Rightarrow> db \<Rightarrow> nat run" where
  "engine_requeue_blocked_items now gid prefix handlers actor s =
     checked (validate_actor actor) (in_tx (requeue_blocked_items now gid prefix handlers actor s) s) s"

definition engine_defer_attempt ::
  "env \<Rightarrow> int \<Rightarrow> int \<Rightarrow> int \<Rightarrow> (string \<Rightarrow> string) \<Rightarrow> work_claim \<Rightarrow> int \<Rightarrow> string \<Rightarrow> db \<Rightarrow> resume_report run" where
  "engine_defer_attempt E now now2 later sid cl until actor s =
     checked (validate_actor actor) (defer_attempt E now now2 later sid cl until actor s) s"

definition engine_record_phase_progress ::
  "env \<Rightarrow> int \<Rightarrow> work_claim \<Rightarrow> work_continuation \<Rightarrow> string \<Rightarrow> db \<Rightarrow> work_phase_progress run" where
  "engine_record_phase_progress E now cl k actor s =
     checked (validate_actor actor) (in_tx (record_phase_progress (env_crates E) now cl k actor s) s) s"

definition engine_continue_attempt ::
  "env \<Rightarrow> int \<Rightarrow> int \<Rightarrow> int \<Rightarrow> (string \<Rightarrow> string) \<Rightarrow> work_claim \<Rightarrow> work_continuation \<Rightarrow> string \<Rightarrow> db \<Rightarrow>
    resume_report run" where
  "engine_continue_attempt E now now2 later sid cl k actor s =
     checked (validate_actor actor) (continue_attempt E now now2 later sid cl k actor s) s"

definition engine_resolve_waiting_confirmation ::
  "int \<Rightarrow> int \<Rightarrow> string \<Rightarrow> string \<Rightarrow> confirmation_resolution \<Rightarrow> string \<Rightarrow> string \<Rightarrow> db \<Rightarrow> work_item_record run" where
  "engine_resolve_waiting_confirmation now later gid wid res reason actor s =
     checked (validate_actor actor)
       (resolve_waiting_confirmation now later gid wid res reason actor s) s"

section \<open>Signals, artifacts, self-tests, replay\<close>

definition engine_ingest_signal ::
  "env \<Rightarrow> int \<Rightarrow> string \<Rightarrow> create_signal_request \<Rightarrow> string \<Rightarrow> db \<Rightarrow> signal_ingest_result run" where
  "engine_ingest_signal E now sid r actor s =
     checked (both (signal_request_validate (env_crates E) r) (validate_actor actor))
       (in_tx (ingest_signal (env_crates E) (env_unicode E) now sid r actor s) s) s"

definition engine_ignore_signal :: "int \<Rightarrow> string \<Rightarrow> string \<Rightarrow> string \<Rightarrow> db \<Rightarrow> signal_record run" where
  "engine_ignore_signal now sid reason actor s =
     checked (validate_actor actor) (in_tx (ignore_signal now sid reason actor s) s) s"

definition engine_triage_signal :: "int \<Rightarrow> string \<Rightarrow> string \<Rightarrow> db \<Rightarrow> signal_record run" where
  "engine_triage_signal now sid actor s =
     checked (validate_actor actor) (in_tx (triage_signal now sid actor s) s) s"

definition signal_goal_request :: "string \<Rightarrow> string \<Rightarrow> create_goal_request" where
  "signal_goal_request sid objective =
     \<lparr>cg_objective = objective, cg_source_signal_ids = [sid],
      cg_request_id = Some (''signal:'' @ sid), cg_internal_only = False\<rparr>"

definition propose_goal_from_signal ::
  "int \<Rightarrow> int \<Rightarrow> string \<Rightarrow> string \<Rightarrow> string \<Rightarrow> string \<Rightarrow> db \<Rightarrow> goal_record run" where
  "propose_goal_from_signal now later gid sid objective actor s =
     checked (both (validate_actor actor)
        (fetch (get_signal s sid) (Records SignalNotFound) (\<lambda>sig.
         ensure (sr_status sig \<in> {Observed, Triaged})
           (Records (SignalStatusRefused (signal_status_as_str (sr_status sig)))) (Inr ()))))
       (case engine_create_goal_admission now gid (signal_goal_request sid objective) actor s of
          (Inl e, t) \<Rightarrow> (Inl e, t)
        | (Inr (goal, _), t) \<Rightarrow>
            (case in_tx (mark_signal_proposed later sid (gr_id goal) actor t) t of
               (Inl e, t') \<Rightarrow> (Inl e, t')
             | (Inr _, t') \<Rightarrow> (Inr goal, t'))) s"

fun join_names :: "string list \<Rightarrow> string" where
  "join_names [] = []"
| "join_names [x] = x"
| "join_names (x # y # xs) = x @ '', '' @ join_names (y # xs)"

definition self_test_signal :: "crates \<Rightarrow> self_test_row \<Rightarrow> create_signal_request" where
  "self_test_signal c run =
     (let failed = join_names (map tc_name (filter (\<lambda>x. \<not> tc_passed x) (t_cases run)));
          digest = hash_serializable c (JArr [JStr (t_suite run), JStr failed])
      in \<lparr>cs_kind = SelfTest, cs_trust = Internal, cs_source = ''harness:self-test'',
          cs_external_id = Some (t_suite run @ '':'' @ digest),
          cs_content = ''Self-test suite '' @ t_suite run @ '' failed: '' @ failed,
          cs_metadata = [(''run_id'', t_id run), (''suite'', t_suite run)]\<rparr>)"

definition engine_run_self_tests ::
  "env \<Rightarrow> int \<Rightarrow> int \<Rightarrow> (nat \<Rightarrow> nat) \<Rightarrow> string \<Rightarrow> string \<Rightarrow> string \<Rightarrow> string \<Rightarrow> db \<Rightarrow> self_test_row run" where
  "engine_run_self_tests E started finished duration rid sid suite actor s =
     checked (validate_actor actor)
       (case in_tx (run_self_tests started finished duration rid suite actor s) s of
          (Inl e, t) \<Rightarrow> (Inl e, t)
        | (Inr run, t) \<Rightarrow>
            (Inr run,
             if t_status run = TestFailed
             then snd (engine_ingest_signal E finished sid (self_test_signal (env_crates E) run) actor t)
             else t)) s"

definition engine_publish_artifact ::
  "env \<Rightarrow> int \<Rightarrow> string \<Rightarrow> publish_artifact_request \<Rightarrow> string \<Rightarrow> db \<Rightarrow> (artifact_row \<times> bool) run" where
  "engine_publish_artifact E now fid r actor s =
     checked (both (publish_validate (env_crates E) r) (validate_actor actor))
       (in_tx (publish_artifact (env_crates E) now fid r actor s) s) s"

definition engine_record_trajectory_frame ::
  "env \<Rightarrow> int \<Rightarrow> string \<Rightarrow> frame_draft \<Rightarrow> string \<Rightarrow> db \<Rightarrow> frame_row run" where
  "engine_record_trajectory_frame E now fid d actor s =
     checked (both (frame_draft_validate (env_crates E) d) (validate_actor actor))
       (in_tx (record_trajectory_frame (env_crates E) now fid d actor s) s) s"

definition engine_run_structural_replay ::
  "env \<Rightarrow> int \<Rightarrow> string \<Rightarrow> string \<Rightarrow> string \<Rightarrow> db \<Rightarrow> replay_row run" where
  "engine_run_structural_replay E now rid tid actor s =
     checked (validate_actor actor)
       (in_tx (run_structural_replay (env_crates E) now rid tid actor s) s) s"

end
