(* ===== verification/Loop_Step.thy ===== *)
theory Loop_Step
  imports Loop_Engine
begin

text \<open>
  The engine as a transition system. A step is one committed transaction, the unit of atomicity
  (SQLite serializes \<open>BEGIN IMMEDIATE\<close> transactions), so a run interleaves the transactions of
  any number of workers, operators and restarts with any clock readings and fresh ids. Every
  call of the engine's interface is a finite sequence of such steps.
\<close>

inductive loop_step :: "env \<Rightarrow> db \<Rightarrow> db \<Rightarrow> bool" for E where
  create: "create_goal_admission now gid r actor s = (res, t) \<Longrightarrow> loop_step E s t"
| expire: "expire_overdue_goals now limit s = Inr (ids, t) \<Longrightarrow> loop_step E s t"
| cancel: "cancel_goal now gid reason actor s = (res, t) \<Longrightarrow> loop_step E s t"
| reject: "reject_goal now gid reason actor s = (res, t) \<Longrightarrow> loop_step E s t"
| replan: "mark_goal_for_replan now gid reason actor s = (res, t) \<Longrightarrow> loop_step E s t"
| pause: "set_goal_paused now gid paused preason actor s = (res, t) \<Longrightarrow> loop_step E s t"
| plan: "validate_plan (env_crates E) (env_external_write E) pr = Inr u \<Longrightarrow>
    plan_goal_tx (env_crates E) now pid gid pr actor s = Inr (u', t) \<Longrightarrow> loop_step E s t"
| approve: "approve_tx E now aid wid gid ar actor s = Inr (u, t) \<Longrightarrow> loop_step E s t"
| verify: "verify_tx now gid actor s = Inr (vr, t) \<Longrightarrow> loop_step E s t"
| manual: "record_manual_verification now gid label actor s = (res, t) \<Longrightarrow> loop_step E s t"
| reserve: "reserve_provider_call now gid s = (rb, t) \<Longrightarrow> loop_step E s t"
| response_bytes: "record_provider_response_bytes now gid bytes s = Inr (u, t) \<Longrightarrow> loop_step E s t"
| recover: "recover_tx now gid actor s = Inr (parked, t) \<Longrightarrow> loop_step E s t"
| resumed: "loop_step E s (insert_event now gid ''goal.resumed'' actor (JObj []) s)"
| claim: "claim_tx now lease aid gid step worker lease_secs actor s = Inr (cr, t) \<Longrightarrow> loop_step E s t"
| renew: "renew_claim now cl lease_secs s = Inr (until, t) \<Longrightarrow> loop_step E s t"
| prepare: "prepare_checkpoint now cid cl key safe actor s = Inr (c, t) \<Longrightarrow> loop_step E s t"
| commit: "commit_checkpoint now cl cid outcome actor s = Inr (c, t) \<Longrightarrow> loop_step E s t"
| finish: "finish_tx now cl cid actor s = Inr (u, t) \<Longrightarrow> loop_step E s t"
| fail: "fail_tx now cl error retryable actor s = Inr (u, t) \<Longrightarrow> loop_step E s t"
| block: "block_work_item now cl reason actor s = (rw, t) \<Longrightarrow> loop_step E s t"
| requeue: "requeue_blocked_items now gid prefix handlers actor s = Inr (n, t) \<Longrightarrow> loop_step E s t"
| deferred: "defer_tx now cl until actor s = Inr (u, t) \<Longrightarrow> loop_step E s t"
| progress: "record_phase_progress (env_crates E) now cl k actor s = Inr (p, t) \<Longrightarrow> loop_step E s t"
| continue: "continue_tx (env_crates E) now cl k actor s = Inr (u, t) \<Longrightarrow> loop_step E s t"
| resolve: "resolve_tx now gid wid' resolution reason actor s = Inr (u, t) \<Longrightarrow> loop_step E s t"
| extend: "extend_workflow E now wid gid steps actor s = Inr (records, t) \<Longrightarrow> loop_step E s t"
| ingest: "ingest_signal (env_crates E) (env_unicode E) now sid sreq actor s = Inr (si, t) \<Longrightarrow> loop_step E s t"
| ignore: "ignore_signal now sid reason actor s = Inr (sg, t) \<Longrightarrow> loop_step E s t"
| triage: "triage_signal now sid actor s = Inr (sg, t) \<Longrightarrow> loop_step E s t"
| proposed: "mark_signal_proposed now sid gid actor s = Inr (u, t) \<Longrightarrow> loop_step E s t"
| publish: "publish_artifact (env_crates E) now fid areq actor s = Inr (ap, t) \<Longrightarrow> loop_step E s t"
| self_test: "run_self_tests now finished duration rid suite actor s = Inr (run, t) \<Longrightarrow> loop_step E s t"
| frame: "record_trajectory_frame (env_crates E) now fid draft actor s = Inr (f, t) \<Longrightarrow> loop_step E s t"
| replay: "run_structural_replay (env_crates E) now rid tid actor s = Inr (rp, t) \<Longrightarrow> loop_step E s t"

abbreviation loop_steps :: "env \<Rightarrow> db \<Rightarrow> db \<Rightarrow> bool" where
  "loop_steps E \<equiv> (loop_step E)\<^sup>*\<^sup>*"

definition loop_init :: "db \<Rightarrow> bool" where
  "loop_init s \<longleftrightarrow> s = empty_db"

definition reachable :: "env \<Rightarrow> db \<Rightarrow> bool" where
  "reachable E s \<longleftrightarrow> loop_steps E empty_db s"

section \<open>The engine's interface runs in steps\<close>

inductive engine_call :: "env \<Rightarrow> db \<Rightarrow> db \<Rightarrow> bool" for E where
  "engine_create_goal_admission now gid r actor s = (res, t) \<Longrightarrow> engine_call E s t"
| "engine_plan_goal E now pid gid pr actor s = (rp, t) \<Longrightarrow> engine_call E s t"
| "plan_goal_recommended E now pid gid actor s = (rp, t) \<Longrightarrow> engine_call E s t"
| "engine_approve_goal E now now2 later sidf aid wid gid ar actor s = (rr, t) \<Longrightarrow> engine_call E s t"
| "engine_extend_workflow E now wid gid steps actor s = (rx, t) \<Longrightarrow> engine_call E s t"
| "engine_verify_goal now gid actor s = (rv, t) \<Longrightarrow> engine_call E s t"
| "engine_record_manual_verification now gid label actor s = (rg, t) \<Longrightarrow> engine_call E s t"
| "engine_resume_goal E now later sidf gid actor s = (rr, t) \<Longrightarrow> engine_call E s t"
| "expire_overdue_goals now limit s = Inr (ids, t) \<Longrightarrow> engine_call E s t"
| "cancel_goal now gid reason actor s = (rg, t) \<Longrightarrow> engine_call E s t"
| "reject_goal now gid reason actor s = (rg, t) \<Longrightarrow> engine_call E s t"
| "mark_goal_for_replan now gid reason actor s = (rg, t) \<Longrightarrow> engine_call E s t"
| "pause_goal now gid reason actor s = (rg, t) \<Longrightarrow> engine_call E s t"
| "unpause_goal now gid actor s = (rg, t) \<Longrightarrow> engine_call E s t"
| "reserve_provider_call now gid s = (rb, t) \<Longrightarrow> engine_call E s t"
| "record_provider_response_bytes now gid bytes s = Inr (u, t) \<Longrightarrow> engine_call E s t"
| "engine_claim_goal_work E now later sidf rounds gid worker lease_secs actor s = (rc, t) \<Longrightarrow> engine_call E s t"
| "engine_claim_work_item E now later sidf rounds gid step worker lease_secs actor s = (rc, t) \<Longrightarrow> engine_call E s t"
| "renew_claim now cl lease_secs s = Inr (until, t) \<Longrightarrow> engine_call E s t"
| "engine_prepare_checkpoint now cid cl key safe actor s = (rk, t) \<Longrightarrow> engine_call E s t"
| "engine_commit_checkpoint E now cl cid outcome actor s = (rk, t) \<Longrightarrow> engine_call E s t"
| "engine_finish_attempt E now now2 later sidf cl cid actor s = (rr, t) \<Longrightarrow> engine_call E s t"
| "engine_fail_attempt E now now2 later sidf cl error retryable actor s = (rr, t) \<Longrightarrow> engine_call E s t"
| "engine_block_work_item now cl reason actor s = (rw, t) \<Longrightarrow> engine_call E s t"
| "engine_requeue_blocked_items now gid prefix handlers actor s = (rn, t) \<Longrightarrow> engine_call E s t"
| "engine_defer_attempt E now now2 later sidf cl until actor s = (rr, t) \<Longrightarrow> engine_call E s t"
| "engine_record_phase_progress E now cl k actor s = (rpp, t) \<Longrightarrow> engine_call E s t"
| "engine_continue_attempt E now now2 later sidf cl k actor s = (rr, t) \<Longrightarrow> engine_call E s t"
| "engine_resolve_waiting_confirmation now later gid wid' resolution reason actor s = (rw, t) \<Longrightarrow> engine_call E s t"
| "engine_ingest_signal E now sid sreq actor s = (ri, t) \<Longrightarrow> engine_call E s t"
| "engine_ignore_signal now sid reason actor s = (rsg, t) \<Longrightarrow> engine_call E s t"
| "engine_triage_signal now sid actor s = (rsg, t) \<Longrightarrow> engine_call E s t"
| "propose_goal_from_signal now later gid sid objective actor s = (rg, t) \<Longrightarrow> engine_call E s t"
| "engine_run_self_tests E started finished duration rid sid suite actor s = (rt, t) \<Longrightarrow> engine_call E s t"
| "engine_publish_artifact E now fid areq actor s = (ra, t) \<Longrightarrow> engine_call E s t"
| "engine_record_trajectory_frame E now fid draft actor s = (rf, t) \<Longrightarrow> engine_call E s t"
| "engine_run_structural_replay E now rid tid actor s = (rrp, t) \<Longrightarrow> engine_call E s t"

lemma in_tx_steps:
  assumes "in_tx r s = (res, t)" and "\<And>x t'. r = Inr (x, t') \<Longrightarrow> loop_step E s t'"
  shows "loop_steps E s t"
  using assms by (cases r) (auto simp: in_tx_def)

lemma checked_steps:
  assumes "checked v r s = (res, t)" and "\<And>u res' t'. v = Inr u \<Longrightarrow> r = (res', t') \<Longrightarrow> loop_steps E s t'"
  shows "loop_steps E s t"
  using assms by (cases v; cases r) (auto simp: checked_def)

lemma emit_parked_signal_steps: "loop_steps E s (emit_parked_signal E later sid gid actor wid s)"
  unfolding emit_parked_signal_def
  by (rule in_tx_steps [OF prod.collapse [symmetric]]) (rule loop_step.ingest)

lemma emit_parked_signals_steps:
  "loop_steps E s (fold (emit_parked_signal E later sid gid actor) parked s)"
proof (induction parked arbitrary: s)
  case (Cons wid parked)
  show ?case by (auto intro: rtranclp_trans [OF emit_parked_signal_steps Cons.IH])
qed simp

lemma recover_steps:
  assumes "recover_goal_state E now later sid gid actor s = (res, t)"
  shows "loop_steps E s t"
  using assms
  by (auto simp: recover_goal_state_def split: sum.splits
      intro: rtranclp_trans [OF r_into_rtranclp [of "loop_step E", OF loop_step.recover] emit_parked_signals_steps])

lemma resume_steps:
  assumes "resume_goal E now later sid gid actor s = (res, t)"
  shows "loop_steps E s t"
proof -
  obtain r s1 where r: "recover_goal_state E now later sid gid actor s = (r, s1)" by fastforce
  then have s1: "loop_steps E s s1" by (rule recover_steps)
  have "t = s1 \<or> t = insert_event later gid ''goal.resumed'' actor (JObj []) s1"
    using assms by (auto simp: resume_goal_def r split: sum.splits option.splits if_splits)
  with s1 show ?thesis by (auto intro: rtranclp.rtrancl_into_rtrancl loop_step.resumed)
qed

lemma then_resume_steps:
  assumes "then_resume E now later sid gid actor (in_tx r s) = (res, t)"
    and "\<And>x t'. r = Inr (x, t') \<Longrightarrow> loop_step E s t'"
  shows "loop_steps E s t"
proof -
  obtain v s1 where v: "in_tx r s = (v, s1)" by fastforce
  then have s1: "loop_steps E s s1" using assms(2) by (rule in_tx_steps)
  obtain w s2 where w: "resume_goal E now later sid gid actor s1 = (w, s2)" by fastforce
  have "t = s1 \<or> t = s2"
    using assms(1) by (auto simp: then_resume_def v w split: sum.splits option.splits)
  with s1 resume_steps [OF w] show ?thesis by (auto intro: rtranclp_trans)
qed

lemma claim_rounds_steps:
  assumes "claim_rounds rounds gid step worker lease_secs actor s = (res, t)"
  shows "loop_steps E s t"
  using assms
proof (induction rounds gid step worker lease_secs actor s arbitrary: res t rule: claim_rounds.induct)
  case (2 now lease aid rounds gid step worker lease_secs actor s)
  show ?case
  proof (cases "claim_tx now lease aid gid step worker lease_secs actor s")
    case (Inr p)
    obtain c t' where p: "p = (c, t')" by (cases p)
    have st: "loop_step E s t'" by (rule loop_step.claim [OF Inr [unfolded p]])
    show ?thesis
    proof (cases c)
      case LostRace
      with "2.prems" have "claim_rounds rounds gid step worker lease_secs actor s = (res, t)"
        by (simp add: Inr p)
      from "2.IH" [OF Inr p [symmetric] LostRace this] show ?thesis .
    qed (use "2.prems" st in \<open>auto simp: Inr p\<close>)
  qed (use "2.prems" in simp)
qed simp

lemma claim_steps:
  assumes "claim_ready_work_item E now later sid rounds gid step worker lease_secs actor s = (res, t)"
  shows "loop_steps E s t"
proof (cases "ensure_valid_id gid ''goal id'' (Inr () :: loop_error + unit)")
  case (Inr u)
  obtain r s1 where r: "recover_goal_state E now later sid gid actor s = (r, s1)" by fastforce
  from recover_steps [OF r] assms Inr show ?thesis
    by (auto simp: claim_ready_work_item_def r split: sum.splits
        intro: rtranclp_trans [OF _ claim_rounds_steps])
qed (use assms in \<open>simp add: claim_ready_work_item_def\<close>)

lemma engine_create_steps:
  "engine_create_goal_admission now gid r actor s = (res, t) \<Longrightarrow> loop_steps E s t"
  unfolding engine_create_goal_admission_def
  by (erule checked_steps) (auto intro: loop_step.create)

lemma engine_plan_steps: "engine_plan_goal E now pid gid pr actor s = (res, t) \<Longrightarrow> loop_steps E s t"
  unfolding engine_plan_goal_def
  by (erule checked_steps)
    (auto simp: plan_goal_def both_def split: sum.splits prod.splits intro: loop_step.plan)

lemma engine_ingest_steps: "engine_ingest_signal E now sid r actor s = (res, t) \<Longrightarrow> loop_steps E s t"
  unfolding engine_ingest_signal_def
  by (erule checked_steps) (erule in_tx_steps, rule loop_step.ingest)

lemma engine_self_test_steps:
  assumes "engine_run_self_tests E started finished duration rid sid suite actor s = (res, t)"
  shows "loop_steps E s t"
  using assms unfolding engine_run_self_tests_def
proof (rule checked_steps)
  fix u res' t'
  assume r: "(case in_tx (run_self_tests started finished duration rid suite actor s) s of
      (Inl e, t) \<Rightarrow> (Inl e, t)
    | (Inr run, t) \<Rightarrow> (Inr run,
        if t_status run = TestFailed
        then snd (engine_ingest_signal E finished sid (self_test_signal (env_crates E) run) actor t)
        else t)) = (res', t')"
  obtain v s1 where v: "in_tx (run_self_tests started finished duration rid suite actor s) s = (v, s1)"
    by fastforce
  then have s1: "loop_steps E s s1" by (rule in_tx_steps) (rule loop_step.self_test)
  have "loop_steps E s1 (snd (engine_ingest_signal E finished sid sg actor s1))" for sg
    by (rule engine_ingest_steps [OF prod.collapse [symmetric]])
  with s1 r v show "loop_steps E s t'"
    by (auto split: sum.splits if_splits intro: rtranclp_trans)
qed

lemma propose_steps:
  assumes "propose_goal_from_signal now later gid sid objective actor s = (res, t)"
  shows "loop_steps E s t"
  using assms unfolding propose_goal_from_signal_def
proof (rule checked_steps)
  fix u res' t'
  assume r: "(case engine_create_goal_admission now gid (signal_goal_request sid objective) actor s of
      (Inl e, t) \<Rightarrow> (Inl e, t)
    | (Inr (goal, _), t) \<Rightarrow>
        (case in_tx (mark_signal_proposed later sid (gr_id goal) actor t) t of
           (Inl e, t') \<Rightarrow> (Inl e, t')
         | (Inr _, t') \<Rightarrow> (Inr goal, t'))) = (res', t')"
  obtain v s1 where v: "engine_create_goal_admission now gid (signal_goal_request sid objective) actor s = (v, s1)"
    by fastforce
  then have s1: "loop_steps E s s1" by (rule engine_create_steps)
  have m: "loop_steps E s1 t2" if "in_tx (mark_signal_proposed later sid g actor s1) s1 = (w, t2)" for g w t2
    using that by (rule in_tx_steps) (rule loop_step.proposed)
  from s1 r v show "loop_steps E s t'"
    by (auto split: sum.splits prod.splits intro: rtranclp_trans [OF _ m])
qed

lemma resolve_steps:
  assumes "resolve_waiting_confirmation now later gid wid res reason actor s = (r, t)"
  shows "loop_steps E s t"
proof (cases "resolve_tx now gid wid res reason actor s")
  case (Inr p)
  then obtain u s1 where p: "resolve_tx now gid wid res reason actor s = Inr (u, s1)" by (cases p) auto
  then have s1: "loop_steps E s s1" by (blast intro: loop_step.resolve)
  have ig: "loop_steps E s1 (snd (in_tx (ignore_signal later sid msg actor s1) s1))" for sid msg
    by (rule in_tx_steps [OF prod.collapse [symmetric]]) (rule loop_step.ignore)
  with s1 p assms show ?thesis
    by (auto simp: resolve_waiting_confirmation_def Let_def split: option.splits intro: rtranclp_trans)
qed (use assms in \<open>simp add: resolve_waiting_confirmation_def\<close>)

lemma engine_resume_steps: "engine_resume_goal E now later sid gid actor s = (res, t) \<Longrightarrow> loop_steps E s t"
  unfolding engine_resume_goal_def
  by (erule checked_steps) (auto split: prod.splits sum.splits option.splits intro: resume_steps)

lemma engine_approve_goal_steps: "engine_approve_goal E now now2 later sidf aid wid gid ar actor s = (res, t) \<Longrightarrow> loop_steps E s t"
  unfolding engine_approve_goal_def approve_goal_def
  by (erule checked_steps) (erule then_resume_steps, rule loop_step.approve)

lemma engine_extend_workflow_steps: "engine_extend_workflow E now wid gid steps actor s = (res, t) \<Longrightarrow> loop_steps E s t"
  unfolding engine_extend_workflow_def 
  by (erule checked_steps) (erule in_tx_steps, rule loop_step.extend)

lemma engine_verify_goal_steps: "engine_verify_goal now gid actor s = (res, t) \<Longrightarrow> loop_steps E s t"
  unfolding engine_verify_goal_def
  by (erule checked_steps)
    (auto simp: verify_goal_def split: sum.splits prod.splits intro: loop_step.verify)

lemma engine_record_manual_verification_steps: "engine_record_manual_verification now gid label actor s = (res, t) \<Longrightarrow> loop_steps E s t"
  unfolding engine_record_manual_verification_def
  by (erule checked_steps) (rule r_into_rtranclp, erule loop_step.manual)

lemma engine_claim_goal_work_steps:
  "engine_claim_goal_work E now later sidf rounds gid worker lease_secs actor s = (res, t) \<Longrightarrow> loop_steps E s t"
  unfolding engine_claim_goal_work_def by (erule checked_steps) (erule claim_steps)

lemma engine_claim_work_item_steps:
  "engine_claim_work_item E now later sidf rounds gid step worker lease_secs actor s = (res, t) \<Longrightarrow> loop_steps E s t"
  unfolding engine_claim_work_item_def
  by (erule checked_steps) (auto simp: claim_work_item_def split: sum.splits intro: claim_steps)

lemma engine_prepare_checkpoint_steps: "engine_prepare_checkpoint now cid cl key safe actor s = (res, t) \<Longrightarrow> loop_steps E s t"
  unfolding engine_prepare_checkpoint_def 
  by (erule checked_steps) (erule in_tx_steps, rule loop_step.prepare)

lemma engine_commit_checkpoint_steps: "engine_commit_checkpoint E now cl cid outcome actor s = (res, t) \<Longrightarrow> loop_steps E s t"
  unfolding engine_commit_checkpoint_def 
  by (erule checked_steps) (erule in_tx_steps, rule loop_step.commit)

lemma engine_finish_attempt_steps: "engine_finish_attempt E now now2 later sidf cl cid actor s = (res, t) \<Longrightarrow> loop_steps E s t"
  unfolding engine_finish_attempt_def finish_attempt_def
  by (erule checked_steps) (erule then_resume_steps, rule loop_step.finish)

lemma engine_fail_attempt_steps: "engine_fail_attempt E now now2 later sidf cl error retryable actor s = (res, t) \<Longrightarrow> loop_steps E s t"
  unfolding engine_fail_attempt_def fail_attempt_def
  by (erule checked_steps) (erule then_resume_steps, rule loop_step.fail)

lemma engine_block_work_item_steps: "engine_block_work_item now cl reason actor s = (res, t) \<Longrightarrow> loop_steps E s t"
  unfolding engine_block_work_item_def
  by (erule checked_steps) (rule r_into_rtranclp, erule loop_step.block)

lemma engine_requeue_blocked_items_steps: "engine_requeue_blocked_items now gid prefix handlers actor s = (res, t) \<Longrightarrow> loop_steps E s t"
  unfolding engine_requeue_blocked_items_def 
  by (erule checked_steps) (erule in_tx_steps, rule loop_step.requeue)

lemma engine_defer_attempt_steps: "engine_defer_attempt E now now2 later sidf cl until actor s = (res, t) \<Longrightarrow> loop_steps E s t"
  unfolding engine_defer_attempt_def defer_attempt_def
  by (erule checked_steps) (erule then_resume_steps, rule loop_step.deferred)

lemma engine_record_phase_progress_steps: "engine_record_phase_progress E now cl k actor s = (res, t) \<Longrightarrow> loop_steps E s t"
  unfolding engine_record_phase_progress_def 
  by (erule checked_steps) (erule in_tx_steps, rule loop_step.progress)

lemma engine_continue_attempt_steps: "engine_continue_attempt E now now2 later sidf cl k actor s = (res, t) \<Longrightarrow> loop_steps E s t"
  unfolding engine_continue_attempt_def continue_attempt_def
  by (erule checked_steps) (erule then_resume_steps, rule loop_step.continue)

lemma engine_resolve_steps:
  "engine_resolve_waiting_confirmation now later gid wid resolution reason actor s = (res, t) \<Longrightarrow> loop_steps E s t"
  unfolding engine_resolve_waiting_confirmation_def by (erule checked_steps) (erule resolve_steps)

lemma engine_ignore_signal_steps: "engine_ignore_signal now sid reason actor s = (res, t) \<Longrightarrow> loop_steps E s t"
  unfolding engine_ignore_signal_def 
  by (erule checked_steps) (erule in_tx_steps, rule loop_step.ignore)

lemma engine_triage_signal_steps: "engine_triage_signal now sid actor s = (res, t) \<Longrightarrow> loop_steps E s t"
  unfolding engine_triage_signal_def 
  by (erule checked_steps) (erule in_tx_steps, rule loop_step.triage)

lemma engine_publish_artifact_steps: "engine_publish_artifact E now fid areq actor s = (res, t) \<Longrightarrow> loop_steps E s t"
  unfolding engine_publish_artifact_def 
  by (erule checked_steps) (erule in_tx_steps, rule loop_step.publish)

lemma engine_record_trajectory_frame_steps: "engine_record_trajectory_frame E now fid draft actor s = (res, t) \<Longrightarrow> loop_steps E s t"
  unfolding engine_record_trajectory_frame_def 
  by (erule checked_steps) (erule in_tx_steps, rule loop_step.frame)

lemma engine_run_structural_replay_steps: "engine_run_structural_replay E now rid tid actor s = (res, t) \<Longrightarrow> loop_steps E s t"
  unfolding engine_run_structural_replay_def 
  by (erule checked_steps) (erule in_tx_steps, rule loop_step.replay)

lemma plan_goal_recommended_steps: "plan_goal_recommended E now pid gid actor s = (res, t) \<Longrightarrow> loop_steps E s t"
  by (auto simp: plan_goal_recommended_def split: sum.splits option.splits intro: engine_plan_steps)

lemma pause_goal_steps: "pause_goal now gid reason actor s = (res, t) \<Longrightarrow> loop_steps E s t"
  unfolding pause_goal_def by (rule r_into_rtranclp) (erule loop_step.pause)

lemma unpause_goal_steps: "unpause_goal now gid actor s = (res, t) \<Longrightarrow> loop_steps E s t"
  unfolding unpause_goal_def by (rule r_into_rtranclp) (erule loop_step.pause)

lemmas engine_steps = engine_create_steps engine_plan_steps plan_goal_recommended_steps
  engine_approve_goal_steps engine_extend_workflow_steps engine_verify_goal_steps
  engine_record_manual_verification_steps engine_resume_steps pause_goal_steps unpause_goal_steps
  engine_claim_goal_work_steps engine_claim_work_item_steps engine_prepare_checkpoint_steps
  engine_commit_checkpoint_steps engine_finish_attempt_steps engine_fail_attempt_steps
  engine_block_work_item_steps engine_requeue_blocked_items_steps engine_defer_attempt_steps
  engine_record_phase_progress_steps engine_continue_attempt_steps engine_resolve_steps
  engine_ingest_steps engine_ignore_signal_steps engine_triage_signal_steps propose_steps
  engine_self_test_steps engine_publish_artifact_steps engine_record_trajectory_frame_steps
  engine_run_structural_replay_steps

lemmas single_steps = loop_step.expire loop_step.cancel loop_step.reject loop_step.replan
  loop_step.reserve loop_step.response_bytes loop_step.renew

lemma engine_call_steps: "engine_call E s t \<Longrightarrow> loop_steps E s t"
  by (induction rule: engine_call.induct)
    (erule engine_steps | (rule r_into_rtranclp, erule single_steps))+

end
