(* ===== verification/Loop_Evolution.thy ===== *)
theory Loop_Evolution
  imports Loop_Step
begin

text \<open>
  How the durable tables may change over time. For every table with mutable columns a relation
  says which columns are fixed and which status transitions exist; the other tables only grow.
  \<open>evolves\<close> collects these relations, and every step of the engine satisfies it.
\<close>

section \<open>Status graphs\<close>

fun goal_edge :: "goal_status \<Rightarrow> goal_status \<Rightarrow> bool" where
  "goal_edge Proposed t \<longleftrightarrow> t \<in> {ReviewReady, Rejected, GoalCanceled}"
| "goal_edge Planning t \<longleftrightarrow> t \<in> {Rejected, GoalCanceled}"
| "goal_edge ReviewReady t \<longleftrightarrow> t \<in> {Approved, Rejected, GoalCanceled}"
| "goal_edge Approved t \<longleftrightarrow> t \<in> {Active, Verifying, GoalFailed, Paused, GoalCanceled}"
| "goal_edge Active t \<longleftrightarrow> t \<in> {Verifying, GoalFailed, Paused, GoalCanceled}"
| "goal_edge Verifying t \<longleftrightarrow> t \<in> {Achieved, Active, GoalFailed, Paused, GoalCanceled}"
| "goal_edge Paused t \<longleftrightarrow> t = Active"
| "goal_edge GoalBlocked t \<longleftrightarrow> t \<in> {Paused, GoalFailed, GoalCanceled, Replan}"
| "goal_edge GoalFailed t \<longleftrightarrow> t \<in> {Replan, Active, Verifying}"
| "goal_edge GoalCanceled t \<longleftrightarrow> t = Replan"
| "goal_edge Rejected t \<longleftrightarrow> t = Replan"
| "goal_edge Replan t \<longleftrightarrow> t = ReviewReady"
| "goal_edge Achieved t \<longleftrightarrow> False"

fun item_edge :: "work_item_status \<Rightarrow> work_item_status \<Rightarrow> bool" where
  "item_edge Pending t \<longleftrightarrow> t \<in> {Ready, Blocked, Failed, Canceled}"
| "item_edge Ready t \<longleftrightarrow> t \<in> {Running, Blocked, Failed, Canceled}"
| "item_edge Running t \<longleftrightarrow> t \<in> {Ready, Succeeded, WaitingConfirmation, Blocked, Failed, Canceled}"
| "item_edge WaitingConfirmation t \<longleftrightarrow> t \<in> {Ready, Succeeded, Failed, Canceled}"
| "item_edge Blocked t \<longleftrightarrow> t \<in> {Ready, Failed, Canceled}"
| "item_edge Canceled t \<longleftrightarrow> t = Failed"
| "item_edge Succeeded t \<longleftrightarrow> False"
| "item_edge Failed t \<longleftrightarrow> False"

fun attempt_edge :: "attempt_status \<Rightarrow> attempt_status \<Rightarrow> bool" where
  "attempt_edge AttemptRunning t \<longleftrightarrow> t \<noteq> AttemptRunning"
| "attempt_edge Committing t \<longleftrightarrow> t \<notin> {AttemptRunning, Committing}"
| "attempt_edge AttemptWaiting t \<longleftrightarrow> t \<in> {AttemptSucceeded, AttemptFailed, Abandoned}"
| "attempt_edge AttemptSucceeded t \<longleftrightarrow> False"
| "attempt_edge AttemptFailed t \<longleftrightarrow> False"
| "attempt_edge Abandoned t \<longleftrightarrow> False"
| "attempt_edge Void t \<longleftrightarrow> False"

fun phase_edge :: "checkpoint_phase \<Rightarrow> checkpoint_phase \<Rightarrow> bool" where
  "phase_edge Prepared t \<longleftrightarrow> t \<in> {Committed, Voided}"
| "phase_edge Committed t \<longleftrightarrow> t = Reconciled"
| "phase_edge Reconciled t \<longleftrightarrow> False"
| "phase_edge Voided t \<longleftrightarrow> False"

section \<open>Rows\<close>

text \<open>The columns no operation changes.\<close>

definition goal_static where
  "goal_static g = (g_id g, g_objective g, g_source_signal_ids g, g_request_id g, g_created_by g,
     g_created_at g, g_internal_only g)"

definition item_static where
  "item_static w = (w_id w, w_goal_id w, w_workflow_id w, w_step_id w, w_handler w, w_effect w,
     w_input w, w_max_attempts w, w_backoff_secs w, w_ordinal w, w_created_at w)"

definition attempt_static where
  "attempt_static a = (a_id a, a_goal_id a, a_work_item_id a, a_number a, a_worker_id a,
     a_lease_token a, a_fencing a, a_started_at a)"

definition checkpoint_static where
  "checkpoint_static c = (c_id c, c_goal_id c, c_work_item_id c, c_attempt_id c,
     c_idempotency_key c, c_replay_safe c, c_created_at c)"

definition goal_evolves :: "goal_row \<Rightarrow> goal_row \<Rightarrow> bool" where
  "goal_evolves g h \<longleftrightarrow> goal_static h = goal_static g \<and> g_revision g \<le> g_revision h \<and>
     goal_edge\<^sup>*\<^sup>* (g_status g) (g_status h)"

definition item_evolves :: "work_item_row \<Rightarrow> work_item_row \<Rightarrow> bool" where
  "item_evolves v w \<longleftrightarrow> item_static w = item_static v \<and> w_fencing v \<le> w_fencing w \<and>
     item_edge\<^sup>*\<^sup>* (w_status v) (w_status w)"

definition attempt_evolves :: "attempt_row \<Rightarrow> attempt_row \<Rightarrow> bool" where
  "attempt_evolves a b \<longleftrightarrow> attempt_static b = attempt_static a \<and>
     attempt_edge\<^sup>*\<^sup>* (a_status a) (a_status b)"

definition checkpoint_evolves :: "checkpoint_row \<Rightarrow> checkpoint_row \<Rightarrow> bool" where
  "checkpoint_evolves c d \<longleftrightarrow> checkpoint_static d = checkpoint_static c \<and>
     phase_edge\<^sup>*\<^sup>* (c_phase c) (c_phase d) \<and>
     (c_phase c \<noteq> Prepared \<longrightarrow> c_outcome d = c_outcome c)"

lemma phase_prepared_last: "phase_edge\<^sup>*\<^sup>* p Prepared \<Longrightarrow> p = Prepared"
  by (erule rtranclp.cases) (auto elim: phase_edge.elims)

interpretation goal_rows: row_evolution goal_evolves
  by unfold_locales (auto simp: goal_evolves_def)

interpretation item_rows: row_evolution item_evolves
  by unfold_locales (auto simp: item_evolves_def)

interpretation attempt_rows: row_evolution attempt_evolves
  by unfold_locales (auto simp: attempt_evolves_def)

interpretation checkpoint_rows: row_evolution checkpoint_evolves
proof
  show "checkpoint_evolves c c" for c by (simp add: checkpoint_evolves_def)
  show "checkpoint_evolves c e" if "checkpoint_evolves c d" "checkpoint_evolves d e" for c d e
    using that phase_prepared_last by (auto simp: checkpoint_evolves_def)
qed

section \<open>Databases\<close>

definition evolves :: "db \<Rightarrow> db \<Rightarrow> bool" where
  "evolves s t \<longleftrightarrow>
     rows_evolve goal_evolves (goals s) (goals t) \<and>
     rows_evolve item_evolves (work_items s) (work_items t) \<and>
     rows_evolve attempt_evolves (attempts s) (attempts t) \<and>
     rows_evolve checkpoint_evolves (checkpoints s) (checkpoints t) \<and>
     rows_evolve (=) (workflows s) (workflows t) \<and>
     rows_evolve (=) (approvals s) (approvals t) \<and>
     rows_evolve (=) (deps s) (deps t) \<and>
     rows_evolve (=) (events s) (events t) \<and>
     rows_evolve (=) (manuals s) (manuals t) \<and>
     rows_evolve (=) (signals s) (signals t) \<and>
     rows_evolve (=) (signal_events s) (signal_events t) \<and>
     rows_evolve (=) (artifacts s) (artifacts t) \<and>
     rows_evolve (=) (artifact_events s) (artifact_events t) \<and>
     rows_evolve (=) (self_tests s) (self_tests t) \<and>
     rows_evolve (=) (frames s) (frames t) \<and>
     rows_evolve (=) (replays s) (replays t)"

lemmas evolve_rules = goal_rows.evolve_refl item_rows.evolve_refl attempt_rows.evolve_refl
  checkpoint_rows.evolve_refl append_only.evolve_refl append_only.evolve_append
  goal_rows.evolve_append item_rows.evolve_append attempt_rows.evolve_append
  checkpoint_rows.evolve_append

lemma evolves_refl [simp]: "evolves s s"
  by (simp add: evolves_def evolve_rules)

lemma evolves_trans:
  assumes "evolves s t" and "evolves t u"
  shows "evolves s u"
  using assms unfolding evolves_def
  by (blast intro: goal_rows.evolve_trans item_rows.evolve_trans attempt_rows.evolve_trans
      checkpoint_rows.evolve_trans append_only.evolve_trans)

end
