(* ===== verification/Loop_Change.thy ===== *)
theory Loop_Change
  imports Loop_Evolution
begin

text \<open>
  The primitive changes transactions are made of. Each inserts rows whose keys are new and whose
  references resolve, or updates rows along their status graph. Every transaction is a sequence
  of such changes (\<open>Loop_Transactions\<close>), so what each change preserves, the engine preserves.
\<close>

section \<open>Well-formed rows\<close>

definition item_wf :: "work_item_row \<Rightarrow> bool" where
  "item_wf w \<longleftrightarrow>
     (w_status w = Running \<longleftrightarrow> w_lease_token w \<noteq> None) \<and>
     (w_lease_until w = None \<longleftrightarrow> w_lease_token w = None) \<and>
     0 \<le> w_fencing w \<and> w_max_attempts w \<in> {1..10} \<and> w_backoff_secs w \<in> {0..3600}"

definition attempt_wf :: "attempt_row \<Rightarrow> bool" where
  "attempt_wf a \<longleftrightarrow> (live_attempt a \<longleftrightarrow> a_finished_at a = None) \<and> 0 < a_fencing a"

definition checkpoint_wf :: "checkpoint_row \<Rightarrow> bool" where
  "checkpoint_wf c \<longleftrightarrow> (c_outcome c \<noteq> None \<longleftrightarrow> c_phase c \<in> {Committed, Reconciled})"

definition budget_wf :: "budget_row \<Rightarrow> bool" where
  "budget_wf b \<longleftrightarrow>
     0 \<le> b_provider_calls b \<and> b_provider_calls b \<le> b_max_provider_calls b \<and>
     b_max_provider_calls b \<le> 64 \<and>
     0 \<le> b_response_bytes b \<and> b_response_bytes b \<le> b_max_response_bytes b \<and>
     b_max_response_bytes b \<le> 10485760 \<and>
     b_deadline_secs b \<in> {1..86400} \<and>
     (b_started_at b = None \<longleftrightarrow> b_provider_calls b = 0)"

definition plan_wf :: "crates \<Rightarrow> workflow_row \<Rightarrow> bool" where
  "plan_wf c p \<longleftrightarrow>
     (\<exists>pol. workflow_ok c pol (p_workflow p)) \<and>
     p_effects p = effect_manifest \<lparr>pg_workflow = p_workflow p, pg_acceptance = p_acceptance p\<rparr> \<and>
     p_plan_hash p = plan_hash c \<lparr>pg_workflow = p_workflow p, pg_acceptance = p_acceptance p\<rparr>"

definition approval_binds :: "crates \<Rightarrow> approval_row \<Rightarrow> workflow_row \<Rightarrow> bool" where
  "approval_binds c a p \<longleftrightarrow>
     p_goal_id p = ap_goal_id a \<and> p_goal_revision p = ap_goal_revision a \<and>
     p_plan_hash p = ap_plan_hash a \<and>
     ap_workflow_hash a = hash_serializable c (workflow_to_json (p_workflow p)) \<and>
     ap_effects_hash a = hash_serializable c (effects_to_json (p_effects p)) \<and>
     ap_acceptance_hash a = hash_serializable c (acceptance_to_json (p_acceptance p)) \<and>
     ap_budget_hash a = hash_serializable c (budget_to_json (wf_budget (p_workflow p)))"

definition goal_legal :: "goal_row \<Rightarrow> goal_row \<Rightarrow> bool" where
  "goal_legal g h \<longleftrightarrow> goal_evolves g h"

definition item_legal :: "work_item_row \<Rightarrow> work_item_row \<Rightarrow> bool" where
  "item_legal v w \<longleftrightarrow> item_evolves v w \<and> (item_wf v \<longrightarrow> item_wf w) \<and>
     (w_status w = Succeeded \<longrightarrow> w_status v = Succeeded)"

text \<open>An item succeeds only together with a reconciled checkpoint, which keeps its outcome.\<close>

definition reconciled_item :: "db \<Rightarrow> string \<Rightarrow> bool" where
  "reconciled_item s wid \<longleftrightarrow> (\<exists>x \<in> set (checkpoints s). c_work_item_id x = wid \<and> c_phase x = Reconciled)"

definition item_success :: "work_item_row \<Rightarrow> work_item_row \<Rightarrow> bool" where
  "item_success v w \<longleftrightarrow> item_evolves v w \<and> (item_wf v \<longrightarrow> item_wf w)"

definition attempt_legal :: "attempt_row \<Rightarrow> attempt_row \<Rightarrow> bool" where
  "attempt_legal a b \<longleftrightarrow> attempt_evolves a b \<and> (attempt_wf a \<longrightarrow> attempt_wf b)"

definition checkpoint_legal :: "checkpoint_row \<Rightarrow> checkpoint_row \<Rightarrow> bool" where
  "checkpoint_legal c d \<longleftrightarrow> checkpoint_evolves c d \<and> (checkpoint_wf c \<longrightarrow> checkpoint_wf d)"

text \<open>Dependencies as a relation from predecessor to successor.\<close>

definition dep_rel :: "dependency_row list \<Rightarrow> (string \<times> string) set" where
  "dep_rel ds = (\<lambda>d. (d_depends_on d, d_work_item d)) ` set ds"

text \<open>Both ends of a dependency are work items of one goal.\<close>

definition dep_within :: "db \<Rightarrow> dependency_row \<Rightarrow> bool" where
  "dep_within s d \<longleftrightarrow> (\<exists>gid. (d_work_item d, gid) \<in> (\<lambda>w. (w_id w, w_goal_id w)) ` set (work_items s) \<and>
     (d_depends_on d, gid) \<in> (\<lambda>w. (w_id w, w_goal_id w)) ` set (work_items s))"

lemma dep_within_ids:
  "dep_within s d \<Longrightarrow> d_work_item d \<in> w_id ` set (work_items s) \<and> d_depends_on d \<in> w_id ` set (work_items s)"
  by (auto simp: dep_within_def)

section \<open>Changes\<close>

inductive change :: "crates \<Rightarrow> db \<Rightarrow> db \<Rightarrow> bool" for c where
  goals_upd: "(\<And>g. g \<in> set (goals s) \<Longrightarrow> p g \<Longrightarrow> goal_legal g (f g)) \<Longrightarrow> change c s (upd_goals p f s)"
| items_upd: "(\<And>w. w \<in> set (work_items s) \<Longrightarrow> q w \<Longrightarrow> item_legal w (h w)) \<Longrightarrow> change c s (upd_items q h s)"
| items_succeed:
    "(\<And>w. w \<in> set (work_items s) \<Longrightarrow> q w \<Longrightarrow> item_success w (h w) \<and> reconciled_item s (w_id w)) \<Longrightarrow>
     change c s (upd_items q h s)"
| attempts_upd:
    "(\<And>a. a \<in> set (attempts s) \<Longrightarrow> pa a \<Longrightarrow> attempt_legal a (fa a)) \<Longrightarrow> change c s (upd_attempts pa fa s)"
| checkpoints_upd:
    "(\<And>x. x \<in> set (checkpoints s) \<Longrightarrow> pc x \<Longrightarrow> checkpoint_legal x (fc x)) \<Longrightarrow>
     change c s (upd_checkpoints pc fc s)"
| budgets_set:
    "(\<And>b. b \<in> set bs \<Longrightarrow> (b \<in> set (budgets s) \<or> budget_wf b) \<and> b_goal_id b \<in> g_id ` set (goals s)) \<Longrightarrow>
     distinct (map b_goal_id bs) \<Longrightarrow> change c s (s\<lparr>budgets := bs\<rparr>)"
| event: "change c s (insert_event now gid ty actor details s)"
| add_goal:
    "g_id g \<notin> g_id ` set (goals s) \<Longrightarrow> g_status g = Proposed \<Longrightarrow>
     (g_request_id g = None \<or> g_request_id g \<notin> g_request_id ` set (goals s)) \<Longrightarrow>
     change c s (s\<lparr>goals := goals s @ [g]\<rparr>)"
| add_workflow:
    "p_id p' \<notin> p_id ` set (workflows s) \<Longrightarrow> p_goal_id p' \<in> g_id ` set (goals s) \<Longrightarrow>
     (p_goal_id p', p_goal_revision p') \<notin> (\<lambda>p. (p_goal_id p, p_goal_revision p)) ` set (workflows s) \<Longrightarrow>
     plan_wf c p' \<Longrightarrow> change c s (s\<lparr>workflows := workflows s @ [p']\<rparr>)"
| add_approval:
    "p' \<in> set (workflows s) \<Longrightarrow> approval_binds c ap p' \<Longrightarrow>
     (ap_goal_id ap, ap_goal_revision ap) \<notin>
       (\<lambda>a. (ap_goal_id a, ap_goal_revision a)) ` set (approvals s) \<Longrightarrow>
     change c s (s\<lparr>approvals := approvals s @ [ap]\<rparr>)"
| add_item:
    "w_id w \<notin> w_id ` set (work_items s) \<Longrightarrow> item_wf w \<Longrightarrow> w_fencing w = 0 \<Longrightarrow> w_status w \<noteq> Succeeded \<Longrightarrow>
     (w_workflow_id w, w_goal_id w) \<in> (\<lambda>p. (p_id p, p_goal_id p)) ` set (workflows s) \<Longrightarrow>
     (w_workflow_id w, w_step_id w) \<notin> (\<lambda>v. (w_workflow_id v, w_step_id v)) ` set (work_items s) \<Longrightarrow>
     change c s (s\<lparr>work_items := work_items s @ [w]\<rparr>)"
| add_deps:
    "(\<And>d. d \<in> set ds \<Longrightarrow> dep_within s d) \<Longrightarrow>
     distinct ds \<Longrightarrow> set ds \<inter> set (deps s) = {} \<Longrightarrow>
     (acyclic (dep_rel (deps s)) \<Longrightarrow> acyclic (dep_rel (deps s @ ds))) \<Longrightarrow>
     change c s (s\<lparr>deps := deps s @ ds\<rparr>)"
| add_attempt:
    "a_id a \<notin> a_id ` set (attempts s) \<Longrightarrow> attempt_wf a \<Longrightarrow> live_attempt a \<Longrightarrow>
     w \<in> set (work_items s) \<Longrightarrow> a_work_item_id a = w_id w \<Longrightarrow> a_goal_id a = w_goal_id w \<Longrightarrow>
     a_fencing a = w_fencing w \<Longrightarrow>
     (\<And>b. b \<in> set (attempts s) \<Longrightarrow> a_work_item_id b = w_id w \<Longrightarrow> a_fencing b < a_fencing a) \<Longrightarrow>
     int (attempt_count s (w_id w)) < w_max_attempts w \<Longrightarrow>
     a_number a = int (count_where (\<lambda>b. a_work_item_id b = w_id w) (attempts s)) + 1 \<Longrightarrow>
     change c s (s\<lparr>attempts := attempts s @ [a]\<rparr>)"
| add_checkpoint:
    "c_id x \<notin> c_id ` set (checkpoints s) \<Longrightarrow> checkpoint_wf x \<Longrightarrow> c_phase x = Prepared \<Longrightarrow>
     a \<in> set (attempts s) \<Longrightarrow> c_attempt_id x = a_id a \<Longrightarrow> c_work_item_id x = a_work_item_id a \<Longrightarrow>
     c_goal_id x = a_goal_id a \<Longrightarrow>
     (c_work_item_id x, c_idempotency_key x) \<notin>
       (\<lambda>y. (c_work_item_id y, c_idempotency_key y)) ` set (checkpoints s) \<Longrightarrow>
     change c s (s\<lparr>checkpoints := checkpoints s @ [x]\<rparr>)"
| add_manual: "m_goal_id m \<in> g_id ` set (goals s) \<Longrightarrow> change c s (s\<lparr>manuals := manuals s @ [m]\<rparr>)"
| add_signal:
    "(\<And>x. x \<in> set (signals s) \<Longrightarrow> \<not> signal_clash x r) \<Longrightarrow> change c s (s\<lparr>signals := signals s @ [r]\<rparr>)"
| add_signal_event:
    "sid \<in> s_id ` set (signals s) \<Longrightarrow> change c s (insert_signal_event_tx now sid st actor details s)"
| add_artifact:
    "f_id fr \<notin> f_id ` set (artifacts s) \<Longrightarrow>
     (f_kind fr, f_name fr, f_version fr) \<notin> (\<lambda>x. (f_kind x, f_name x, f_version x)) ` set (artifacts s) \<Longrightarrow>
     change c s (s\<lparr>artifacts := artifacts s @ [fr], artifact_events := artifact_events s @ [fe]\<rparr>)"
| add_self_test:
    "t_id st \<notin> t_id ` set (self_tests s) \<Longrightarrow> change c s (s\<lparr>self_tests := self_tests s @ [st]\<rparr>)"
| add_frame:
    "fr_id fw \<notin> fr_id ` set (frames s) \<Longrightarrow>
     (fr_trajectory_id fw, fr_call_index fw) \<notin> (\<lambda>x. (fr_trajectory_id x, fr_call_index x)) ` set (frames s) \<Longrightarrow>
     fr_request_hash fw = request_hash c (fr_request_messages fw) (fr_request_was_json fw) \<Longrightarrow>
     fr_response_hash fw = hash_serializable c (JStr (fr_response fw)) \<Longrightarrow>
     change c s (s\<lparr>frames := frames s @ [fw]\<rparr>)"
| add_replay:
    "rp_id rw \<notin> rp_id ` set (replays s) \<Longrightarrow> change c s (s\<lparr>replays := replays s @ [rw]\<rparr>)"

lemma change_evolves: "change c s t \<Longrightarrow> evolves s t"
proof (induction rule: change.induct)
  case (goals_upd s p f)
  then show ?case
    by (simp add: evolves_def upd_goals_def goal_legal_def evolve_rules goal_rows.evolve_update)
next
  case (items_upd s q h)
  then show ?case
    by (simp add: evolves_def upd_items_def item_legal_def evolve_rules item_rows.evolve_update)
next
  case (items_succeed s q h)
  then show ?case
    by (simp add: evolves_def upd_items_def item_success_def evolve_rules item_rows.evolve_update)
next
  case (attempts_upd s pa fa)
  then show ?case
    by (simp add: evolves_def upd_attempts_def attempt_legal_def evolve_rules attempt_rows.evolve_update)
next
  case (checkpoints_upd s pc fc)
  then show ?case
    by (simp add: evolves_def upd_checkpoints_def checkpoint_legal_def evolve_rules checkpoint_rows.evolve_update)
qed (simp_all add: evolves_def evolve_rules insert_event_def insert_signal_event_tx_def)

abbreviation changes :: "crates \<Rightarrow> db \<Rightarrow> db \<Rightarrow> bool" where
  "changes c \<equiv> (change c)\<^sup>*\<^sup>*"

lemma changes_evolves: "changes c s t \<Longrightarrow> evolves s t"
  by (induction rule: rtranclp_induct) (auto intro: evolves_trans change_evolves)

end
