(* ===== verification/Loop_Invariant.thy ===== *)
theory Loop_Invariant
  imports Loop_Change
begin

text \<open>
  The invariant of the loop store: keys are unique, references resolve, rows are well-formed,
  fencing tokens are unique per work item and never exceed the item's own, attempts respect
  their budget, and dependencies are acyclic. Every primitive change preserves each part.
\<close>

section \<open>The parts of the invariant\<close>

definition keys_ok :: "db \<Rightarrow> bool" where
  "keys_ok s \<longleftrightarrow>
     distinct (map g_id (goals s)) \<and>
     distinct (filter (\<lambda>x. x \<noteq> None) (map g_request_id (goals s))) \<and>
     distinct (map p_id (workflows s)) \<and>
     distinct (map (\<lambda>p. (p_goal_id p, p_goal_revision p)) (workflows s)) \<and>
     distinct (map (\<lambda>a. (ap_goal_id a, ap_goal_revision a)) (approvals s)) \<and>
     distinct (map b_goal_id (budgets s)) \<and>
     distinct (map w_id (work_items s)) \<and>
     distinct (map (\<lambda>v. (w_workflow_id v, w_step_id v)) (work_items s)) \<and>
     distinct (deps s) \<and>
     distinct (map a_id (attempts s)) \<and>
     distinct (map c_id (checkpoints s)) \<and>
     distinct (map (\<lambda>x. (c_work_item_id x, c_idempotency_key x)) (checkpoints s)) \<and>
     sorted_wrt (\<lambda>x y. \<not> signal_clash x y) (signals s) \<and>
     distinct (map f_id (artifacts s)) \<and>
     distinct (map (\<lambda>x. (f_kind x, f_name x, f_version x)) (artifacts s)) \<and>
     distinct (map t_id (self_tests s)) \<and>
     distinct (map fr_id (frames s)) \<and>
     distinct (map (\<lambda>x. (fr_trajectory_id x, fr_call_index x)) (frames s)) \<and>
     distinct (map rp_id (replays s))"

definition refs_ok :: "db \<Rightarrow> bool" where
  "refs_ok s \<longleftrightarrow>
     p_goal_id ` set (workflows s) \<subseteq> g_id ` set (goals s) \<and>
     (\<lambda>w. (w_workflow_id w, w_goal_id w)) ` set (work_items s)
       \<subseteq> (\<lambda>p. (p_id p, p_goal_id p)) ` set (workflows s) \<and>
     (\<lambda>a. (a_work_item_id a, a_goal_id a)) ` set (attempts s)
       \<subseteq> (\<lambda>w. (w_id w, w_goal_id w)) ` set (work_items s) \<and>
     (\<lambda>x. (c_attempt_id x, c_work_item_id x, c_goal_id x)) ` set (checkpoints s)
       \<subseteq> (\<lambda>a. (a_id a, a_work_item_id a, a_goal_id a)) ` set (attempts s) \<and>
     d_work_item ` set (deps s) \<subseteq> w_id ` set (work_items s) \<and>
     d_depends_on ` set (deps s) \<subseteq> w_id ` set (work_items s) \<and>
     b_goal_id ` set (budgets s) \<subseteq> g_id ` set (goals s) \<and>
     m_goal_id ` set (manuals s) \<subseteq> g_id ` set (goals s) \<and>
     se_signal_id ` set (signal_events s) \<subseteq> s_id ` set (signals s)"

definition rows_ok :: "crates \<Rightarrow> db \<Rightarrow> bool" where
  "rows_ok c s \<longleftrightarrow>
     (\<forall>w \<in> set (work_items s). item_wf w) \<and>
     (\<forall>a \<in> set (attempts s). attempt_wf a) \<and>
     (\<forall>x \<in> set (checkpoints s). checkpoint_wf x) \<and>
     (\<forall>b \<in> set (budgets s). budget_wf b) \<and>
     (\<forall>p \<in> set (workflows s). plan_wf c p) \<and>
     (\<forall>a \<in> set (approvals s). \<exists>p \<in> set (workflows s). approval_binds c a p) \<and>
     (\<forall>f \<in> set (frames s).
        fr_request_hash f = request_hash c (fr_request_messages f) (fr_request_was_json f) \<and>
        fr_response_hash f = hash_serializable c (JStr (fr_response f))) \<and>
     map ev_sequence (events s) = map (\<lambda>i. int i + 1) [0..<length (events s)]"

definition fencing_ok :: "db \<Rightarrow> bool" where
  "fencing_ok s \<longleftrightarrow>
     (\<forall>a \<in> set (attempts s). \<forall>w \<in> set (work_items s).
        w_id w = a_work_item_id a \<longrightarrow> a_fencing a \<le> w_fencing w) \<and>
     distinct (map (\<lambda>a. (a_work_item_id a, a_fencing a)) (attempts s))"

definition attempts_ok :: "db \<Rightarrow> bool" where
  "attempts_ok s \<longleftrightarrow> (\<forall>w \<in> set (work_items s). int (attempt_count s (w_id w)) \<le> w_max_attempts w)"

definition inv :: "crates \<Rightarrow> db \<Rightarrow> bool" where
  "inv c s \<longleftrightarrow> keys_ok s \<and> refs_ok s \<and> rows_ok c s \<and> fencing_ok s \<and> attempts_ok s \<and>
     acyclic (dep_rel (deps s))"

lemma inv_empty: "inv c empty_db"
  by (simp add: inv_def keys_ok_def refs_ok_def rows_ok_def fencing_ok_def attempts_ok_def
      empty_db_def dep_rel_def acyclic_def)

lemma inv_rows:
  assumes "inv c s"
  shows "w \<in> set (work_items s) \<Longrightarrow> item_wf w" "a \<in> set (attempts s) \<Longrightarrow> attempt_wf a"
    "x \<in> set (checkpoints s) \<Longrightarrow> checkpoint_wf x" "b \<in> set (budgets s) \<Longrightarrow> budget_wf b"
    "p \<in> set (workflows s) \<Longrightarrow> plan_wf c p"
  using assms by (simp_all add: inv_def rows_ok_def)

lemma inv_fencing:
  "inv c s \<Longrightarrow> a \<in> set (attempts s) \<Longrightarrow> w \<in> set (work_items s) \<Longrightarrow> w_id w = a_work_item_id a \<Longrightarrow>
   a_fencing a \<le> w_fencing w"
  by (simp add: inv_def fencing_ok_def)

lemma inv_attempt_count:
  "inv c s \<Longrightarrow> w \<in> set (work_items s) \<Longrightarrow> int (attempt_count s (w_id w)) \<le> w_max_attempts w"
  by (simp add: inv_def attempts_ok_def)

section \<open>Legal updates keep keys\<close>

lemma goal_legal_fields:
  assumes "goal_legal g h"
  shows "g_id h = g_id g" "g_request_id h = g_request_id g"
  using assms by (auto simp: goal_legal_def goal_evolves_def goal_static_def)

lemma item_success_fields:
  assumes "item_success v w"
  shows "w_id w = w_id v" "w_goal_id w = w_goal_id v" "w_workflow_id w = w_workflow_id v"
    "w_step_id w = w_step_id v" "w_max_attempts w = w_max_attempts v" "w_fencing v \<le> w_fencing w"
    "item_wf v \<Longrightarrow> item_wf w"
  using assms by (auto simp: item_success_def item_evolves_def item_static_def)

lemma item_legal_success: "item_legal v w \<Longrightarrow> item_success v w"
  by (simp add: item_legal_def item_success_def)

lemma attempt_void_absorbing: "attempt_edge\<^sup>*\<^sup>* Void x \<Longrightarrow> x = Void"
  by (erule converse_rtranclpE) auto

lemma attempt_legal_fields:
  assumes "attempt_legal a b"
  shows "a_id b = a_id a" "a_goal_id b = a_goal_id a" "a_work_item_id b = a_work_item_id a"
    "a_fencing b = a_fencing a" "a_status b \<noteq> Void \<Longrightarrow> a_status a \<noteq> Void"
    "attempt_wf a \<Longrightarrow> attempt_wf b"
  using assms attempt_void_absorbing by (auto simp: attempt_legal_def attempt_evolves_def attempt_static_def)

lemma checkpoint_legal_fields:
  assumes "checkpoint_legal x y"
  shows "c_id y = c_id x" "c_goal_id y = c_goal_id x" "c_work_item_id y = c_work_item_id x"
    "c_attempt_id y = c_attempt_id x" "c_idempotency_key y = c_idempotency_key x"
    "checkpoint_wf x \<Longrightarrow> checkpoint_wf y"
  using assms by (auto simp: checkpoint_legal_def checkpoint_evolves_def checkpoint_static_def)

lemma upd_goals_simps [simp]:
  "goals (upd_goals p f s) = update_where p f (goals s)"
  "workflows (upd_goals p f s) = workflows s" "approvals (upd_goals p f s) = approvals s"
  "budgets (upd_goals p f s) = budgets s" "work_items (upd_goals p f s) = work_items s"
  "deps (upd_goals p f s) = deps s" "attempts (upd_goals p f s) = attempts s"
  "checkpoints (upd_goals p f s) = checkpoints s" "events (upd_goals p f s) = events s"
  "manuals (upd_goals p f s) = manuals s" "signals (upd_goals p f s) = signals s"
  "signal_events (upd_goals p f s) = signal_events s" "artifacts (upd_goals p f s) = artifacts s"
  "self_tests (upd_goals p f s) = self_tests s" "frames (upd_goals p f s) = frames s"
  "replays (upd_goals p f s) = replays s"
  by (simp_all add: upd_goals_def)

lemma upd_items_simps [simp]:
  "work_items (upd_items p f s) = update_where p f (work_items s)"
  "goals (upd_items p f s) = goals s"
  "workflows (upd_items p f s) = workflows s" "approvals (upd_items p f s) = approvals s"
  "budgets (upd_items p f s) = budgets s"
  "deps (upd_items p f s) = deps s" "attempts (upd_items p f s) = attempts s"
  "checkpoints (upd_items p f s) = checkpoints s" "events (upd_items p f s) = events s"
  "manuals (upd_items p f s) = manuals s" "signals (upd_items p f s) = signals s"
  "signal_events (upd_items p f s) = signal_events s" "artifacts (upd_items p f s) = artifacts s"
  "self_tests (upd_items p f s) = self_tests s" "frames (upd_items p f s) = frames s"
  "replays (upd_items p f s) = replays s"
  by (simp_all add: upd_items_def)

lemma upd_attempts_simps [simp]:
  "attempts (upd_attempts p f s) = update_where p f (attempts s)"
  "goals (upd_attempts p f s) = goals s"
  "workflows (upd_attempts p f s) = workflows s" "approvals (upd_attempts p f s) = approvals s"
  "budgets (upd_attempts p f s) = budgets s" "work_items (upd_attempts p f s) = work_items s"
  "deps (upd_attempts p f s) = deps s"
  "checkpoints (upd_attempts p f s) = checkpoints s" "events (upd_attempts p f s) = events s"
  "manuals (upd_attempts p f s) = manuals s" "signals (upd_attempts p f s) = signals s"
  "signal_events (upd_attempts p f s) = signal_events s" "artifacts (upd_attempts p f s) = artifacts s"
  "self_tests (upd_attempts p f s) = self_tests s" "frames (upd_attempts p f s) = frames s"
  "replays (upd_attempts p f s) = replays s"
  by (simp_all add: upd_attempts_def)

lemma upd_checkpoints_simps [simp]:
  "checkpoints (upd_checkpoints p f s) = update_where p f (checkpoints s)"
  "goals (upd_checkpoints p f s) = goals s"
  "workflows (upd_checkpoints p f s) = workflows s" "approvals (upd_checkpoints p f s) = approvals s"
  "budgets (upd_checkpoints p f s) = budgets s" "work_items (upd_checkpoints p f s) = work_items s"
  "deps (upd_checkpoints p f s) = deps s" "attempts (upd_checkpoints p f s) = attempts s"
  "events (upd_checkpoints p f s) = events s"
  "manuals (upd_checkpoints p f s) = manuals s" "signals (upd_checkpoints p f s) = signals s"
  "signal_events (upd_checkpoints p f s) = signal_events s" "artifacts (upd_checkpoints p f s) = artifacts s"
  "self_tests (upd_checkpoints p f s) = self_tests s" "frames (upd_checkpoints p f s) = frames s"
  "replays (upd_checkpoints p f s) = replays s"
  by (simp_all add: upd_checkpoints_def)

lemma insert_event_simps [simp]:
  "goals (insert_event now gid ty actor d s) = goals s"
  "workflows (insert_event now gid ty actor d s) = workflows s"
  "approvals (insert_event now gid ty actor d s) = approvals s"
  "budgets (insert_event now gid ty actor d s) = budgets s"
  "work_items (insert_event now gid ty actor d s) = work_items s"
  "deps (insert_event now gid ty actor d s) = deps s"
  "attempts (insert_event now gid ty actor d s) = attempts s"
  "checkpoints (insert_event now gid ty actor d s) = checkpoints s"
  "manuals (insert_event now gid ty actor d s) = manuals s"
  "signals (insert_event now gid ty actor d s) = signals s"
  "signal_events (insert_event now gid ty actor d s) = signal_events s"
  "artifacts (insert_event now gid ty actor d s) = artifacts s"
  "self_tests (insert_event now gid ty actor d s) = self_tests s"
  "frames (insert_event now gid ty actor d s) = frames s"
  "replays (insert_event now gid ty actor d s) = replays s"
  by (simp_all add: insert_event_def)

lemma attempt_count_cong:
  "attempts t = attempts s \<Longrightarrow> attempt_count t wid = attempt_count s wid"
  by (simp add: attempt_count_def)

section \<open>Preservation\<close>

lemma inv_goals_upd:
  assumes inv: "inv c s" and leg: "\<And>g. g \<in> set (goals s) \<Longrightarrow> p g \<Longrightarrow> goal_legal g (f g)"
  shows "inv c (upd_goals p f s)"
proof -
  have "map g_id (update_where p f (goals s)) = map g_id (goals s)"
    "map g_request_id (update_where p f (goals s)) = map g_request_id (goals s)"
    "g_id ` set (update_where p f (goals s)) = g_id ` set (goals s)"
    by (simp_all add: map_update_static image_update_static goal_legal_fields [OF leg])
  with inv show ?thesis
    by (simp add: inv_def keys_ok_def refs_ok_def rows_ok_def fencing_ok_def attempts_ok_def
        attempt_count_cong [of "upd_goals p f s" s])
qed

lemma inv_items_upd:
  assumes inv: "inv c s" and leg: "\<And>w. w \<in> set (work_items s) \<Longrightarrow> q w \<Longrightarrow> item_success w (h w)"
  shows "inv c (upd_items q h s)"
proof -
  note keep = item_success_fields(1-5) [OF leg]
  have maps: "map w_id (update_where q h (work_items s)) = map w_id (work_items s)"
    "map (\<lambda>v. (w_workflow_id v, w_step_id v)) (update_where q h (work_items s)) =
      map (\<lambda>v. (w_workflow_id v, w_step_id v)) (work_items s)"
    by (rule map_update_static, simp add: keep)+
  have imgs: "w_id ` set (update_where q h (work_items s)) = w_id ` set (work_items s)"
    "(\<lambda>w. (w_workflow_id w, w_goal_id w)) ` set (update_where q h (work_items s)) =
      (\<lambda>w. (w_workflow_id w, w_goal_id w)) ` set (work_items s)"
    "(\<lambda>w. (w_id w, w_goal_id w)) ` set (update_where q h (work_items s)) =
      (\<lambda>w. (w_id w, w_goal_id w)) ` set (work_items s)"
    by (rule image_update_static, simp add: keep)+
  have rows: "\<forall>w \<in> set (update_where q h (work_items s)). item_wf w"
    by (rule ball_update_where) (use item_success_fields(7) [OF leg] inv_rows(1) [OF inv] in blast)+
  have fence: "a_fencing a \<le> w_fencing w"
    if "a \<in> set (attempts s)" "w \<in> set (update_where q h (work_items s))" "w_id w = a_work_item_id a" for a w
  proof -
    from that(2) obtain v where v: "v \<in> set (work_items s)" "w = (if q v then h v else v)"
      by (rule mem_update_whereE)
    then have "w_id v = a_work_item_id a" "w_fencing v \<le> w_fencing w"
      using that(3) keep(1) item_success_fields(6) [OF leg] by (auto split: if_splits)
    moreover from inv_fencing [OF inv that(1) v(1) calculation(1)] have "a_fencing a \<le> w_fencing v" .
    ultimately show ?thesis by simp
  qed
  have cnt: "\<forall>w \<in> set (update_where q h (work_items s)). int (attempt_count s (w_id w)) \<le> w_max_attempts w"
    by (rule ball_update_where) (simp add: keep, use inv_attempt_count [OF inv] in blast)
  from inv maps imgs rows fence cnt show ?thesis
    by (simp add: inv_def keys_ok_def refs_ok_def rows_ok_def fencing_ok_def attempts_ok_def
        attempt_count_cong [of "upd_items q h s" s])
qed

lemma inv_attempts_upd:
  assumes inv: "inv c s" and leg: "\<And>a. a \<in> set (attempts s) \<Longrightarrow> pa a \<Longrightarrow> attempt_legal a (fa a)"
  shows "inv c (upd_attempts pa fa s)"
proof -
  note keep = attempt_legal_fields(1-4) [OF leg]
  have maps: "map a_id (update_where pa fa (attempts s)) = map a_id (attempts s)"
    "map (\<lambda>a. (a_work_item_id a, a_fencing a)) (update_where pa fa (attempts s)) =
      map (\<lambda>a. (a_work_item_id a, a_fencing a)) (attempts s)"
    by (rule map_update_static, simp add: keep)+
  have imgs: "(\<lambda>a. (a_work_item_id a, a_goal_id a)) ` set (update_where pa fa (attempts s)) =
      (\<lambda>a. (a_work_item_id a, a_goal_id a)) ` set (attempts s)"
    "(\<lambda>a. (a_id a, a_work_item_id a, a_goal_id a)) ` set (update_where pa fa (attempts s)) =
      (\<lambda>a. (a_id a, a_work_item_id a, a_goal_id a)) ` set (attempts s)"
    by (rule image_update_static, simp add: keep)+
  have rows: "\<forall>a \<in> set (update_where pa fa (attempts s)). attempt_wf a"
    by (rule ball_update_where) (use attempt_legal_fields(6) [OF leg] inv_rows(2) [OF inv] in blast)+
  have fence: "\<forall>a \<in> set (update_where pa fa (attempts s)). \<forall>w \<in> set (work_items s).
      w_id w = a_work_item_id a \<longrightarrow> a_fencing a \<le> w_fencing w"
    by (rule ball_update_where) (simp add: keep, use inv_fencing [OF inv] in blast)
  have "attempt_count (upd_attempts pa fa s) wid \<le> attempt_count s wid" for wid
    unfolding attempt_count_def upd_attempts_simps
    by (rule count_update_le) (use attempt_legal_fields(3,5) [OF leg] in fastforce)
  then have cnt: "\<forall>w \<in> set (work_items s). int (attempt_count (upd_attempts pa fa s) (w_id w)) \<le> w_max_attempts w"
    using inv_attempt_count [OF inv] by (meson of_nat_le_iff order_trans)
  from inv maps imgs rows fence cnt show ?thesis
    by (simp add: inv_def keys_ok_def refs_ok_def rows_ok_def fencing_ok_def attempts_ok_def)
qed

lemma inv_checkpoints_upd:
  assumes inv: "inv c s" and leg: "\<And>x. x \<in> set (checkpoints s) \<Longrightarrow> pc x \<Longrightarrow> checkpoint_legal x (fc x)"
  shows "inv c (upd_checkpoints pc fc s)"
proof -
  note keep = checkpoint_legal_fields(1-5) [OF leg]
  have maps: "map c_id (update_where pc fc (checkpoints s)) = map c_id (checkpoints s)"
    "map (\<lambda>x. (c_work_item_id x, c_idempotency_key x)) (update_where pc fc (checkpoints s)) =
      map (\<lambda>x. (c_work_item_id x, c_idempotency_key x)) (checkpoints s)"
    by (rule map_update_static, simp add: keep)+
  have imgs: "(\<lambda>x. (c_attempt_id x, c_work_item_id x, c_goal_id x)) ` set (update_where pc fc (checkpoints s)) =
      (\<lambda>x. (c_attempt_id x, c_work_item_id x, c_goal_id x)) ` set (checkpoints s)"
    by (rule image_update_static, simp add: keep)
  have rows: "\<forall>x \<in> set (update_where pc fc (checkpoints s)). checkpoint_wf x"
    by (rule ball_update_where) (use checkpoint_legal_fields(6) [OF leg] inv_rows(3) [OF inv] in blast)+
  from inv maps imgs rows show ?thesis
    by (simp add: inv_def keys_ok_def refs_ok_def rows_ok_def fencing_ok_def attempts_ok_def
        attempt_count_cong [of "upd_checkpoints pc fc s" s])
qed

lemma inv_budgets_set:
  assumes "inv c s"
    and "\<And>b. b \<in> set bs \<Longrightarrow> (b \<in> set (budgets s) \<or> budget_wf b) \<and> b_goal_id b \<in> g_id ` set (goals s)"
    and "distinct (map b_goal_id bs)"
  shows "inv c (s\<lparr>budgets := bs\<rparr>)"
proof -
  have "\<forall>b \<in> set bs. budget_wf b" "b_goal_id ` set bs \<subseteq> g_id ` set (goals s)"
    using assms(2) inv_rows(4) [OF assms(1)] by blast+
  with assms show ?thesis
    by (simp add: inv_def keys_ok_def refs_ok_def rows_ok_def fencing_ok_def attempts_ok_def
        attempt_count_def)
qed

lemma next_sequence_length:
  "map ev_sequence es = map (\<lambda>i. int i + 1) [0..<length es] \<Longrightarrow> next_sequence es = int (length es) + 1"
proof (cases es rule: rev_cases)
  case (snoc ys y)
  assume "map ev_sequence es = map (\<lambda>i. int i + 1) [0..<length es]"
  with snoc show ?thesis by (simp add: next_sequence_def)
qed (simp add: next_sequence_def)

lemma inv_event: "inv c s \<Longrightarrow> inv c (insert_event now gid ty actor details s)"
  using next_sequence_length [of "events s"]
  by (simp add: inv_def keys_ok_def refs_ok_def rows_ok_def fencing_ok_def attempts_ok_def
      attempt_count_def) (simp add: insert_event_def)

lemma inv_add_goal:
  assumes "inv c s" and "g_id g \<notin> g_id ` set (goals s)"
    and "g_request_id g = None \<or> g_request_id g \<notin> g_request_id ` set (goals s)"
  shows "inv c (s\<lparr>goals := goals s @ [g]\<rparr>)"
proof -
  have "distinct (filter (\<lambda>x. x \<noteq> None) (map g_request_id (goals s @ [g])))"
    using assms(1,3) by (auto simp: inv_def keys_ok_def)
  moreover have "refs_ok (s\<lparr>goals := goals s @ [g]\<rparr>)"
    using assms(1) by (auto simp: inv_def refs_ok_def)
  ultimately show ?thesis using assms(1,2)
    by (simp add: inv_def keys_ok_def rows_ok_def fencing_ok_def attempts_ok_def attempt_count_def)
qed

lemma inv_add_workflow:
  assumes "inv c s" and "p_id p \<notin> p_id ` set (workflows s)" and "p_goal_id p \<in> g_id ` set (goals s)"
    and "(p_goal_id p, p_goal_revision p) \<notin> (\<lambda>p. (p_goal_id p, p_goal_revision p)) ` set (workflows s)"
    and "plan_wf c p"
  shows "inv c (s\<lparr>workflows := workflows s @ [p]\<rparr>)"
proof -
  have "refs_ok (s\<lparr>workflows := workflows s @ [p]\<rparr>)"
    using assms(1,3) by (auto simp: inv_def refs_ok_def)
  moreover have "rows_ok c (s\<lparr>workflows := workflows s @ [p]\<rparr>)"
    using assms(1,5) by (auto simp: inv_def rows_ok_def)
  ultimately show ?thesis using assms(1,2,4)
    by (simp add: inv_def keys_ok_def fencing_ok_def attempts_ok_def attempt_count_def)
qed

lemma inv_add_approval:
  assumes "inv c s" and "p \<in> set (workflows s)" and "approval_binds c a p"
    and "(ap_goal_id a, ap_goal_revision a) \<notin> (\<lambda>a. (ap_goal_id a, ap_goal_revision a)) ` set (approvals s)"
  shows "inv c (s\<lparr>approvals := approvals s @ [a]\<rparr>)"
proof -
  have "rows_ok c (s\<lparr>approvals := approvals s @ [a]\<rparr>)"
    using assms(1-3) by (auto simp: inv_def rows_ok_def)
  then show ?thesis using assms(1,4)
    by (simp add: inv_def keys_ok_def refs_ok_def fencing_ok_def attempts_ok_def attempt_count_def)
qed

lemma inv_attempt_item:
  assumes "inv c s" and "a \<in> set (attempts s)"
  obtains w where "w \<in> set (work_items s)" "w_id w = a_work_item_id a" "w_goal_id w = a_goal_id a"
proof -
  have "(\<lambda>a. (a_work_item_id a, a_goal_id a)) ` set (attempts s)
      \<subseteq> (\<lambda>w. (w_id w, w_goal_id w)) ` set (work_items s)"
    using assms(1) by (simp add: inv_def refs_ok_def)
  with assms(2) have "(a_work_item_id a, a_goal_id a) \<in> (\<lambda>w. (w_id w, w_goal_id w)) ` set (work_items s)"
    by blast
  with that show thesis by auto
qed

lemma attempt_count_fresh:
  assumes "inv c s" and "wid \<notin> w_id ` set (work_items s)"
  shows "attempt_count s wid = 0"
proof -
  have "a_work_item_id a \<noteq> wid" if "a \<in> set (attempts s)" for a
    using inv_attempt_item [OF assms(1) that] assms(2) by (metis imageI)
  then show ?thesis by (simp add: attempt_count_def)
qed

lemma inv_add_item:
  assumes inv: "inv c s" and new: "w_id w \<notin> w_id ` set (work_items s)" and wf: "item_wf w"
    and ref: "(w_workflow_id w, w_goal_id w) \<in> (\<lambda>p. (p_id p, p_goal_id p)) ` set (workflows s)"
    and "(w_workflow_id w, w_step_id w) \<notin> (\<lambda>v. (w_workflow_id v, w_step_id v)) ` set (work_items s)"
  shows "inv c (s\<lparr>work_items := work_items s @ [w]\<rparr>)"
proof -
  have "attempts_ok (s\<lparr>work_items := work_items s @ [w]\<rparr>)"
    unfolding attempts_ok_def
  proof
    fix v assume "v \<in> set (work_items (s\<lparr>work_items := work_items s @ [w]\<rparr>))"
    then have "v \<in> set (work_items s) \<or> v = w" by auto
    then have "int (attempt_count s (w_id v)) \<le> w_max_attempts v"
      using inv_attempt_count [OF inv] attempt_count_fresh [OF inv new] wf by (auto simp: item_wf_def)
    then show "int (attempt_count (s\<lparr>work_items := work_items s @ [w]\<rparr>) (w_id v)) \<le> w_max_attempts v"
      by (simp add: attempt_count_def)
  qed
  moreover have "a_work_item_id a \<noteq> w_id w" if "a \<in> set (attempts s)" for a
    using inv_attempt_item [OF inv that] new by (metis imageI)
  then have "fencing_ok (s\<lparr>work_items := work_items s @ [w]\<rparr>)"
    using inv by (simp add: inv_def fencing_ok_def) metis
  moreover have "refs_ok (s\<lparr>work_items := work_items s @ [w]\<rparr>)"
    using inv ref by (auto simp: inv_def refs_ok_def)
  ultimately show ?thesis using assms
    by (simp add: inv_def keys_ok_def rows_ok_def)
qed

lemma inv_add_deps:
  assumes "inv c s"
    and "\<And>d. d \<in> set ds \<Longrightarrow> d_work_item d \<in> w_id ` set (work_items s) \<and> d_depends_on d \<in> w_id ` set (work_items s)"
    and "distinct ds" and "set ds \<inter> set (deps s) = {}"
    and "acyclic (dep_rel (deps s)) \<Longrightarrow> acyclic (dep_rel (deps s @ ds))"
  shows "inv c (s\<lparr>deps := deps s @ ds\<rparr>)"
proof -
  have "refs_ok (s\<lparr>deps := deps s @ ds\<rparr>)"
    using assms(1,2) by (auto simp: inv_def refs_ok_def)
  then show ?thesis using assms
    by (auto simp: inv_def keys_ok_def rows_ok_def fencing_ok_def attempts_ok_def attempt_count_def)
qed

lemma inv_add_attempt:
  assumes inv: "inv c s" and new: "a_id a \<notin> a_id ` set (attempts s)" and wf: "attempt_wf a"
    and w: "w \<in> set (work_items s)" "a_work_item_id a = w_id w" "a_goal_id a = w_goal_id w"
    and fen: "a_fencing a = w_fencing w"
    and older: "\<And>b. b \<in> set (attempts s) \<Longrightarrow> a_work_item_id b = w_id w \<Longrightarrow> a_fencing b < a_fencing a"
    and cnt: "int (attempt_count s (w_id w)) < w_max_attempts w"
  shows "inv c (s\<lparr>attempts := attempts s @ [a]\<rparr>)"
proof -
  have uniq: "v = w" if "v \<in> set (work_items s)" "w_id v = w_id w" for v
    using that w(1) inv by (auto simp: inv_def keys_ok_def distinct_map dest: inj_onD)
  have "attempts_ok (s\<lparr>attempts := attempts s @ [a]\<rparr>)"
    unfolding attempts_ok_def
  proof
    fix v assume v: "v \<in> set (work_items (s\<lparr>attempts := attempts s @ [a]\<rparr>))"
    then show "int (attempt_count (s\<lparr>attempts := attempts s @ [a]\<rparr>) (w_id v)) \<le> w_max_attempts v"
      using inv_attempt_count [OF inv, of v] cnt uniq [of v] w(2)
      by (cases "w_id v = w_id w") (auto simp: attempt_count_def)
  qed
  moreover have "fencing_ok (s\<lparr>attempts := attempts s @ [a]\<rparr>)"
    using inv fen w(2) older uniq by (fastforce simp: inv_def fencing_ok_def)
  moreover have "refs_ok (s\<lparr>attempts := attempts s @ [a]\<rparr>)"
    using inv w by (auto simp: inv_def refs_ok_def)
  ultimately show ?thesis using assms by (simp add: inv_def keys_ok_def rows_ok_def)
qed

lemma inv_add_checkpoint:
  assumes "inv c s" and "c_id x \<notin> c_id ` set (checkpoints s)" and "checkpoint_wf x"
    and "a \<in> set (attempts s)" "c_attempt_id x = a_id a" "c_work_item_id x = a_work_item_id a"
      "c_goal_id x = a_goal_id a"
    and "(c_work_item_id x, c_idempotency_key x) \<notin>
       (\<lambda>y. (c_work_item_id y, c_idempotency_key y)) ` set (checkpoints s)"
  shows "inv c (s\<lparr>checkpoints := checkpoints s @ [x]\<rparr>)"
proof -
  have "refs_ok (s\<lparr>checkpoints := checkpoints s @ [x]\<rparr>)"
    using assms(1,4-7) by (auto simp: inv_def refs_ok_def)
  then show ?thesis using assms
    by (simp add: inv_def keys_ok_def rows_ok_def fencing_ok_def attempts_ok_def attempt_count_def)
qed

lemma inv_add_records:
  assumes "inv c s"
  shows "m_goal_id m \<in> g_id ` set (goals s) \<Longrightarrow> inv c (s\<lparr>manuals := manuals s @ [m]\<rparr>)"
    and "sid \<in> s_id ` set (signals s) \<Longrightarrow> inv c (insert_signal_event_tx now sid st actor details s)"
    and "f_id fr \<notin> f_id ` set (artifacts s) \<Longrightarrow>
      (f_kind fr, f_name fr, f_version fr) \<notin> (\<lambda>x. (f_kind x, f_name x, f_version x)) ` set (artifacts s) \<Longrightarrow>
      inv c (s\<lparr>artifacts := artifacts s @ [fr], artifact_events := artifact_events s @ [fe]\<rparr>)"
    and "t_id te \<notin> t_id ` set (self_tests s) \<Longrightarrow> inv c (s\<lparr>self_tests := self_tests s @ [te]\<rparr>)"
    and "rp_id rw \<notin> rp_id ` set (replays s) \<Longrightarrow> inv c (s\<lparr>replays := replays s @ [rw]\<rparr>)"
  using assms
  by (simp_all add: inv_def keys_ok_def refs_ok_def rows_ok_def fencing_ok_def attempts_ok_def
      attempt_count_def insert_signal_event_tx_def)

lemma inv_add_signal:
  assumes "inv c s" and "\<And>x. x \<in> set (signals s) \<Longrightarrow> \<not> signal_clash x r"
  shows "inv c (s\<lparr>signals := signals s @ [r]\<rparr>)"
proof -
  have "refs_ok (s\<lparr>signals := signals s @ [r]\<rparr>)"
    using assms(1) by (auto simp: inv_def refs_ok_def)
  then show ?thesis using assms
    by (simp add: inv_def keys_ok_def rows_ok_def fencing_ok_def attempts_ok_def attempt_count_def
        sorted_wrt_append)
qed

lemma inv_add_frame:
  assumes "inv c s" and "fr_id fw \<notin> fr_id ` set (frames s)"
    and "(fr_trajectory_id fw, fr_call_index fw) \<notin> (\<lambda>x. (fr_trajectory_id x, fr_call_index x)) ` set (frames s)"
    and "fr_request_hash fw = request_hash c (fr_request_messages fw) (fr_request_was_json fw)"
    and "fr_response_hash fw = hash_serializable c (JStr (fr_response fw))"
  shows "inv c (s\<lparr>frames := frames s @ [fw]\<rparr>)"
  using assms
  by (simp add: inv_def keys_ok_def refs_ok_def rows_ok_def fencing_ok_def attempts_ok_def attempt_count_def)

lemma change_inv: "change c s t \<Longrightarrow> inv c s \<Longrightarrow> inv c t"
proof (induction rule: change.induct)
  case (add_attempt a s w)
  then show ?case by (intro inv_add_attempt) auto
next
  case (add_checkpoint x s a)
  then show ?case by (intro inv_add_checkpoint) auto
qed (simp_all add: inv_goals_upd inv_items_upd item_legal_success inv_attempts_upd inv_checkpoints_upd inv_budgets_set
    inv_event inv_add_goal inv_add_workflow inv_add_approval inv_add_item inv_add_deps dep_within_ids
    inv_add_records inv_add_signal inv_add_frame)

lemma changes_inv: "changes c s t \<Longrightarrow> inv c s \<Longrightarrow> inv c t"
  by (induction rule: rtranclp_induct) (auto intro: change_inv)

section \<open>Success rests on a reconciled checkpoint\<close>

definition success_ok :: "db \<Rightarrow> bool" where
  "success_ok s \<longleftrightarrow> (\<forall>w \<in> set (work_items s). w_status w = Succeeded \<longrightarrow> reconciled_item s (w_id w))"

lemma phase_from_reconciled: "phase_edge\<^sup>*\<^sup>* Reconciled p \<Longrightarrow> p = Reconciled"
  by (erule converse_rtranclpE) auto

lemma phase_from_committed: "phase_edge\<^sup>*\<^sup>* Committed p \<Longrightarrow> p \<in> {Committed, Reconciled}"
  by (erule converse_rtranclpE) (auto dest: phase_from_reconciled)

lemma reconciled_itemI:
  assumes "x \<in> set (checkpoints s)" "c_phase (if pc x then fc x else x) = Reconciled"
    "c_work_item_id (if pc x then fc x else x) = wid"
  shows "reconciled_item (upd_checkpoints pc fc s) wid"
  unfolding reconciled_item_def upd_checkpoints_simps using update_where_mem [OF assms(1)] assms(2,3) by blast

lemma reconciled_item_upd:
  assumes "reconciled_item s wid" and leg: "\<And>x. x \<in> set (checkpoints s) \<Longrightarrow> pc x \<Longrightarrow> checkpoint_legal x (fc x)"
  shows "reconciled_item (upd_checkpoints pc fc s) wid"
proof -
  from assms(1) obtain x where x: "x \<in> set (checkpoints s)" "c_work_item_id x = wid" "c_phase x = Reconciled"
    by (auto simp: reconciled_item_def)
  then have "c_phase (if pc x then fc x else x) = Reconciled" "c_work_item_id (if pc x then fc x else x) = wid"
    using leg [of x] checkpoint_legal_fields(3) [of x "fc x"]
    by (auto simp: checkpoint_legal_def checkpoint_evolves_def dest!: phase_from_reconciled)
  with x(1) show ?thesis by (rule reconciled_itemI)
qed

lemma success_items_upd:
  assumes ok: "success_ok s" and leg: "\<And>w. w \<in> set (work_items s) \<Longrightarrow> q w \<Longrightarrow>
    w_id (h w) = w_id w \<and> (w_status (h w) = Succeeded \<longrightarrow> w_status w = Succeeded \<or> reconciled_item s (w_id w))"
  shows "success_ok (upd_items q h s)"
  unfolding success_ok_def
proof (intro ballI impI)
  fix w assume w: "w \<in> set (work_items (upd_items q h s))" "w_status w = Succeeded"
  then obtain v where v: "v \<in> set (work_items s)" "w = (if q v then h v else v)"
    by (auto elim: mem_update_whereE)
  with w(2) leg [of v] ok show "reconciled_item (upd_items q h s) (w_id w)"
    by (auto simp: success_ok_def reconciled_item_def split: if_splits)
qed

lemma change_success: "change c s t \<Longrightarrow> success_ok s \<Longrightarrow> success_ok t"
proof (induction rule: change.induct)
  case (items_upd s q h)
  show ?case
    by (rule success_items_upd [OF items_upd(2)])
      (use items_upd(1) in \<open>auto simp: item_legal_def item_evolves_def item_static_def\<close>)
next
  case (items_succeed s q h)
  show ?case
    by (rule success_items_upd [OF items_succeed(2)])
      (use items_succeed(1) in \<open>auto simp: item_success_def item_evolves_def item_static_def\<close>)
next
  case (checkpoints_upd s pc fc)
  then show ?case using reconciled_item_upd [of s _ pc fc] by (simp add: success_ok_def)
qed (auto simp: success_ok_def reconciled_item_def insert_signal_event_tx_def)

lemma changes_success: "changes c s t \<Longrightarrow> success_ok s \<Longrightarrow> success_ok t"
  by (induction rule: rtranclp_induct) (auto intro: change_success)

lemma success_empty: "success_ok empty_db"
  by (simp add: success_ok_def empty_db_def)

section \<open>Attempts are numbered in order\<close>

definition numbers_ok :: "db \<Rightarrow> bool" where
  "numbers_ok s \<longleftrightarrow> (\<forall>a \<in> set (attempts s).
     a_number a \<le> int (count_where (\<lambda>b. a_work_item_id b = a_work_item_id a) (attempts s)))"

lemma numbers_attempts_upd:
  assumes ok: "numbers_ok s" and leg: "\<And>a. a \<in> set (attempts s) \<Longrightarrow> pa a \<Longrightarrow> attempt_legal a (fa a)"
  shows "numbers_ok (upd_attempts pa fa s)"
proof -
  have static: "a_work_item_id (fa a) = a_work_item_id a \<and> a_number (fa a) = a_number a"
    if "a \<in> set (attempts s)" "pa a" for a
    using leg [OF that] by (simp add: attempt_legal_def attempt_evolves_def attempt_static_def)
  have "map a_work_item_id (update_where pa fa (attempts s)) = map a_work_item_id (attempts s)"
    by (rule map_update_static) (simp add: static)
  then have cnt: "count_where (\<lambda>b. a_work_item_id b = wid) (update_where pa fa (attempts s)) =
      count_where (\<lambda>b. a_work_item_id b = wid) (attempts s)" for wid
    using count_where_map [of "\<lambda>x. x = wid" a_work_item_id] by metis
  show ?thesis
    using ok static unfolding numbers_ok_def upd_attempts_simps cnt
    by (auto elim!: mem_update_whereE)
qed

lemma change_numbers: "change c s t \<Longrightarrow> numbers_ok s \<Longrightarrow> numbers_ok t"
proof (induction rule: change.induct)
  case (attempts_upd s pa fa)
  then show ?case by (intro numbers_attempts_upd)
next
  case (add_attempt a s w)
  then show ?case by (fastforce simp: numbers_ok_def)
qed (simp_all add: numbers_ok_def insert_signal_event_tx_def)

lemma changes_numbers: "changes c s t \<Longrightarrow> numbers_ok s \<Longrightarrow> numbers_ok t"
  by (induction rule: rtranclp_induct) (auto intro: change_numbers)

section \<open>Dependencies stay within a goal\<close>

definition deps_ok :: "db \<Rightarrow> bool" where
  "deps_ok s \<longleftrightarrow> (\<forall>d \<in> set (deps s). dep_within s d)"

lemma dep_within_mono:
  "dep_within s d \<Longrightarrow>
   (\<lambda>w. (w_id w, w_goal_id w)) ` set (work_items s) \<subseteq> (\<lambda>w. (w_id w, w_goal_id w)) ` set (work_items t) \<Longrightarrow>
   dep_within t d"
  unfolding dep_within_def by (elim exE conjE) (intro exI conjI; erule (1) subsetD)

lemma deps_items_upd:
  assumes "deps_ok s" and "\<And>w. w \<in> set (work_items s) \<Longrightarrow> q w \<Longrightarrow> item_success w (h w)"
  shows "deps_ok (upd_items q h s)"
proof -
  have "(\<lambda>w. (w_id w, w_goal_id w)) ` set (work_items (upd_items q h s)) = (\<lambda>w. (w_id w, w_goal_id w)) ` set (work_items s)"
    unfolding upd_items_simps by (rule image_update_static) (simp add: assms(2) item_success_fields)
  with assms(1) show ?thesis unfolding deps_ok_def dep_within_def by simp
qed

lemma change_deps: "change c s t \<Longrightarrow> deps_ok s \<Longrightarrow> deps_ok t"
proof (induction rule: change.induct)
  case (items_upd s q h)
  then show ?case by (intro deps_items_upd) (auto intro: item_legal_success)
next
  case (items_succeed s q h)
  then show ?case by (intro deps_items_upd) auto
next
  case (add_item w s)
  then show ?case by (auto simp: deps_ok_def intro: dep_within_mono [of s])
next
  case (add_deps ds s)
  then show ?case by (auto simp: deps_ok_def intro: dep_within_mono [of s])
qed (simp_all add: deps_ok_def dep_within_def insert_signal_event_tx_def)

lemma changes_deps: "changes c s t \<Longrightarrow> deps_ok s \<Longrightarrow> deps_ok t"
  by (induction rule: rtranclp_induct) (auto intro: change_deps)

end
