(* ===== verification/Loop_Transactions.thy ===== *)
theory Loop_Transactions
  imports Loop_Invariant
begin

text \<open>
  Every transaction of the store, started in a state that satisfies the invariant, is a sequence
  of the primitive changes of \<open>Loop_Change\<close>. With \<open>changes_inv\<close> and \<open>changes_evolves\<close> this
  gives the invariant and the evolution of the tables for every step of the engine.
\<close>

named_theorems legal_defs \<open>unfolding the legality of row updates\<close>
named_theorems change_intros \<open>extending a sequence of changes by one\<close>

declare goal_legal_def [legal_defs] goal_evolves_def [legal_defs] goal_static_def [legal_defs]
  item_legal_def [legal_defs] item_evolves_def [legal_defs] item_static_def [legal_defs]
  item_wf_def [legal_defs]
  attempt_legal_def [legal_defs] attempt_evolves_def [legal_defs] attempt_static_def [legal_defs]
  attempt_wf_def [legal_defs] live_attempt_def [legal_defs]
  checkpoint_legal_def [legal_defs] checkpoint_evolves_def [legal_defs]
  checkpoint_static_def [legal_defs] checkpoint_wf_def [legal_defs]

lemma ch_goals [change_intros]:
  "changes c s t \<Longrightarrow> (\<And>g. g \<in> set (goals t) \<Longrightarrow> p g \<Longrightarrow> goal_legal g (f g)) \<Longrightarrow> changes c s (upd_goals p f t)"
  by (blast intro: rtranclp.rtrancl_into_rtrancl change.goals_upd)

lemma ch_items [change_intros]:
  "changes c s t \<Longrightarrow> (\<And>w. w \<in> set (work_items t) \<Longrightarrow> p w \<Longrightarrow> item_legal w (f w)) \<Longrightarrow> changes c s (upd_items p f t)"
  by (blast intro: rtranclp.rtrancl_into_rtrancl change.items_upd)

lemma ch_success:
  "changes c s t \<Longrightarrow>
   (\<And>w. w \<in> set (work_items t) \<Longrightarrow> p w \<Longrightarrow> item_success w (f w) \<and> reconciled_item t (w_id w)) \<Longrightarrow>
   changes c s (upd_items p f t)"
  by (blast intro: rtranclp.rtrancl_into_rtrancl change.items_succeed)

lemma ch_attempts [change_intros]:
  "changes c s t \<Longrightarrow> (\<And>a. a \<in> set (attempts t) \<Longrightarrow> p a \<Longrightarrow> attempt_legal a (f a)) \<Longrightarrow> changes c s (upd_attempts p f t)"
  by (blast intro: rtranclp.rtrancl_into_rtrancl change.attempts_upd)

lemma ch_checkpoints [change_intros]:
  "changes c s t \<Longrightarrow> (\<And>x. x \<in> set (checkpoints t) \<Longrightarrow> p x \<Longrightarrow> checkpoint_legal x (f x)) \<Longrightarrow>
   changes c s (upd_checkpoints p f t)"
  by (blast intro: rtranclp.rtrancl_into_rtrancl change.checkpoints_upd)

lemma ch_event [change_intros]: "changes c s t \<Longrightarrow> changes c s (insert_event now gid ty actor d t)"
  by (blast intro: rtranclp.rtrancl_into_rtrancl change.event)

lemma ch_refl [change_intros]: "changes c s s"
  by simp

section \<open>Rows that move along their status graphs\<close>

lemma item_to_failed: "x \<notin> {Succeeded, Failed} \<Longrightarrow> item_edge\<^sup>*\<^sup>* x Failed"
  by (cases x) (auto intro: r_into_rtranclp)

lemma item_to_canceled: "x \<notin> {Succeeded, Failed, Canceled} \<Longrightarrow> item_edge\<^sup>*\<^sup>* x Canceled"
  by (cases x) (auto intro: r_into_rtranclp)

lemma running_to: "y \<in> {Ready, Succeeded, WaitingConfirmation, Blocked, Failed} \<Longrightarrow> item_edge\<^sup>*\<^sup>* Running y"
  by (auto intro: r_into_rtranclp)

lemma waiting_to: "y \<in> {Ready, Succeeded, Failed} \<Longrightarrow> item_edge\<^sup>*\<^sup>* WaitingConfirmation y"
  by (auto intro: r_into_rtranclp)

lemma live_to:
  "live_attempt a \<Longrightarrow> y \<notin> {AttemptRunning, Committing} \<Longrightarrow> attempt_edge\<^sup>*\<^sup>* (a_status a) y"
  by (auto simp: live_attempt_def intro: r_into_rtranclp)

lemma goal_edge_single: "goal_edge x y \<Longrightarrow> goal_edge\<^sup>*\<^sup>* x y"
  by (rule r_into_rtranclp)

text \<open>Ending an item's run: no lease afterwards.\<close>

lemma item_legal_end:
  assumes "item_static w' = item_static w" "w_fencing w' = w_fencing w"
    "w_lease_token w' = None" "w_lease_until w' = None"
    "item_edge\<^sup>*\<^sup>* (w_status w) (w_status w')" "w_status w' \<noteq> Running" "w_status w' \<noteq> Succeeded"
  shows "item_legal w w'"
  using assms by (auto simp: legal_defs)

lemma item_success_end:
  assumes "item_static w' = item_static w" "w_fencing w' = w_fencing w"
    "w_lease_token w' = None" "w_lease_until w' = None"
    "item_edge\<^sup>*\<^sup>* (w_status w) Succeeded" "w_status w' = Succeeded"
  shows "item_success w w'"
  using assms by (auto simp: item_success_def legal_defs)

text \<open>Ending an attempt.\<close>

lemma attempt_legal_end:
  assumes "attempt_static a' = attempt_static a" "a_finished_at a' \<noteq> None"
    "attempt_edge\<^sup>*\<^sup>* (a_status a) (a_status a')" "\<not> live_attempt a'"
  shows "attempt_legal a a'"
  using assms by (auto simp: legal_defs)

lemma voided_legal:
  assumes "checkpoint_static x' = checkpoint_static x" "c_phase x = Prepared" "c_phase x' = Voided"
    "c_outcome x' = c_outcome x"
  shows "checkpoint_legal x x'"
  using assms by (auto simp: legal_defs intro: r_into_rtranclp)

section \<open>Helpers of the store\<close>

lemma reconciled_legal:
  "c_phase x = Committed \<Longrightarrow> checkpoint_legal x (x\<lparr>c_phase := Reconciled, c_updated_at := now\<rparr>)"
  by (auto simp: legal_defs intro: r_into_rtranclp)

text \<open>A checkpoint record that was committed when it was read: its row is committed or reconciled.\<close>

definition committed_row :: "checkpoint_record \<Rightarrow> db \<Rightarrow> bool" where
  "committed_row k s \<longleftrightarrow> (\<exists>x \<in> set (checkpoints s). c_id x = cr_id k \<and>
     c_work_item_id x = cr_work_item_id k \<and> c_phase x \<in> {Committed, Reconciled})"

lemma committed_row_evolves:
  assumes "committed_row k s" and "evolves s t"
  shows "committed_row k t"
proof -
  from assms(1) obtain x where x: "x \<in> set (checkpoints s)" "c_id x = cr_id k"
      "c_work_item_id x = cr_work_item_id k" "c_phase x \<in> {Committed, Reconciled}"
    by (auto simp: committed_row_def)
  from assms(2) have "rows_evolve checkpoint_evolves (checkpoints s) (checkpoints t)" by (simp add: evolves_def)
  then obtain y where y: "y \<in> set (checkpoints t)" "checkpoint_evolves x y"
    using x(1) by (rule rows_evolve_member)
  have "c_phase y \<in> {Committed, Reconciled}"
    using y(2) x(4) phase_from_reconciled phase_from_committed unfolding checkpoint_evolves_def by fastforce
  with x y show ?thesis
    by (auto simp: committed_row_def checkpoint_evolves_def checkpoint_static_def intro!: bexI [of _ y])
qed

lemma reconcile_changes:
  assumes "reconcile_checkpoint_tx now k s = Inr t" and row: "committed_row k s"
  shows "changes c s t"
proof -
  define s1 where "s1 = upd_checkpoints (\<lambda>x. c_id x = cr_id k \<and> c_phase x = Committed)
      (\<lambda>x. x\<lparr>c_phase := Reconciled, c_updated_at := now\<rparr>) s"
  define s2 where "s2 = upd_attempts (\<lambda>a. a_id a = cr_attempt_id k \<and> live_attempt a)
      (\<lambda>a. a\<lparr>a_status := AttemptSucceeded, a_finished_at := Some now, a_error := None\<rparr>) s1"
  from row obtain x where x: "x \<in> set (checkpoints s)" "c_id x = cr_id k"
      "c_work_item_id x = cr_work_item_id k" "c_phase x \<in> {Committed, Reconciled}"
    by (auto simp: committed_row_def)
  have "reconciled_item s1 (cr_work_item_id k)"
    unfolding s1_def by (rule reconciled_itemI [OF x(1)]) (use x in auto)
  then have "reconciled_item s2 (cr_work_item_id k)"
    by (simp add: reconciled_item_def s2_def)
  moreover have "changes c s s2"
    unfolding s2_def s1_def
    by (auto simp: attempt_static_def live_attempt_def
        intro!: change_intros reconciled_legal attempt_legal_end live_to)
  moreover have "item_success w (w\<lparr>w_status := Succeeded, w_lease_token := None, w_lease_until := None,
      w_next_attempt_at := None, w_progress := None, w_last_error := None, w_updated_at := now\<rparr>)"
    if "w_status w = Running" for w
    using that by (intro item_success_end) (auto simp: item_static_def intro!: running_to)
  ultimately have "changes c s (upd_items (\<lambda>w. w_id w = cr_work_item_id k \<and> w_status w = Running)
      (\<lambda>w. w\<lparr>w_status := Succeeded, w_lease_token := None, w_lease_until := None,
         w_next_attempt_at := None, w_progress := None, w_last_error := None, w_updated_at := now\<rparr>) s2)"
    by (intro ch_success) auto
  with assms(1) show ?thesis
    unfolding s2_def s1_def by (auto simp: reconcile_checkpoint_tx_def)
qed

lemma reconcile_all_changes:
  "reconcile_all now ks s = Inr t \<Longrightarrow> (\<And>k. k \<in> set ks \<Longrightarrow> committed_row k s) \<Longrightarrow> changes c s t"
proof (induction now ks s rule: reconcile_all.induct)
  case (2 now k ks s)
  then obtain s1 where s1: "reconcile_checkpoint_tx now k s = Inr s1" "reconcile_all now ks s1 = Inr t"
    by auto
  have st: "changes c s s1" using reconcile_changes [OF s1(1)] "2.prems"(2) by simp
  moreover have "committed_row x s1" if "x \<in> set ks" for x
    using "2.prems"(2) that changes_evolves [OF st] by (auto intro: committed_row_evolves)
  ultimately show ?case using "2.IH" [OF s1(2)] by (blast intro: rtranclp_trans)
qed simp

lemma committed_checkpoints_rows: "k \<in> set (committed_checkpoints s gid) \<Longrightarrow> committed_row k s"
  by (auto simp: committed_checkpoints_def committed_row_def decode_checkpoint_def)

lemma expire_item_changes: "changes c s (expire_item now x s)"
  unfolding expire_item_def expiry_verdict_def
  by (auto simp: item_static_def attempt_static_def checkpoint_static_def live_attempt_def
      intro!: change_intros item_legal_end attempt_legal_end voided_legal running_to live_to)

lemma expire_items_changes: "changes c s (fold (expire_item now) xs s)"
proof (induction xs arbitrary: s)
  case (Cons x xs)
  show ?case using rtranclp_trans [OF expire_item_changes Cons.IH] by simp
qed simp

lemma unlock_changes: "changes c s (snd (unlock_ready_work_tx now gid s))"
proof -
  have "item_legal w (w\<lparr>w_status := Ready, w_updated_at := now\<rparr>)" if "w_status w = Pending" for w
    using that by (auto simp: legal_defs intro: r_into_rtranclp)
  then show ?thesis
    by (auto simp: unlock_ready_work_tx_def unlockable_def intro!: change_intros)
qed

lemma refresh_changes: "changes c s (refresh_goal_status_tx now gid s)"
proof -
  have "goal_edge\<^sup>*\<^sup>* x y"
    if "x \<in> {Approved, Active, Verifying, GoalFailed}" "y \<in> {Verifying, GoalFailed, Active}" for x y
    using that by (auto intro: r_into_rtranclp)
  moreover have "st \<in> {Verifying, GoalFailed, Active}" if "next_goal_status ws = Some st" for ws st
    using that by (auto simp: next_goal_status_def Let_def split: if_splits)
  ultimately show ?thesis
    by (auto simp: refresh_goal_status_tx_def legal_defs split: option.splits intro!: change_intros)
qed

lemma recover_changes:
  assumes "recover_tx now gid actor s = Inr (parked, t)"
  shows "changes c s t"
proof (cases "count_where (\<lambda>g. g_id g = gid) (goals s) = 0")
  case True
  with assms show ?thesis by (simp add: recover_tx_def ensure_valid_id_def del: count_where_0)
next
  case False
  with assms obtain s1 where s1: "reconcile_all now (committed_checkpoints s gid) s = Inr s1"
    by (auto simp: recover_tx_def ensure_valid_id_def Let_def simp del: count_where_0)
  define s2 where "s2 = fold (expire_item now) (expired_rows now gid s1) s1"
  define s4 where "s4 = refresh_goal_status_tx now gid (snd (unlock_ready_work_tx now gid s2))"
  have "changes c s s4"
    unfolding s4_def s2_def
    by (intro rtranclp_trans [OF _ refresh_changes] rtranclp_trans [OF _ unlock_changes]
        rtranclp_trans [OF _ expire_items_changes] reconcile_all_changes [OF s1 committed_checkpoints_rows])
  moreover have t: "(let recovered = length (committed_checkpoints s gid) + length (expired_rows now gid s1);
        unlocked = fst (unlock_ready_work_tx now gid s2)
      in if 0 < recovered \<or> 0 < unlocked
         then insert_event now gid ''goal.recovered'' actor
           (JObj [(''reconciled_or_expired'', JInt (int recovered)),
                  (''unlocked_work_items'', JInt (int unlocked))]) s4
         else s4) = t"
    using assms False s1
    unfolding s4_def s2_def
    by (simp add: recover_tx_def ensure_valid_id_def Let_def case_prod_beta
        del: count_where_0 split del: if_split)
  ultimately show ?thesis unfolding t [symmetric] Let_def by (simp add: change_intros)
qed

section \<open>Rows named by their key\<close>

lemma goal_unique:
  "inv c s \<Longrightarrow> g \<in> set (goals s) \<Longrightarrow> h \<in> set (goals s) \<Longrightarrow> g_id g = g_id h \<Longrightarrow> g = h"
  by (auto simp: inv_def keys_ok_def distinct_map dest: inj_onD)

lemma item_unique:
  "inv c s \<Longrightarrow> v \<in> set (work_items s) \<Longrightarrow> w \<in> set (work_items s) \<Longrightarrow> w_id v = w_id w \<Longrightarrow> v = w"
  by (auto simp: inv_def keys_ok_def distinct_map dest: inj_onD)

lemma attempt_unique:
  "inv c s \<Longrightarrow> a \<in> set (attempts s) \<Longrightarrow> b \<in> set (attempts s) \<Longrightarrow> a_id a = a_id b \<Longrightarrow> a = b"
  by (auto simp: inv_def keys_ok_def distinct_map dest: inj_onD)

lemma checkpoint_unique:
  "inv c s \<Longrightarrow> x \<in> set (checkpoints s) \<Longrightarrow> y \<in> set (checkpoints s) \<Longrightarrow> c_id x = c_id y \<Longrightarrow> x = y"
  by (auto simp: inv_def keys_ok_def distinct_map dest: inj_onD)

lemma find_goalD:
  assumes "find_goal s gid = Some g"
  shows "g \<in> set (goals s)" "g_id g = gid"
  using assms find_SomeD by (fastforce simp: find_goal_def)+

lemma find_itemD:
  assumes "find_item s wid = Some w"
  shows "w \<in> set (work_items s)" "w_id w = wid"
  using assms find_SomeD by (fastforce simp: find_item_def)+

lemma find_checkpointD:
  assumes "find_checkpoint s cid = Some x"
  shows "x \<in> set (checkpoints s)" "c_id x = cid"
  using assms find_SomeD by (fastforce simp: find_checkpoint_def)+

lemma find_goal_only:
  "inv c s \<Longrightarrow> find_goal s gid = Some g \<Longrightarrow> h \<in> set (goals s) \<Longrightarrow> g_id h = gid \<Longrightarrow> h = g"
  using find_goalD goal_unique by metis

lemma goal_status_legal:
  "goal_edge (g_status g) st \<Longrightarrow> goal_legal g (g\<lparr>g_status := st, g_updated_at := now\<rparr>)"
  by (auto simp: legal_defs intro: r_into_rtranclp)

lemma goal_revision_legal:
  "goal_edge (g_status g) st \<Longrightarrow> g_revision g \<le> r \<Longrightarrow>
   goal_legal g (g\<lparr>g_status := st, g_revision := r, g_updated_at := now\<rparr>)"
  by (auto simp: legal_defs intro: r_into_rtranclp)

end
