(* ===== verification/Loop_Goal_Changes.thy ===== *)
theory Loop_Goal_Changes
  imports Loop_Transactions
begin

text \<open>The transactions of the goal lifecycle as sequences of primitive changes.\<close>

lemma commit_goal_changes:
  assumes "commit_goal gid r s = (res, t)" and "\<And>u t'. r = Inr (u, t') \<Longrightarrow> changes c s t'"
  shows "changes c s t"
  using assms by (auto simp: commit_goal_def split: sum.splits)

section \<open>Admission and operator transitions\<close>

lemma create_changes:
  assumes "create_goal_admission now gid r actor s = (res, t)"
  shows "changes c s t"
proof (cases "admitted s r = None \<and> list_all (\<lambda>g. g_id g \<noteq> gid) (goals s)")
  case True
  let ?g = "new_goal_row now gid r actor"
  have "g_request_id ?g = None \<or> g_request_id ?g \<notin> g_request_id ` set (goals s)"
    using True by (auto simp: admitted_def find_goal_by_request_def new_goal_row_def find_None_iff
        split: option.splits)
  moreover have "g_id ?g \<notin> g_id ` set (goals s)"
    using True by (auto simp: new_goal_row_def list_all_iff)
  ultimately have "change c s (s\<lparr>goals := goals s @ [?g]\<rparr>)"
    by (intro change.add_goal) (simp_all add: new_goal_row_def)
  then have "changes c s (s\<lparr>goals := goals s @ [?g]\<rparr>)" by simp
  moreover have "t = insert_event now gid ''goal.created'' actor (JObj []) (s\<lparr>goals := goals s @ [?g]\<rparr>)"
    using assms True by (simp add: create_goal_admission_def Let_def)
  ultimately show ?thesis by (simp add: change_intros)
next
  case False
  with assms have "t = s"
    by (auto simp: create_goal_admission_def split: option.splits if_splits)
  then show ?thesis by simp
qed

lemma ch_goal_status:
  assumes "changes c s t" and "\<And>g. g \<in> set (goals t) \<Longrightarrow> g_id g = gid \<Longrightarrow> goal_edge (g_status g) st"
  shows "changes c s (set_goal_status now gid st t)"
  unfolding set_goal_status_def using assms by (blast intro: ch_goals goal_status_legal)

lemma ch_abandon:
  assumes "changes c s t"
  shows "changes c s (abandon_attempts now gid error t)"
proof -
  have "attempt_edge\<^sup>*\<^sup>* (a_status a) Abandoned" if "live_attempt a \<or> a_status a = AttemptWaiting" for a
    using that by (auto simp: live_attempt_def intro: r_into_rtranclp)
  with assms show ?thesis
    by (auto simp: abandon_attempts_def attempt_static_def live_attempt_def
        intro!: change_intros attempt_legal_end)
qed

lemma set_goal_status_simps [simp]:
  "work_items (set_goal_status now gid st s) = work_items s"
  "attempts (set_goal_status now gid st s) = attempts s"
  "goals (abandon_attempts now gid error s) = goals s"
  "work_items (abandon_attempts now gid error s) = work_items s"
  by (simp_all add: set_goal_status_def abandon_attempts_def)

lemma cancel_changes:
  assumes inv: "inv c s" and "cancel_goal now gid reason actor s = (res, t)"
  shows "changes c s t"
  using assms(2) unfolding cancel_goal_def Let_def ensure_valid_id_def
  apply (rule commit_goal_changes)
  apply clarsimp
  apply (intro change_intros ch_goal_status ch_abandon item_legal_end)
  apply (auto simp: item_static_def item_to_failed dest: find_goal_only [OF inv])
  done

lemma reject_changes:
  assumes inv: "inv c s" and "reject_goal now gid reason actor s = (res, t)"
  shows "changes c s t"
  using assms(2) unfolding reject_goal_def Let_def ensure_valid_id_def
  apply (rule commit_goal_changes)
  apply clarsimp
  apply (intro change_intros ch_goal_status ch_abandon)
  apply (auto dest: find_goal_only [OF inv])
  done

lemma replan_changes:
  assumes inv: "inv c s" and "mark_goal_for_replan now gid reason actor s = (res, t)"
  shows "changes c s t"
  using assms(2) unfolding mark_goal_for_replan_def Let_def ensure_valid_id_def
  apply (rule commit_goal_changes)
  apply clarsimp
  apply (intro change_intros ch_goal_status ch_abandon item_legal_end)
  apply (auto simp: item_static_def item_to_canceled dest: find_goal_only [OF inv])
  done

lemma pause_changes:
  assumes inv: "inv c s" and "set_goal_paused now gid paused reason actor s = (res, t)"
  shows "changes c s t"
  using assms(2) unfolding set_goal_paused_def Let_def ensure_valid_id_def
  apply (rule commit_goal_changes)
  apply clarsimp
  apply (intro conjI impI change_intros ch_goal_status ch_abandon)
  apply (auto split: if_splits dest: find_goal_only [OF inv])
  done

text \<open>
  Expiring: the loop fails each overdue goal once, so a goal still has the status it was
  selected with when its turn comes.
\<close>

lemma expire_goals_changes:
  assumes "inv c s" and "distinct ids"
    and "\<And>g. g \<in> set (goals s) \<Longrightarrow> g_id g \<in> set ids \<Longrightarrow> goal_edge (g_status g) GoalFailed"
  shows "changes c s (fold (expire_goal now) ids s)"
  using assms
proof (induction ids arbitrary: s)
  case (Cons gid ids)
  let ?t = "expire_goal now gid s"
  have st: "changes c s ?t"
    unfolding expire_goal_def using Cons.prems(3)
    by (auto intro!: change_intros goal_status_legal)
  have "goal_edge (g_status h) GoalFailed" if "h \<in> set (goals ?t)" "g_id h \<in> set ids" for h
  proof -
    from that(1) obtain g where g: "g \<in> set (goals s)"
        "h = (if g_id g = gid then g\<lparr>g_status := GoalFailed, g_updated_at := now\<rparr> else g)"
      by (auto simp: expire_goal_def elim: mem_update_whereE)
    with that(2) Cons.prems(2,3) show ?thesis by (auto split: if_splits)
  qed
  with Cons.IH [of ?t] changes_inv [OF st Cons.prems(1)] Cons.prems(2)
  have "changes c ?t (fold (expire_goal now) ids ?t)" by simp
  with st show ?case by simp
qed simp

lemma expire_changes:
  assumes inv: "inv c s" and ex: "expire_overdue_goals now limit s = Inr (ids, t)"
  shows "changes c s t"
proof -
  let ?gs = "take (max 1 (min 128 limit))
     (filter (\<lambda>g. g_status g \<in> {Approved, Active, GoalBlocked, Verifying} \<and>
        \<not> g_internal_only g \<and> overdue now s g) (goals s))"
  from ex have ids: "ids = map g_id ?gs" and t: "t = fold (expire_goal now) ids s"
    by (auto simp: expire_overdue_goals_def Let_def)
  have "distinct (map g_id (filter p (goals s)))" for p
    using inv by (auto simp: inv_def keys_ok_def distinct_map inj_on_def)
  then have "distinct ids" by (simp add: ids take_map [symmetric])
  moreover have "goal_edge (g_status g) GoalFailed" if "g \<in> set (goals s)" "g_id g \<in> set ids" for g
  proof -
    from that(2) obtain h where h: "h \<in> set ?gs" "g_id h = g_id g" by (auto simp: ids)
    from h(1) have "h \<in> set (goals s)" and st: "g_status h \<in> {Approved, Active, GoalBlocked, Verifying}"
      by (auto dest!: in_set_takeD)
    with h(2) that(1) goal_unique [OF inv] have "h = g" by blast
    with st show ?thesis by auto
  qed
  ultimately show ?thesis unfolding t using expire_goals_changes [OF inv] by blast
qed

section \<open>Planning\<close>

lemma plan_changes:
  assumes inv: "inv c s" and val: "validate_plan c pol r = Inr u"
    and tx: "plan_goal_tx c now plan_id gid r actor s = Inr (u', t)"
  shows "changes c s t"
proof -
  from tx obtain g where g: "find_goal s gid = Some g" "g_status g \<in> {Proposed, Replan}"
    and new: "list_all (\<lambda>p. p_id p \<noteq> plan_id \<and> \<not> (p_goal_id p = gid \<and> p_goal_revision p = g_revision g + 1)) (workflows s)"
    by (auto simp: plan_goal_tx_def ensure_valid_id_def)
  define row where "row = \<lparr>p_id = plan_id, p_goal_id = gid, p_goal_revision = g_revision g + 1,
      p_plan_hash = plan_hash c r, p_workflow = pg_workflow r, p_acceptance = pg_acceptance r,
      p_effects = effect_manifest r, p_created_by = actor, p_created_at = now\<rparr>"
  from val have "workflow_ok c pol (pg_workflow r)"
    by (auto simp: validate_plan_def validate_workflow_Inr)
  then have wf: "plan_wf c row"
    unfolding plan_wf_def row_def by (cases r) auto
  have "change c s (s\<lparr>workflows := workflows s @ [row]\<rparr>)"
    by (rule change.add_workflow)
      (use new wf find_goalD [OF g(1)] in \<open>auto simp: row_def list_all_iff\<close>)
  then have "changes c s (s\<lparr>workflows := workflows s @ [row]\<rparr>)" by simp
  moreover have "t = insert_event now gid ''goal.planned'' actor
      (JObj [(''goal_revision'', JInt (g_revision g + 1)), (''plan_hash'', JStr (plan_hash c r))])
      (upd_goals (\<lambda>x. g_id x = gid \<and> g_revision x = g_revision g \<and> g_status x = g_status g)
        (\<lambda>x. x\<lparr>g_status := ReviewReady, g_revision := g_revision g + 1, g_updated_at := now\<rparr>)
        (s\<lparr>workflows := workflows s @ [row]\<rparr>))"
    using tx g(1) by (simp add: plan_goal_tx_def ensure_valid_id_def Let_def row_def)
  ultimately show ?thesis using g(2) by (auto intro!: change_intros goal_revision_legal)
qed

section \<open>Approval\<close>

lemma insert_items_Inr:
  assumes "insert_items rows s = Inr t"
  shows "t = s\<lparr>work_items := work_items s @ rows\<rparr>" "distinct (map w_id rows)"
    "w_id ` set rows \<inter> w_id ` set (work_items s) = {}"
proof -
  have "t = s\<lparr>work_items := work_items s @ rows\<rparr> \<and> distinct (map w_id rows) \<and>
    w_id ` set rows \<inter> w_id ` set (work_items s) = {}"
    using assms
  proof (induction rows arbitrary: s)
    case (Cons row rows)
    then have "insert_items rows (s\<lparr>work_items := work_items s @ [row]\<rparr>) = Inr t"
      and new: "w_id row \<notin> w_id ` set (work_items s)"
      by (auto simp: insert_item_def list_all_iff)
    from Cons.IH [OF this(1)] new show ?case by auto
  qed simp
  then show "t = s\<lparr>work_items := work_items s @ rows\<rparr>" "distinct (map w_id rows)"
    "w_id ` set rows \<inter> w_id ` set (work_items s) = {}" by simp_all
qed

lemma insert_items_changes:
  assumes "insert_items rows s = Inr t"
    and "\<And>w. w \<in> set rows \<Longrightarrow> item_wf w \<and> w_fencing w = 0 \<and> w_status w \<noteq> Succeeded \<and>
      (w_workflow_id w, w_goal_id w) \<in> (\<lambda>p. (p_id p, p_goal_id p)) ` set (workflows s)"
  shows "changes c s t"
  using assms
proof (induction rows arbitrary: s)
  case (Cons row rows)
  let ?s = "s\<lparr>work_items := work_items s @ [row]\<rparr>"
  from Cons.prems(1) have rest: "insert_items rows ?s = Inr t"
    and new: "w_id row \<notin> w_id ` set (work_items s)"
      "(w_workflow_id row, w_step_id row) \<notin> (\<lambda>v. (w_workflow_id v, w_step_id v)) ` set (work_items s)"
    by (auto simp: insert_item_def list_all_iff)
  have "change c s ?s" by (rule change.add_item) (use new Cons.prems(2) [of row] in auto)
  moreover have "changes c ?s t" using Cons.IH [OF rest] Cons.prems(2) by simp
  ultimately show ?case by simp
qed simp

lemma insert_deps_Inr:
  assumes "insert_deps ds s = Inr t"
  shows "t = s\<lparr>deps := deps s @ ds\<rparr> \<and> distinct ds \<and> set ds \<inter> set (deps s) = {}"
  using assms
proof (induction ds arbitrary: s)
  case (Cons d ds)
  then have "insert_deps ds (s\<lparr>deps := deps s @ [d]\<rparr>) = Inr t" and new: "d \<notin> set (deps s)"
    by (auto simp: insert_dep_def)
  from Cons.IH [OF this(1)] new show ?case by auto
qed simp

text \<open>New edges into new items keep the dependency graph acyclic.\<close>

lemma finite_dep_rel [simp]: "finite (dep_rel ds)"
  by (simp add: dep_rel_def)

lemma dep_rel_append: "dep_rel (xs @ ys) = dep_rel xs \<union> dep_rel ys"
  by (auto simp: dep_rel_def)

lemma acyclic_extend:
  assumes "acyclic (dep_rel old)" and "acyclic (dep_rel new)"
    and "d_depends_on ` set old \<inter> d_work_item ` set new = {}"
  shows "acyclic (dep_rel (old @ new))"
proof -
  have "wf (dep_rel old)" "wf (dep_rel new)"
    using assms(1,2) by (auto intro: finite_acyclic_wf)
  moreover have "Relation.Domain (dep_rel old) \<inter> Range (dep_rel new) = {}"
    using assms(3) by (auto simp: dep_rel_def)
  ultimately have "wf (dep_rel (old @ new))"
    unfolding dep_rel_append by (rule wf_Un)
  then show ?thesis by (rule wf_acyclic)
qed

lemma acyclic_image:
  assumes "acyclic E" and "\<And>x y. (x, y) \<in> R \<Longrightarrow> (f x, f y) \<in> E"
  shows "acyclic R"
proof -
  have "(f x, f y) \<in> E\<^sup>+" if "(x, y) \<in> R\<^sup>+" for x y
    using that by (induction rule: trancl_induct) (auto intro: assms(2) trancl.trancl_into_trancl)
  with assms(1) show ?thesis by (auto simp: acyclic_def)
qed

lemma insert_deps_changes:
  assumes inv: "inv c s" and ins: "insert_deps ds s = Inr t"
    and refs: "\<And>d. d \<in> set ds \<Longrightarrow> dep_within s d"
    and ac: "acyclic (dep_rel ds)" and new: "d_depends_on ` set (deps s) \<inter> d_work_item ` set ds = {}"
  shows "changes c s t"
proof -
  note t = insert_deps_Inr [OF ins]
  have "change c s (s\<lparr>deps := deps s @ ds\<rparr>)"
    by (rule change.add_deps) (use t refs acyclic_extend [OF _ ac new] in auto)
  with t show ?thesis by simp
qed

lemma work_id_of_Some:
  assumes "work_id_of rows sid = Some i"
  obtains w where "w \<in> set rows" "w_id w = i" "w_step_id w = sid"
  using assms by (auto simp: work_id_of_def dest!: last_row_SomeD)

lemma work_id_of_mem: "work_id_of rows sid = Some i \<Longrightarrow> i \<in> w_id ` set rows"
  by (auto simp: work_id_of_def dest!: last_row_SomeD)

lemma plan_deps_row:
  assumes "plan_deps rows w = Inr ds" and "d \<in> set ds"
  obtains e where "e \<in> set (wf_edges w)" "work_id_of rows (edge_to e) = Some (d_work_item d)"
    "work_id_of rows (edge_from e) = Some (d_depends_on d)"
proof -
  from assms(1) have "list_all2 (\<lambda>e d. \<exists>t f. work_id_of rows (edge_to e) = Some t \<and>
      work_id_of rows (edge_from e) = Some f \<and> d = \<lparr>d_work_item = t, d_depends_on = f\<rparr>) (wf_edges w) ds"
    by (auto simp: plan_deps_def collect_Inr elim!: list_all2_mono)
  with assms(2) that show thesis by (fastforce simp: list_all2_conv_all_nth in_set_conv_nth)
qed

lemma plan_deps_acyclic:
  assumes "plan_deps rows w = Inr ds" and "distinct (map w_id rows)" and "acyclic (set (edge_pairs w))"
  shows "acyclic (dep_rel ds)"
proof (rule acyclic_image [OF assms(3)])
  let ?f = "\<lambda>i. w_step_id (the (find (\<lambda>w. w_id w = i) rows))"
  have f: "?f i = sid" if "work_id_of rows sid = Some i" for sid i
  proof -
    from that obtain w where "w \<in> set rows" "w_id w = i" "w_step_id w = sid" by (rule work_id_of_Some)
    with find_key [OF assms(2)] show ?thesis by auto
  qed
  fix x y assume "(x, y) \<in> dep_rel ds"
  then obtain d where "d \<in> set ds" "x = d_depends_on d" "y = d_work_item d" by (auto simp: dep_rel_def)
  with plan_deps_row [OF assms(1), of d] f show "(?f x, ?f y) \<in> set (edge_pairs w)"
    by (metis (no_types, lifting) edge_pairs_def image_eqI list.set_map)
qed

lemma approval_row_binds:
  "p_goal_id p = gid \<Longrightarrow> approval_binds c (new_approval_row c now aid gid p actor) p"
  by (simp add: approval_binds_def new_approval_row_def)

lemma new_item_row_wf:
  assumes "step_ok c p step" and "status \<notin> {Running, Succeeded}"
  shows "item_wf (new_item_row now wid gid workflow_id status step ordinal)"
  using assms by (auto simp: item_wf_def new_item_row_def step_ok_def)

lemma replace_budget_changes:
  assumes inv: "inv c s" and "gid \<in> g_id ` set (goals s)" and "workflow_ok c pol w"
  shows "changes c s (replace_budget now gid (wf_budget w) s)"
proof -
  let ?b = "\<lparr>b_goal_id = gid, b_max_provider_calls = int (max_provider_calls (wf_budget w)),
      b_deadline_secs = int (deadline_secs (wf_budget w)),
      b_max_response_bytes = int (max_response_bytes (wf_budget w)), b_provider_calls = 0,
      b_response_bytes = 0, b_started_at = None, b_updated_at = now\<rparr>"
  have "budget_wf ?b" using assms(3) by (auto simp: budget_wf_def workflow_ok_def)
  moreover have "distinct (map b_goal_id (budgets s))" "b_goal_id ` set (budgets s) \<subseteq> g_id ` set (goals s)"
    using inv by (simp_all add: inv_def keys_ok_def refs_ok_def)
  moreover from this(1) have "distinct (map b_goal_id (filter (\<lambda>x. b_goal_id x \<noteq> gid) (budgets s) @ [?b]))"
    by (auto simp: distinct_map inj_on_def)
  ultimately have "change c s (s\<lparr>budgets := filter (\<lambda>x. b_goal_id x \<noteq> gid) (budgets s) @ [?b]\<rparr>)"
    using assms(2) by (intro change.budgets_set) auto
  then show ?thesis by (simp add: replace_budget_def)
qed

lemma plan_items_rows:
  assumes "w \<in> set (plan_items now wid gid workflow_id spec)"
  obtains i step status where "step \<in> set (wf_steps spec)" "status \<notin> {Running, Succeeded}"
    "w = new_item_row now (wid i) gid workflow_id status step (int i)"
proof -
  from assms obtain i step where "(i, step) \<in> set (enumerate 0 (wf_steps spec))"
      "w = new_item_row now (wid i) gid workflow_id
          (if list_ex (\<lambda>e. edge_to e = step_id step) (wf_edges spec) then Pending else Ready) step (int i)"
    by (auto simp: plan_items_def)
  moreover from this(1) have "step \<in> set (wf_steps spec)"
    by (metis map_snd_enumerate snd_conv image_eqI list.set_map)
  moreover have "(if b then Pending else Ready) \<notin> {Running, Succeeded}" for b by simp
  ultimately show thesis using that by blast
qed

text \<open>The rows approval materializes, from the approved plan.\<close>

lemma materialize_changes:
  assumes inv: "inv c s" and p: "p \<in> set (workflows s)"
    and items: "insert_items (plan_items now wid (p_goal_id p) (p_id p) (p_workflow p)) s = Inr s2"
    and ds: "plan_deps (plan_items now wid (p_goal_id p) (p_id p) (p_workflow p)) (p_workflow p) = Inr ds"
    and deps: "insert_deps ds s2 = Inr s3"
  shows "changes c s s3"
proof -
  let ?rows = "plan_items now wid (p_goal_id p) (p_id p) (p_workflow p)"
  from inv_rows(5) [OF inv p] obtain pol where ok: "workflow_ok c pol (p_workflow p)"
    by (auto simp: plan_wf_def)
  have "item_wf w \<and> w_fencing w = 0 \<and> w_status w \<noteq> Succeeded \<and>
      (w_workflow_id w, w_goal_id w) \<in> (\<lambda>p. (p_id p, p_goal_id p)) ` set (workflows s)"
    if "w \<in> set ?rows" for w
  proof -
    from that obtain i step status where w: "step \<in> set (wf_steps (p_workflow p))" "status \<notin> {Running, Succeeded}"
        "w = new_item_row now (wid i) (p_goal_id p) (p_id p) status step (int i)"
      by (rule plan_items_rows)
    with ok have "step_ok c pol step" by (simp add: workflow_ok_def)
    with w p show ?thesis using new_item_row_wf by (auto simp: new_item_row_def)
  qed
  with items have st: "changes c s s2" by (rule insert_items_changes)
  note s2 = insert_items_Inr [OF items]
  have goal: "w_goal_id w = p_goal_id p" if "w \<in> set ?rows" for w
    using that by (rule plan_items_rows) (simp add: new_item_row_def)
  have row: "d_work_item d \<in> w_id ` set ?rows \<and> d_depends_on d \<in> w_id ` set ?rows" if "d \<in> set ds" for d
    by (rule plan_deps_row [OF ds that]) (blast intro: work_id_of_mem)
  have "d_depends_on ` set (deps s) \<subseteq> w_id ` set (work_items s)"
    using inv by (simp add: inv_def refs_ok_def)
  moreover have "d_work_item ` set ds \<subseteq> w_id ` set ?rows" using row by blast
  ultimately have "d_depends_on ` set (deps s2) \<inter> d_work_item ` set ds = {}"
    using s2(3) by (simp add: s2(1)) blast
  moreover have "acyclic (dep_rel ds)"
    using plan_deps_acyclic [OF ds s2(2)] ok by (simp add: workflow_ok_def graph_ok_def)
  moreover have "dep_within s2 d" if "d \<in> set ds" for d
    unfolding dep_within_def
    by (rule exI [of _ "p_goal_id p"])
      (use row [OF that] goal in \<open>auto simp: s2(1) image_iff\<close>)
  ultimately have "changes c s2 s3"
    by (intro insert_deps_changes [OF changes_inv [OF st inv] deps]) simp_all
  with st show ?thesis by (rule rtranclp_trans)
qed

lemma materialize_tables:
  assumes "insert_items rows s = Inr s2" and "insert_deps ds s2 = Inr s3"
  shows "goals s3 = goals s" "workflows s3 = workflows s"
  using insert_items_Inr(1) [OF assms(1)] insert_deps_Inr [OF assms(2)] by simp_all

lemma approve_changes:
  assumes inv: "inv (env_crates E) s" and tx: "approve_tx E now aid wid gid r actor s = Inr (u, t)"
  shows "changes (env_crates E) s t"
proof -
  let ?c = "env_crates E"
  from tx obtain g p s2 ds s3 where g: "find_goal s gid = Some g" "g_status g = ReviewReady"
    and row: "last_row (select_ordered p_created_at
        (\<lambda>p. p_goal_id p = gid \<and> p_goal_revision p = g_revision g) (workflows s)) = Some p"
    and new: "list_all (\<lambda>a. ap_id a \<noteq> aid \<and> \<not> (ap_goal_id a = gid \<and> ap_goal_revision a = g_revision g)) (approvals s)"
    and items: "insert_items (plan_items now wid gid (p_id p) (p_workflow p))
        (replace_budget now gid (wf_budget (p_workflow p))
          (s\<lparr>approvals := approvals s @ [new_approval_row ?c now aid gid p actor]\<rparr>)) = Inr s2"
    and ds: "plan_deps (plan_items now wid gid (p_id p) (p_workflow p)) (p_workflow p) = Inr ds"
    and deps: "insert_deps ds s2 = Inr s3"
    and t: "t = insert_event now gid ''goal.approved'' actor
             (JObj [(''approval_id'', JStr aid), (''plan_hash'', JStr (p_plan_hash p))])
          (upd_goals (\<lambda>x. g_id x = gid \<and> g_status x = ReviewReady \<and> g_revision x = g_revision g)
             (\<lambda>x. x\<lparr>g_status := Approved, g_revision := g_revision x + 1, g_updated_at := now\<rparr>) s3)"
    unfolding approve_tx_def ensure_valid_id_def Let_def by clarsimp
  let ?s0 = "s\<lparr>approvals := approvals s @ [new_approval_row ?c now aid gid p actor]\<rparr>"
  let ?s1 = "replace_budget now gid (wf_budget (p_workflow p)) ?s0"
  from row have p: "p \<in> set (workflows s)" "p_goal_id p = gid" "p_goal_revision p = g_revision g"
    by (auto dest!: last_row_SomeD)
  obtain pol where ok: "workflow_ok ?c pol (p_workflow p)"
    using inv_rows(5) [OF inv p(1)] by (auto simp: plan_wf_def)
  have "change ?c s ?s0"
    by (rule change.add_approval [OF p(1) approval_row_binds [OF p(2)]])
      (use new p(3) in \<open>auto simp: list_all_iff new_approval_row_def\<close>)
  then have st0: "changes ?c s ?s0" by simp
  have "changes ?c ?s0 ?s1"
    by (rule replace_budget_changes [OF changes_inv [OF st0 inv] _ ok]) (use find_goalD [OF g(1)] in auto)
  with st0 have st1: "changes ?c s ?s1" by (rule rtranclp_trans)
  have "changes ?c ?s1 s3"
    by (rule materialize_changes [OF changes_inv [OF st1 inv]])
      (use p items ds deps in \<open>auto simp: replace_budget_def\<close>)
  with st1 have "changes ?c s s3" by (rule rtranclp_trans)
  then show ?thesis unfolding t by (auto intro!: change_intros goal_revision_legal)
qed

section \<open>Verification and the budget\<close>

lemma verify_changes:
  assumes "verify_tx now gid actor s = Inr (v, t)"
  shows "changes c s t"
proof -
  have "goal_edge\<^sup>*\<^sup>* Verifying Achieved" by (auto intro: r_into_rtranclp)
  then have "changes c s (upd_goals (\<lambda>x. g_id x = gid \<and> g_status x = Verifying)
      (\<lambda>x. x\<lparr>g_status := Achieved, g_revision := g_revision x + 1, g_updated_at := now\<rparr>) s)"
    by (auto intro!: change_intros goal_revision_legal)
  with assms show ?thesis
    unfolding verify_tx_def ensure_valid_id_def Let_def
    by (auto split: if_splits intro: change_intros)
qed

lemma manual_changes:
  assumes "record_manual_verification now gid label actor s = (res, t)"
  shows "changes c s t"
  using assms unfolding record_manual_verification_def Let_def ensure_valid_id_def
proof (rule commit_goal_changes, clarsimp split del: if_split)
  fix g
  assume "find_goal s gid = Some g"
  then have "gid \<in> g_id ` set (goals s)" using find_goalD by blast
  then have "change c s (s\<lparr>manuals := manuals s @ [\<lparr>m_goal_id = gid, m_label = l, m_actor = actor, m_created_at = now\<rparr>]\<rparr>)" for l
    by (intro change.add_manual) simp
  then show "changes c s (if list_ex (\<lambda>m. m_goal_id m = gid \<and> m_label m = trim label) (manuals s) then s
      else insert_event now gid ''goal.manual_verified'' actor (JObj [(''label'', JStr (trim label))])
        (s\<lparr>manuals := manuals s @ [\<lparr>m_goal_id = gid, m_label = trim label, m_actor = actor, m_created_at = now\<rparr>]\<rparr>))"
    by (auto intro!: change_intros)
qed

lemma budgets_upd_changes:
  assumes inv: "inv c s" and "\<And>b. p b \<Longrightarrow> budget_wf b \<Longrightarrow> budget_wf (f b) \<and> b_goal_id (f b) = b_goal_id b"
  shows "changes c s (s\<lparr>budgets := update_where p f (budgets s)\<rparr>)"
proof -
  have wf: "budget_wf b" if "b \<in> set (budgets s)" for b using inv_rows(4) [OF inv that] .
  have "map b_goal_id (update_where p f (budgets s)) = map b_goal_id (budgets s)"
    by (rule map_update_static) (use assms(2) wf in blast)
  moreover have "distinct (map b_goal_id (budgets s))" "b_goal_id ` set (budgets s) \<subseteq> g_id ` set (goals s)"
    using inv by (simp_all add: inv_def keys_ok_def refs_ok_def)
  ultimately have "change c s (s\<lparr>budgets := update_where p f (budgets s)\<rparr>)"
    using assms(2) wf by (intro change.budgets_set) (auto simp: set_update_where)
  then show ?thesis by simp
qed

lemma reserve_changes:
  assumes inv: "inv c s" and "reserve_provider_call now gid s = (res, t)"
  shows "changes c s t"
proof -
  have "changes c s (s\<lparr>budgets := update_where
      (\<lambda>x. b_goal_id x = gid \<and> b_provider_calls x < b_max_provider_calls x)
      (\<lambda>x. x\<lparr>b_provider_calls := b_provider_calls x + 1,
             b_started_at := Some (case b_started_at x of None \<Rightarrow> now | Some t \<Rightarrow> t),
             b_updated_at := now\<rparr>) (budgets s)\<rparr>)"
    by (rule budgets_upd_changes [OF inv]) (auto simp: budget_wf_def)
  with assms(2) show ?thesis
    by (auto simp: reserve_provider_call_def split: sum.splits)
qed

lemma response_bytes_changes:
  assumes inv: "inv c s" and "record_provider_response_bytes now gid bytes s = Inr (u, t)"
  shows "changes c s t"
proof -
  have "changes c s (s\<lparr>budgets := update_where
      (\<lambda>b. b_goal_id b = gid \<and> b_response_bytes b + int bytes \<le> b_max_response_bytes b)
      (\<lambda>b. b\<lparr>b_response_bytes := b_response_bytes b + int bytes, b_updated_at := now\<rparr>) (budgets s)\<rparr>)"
    by (rule budgets_upd_changes [OF inv]) (auto simp: budget_wf_def)
  with assms(2) show ?thesis
    by (simp add: record_provider_response_bytes_def Let_def ensure_valid_id_def)
qed

end
