(* ===== verification/Loop_Work_Changes.thy ===== *)
theory Loop_Work_Changes
  imports Loop_Goal_Changes
begin

text \<open>The transactions on work items, attempts and checkpoints as sequences of primitive changes.\<close>

section \<open>Claims\<close>

lemma claim_currentE:
  assumes "ensure_claim_current now cl s = Inr u"
  obtains w a until where
    "w \<in> set (work_items s)" "w_id w = wr_id (cl_work_item cl)" "w_goal_id w = ar_goal_id (cl_attempt cl)"
    "w_status w = Running" "w_lease_token w = Some (ar_lease_token (cl_attempt cl))"
    "w_fencing w = ar_fencing_token (cl_attempt cl)" "w_lease_until w = Some until" "now \<le> until"
    "a \<in> set (attempts s)" "a_id a = ar_id (cl_attempt cl)" "a_work_item_id a = w_id w"
    "a_fencing a = w_fencing w" "a_lease_token a = ar_lease_token (cl_attempt cl)" "live_attempt a"
proof -
  let ?P = "\<lambda>(w, a). a_work_item_id a = w_id w \<and>
      w_id w = wr_id (cl_work_item cl) \<and> w_goal_id w = ar_goal_id (cl_attempt cl) \<and>
      w_status w = Running \<and> w_lease_token w = Some (ar_lease_token (cl_attempt cl)) \<and>
      w_fencing w = ar_fencing_token (cl_attempt cl) \<and>
      (case w_lease_until w of None \<Rightarrow> False | Some u \<Rightarrow> now \<le> u) \<and>
      a_id a = ar_id (cl_attempt cl) \<and> a_lease_token a = ar_lease_token (cl_attempt cl) \<and>
      a_fencing a = ar_fencing_token (cl_attempt cl) \<and> live_attempt a"
  from assms have "count_where ?P (List.product (work_items s) (attempts s)) \<noteq> 0"
    by (auto simp: ensure_claim_current_def try_i64_def simp del: count_where_0 split: if_splits)
  then obtain w a where "(w, a) \<in> set (List.product (work_items s) (attempts s))" "?P (w, a)" by auto
  with that show thesis by (auto split: option.splits)
qed

lemma claimed_legal:
  "w_status w = Ready \<Longrightarrow>
   item_legal w (w\<lparr>w_status := Running, w_lease_token := Some lease, w_lease_until := Some u,
     w_fencing := w_fencing w + 1, w_updated_at := now\<rparr>)"
  by (auto simp: legal_defs intro: r_into_rtranclp)

lemma select_claimD:
  assumes "select_claim now gid step s = Some row"
  shows "row \<in> set (work_items s)" "claimable now gid step s row"
  using assms by (auto simp: select_claim_def split: option.splits dest!: find_SomeD first_row_SomeD)

lemma find_item_key: "inv c s \<Longrightarrow> w \<in> set (work_items s) \<Longrightarrow> find_item s (w_id w) = Some w"
  unfolding find_item_def by (rule find_key) (simp_all add: inv_def keys_ok_def)

text \<open>The two row changes of a won claim.\<close>

lemma claim_row_changes:
  assumes inv: "inv c s" and row: "row \<in> set (work_items s)" "w_status row = Ready"
    and cnt: "int (attempt_count s (w_id row)) < w_max_attempts row"
    and new: "list_all (\<lambda>a. a_id a \<noteq> aid) (attempts s)"
    and number: "number = int (count_where (\<lambda>b. a_work_item_id b = w_id row) (attempts s)) + 1"
    and s1: "s1 = upd_items (\<lambda>w. w_id w = w_id row \<and> w_status w = Ready)
      (\<lambda>w. w\<lparr>w_status := Running, w_lease_token := Some lease, w_lease_until := Some u,
             w_fencing := w_fencing w + 1, w_updated_at := now\<rparr>) s"
    and w: "find_item s1 (w_id row) = Some w"
  shows "changes c s (s1\<lparr>attempts := attempts s1 @
     [new_attempt_row now aid (w_goal_id row) (w_id row) number worker lease (w_fencing w)]\<rparr>)"
proof -
  let ?w = "row\<lparr>w_status := Running, w_lease_token := Some lease, w_lease_until := Some u,
      w_fencing := w_fencing row + 1, w_updated_at := now\<rparr>"
  have st: "changes c s s1" unfolding s1 by (auto intro!: change_intros claimed_legal)
  have mem: "?w \<in> set (work_items s1)"
    unfolding s1 using row by (auto simp: set_update_where intro!: image_eqI [of _ _ row])
  from find_item_key [OF changes_inv [OF st inv] mem] w have weq: "w = ?w" by simp
  have cnt1: "attempt_count s1 wid = attempt_count s wid" for wid by (simp add: s1 attempt_count_def)
  have "change c s1 (s1\<lparr>attempts := attempts s1 @
     [new_attempt_row now aid (w_goal_id row) (w_id row) number worker lease (w_fencing w)]\<rparr>)"
  proof (rule change.add_attempt [of _ _ w])
    have "0 \<le> w_fencing row" using inv_rows(1) [OF inv row(1)] by (simp add: item_wf_def)
    then show "attempt_wf (new_attempt_row now aid (w_goal_id row) (w_id row) number worker lease (w_fencing w))"
      by (simp add: attempt_wf_def new_attempt_row_def live_attempt_def weq)
    fix b assume "b \<in> set (attempts s1)" "a_work_item_id b = w_id w"
    then have "a_fencing b \<le> w_fencing row"
      using inv_fencing [OF inv _ row(1)] by (simp add: s1 weq)
    then show "a_fencing b < a_fencing (new_attempt_row now aid (w_goal_id row) (w_id row) number worker lease (w_fencing w))"
      by (simp add: new_attempt_row_def weq)
  qed (use new mem cnt number in \<open>auto simp: s1 weq new_attempt_row_def live_attempt_def list_all_iff attempt_count_def\<close>)
  with st show ?thesis by simp
qed

lemma claim_changes:
  assumes inv: "inv c s" and tx: "claim_tx now lease aid gid step worker lease_secs actor s = Inr (r, t)"
  shows "changes c s t"
proof (cases "select_claim now gid step s")
  case None
  with tx show ?thesis by (auto simp: claim_tx_def)
next
  case (Some row)
  note row = select_claimD [OF Some]
  define s1 where "s1 = upd_items (\<lambda>w. w_id w = w_id row \<and> w_status w = Ready)
      (\<lambda>w. w\<lparr>w_status := Running, w_lease_token := Some lease, w_lease_until := Some (now + int lease_secs),
             w_fencing := w_fencing w + 1, w_updated_at := now\<rparr>) s"
  show ?thesis
  proof (cases "count_where (\<lambda>w. w_id w = w_id row \<and> w_status w = Ready) (work_items s) = 1")
    case False
    with tx Some show ?thesis by (auto simp: claim_tx_def Let_def)
  next
    case True
    from tx [unfolded claim_tx_def Some option.case Let_def, folded s1_def] True
    obtain w number d where w: "find_item s1 (w_id row) = Some w"
      and number: "number = int (count_where (\<lambda>b. a_work_item_id b = w_id row) (attempts s)) + 1"
      and new: "list_all (\<lambda>a. a_id a \<noteq> aid \<and> \<not> (a_work_item_id a = w_id row \<and> a_number a = number)) (attempts s)"
      and t: "t = insert_event now gid ''work.claimed'' actor d
          (upd_goals (\<lambda>x. g_id x = gid \<and> g_status x = Approved) (\<lambda>x. x\<lparr>g_status := Active, g_updated_at := now\<rparr>)
            (s1\<lparr>attempts := attempts s1 @ [new_attempt_row now aid gid (w_id row) number worker lease (w_fencing w)]\<rparr>))"
      by clarsimp
    have "changes c s (s1\<lparr>attempts := attempts s1 @
        [new_attempt_row now aid (w_goal_id row) (w_id row) number worker lease (w_fencing w)]\<rparr>)"
      by (rule claim_row_changes [OF inv row(1) _ _ _ number s1_def w])
        (use row(2) new in \<open>auto simp: claimable_def list_all_iff\<close>)
    moreover have "w_goal_id row = gid" using row(2) by (simp add: claimable_def)
    ultimately show ?thesis unfolding t by (auto intro!: change_intros goal_status_legal)
  qed
qed

lemma renew_changes:
  assumes "renew_claim now cl lease_secs s = Inr (u, t)"
  shows "changes c s t"
proof -
  have "item_legal w (w\<lparr>w_lease_until := Some v, w_updated_at := now\<rparr>)" if "w_lease_token w = Some k" for w v k
    using that by (auto simp: legal_defs)
  with assms show ?thesis
    by (auto simp: renew_claim_def Let_def intro!: change_intros)
qed

section \<open>Checkpoints\<close>

lemma claim_attempt_goal:
  assumes "inv c s" "w \<in> set (work_items s)" "a \<in> set (attempts s)" "a_work_item_id a = w_id w"
  shows "a_goal_id a = w_goal_id w"
  using assms inv_attempt_item item_unique by metis

lemma prepare_changes:
  assumes inv: "inv c s" and tx: "prepare_checkpoint now cid cl key safe actor s = Inr (x, t)"
  shows "changes c s t"
proof (cases "find (\<lambda>c. c_work_item_id c = wr_id (cl_work_item cl) \<and> c_idempotency_key c = key) (checkpoints s)")
  case None
  let ?row = "\<lparr>c_id = cid, c_goal_id = ar_goal_id (cl_attempt cl), c_work_item_id = wr_id (cl_work_item cl),
      c_attempt_id = ar_id (cl_attempt cl), c_phase = Prepared, c_idempotency_key = key,
      c_replay_safe = safe, c_outcome = None, c_created_at = now, c_updated_at = now\<rparr>"
  from tx None have cur: "ensure_claim_current now cl s = Inr ()"
    and new: "list_all (\<lambda>c. c_id c \<noteq> cid) (checkpoints s)"
    and t: "t = insert_event now (ar_goal_id (cl_attempt cl)) ''checkpoint.prepared'' actor
        (JObj [(''attempt_id'', JStr (ar_id (cl_attempt cl))), (''checkpoint_id'', JStr cid)])
        (s\<lparr>checkpoints := checkpoints s @ [?row]\<rparr>)"
    by (simp_all add: prepare_checkpoint_def Let_def)
  from cur obtain w a where wa: "w \<in> set (work_items s)" "w_id w = wr_id (cl_work_item cl)"
      "w_goal_id w = ar_goal_id (cl_attempt cl)" "a \<in> set (attempts s)" "a_id a = ar_id (cl_attempt cl)"
      "a_work_item_id a = w_id w"
    by (rule claim_currentE)
  have "change c s (s\<lparr>checkpoints := checkpoints s @ [?row]\<rparr>)"
    by (rule change.add_checkpoint [of _ _ a])
      (use None new wa claim_attempt_goal [OF inv wa(1,4,6)] in
        \<open>auto simp: checkpoint_wf_def list_all_iff find_None_iff\<close>)
  then have "changes c s (s\<lparr>checkpoints := checkpoints s @ [?row]\<rparr>)" by simp
  then show ?thesis unfolding t by (rule ch_event)
next
  case (Some y)
  with tx show ?thesis by (simp add: prepare_checkpoint_def)
qed

lemma commit_legal:
  "c_phase x = Prepared \<Longrightarrow>
   checkpoint_legal x (x\<lparr>c_phase := Committed, c_outcome := Some out, c_updated_at := now\<rparr>)"
  by (auto simp: legal_defs intro: r_into_rtranclp)

lemma committing_legal:
  "a_status a = AttemptRunning \<Longrightarrow> attempt_legal a (a\<lparr>a_status := Committing\<rparr>)"
  by (auto simp: legal_defs intro: r_into_rtranclp)

lemma commit_changes:
  assumes "commit_checkpoint now cl cid out actor s = Inr (x, t)"
  shows "changes c s t"
proof -
  have "changes c s (insert_event now (ar_goal_id (cl_attempt cl)) ''checkpoint.committed'' actor
      (JObj [(''checkpoint_id'', JStr cid)])
      (upd_attempts (\<lambda>a. a_id a = ar_id (cl_attempt cl) \<and> a_status a = AttemptRunning) (\<lambda>a. a\<lparr>a_status := Committing\<rparr>)
        (upd_checkpoints (\<lambda>c. c_id c = cid \<and> c_phase c = Prepared \<and> c_attempt_id c = ar_id (cl_attempt cl))
          (\<lambda>c. c\<lparr>c_phase := Committed, c_outcome := Some out, c_updated_at := now\<rparr>) s)))"
    by (intro change_intros commit_legal committing_legal) simp_all
  with assms show ?thesis
    unfolding commit_checkpoint_def ensure_valid_id_def Let_def by (auto split: if_splits)
qed

lemma load_checkpoint_row:
  "load_checkpoint_tx s cid = Inr k \<Longrightarrow> cr_phase k = Committed \<Longrightarrow> committed_row k s"
  by (auto simp: load_checkpoint_tx_def decode_checkpoint_def committed_row_def
      intro: find_checkpointD dest!: find_checkpointD(1))

lemma finish_changes:
  assumes "finish_tx now cl cid actor s = Inr (u, t)"
  shows "changes c s t"
  using assms unfolding finish_tx_def Let_def
  by clarsimp (intro ch_event rtranclp_trans [OF _ refresh_changes] rtranclp_trans [OF _ unlock_changes];
      erule reconcile_changes; erule (1) load_checkpoint_row)

section \<open>Failing and yielding\<close>

lemma blocked_legal:
  "w_status w \<in> {Pending, Ready} \<Longrightarrow> item_legal w (w\<lparr>w_status := Blocked, w_updated_at := now\<rparr>)"
  by (auto simp: legal_defs intro: r_into_rtranclp)

lemma run_end_legal:
  "w_status w = Running \<Longrightarrow> y \<in> {Ready, Failed} \<Longrightarrow>
   item_legal w (w\<lparr>w_status := y, w_lease_token := None, w_lease_until := None,
     w_next_attempt_at := nx, w_last_error := le, w_updated_at := now\<rparr>)"
  by (rule item_legal_end) (auto simp: item_static_def intro!: running_to)

lemma fail_changes:
  assumes "fail_tx now cl error retryable actor s = Inr (u, t)"
  shows "changes c s t"
proof -
  define wid where "wid = wr_id (cl_work_item cl)"
  from assms obtain w where w: "find_item s wid = Some w" and cur: "ensure_claim_current now cl s = Inr ()"
    by (auto simp: fail_tx_def Let_def wid_def)
  define b where "b = (retryable \<and> int (attempt_count s wid) < w_max_attempts w)"
  define s2 where "s2 = upd_items (\<lambda>x. w_id x = wid \<and> w_status x = Running)
      (\<lambda>x. x\<lparr>w_status := (if b then Ready else Failed), w_lease_token := None, w_lease_until := None,
         w_next_attempt_at := (if b then Some (now + w_backoff_secs w) else None),
         w_last_error := Some (chars_take 2000 error), w_updated_at := now\<rparr>)
      (upd_attempts (\<lambda>a. a_id a = ar_id (cl_attempt cl) \<and> live_attempt a)
        (\<lambda>a. a\<lparr>a_status := AttemptFailed, a_finished_at := Some now, a_error := Some (chars_take 2000 error)\<rparr>) s)"
  have st: "changes c s s2"
    unfolding s2_def by (intro change_intros run_end_legal attempt_legal_end)
      (auto simp: attempt_static_def live_attempt_def intro!: live_to)
  define s3 where "s3 = (if b then s2
      else upd_items (\<lambda>x. w_id x \<in> set (downstream (deps s2) wid) \<and> w_status x \<in> {Pending, Ready})
        (\<lambda>x. x\<lparr>w_status := Blocked, w_updated_at := now\<rparr>) s2)"
  have "changes c s s3"
    unfolding s3_def using st by (auto intro!: ch_items blocked_legal)
  then have "changes c s (refresh_goal_status_tx now (ar_goal_id (cl_attempt cl)) s3)"
    using refresh_changes by (rule rtranclp_trans)
  moreover have "\<exists>d. t = insert_event now (ar_goal_id (cl_attempt cl)) ''attempt.failed'' actor d
      (refresh_goal_status_tx now (ar_goal_id (cl_attempt cl)) s3)"
    using assms [symmetric]
    unfolding fail_tx_def Let_def s3_def s2_def b_def wid_def [symmetric] w cur and_then_Inr_left fetch_Some
    by blast
  ultimately show ?thesis by (auto intro: ch_event)
qed

lemma yield_changes:
  assumes "y \<in> {Ready, Blocked}"
    and "\<And>w. h w = w\<lparr>w_status := y, w_lease_token := None, w_lease_until := None,
       w_next_attempt_at := nx, w_progress := pr w, w_last_error := le, w_updated_at := now\<rparr>"
  shows "changes c s (insert_event now gid ty actor d
    (upd_items (\<lambda>w. w_id w = wid \<and> w_status w = Running) h
      (void_attempt now aid e (void_prepared now aid s))))"
  unfolding void_attempt_def void_prepared_def
  by (intro change_intros item_legal_end attempt_legal_end voided_legal)
    (use assms in \<open>auto simp: item_static_def attempt_static_def checkpoint_static_def live_attempt_def
      intro!: running_to live_to\<close>)

lemma block_changes:
  assumes "block_work_item now cl reason actor s = (r, t)"
  shows "changes c s t"
proof -
  note y = yield_changes [where y = Blocked and pr = w_progress and nx = None, OF _ refl, simplified]
  from assms y show ?thesis
    unfolding block_work_item_def Let_def by (auto split: sum.splits)
qed

lemma defer_changes:
  assumes "defer_tx now cl until actor s = Inr (u, t)"
  shows "changes c s t"
  using assms yield_changes [where y = Ready and pr = w_progress, OF _ refl, simplified]
  unfolding defer_tx_def Let_def by auto

lemma continue_changes:
  assumes "continue_tx cr now cl k actor s = Inr (u, t)"
  shows "changes c s t"
  using assms yield_changes [where y = Ready and le = None, OF _ refl, simplified]
  unfolding continue_tx_def Let_def by auto

lemma progress_changes:
  assumes "record_phase_progress cr now cl k actor s = Inr (p, t)"
  shows "changes c s t"
proof -
  have "item_legal w (w\<lparr>w_progress := pr, w_updated_at := now\<rparr>)" for w pr by (auto simp: legal_defs)
  with assms show ?thesis
    by (auto simp: record_phase_progress_def Let_def intro!: change_intros)
qed

lemma requeue_changes:
  assumes "requeue_blocked_items now gid prefix handlers actor s = Inr (n, t)"
  shows "changes c s t"
proof -
  have leg: "item_legal w (w\<lparr>w_status := Ready, w_next_attempt_at := None, w_last_error := None, w_updated_at := now\<rparr>)"
    if "w_status w = Blocked" for w
    using that by (auto simp: legal_defs intro: r_into_rtranclp)
  let ?m = "\<lambda>w. w_goal_id w = gid \<and> w_status w = Blocked \<and>
      (case w_last_error w of None \<Rightarrow> False | Some e \<Rightarrow> like_prefix prefix e) \<and> w_handler w \<in> set handlers"
  have "changes c s (upd_items ?m
      (\<lambda>w. w\<lparr>w_status := Ready, w_next_attempt_at := None, w_last_error := None, w_updated_at := now\<rparr>) s)"
    by (intro change_intros leg) simp_all
  with assms show ?thesis
    unfolding requeue_blocked_items_def ensure_valid_id_def Let_def
    by (auto split: if_splits intro: ch_event simp del: count_where_0)
qed

section \<open>The operator's verdict\<close>

lemma resolve_checkpoint_changes: "changes c s (resolve_checkpoint now res reason cid s)"
  unfolding resolve_checkpoint_def
  by (cases res) (auto intro!: change_intros reconciled_legal commit_legal voided_legal simp: checkpoint_static_def)

lemma resolve_attempt_changes: "changes c s (resolve_attempt now res reason aid s)"
proof -
  have "attempt_edge\<^sup>*\<^sup>* AttemptWaiting AttemptSucceeded" "attempt_edge\<^sup>*\<^sup>* AttemptWaiting AttemptFailed"
    "attempt_edge\<^sup>*\<^sup>* AttemptWaiting Abandoned"
    by (rule r_into_rtranclp, simp)+
  note edges = this
  show ?thesis
    unfolding resolve_attempt_def
    by (intro change_intros attempt_legal_end; cases res)
      (simp_all add: attempt_static_def live_attempt_def edges)
qed

lemma resolve_item_changes:
  assumes "res = Confirmed \<Longrightarrow> reconciled_item s wid"
  shows "changes c s (resolve_item now res reason exhausted wid s)"
proof (cases "res = Confirmed")
  case True
  with assms show ?thesis
    by (auto simp: resolve_item_def resolve_item_fields_def item_static_def
        intro!: ch_success ch_refl item_success_end waiting_to)
next
  case False
  then show ?thesis
    by (cases res) (auto simp: resolve_item_def resolve_item_fields_def item_static_def
        intro!: change_intros item_legal_end waiting_to)
qed

lemma confirmed_reconciles:
  assumes "x \<in> set (checkpoints s)" "c_phase x = Prepared" "c_work_item_id x = wid"
  shows "reconciled_item (resolve_attempt now Confirmed reason aid (resolve_checkpoint now Confirmed reason (c_id x) s)) wid"
proof -
  let ?y = "x\<lparr>c_phase := Committed, c_outcome := Some (confirmed_outcome reason), c_updated_at := now\<rparr>"
  let ?s = "upd_checkpoints (\<lambda>c. c_id c = c_id x \<and> c_phase c = Prepared)
      (\<lambda>c. c\<lparr>c_phase := Committed, c_outcome := Some (confirmed_outcome reason), c_updated_at := now\<rparr>) s"
  have "?y \<in> set (checkpoints ?s)"
    using update_where_mem [OF assms(1), of "\<lambda>c. c_id c = c_id x \<and> c_phase c = Prepared"
        "\<lambda>c. c\<lparr>c_phase := Committed, c_outcome := Some (confirmed_outcome reason), c_updated_at := now\<rparr>"]
      assms(2) by simp
  then have "reconciled_item (resolve_checkpoint now Confirmed reason (c_id x) s) wid"
    unfolding resolve_checkpoint_def confirmation_resolution.case
    by (rule reconciled_itemI) (simp_all add: assms)
  then show ?thesis by (simp add: reconciled_item_def resolve_attempt_def)
qed

lemma checkpoint_item:
  assumes inv: "inv c s" and "x \<in> set (checkpoints s)" "a \<in> set (attempts s)" "c_attempt_id x = a_id a"
  shows "c_work_item_id x = a_work_item_id a"
proof -
  have "(\<lambda>x. (c_attempt_id x, c_work_item_id x, c_goal_id x)) ` set (checkpoints s)
       \<subseteq> (\<lambda>a. (a_id a, a_work_item_id a, a_goal_id a)) ` set (attempts s)"
    using inv by (simp add: inv_def refs_ok_def)
  then obtain b where "b \<in> set (attempts s)" "c_attempt_id x = a_id b" "c_work_item_id x = a_work_item_id b"
    using assms(2) by blast
  with attempt_unique [OF inv] assms(3,4) show ?thesis by metis
qed

lemma resolve_changes:
  assumes inv: "inv c s" and tx: "resolve_tx now gid wid res reason actor s = Inr (u, t)"
  shows "changes c s t"
proof -
  from tx obtain arow attempt crow exhausted d where
      arow: "last_row (select_ordered a_number (\<lambda>a. a_work_item_id a = wid \<and> a_status a = AttemptWaiting) (attempts s)) = Some arow"
    and att: "decode_attempt arow = Inr attempt"
    and crow: "last_row (filter (\<lambda>c. c_attempt_id c = ar_id attempt \<and> c_phase c = Prepared) (checkpoints s)) = Some crow"
    and t: "t = insert_event now gid ''confirmation.resolved'' actor d
       (refresh_goal_status_tx now gid (snd (unlock_ready_work_tx now gid
         (resolve_item now res (trim reason) exhausted wid
           (resolve_attempt now res (trim reason) (ar_id attempt)
             (resolve_checkpoint now res (trim reason) (c_id crow) s))))))"
    unfolding resolve_tx_def Let_def ensure_valid_id_def by clarsimp
  let ?s1 = "resolve_attempt now res (trim reason) (ar_id attempt)
      (resolve_checkpoint now res (trim reason) (c_id crow) s)"
  have a: "arow \<in> set (attempts s)" "a_work_item_id arow = wid" "ar_id attempt = a_id arow"
    using last_row_SomeD [OF arow] att by (auto simp: decode_attempt_def)
  have x: "crow \<in> set (checkpoints s)" "c_attempt_id crow = ar_id attempt" "c_phase crow = Prepared"
    using last_row_SomeD [OF crow] by auto
  have "c_work_item_id crow = wid" using checkpoint_item [OF inv x(1) a(1)] x(2) a(2,3) by simp
  with x have "reconciled_item ?s1 wid" if "res = Confirmed"
    unfolding that by (intro confirmed_reconciles) auto
  then have "changes c s (resolve_item now res (trim reason) exhausted wid ?s1)"
    by (intro rtranclp_trans [OF _ resolve_item_changes] rtranclp_trans [OF _ resolve_attempt_changes]
        resolve_checkpoint_changes)
  then show ?thesis
    unfolding t by (intro ch_event rtranclp_trans [OF _ refresh_changes] rtranclp_trans [OF _ unlock_changes])
qed

end
