(* ===== verification/Loop_Record_Changes.thy ===== *)
theory Loop_Record_Changes
  imports Loop_Work_Changes
begin

text \<open>
  Workflow extension, and the transactions of the signal inbox, the artifact registry, the
  self-tests and the replay store, as sequences of primitive changes.
\<close>

section \<open>Extending an approved workflow\<close>

lemma check_extension_steps_Inr:
  "check_extension_steps c p manifest seen steps = Inr u \<longleftrightarrow>
     (\<forall>s \<in> set steps. step_ok c p s \<and> step_effect s \<in> set manifest) \<and>
     distinct (map step_id steps) \<and> set seen \<inter> step_id ` set steps = {}"
  by (induction steps arbitrary: seen) (auto simp: step_ok_def)

lemma check_deps_Inr: "check_deps known sid ds = Inr u \<longleftrightarrow> set ds \<subseteq> set known - {sid}"
  by (induction ds) auto

lemma collect_deps_Inr:
  assumes "collect_deps known steps = Inr dss"
  shows "length dss = length steps \<and>
    (\<forall>i < length steps. dss ! i = declared_deps (steps ! i) \<and>
       set (declared_deps (steps ! i)) \<subseteq> set known \<union> step_id ` set (take i steps))"
  using assms
proof (induction steps arbitrary: known dss)
  case (Cons s ss)
  then obtain rest where rest: "collect_deps (known @ [step_id s]) ss = Inr rest"
    and dss: "dss = declared_deps s # rest" and s: "set (declared_deps s) \<subseteq> set known - {step_id s}"
    by (auto simp: check_deps_Inr)
  from Cons.IH [OF rest] s show ?case
    by (auto simp: dss nth_Cons' less_Suc_eq_0_disj) blast
qed simp

lemma nth_extension_rows:
  assumes "i < length steps"
  shows "\<exists>st. st \<notin> {Running, Succeeded} \<and> extension_rows now wid gid workflow_id mo steps ! i =
    new_item_row now (wid i) gid workflow_id st (steps ! i) (mo + 1 + int i)"
  using assms by (auto simp: extension_rows_def nth_enumerate_eq)

lemma length_extension_rows [simp]:
  "length (extension_rows now wid gid workflow_id mo steps) = length steps"
  by (simp add: extension_rows_def)

lemma extension_row_step:
  "i < length steps \<Longrightarrow> w_step_id (extension_rows now wid gid workflow_id mo steps ! i) = step_id (steps ! i)"
  by (simp add: extension_rows_def nth_enumerate_eq new_item_row_def)

lemma extension_deps_row:
  assumes "extension_deps gid batch dss s = Inr ds" and "d \<in> set ds" and "length dss = length batch"
  obtains i dep where "i < length batch" "dep \<in> set (dss ! i)" "d_work_item d = w_id (batch ! i)"
    "resolve_dep gid batch s dep = Inr (d_depends_on d)"
proof -
  let ?f = "\<lambda>(w, dep). and_then (resolve_dep gid batch s dep) (\<lambda>d. Inr \<lparr>d_work_item = w_id w, d_depends_on = d\<rparr>)"
  let ?xs = "concat (map (\<lambda>(w, ds). map (Pair w) ds) (zip batch dss))"
  from assms(1) have "list_all2 (\<lambda>x y. ?f x = Inr y) ?xs ds"
    by (simp add: extension_deps_def collect_Inr)
  with assms(2) obtain w dep where "(w, dep) \<in> set ?xs" and f: "?f (w, dep) = Inr d"
    using list_all2_right_mem by (metis (mono_tags, lifting) surj_pair)
  then obtain deps where "(w, deps) \<in> set (zip batch dss)" "dep \<in> set deps" by auto
  with f that assms(3) show thesis by (auto simp: in_set_zip)
qed

text \<open>A dependency resolves to an older item or to an earlier item of the batch.\<close>

lemma resolve_dep_earlier:
  assumes res: "resolve_dep gid rows (s\<lparr>work_items := work_items s @ rows\<rparr>) dep = Inr x"
    and rows: "length rows = length steps" "\<And>j. j < length steps \<Longrightarrow> w_step_id (rows ! j) = step_id (steps ! j)"
    and dist: "distinct (map step_id steps)" "set known \<inter> step_id ` set steps = {}"
    and dep: "dep \<in> set known \<union> step_id ` set (take i steps)" and i: "i < length steps"
  shows "x \<in> w_id ` set (work_items s) \<or> (\<exists>j < i. x = w_id (rows ! j))"
proof (cases "find (\<lambda>w. w_step_id w = dep) rows")
  case None
  with res have "x \<in> w_id ` set (work_items s)"
    by (auto simp: resolve_dep_def find_append split: option.splits dest!: find_SomeD find_NoneD)
  then show ?thesis ..
next
  case (Some w)
  then obtain j where j: "j < length steps" "w = rows ! j" "step_id (steps ! j) = dep"
    using rows by (auto simp: in_set_conv_nth dest!: find_SomeD)
  then have "dep \<notin> set known" using dist(2) by (auto simp: disjoint_iff)
  with dep obtain k where k: "k < i" "dep = step_id (steps ! k)"
    by (auto simp: in_set_conv_nth)
  then have "map step_id steps ! k = map step_id steps ! j" using j i by simp
  with nth_eq_iff_index_eq [OF dist(1), of k j] k(1) j(1) i have "j = k" by simp
  with Some res j(2) k(1) show ?thesis by (auto simp: resolve_dep_def)
qed

text \<open>Edges that go from older or earlier items to later ones have no cycle.\<close>

lemma acyclic_batch:
  assumes "distinct (map w_id rows)" and "old \<inter> w_id ` set rows = {}"
    and "\<And>d. d \<in> set ds \<Longrightarrow> \<exists>i < length rows. d_work_item d = w_id (rows ! i) \<and>
       (d_depends_on d \<in> old \<or> (\<exists>j < i. d_depends_on d = w_id (rows ! j)))"
  shows "acyclic (dep_rel ds)"
proof (rule acyclic_image)
  show "acyclic less_than" by (rule wf_acyclic) simp
  let ?rank = "\<lambda>x. if x \<in> old then 0 else Suc (length (takeWhile (\<lambda>w. w_id w \<noteq> x) rows))"
  have rank: "length (takeWhile (\<lambda>w. w_id w \<noteq> w_id (rows ! i)) rows) = i" if "i < length rows" for i
  proof -
    have "w_id (rows ! j) \<noteq> w_id (rows ! i)" if "j < i" for j
      using assms(1) that \<open>i < length rows\<close> by (simp add: distinct_conv_nth)
    with that have "takeWhile (\<lambda>w. w_id w \<noteq> w_id (rows ! i)) rows = take i rows"
      by (intro takeWhile_eq_take_P_nth) auto
    with that show ?thesis by simp
  qed
  fix x y assume "(x, y) \<in> dep_rel ds"
  then obtain d where d: "d \<in> set ds" "x = d_depends_on d" "y = d_work_item d" by (auto simp: dep_rel_def)
  from assms(3) [OF d(1)] obtain i where i: "i < length rows" "y = w_id (rows ! i)"
    and x: "x \<in> old \<or> (\<exists>j < i. x = w_id (rows ! j))" using d by auto
  have "y \<notin> old" using i assms(2) by auto
  with x i rank show "(?rank x, ?rank y) \<in> less_than" by (auto simp: less_imp_le)
qed

lemma extend_rows_changes:
  assumes inv: "inv c s" and p: "p \<in> set (workflows s)"
    and rows: "rows = extension_rows now wid (p_goal_id p) (p_id p) mo steps"
    and items: "insert_items rows s = Inr s1"
    and ok: "check_extension_steps c pol manifest known steps = Inr u"
    and dss: "collect_deps known steps = Inr dss"
    and ds: "extension_deps (p_goal_id p) rows dss s1 = Inr ds" and deps: "insert_deps ds s1 = Inr s2"
  shows "changes c s s2"
proof -
  from ok have steps: "\<And>x. x \<in> set steps \<Longrightarrow> step_ok c pol x" "distinct (map step_id steps)"
      "set known \<inter> step_id ` set steps = {}"
    by (auto simp: check_extension_steps_Inr)
  have len: "length rows = length steps" by (simp add: rows)
  have "item_wf w \<and> w_fencing w = 0 \<and> w_status w \<noteq> Succeeded \<and>
      (w_workflow_id w, w_goal_id w) \<in> (\<lambda>p. (p_id p, p_goal_id p)) ` set (workflows s)"
    if "w \<in> set rows" for w
  proof -
    from that len obtain i where i: "i < length steps" "w = rows ! i" by (auto simp: in_set_conv_nth)
    from nth_extension_rows [OF i(1), of now wid "p_goal_id p" "p_id p" mo] i(2)
    obtain st where "st \<notin> {Running, Succeeded}"
        "w = new_item_row now (wid i) (p_goal_id p) (p_id p) st (steps ! i) (mo + 1 + int i)"
      unfolding rows by blast
    with new_item_row_wf [OF steps(1) [OF nth_mem [OF i(1)]]] p show ?thesis
      by (auto simp: new_item_row_def)
  qed
  with items have st: "changes c s s1" by (rule insert_items_changes)
  note s1 = insert_items_Inr [OF items]
  have dep: "\<exists>i < length rows. d_work_item d = w_id (rows ! i) \<and>
      (d_depends_on d \<in> w_id ` set (work_items s) \<or> (\<exists>j < i. d_depends_on d = w_id (rows ! j)))"
    if "d \<in> set ds" for d
  proof -
    from ds that obtain i dep where i: "i < length rows" "dep \<in> set (dss ! i)" "d_work_item d = w_id (rows ! i)"
        "resolve_dep (p_goal_id p) rows s1 dep = Inr (d_depends_on d)"
      using collect_deps_Inr [OF dss] len by (elim extension_deps_row) auto
    have "dep \<in> set known \<union> step_id ` set (take i steps)"
      using collect_deps_Inr [OF dss] i(1,2) len by auto
    from resolve_dep_earlier [OF i(4) [unfolded s1(1)] len _ steps(2,3) this] i(1,3) len
    show ?thesis by (auto simp: rows extension_row_step)
  qed
  have goal: "w_goal_id w = p_goal_id p" if "w \<in> set rows" for w
    using that by (auto simp: rows extension_rows_def new_item_row_def)
  have within: "dep_within s1 d" if "d \<in> set ds" for d
  proof -
    from ds that obtain i dep where i: "i < length rows" "d_work_item d = w_id (rows ! i)"
        "resolve_dep (p_goal_id p) rows s1 dep = Inr (d_depends_on d)"
      using collect_deps_Inr [OF dss] len by (elim extension_deps_row) auto
    obtain v where v: "v \<in> set (work_items s1)" "w_id v = d_depends_on d" "w_goal_id v = p_goal_id p"
      using i(3) goal by (auto simp: resolve_dep_def s1(1) split: option.splits dest!: find_SomeD)
    have "rows ! i \<in> set (work_items s1)" "w_goal_id (rows ! i) = p_goal_id p"
      using i(1) goal by (auto simp: s1(1))
    then show ?thesis unfolding dep_within_def
      by (intro exI [of _ "p_goal_id p"] conjI image_eqI [of _ _ "rows ! i"] image_eqI [of _ _ v])
        (simp_all add: i(2) v)
  qed
  have mem: "d_work_item d \<in> w_id ` set rows \<and> d_depends_on d \<in> w_id ` set (work_items s) \<union> w_id ` set rows"
    if "d \<in> set ds" for d
    using dep [OF that] by (metis UnCI image_eqI nth_mem order_less_trans)
  have "d_depends_on ` set (deps s) \<subseteq> w_id ` set (work_items s)"
    using inv by (simp add: inv_def refs_ok_def)
  moreover have "d_work_item ` set ds \<subseteq> w_id ` set rows" using mem by blast
  ultimately have "d_depends_on ` set (deps s1) \<inter> d_work_item ` set ds = {}"
    using s1(3) by (simp add: s1(1)) blast
  moreover have "acyclic (dep_rel ds)"
    by (rule acyclic_batch [OF s1(2) _ dep]) (use s1(3) in blast)
  ultimately have "changes c s1 s2"
    using within by (intro insert_deps_changes [OF changes_inv [OF st inv] deps]) auto
  with st show ?thesis by (rule rtranclp_trans)
qed

lemma latest_workflowD:
  "latest_workflow s gid = Some p \<Longrightarrow> p \<in> set (workflows s) \<and> p_goal_id p = gid"
  by (auto simp: latest_workflow_def dest!: last_row_SomeD)

lemma extend_changes:
  assumes inv: "inv (env_crates E) s" and tx: "extend_workflow E now wid gid steps actor s = Inr (r, t)"
  shows "changes (env_crates E) s t"
proof -
  from tx obtain p dss s1 ds s2 where p: "latest_workflow s gid = Some p"
    and ok: "check_extension_steps (env_crates E) (env_external_write E) (p_effects p)
        (map w_step_id (open_items gid s)) steps = Inr ()"
    and dss: "collect_deps (map w_step_id (open_items gid s)) steps = Inr dss"
    and items: "insert_items (extension_rows now wid gid (p_id p) (max_ordinal (open_items gid s)) steps) s = Inr s1"
    and ds: "extension_deps gid (extension_rows now wid gid (p_id p) (max_ordinal (open_items gid s)) steps) dss s1 = Inr ds"
    and deps: "insert_deps ds s1 = Inr s2"
    and t: "t = refresh_goal_status_tx now gid (insert_event now gid ''workflow.extended'' actor
        (JObj [(''step_ids'', JArr (map (\<lambda>x. JStr (step_id x)) steps)), (''workflow_id'', JStr (p_id p))]) s2)"
    unfolding extend_workflow_def ensure_valid_id_def Let_def by clarsimp
  note pd = latest_workflowD [OF p]
  from pd have gid: "gid = p_goal_id p" by simp
  have "changes (env_crates E) s s2"
    by (rule extend_rows_changes [OF inv conjunct1 [OF pd] refl items [unfolded gid] ok [unfolded gid]
          dss [unfolded gid] ds [unfolded gid] deps])
  then show ?thesis unfolding t by (blast intro: rtranclp_trans ch_event refresh_changes)
qed

section \<open>Signals, artifacts, self-tests and replays\<close>

lemma get_signal_mem: "get_signal s sid = Some r \<Longrightarrow> sid \<in> s_id ` set (signals s)"
  by (auto simp: get_signal_def dest!: find_SomeD)

lemma ingest_changes:
  assumes "ingest_signal cr un now sid r actor s = Inr (res, t)"
  shows "changes c s t"
proof (cases "existing_signal cr un r s")
  case None
  let ?row = "new_signal_row cr un now sid r actor"
  let ?s = "s\<lparr>signals := signals s @ [?row]\<rparr>"
  from assms None have new: "list_all (\<lambda>x. \<not> signal_clash x ?row) (signals s)"
    and t: "t = insert_signal_event_tx now sid Observed actor (JObj [(''fingerprint'', JStr (s_fingerprint ?row))]) ?s"
    by (auto simp: ingest_signal_def Let_def)
  have "change c s ?s" by (rule change.add_signal) (use new in \<open>auto simp: list_all_iff\<close>)
  moreover have "change c ?s t"
    unfolding t by (rule change.add_signal_event) (simp add: new_signal_row_def)
  ultimately show ?thesis by (auto intro: rtranclp.rtrancl_into_rtrancl)
next
  case (Some x)
  with assms show ?thesis by (auto simp: ingest_signal_def)
qed

lemma signal_event_changes:
  "get_signal s sid = Some sig \<Longrightarrow> changes c s (insert_signal_event_tx now sid st actor d s)"
  by (blast intro: r_into_rtranclp change.add_signal_event get_signal_mem)

lemma ignore_changes: "ignore_signal now sid reason actor s = Inr (r, t) \<Longrightarrow> changes c s t"
  by (auto simp: ignore_signal_def Let_def intro: signal_event_changes)

lemma triage_changes: "triage_signal now sid actor s = Inr (r, t) \<Longrightarrow> changes c s t"
  by (auto simp: triage_signal_def Let_def split: if_splits intro: signal_event_changes)

lemma proposed_changes:
  assumes "mark_signal_proposed now sid gid actor s = Inr (u, t)"
  shows "changes c s t"
proof -
  from assms have "count_where (\<lambda>x. s_id x = sid) (signals s) \<noteq> 0"
    and t: "t = insert_signal_event_tx now sid SignalProposed actor (JObj [(''goal_id'', JStr gid)]) s"
    by (auto simp: mark_signal_proposed_def simp del: count_where_0)
  then have "sid \<in> s_id ` set (signals s)" by auto
  then show ?thesis unfolding t by (blast intro: r_into_rtranclp change.add_signal_event)
qed

lemma publish_changes:
  assumes "publish_artifact cr now fid r actor s = Inr (res, t)"
  shows "changes c s t"
proof (cases "find_artifact s (pa_kind r) (trim (pa_name r)) (trim (pa_version r))")
  case None
  with assms obtain fe where new: "list_all (\<lambda>x. f_id x \<noteq> fid) (artifacts s)"
    and t: "t = s\<lparr>artifacts := artifacts s @ [new_artifact_row cr now fid r actor],
        artifact_events := artifact_events s @ [fe]\<rparr>"
    by (auto simp: publish_artifact_def Let_def)
  have "change c s t"
    unfolding t by (rule change.add_artifact)
      (use new None in \<open>auto simp: list_all_iff new_artifact_row_def find_artifact_def find_None_iff\<close>)
  then show ?thesis by simp
next
  case (Some f)
  with assms show ?thesis by (auto simp: publish_artifact_def)
qed

lemma self_test_changes:
  assumes "run_self_tests started finished duration rid suite actor s = Inr (r, t)"
  shows "changes c s t"
proof -
  from assms have "change c s t"
    unfolding run_self_tests_def Let_def
    by (auto intro!: change.add_self_test simp: list_all_iff)
  then show ?thesis by simp
qed

lemma frame_changes:
  assumes "record_trajectory_frame c now fid d actor s = Inr (f, t)"
  shows "changes c s t"
proof (cases "find (\<lambda>f. fr_trajectory_id f = fd_trajectory_id d \<and> fr_call_index f = int (fd_call_index d)) (frames s)")
  case None
  with assms have new: "list_all (\<lambda>f. fr_id f \<noteq> fid) (frames s)"
    and t: "t = s\<lparr>frames := frames s @ [new_frame_row c now fid d actor]\<rparr>"
    by (auto simp: record_trajectory_frame_def Let_def)
  have "change c s t"
    unfolding t by (rule change.add_frame)
      (use new None in \<open>auto simp: new_frame_row_def list_all_iff find_None_iff\<close>)
  then show ?thesis by simp
next
  case (Some f)
  with assms show ?thesis by (auto simp: record_trajectory_frame_def Let_def)
qed

lemma replay_changes:
  assumes "run_structural_replay cr now rid tid actor s = Inr (r, t)"
  shows "changes c s t"
proof -
  from assms have "change c s t"
    unfolding run_structural_replay_def Let_def
    by (auto intro!: change.add_replay simp: list_all_iff)
  then show ?thesis by simp
qed

end
