(* ===== verification/Loop_System.thy ===== *)
theory Loop_System
  imports Loop_Record_Changes
begin

text \<open>
  The engine as a whole: every step is a sequence of primitive changes, so the invariant holds
  in every reachable state and the tables evolve along their status graphs. The interfaces of
  the prelude are interpreted here on the engine's own step relation: \<open>loop\<close> gives the
  invariant of reachable states, \<open>claims\<close> the fencing of work claims.
\<close>

lemmas step_changes =
  create_changes expire_changes cancel_changes reject_changes replan_changes pause_changes
  plan_changes approve_changes verify_changes manual_changes reserve_changes response_bytes_changes
  recover_changes ch_event [OF ch_refl] claim_changes renew_changes prepare_changes commit_changes
  finish_changes fail_changes block_changes requeue_changes defer_changes progress_changes
  continue_changes resolve_changes extend_changes ingest_changes ignore_changes triage_changes
  proposed_changes publish_changes self_test_changes frame_changes replay_changes

lemma loop_step_changes: "loop_step E s t \<Longrightarrow> inv (env_crates E) s \<Longrightarrow> changes (env_crates E) s t"
  by (induction rule: loop_step.induct) (blast intro: step_changes)+

interpretation loop: transition_system loop_init "loop_step E" "inv (env_crates E)" for E
proof
  show "loop_init s \<Longrightarrow> inv (env_crates E) s" for s by (simp add: loop_init_def inv_empty)
  show "inv (env_crates E) s \<Longrightarrow> loop_step E s t \<Longrightarrow> inv (env_crates E) t" for s t
    using changes_inv loop_step_changes by blast
qed

lemma reachable_inv: "reachable E s \<Longrightarrow> inv (env_crates E) s"
  unfolding reachable_def by (rule loop.steps_keep_inv [of empty_db]) (simp_all add: loop_init_def)

text \<open>A property that every primitive change keeps holds in every reachable state.\<close>

lemma reachable_by_changes:
  assumes "reachable E s" and "P empty_db" and "\<And>s t. changes (env_crates E) s t \<Longrightarrow> P s \<Longrightarrow> P t"
  shows "P s"
proof -
  from assms(1) have "loop_steps E empty_db s" by (simp add: reachable_def)
  then show ?thesis
  proof (induction rule: rtranclp_induct)
    case (step s t)
    then have "inv (env_crates E) s" by (intro reachable_inv) (simp add: reachable_def)
    with step show ?case by (blast intro: assms(3) loop_step_changes)
  qed (rule assms(2))
qed

lemma reachable_success: "reachable E s \<Longrightarrow> success_ok s"
  by (rule reachable_by_changes [of _ _ success_ok, OF _ success_empty changes_success])

lemma reachable_numbers: "reachable E s \<Longrightarrow> numbers_ok s"
  by (rule reachable_by_changes [of _ _ numbers_ok, OF _ _ changes_numbers]) (simp_all add: numbers_ok_def empty_db_def)

lemma reachable_deps: "reachable E s \<Longrightarrow> deps_ok s"
  by (rule reachable_by_changes [of _ _ deps_ok, OF _ _ changes_deps]) (simp_all add: deps_ok_def empty_db_def)

lemma loop_steps_evolve:
  assumes "loop_steps E s t" and "inv (env_crates E) s"
  shows "evolves s t"
  using assms
proof (induction rule: rtranclp_induct)
  case (step t u)
  then have "inv (env_crates E) t" using loop.steps_inv by blast
  with step show ?case
    by (blast intro: evolves_trans changes_evolves loop_step_changes)
qed simp

lemma reachable_evolve: "reachable E s \<Longrightarrow> loop_steps E s t \<Longrightarrow> evolves s t"
  using loop_steps_evolve reachable_inv by blast

lemma reachable_steps: "reachable E s \<Longrightarrow> loop_steps E s t \<Longrightarrow> reachable E t"
  unfolding reachable_def by (rule rtranclp_trans)

section \<open>Work claims as fenced resources\<close>

definition fencing_of :: "db \<Rightarrow> string \<Rightarrow> int" where
  "fencing_of s wid = (case find_item s wid of None \<Rightarrow> 0 | Some w \<Rightarrow> w_fencing w)"

definition claim_current :: "db \<Rightarrow> work_claim \<Rightarrow> bool" where
  "claim_current s cl \<longleftrightarrow> (\<exists>now. ensure_claim_current now cl s = Inr ())"

definition safe_step :: "env \<Rightarrow> db \<Rightarrow> db \<Rightarrow> bool" where
  "safe_step E s t \<longleftrightarrow> inv (env_crates E) s \<and> loop_step E s t"

lemma fencing_of_item: "inv c s \<Longrightarrow> w \<in> set (work_items s) \<Longrightarrow> fencing_of s (w_id w) = w_fencing w"
  by (simp add: fencing_of_def find_item_key)

lemma fencing_of_evolves:
  assumes "inv c s" "inv c t" "evolves s t"
  shows "fencing_of s wid \<le> fencing_of t wid"
proof (cases "find_item s wid")
  case None
  then show ?thesis
    using inv_rows(1) [OF assms(2)] find_itemD(1) [of t wid]
    by (auto simp: fencing_of_def item_wf_def split: option.split)
next
  case (Some w)
  then have w: "w \<in> set (work_items s)" "w_id w = wid" by (rule find_itemD)+
  from assms(3) have "rows_evolve item_evolves (work_items s) (work_items t)" by (simp add: evolves_def)
  then obtain v where v: "v \<in> set (work_items t)" "item_evolves w v"
    using w(1) by (rule rows_evolve_member)
  then have "w_id v = wid" "w_fencing w \<le> w_fencing v"
    using w(2) by (auto simp: item_evolves_def item_static_def)
  with Some v(1) fencing_of_item [OF assms(2)] show ?thesis by (auto simp: fencing_of_def)
qed

interpretation claims: fenced_resource "safe_step E" fencing_of
  "\<lambda>s cl. inv (env_crates E) s \<and> claim_current s cl" "\<lambda>cl. wr_id (cl_work_item cl)"
  "\<lambda>cl. ar_fencing_token (cl_attempt cl)" for E
proof
  show "fencing_of s k \<le> fencing_of t k" if "safe_step E s t" for s t k
    using that fencing_of_evolves changes_evolves changes_inv loop_step_changes
    unfolding safe_step_def by blast
  show "fencing_of s (wr_id (cl_work_item cl)) = ar_fencing_token (cl_attempt cl)"
    if cur: "inv (env_crates E) s \<and> claim_current s cl" for s cl
  proof -
    from cur obtain now where "ensure_claim_current now cl s = Inr ()" by (auto simp: claim_current_def)
    then show ?thesis
      using cur by (elim claim_currentE) (metis fencing_of_item)
  qed
qed

lemma safe_steps:
  assumes "loop_steps E s t" and "inv (env_crates E) s"
  shows "(safe_step E)\<^sup>*\<^sup>* s t"
  using assms
proof (induction rule: rtranclp_induct)
  case (step t u)
  then have "safe_step E t u" using loop.steps_inv by (auto simp: safe_step_def)
  with step show ?case by auto
qed simp

end
