(* ===== verification/Loop_Example.thy ===== *)
theory Loop_Example
  imports Loop_System
begin

text \<open>
  A small run of the engine, used to show that the hypotheses of the properties can hold: one
  goal whose plan sends a message (\<open>a\<close>, an external write) and then analyses (\<open>b\<close>).
\<close>

definition ex_env :: env where
  "ex_env = \<lparr>env_crates = \<lparr>json_text = (\<lambda>_. []), sha256 = (\<lambda>_. [])\<rparr>,
     env_unicode = \<lparr>is_alphanumeric = (\<lambda>_. True), to_lowercase = (\<lambda>c. c)\<rparr>,
     env_internal_policy = default_internal_policy,
     env_external_write = \<lparr>ew_enabled = True, ew_allowed_handlers = [''channel_send'']\<rparr>\<rparr>"

definition ex_workflow :: workflow_spec where
  "ex_workflow =
     \<lparr>wf_steps =
        [\<lparr>step_id = ''a'', step_handler = ''channel_send'', step_effect = ExternalWrite,
          step_input = JObj [], step_retry = \<lparr>max_attempts = 2, backoff_secs = 5\<rparr>\<rparr>,
         \<lparr>step_id = ''b'', step_handler = ''provider_analysis'', step_effect = Read,
          step_input = JObj [], step_retry = \<lparr>max_attempts = 1, backoff_secs = 0\<rparr>\<rparr>],
      wf_edges = [\<lparr>edge_from = ''a'', edge_to = ''b''\<rparr>],
      wf_budget = \<lparr>max_provider_calls = 4, deadline_secs = 600, max_response_bytes = 1000\<rparr>\<rparr>"

definition ex_plan :: plan_goal_request where
  "ex_plan = \<lparr>pg_workflow = ex_workflow, pg_acceptance = [ManualApproval ''ok'']\<rparr>"

definition ex_request :: create_goal_request where
  "ex_request = \<lparr>cg_objective = ''send'', cg_source_signal_ids = [], cg_request_id = Some ''r'',
     cg_internal_only = False\<rparr>"

definition ex_approve :: approve_goal_request where
  "ex_approve = \<lparr>expected_goal_revision = 2, expected_plan_hash = ''sha256:''\<rparr>"

definition ex_ids :: "nat \<Rightarrow> string" where
  "ex_ids i = (if i = 0 then ''wa'' else ''wb'')"

section \<open>Rows and states of the run\<close>

definition ex_goal :: "goal_status \<Rightarrow> int \<Rightarrow> int \<Rightarrow> goal_row" where
  "ex_goal st r now = \<lparr>g_id = ''g'', g_objective = ''send'', g_status = st, g_revision = r,
     g_source_signal_ids = [], g_request_id = Some ''r'', g_created_by = ''op'',
     g_created_at = 100, g_updated_at = now, g_internal_only = False\<rparr>"

definition ex_event :: "int \<Rightarrow> string \<Rightarrow> (string \<times> json) list \<Rightarrow> int \<Rightarrow> event_row" where
  "ex_event n ty d now = \<lparr>ev_sequence = n, ev_goal_id = Some ''g'', ev_type = ty, ev_actor = ''op'',
     ev_details = JObj d, ev_created_at = now\<rparr>"

definition ex_plan_row :: workflow_row where
  "ex_plan_row = \<lparr>p_id = ''p'', p_goal_id = ''g'', p_goal_revision = 2, p_plan_hash = ''sha256:'',
     p_workflow = ex_workflow, p_acceptance = [ManualApproval ''ok''],
     p_effects = [Read, ExternalWrite], p_created_by = ''op'', p_created_at = 101\<rparr>"

definition ex_approval :: approval_row where
  "ex_approval = \<lparr>ap_id = ''ap'', ap_goal_id = ''g'', ap_goal_revision = 2, ap_plan_hash = ''sha256:'',
     ap_workflow_hash = ''sha256:'', ap_effects_hash = ''sha256:'', ap_acceptance_hash = ''sha256:'',
     ap_budget_hash = ''sha256:'', ap_approved_by = ''op'', ap_created_at = 102\<rparr>"

definition ex_budget :: budget_row where
  "ex_budget = \<lparr>b_goal_id = ''g'', b_max_provider_calls = 4, b_deadline_secs = 600,
     b_max_response_bytes = 1000, b_provider_calls = 0, b_response_bytes = 0, b_started_at = None,
     b_updated_at = 102\<rparr>"

definition ex_a :: work_item_row where
  "ex_a = \<lparr>w_id = ''wa'', w_goal_id = ''g'', w_workflow_id = ''p'', w_step_id = ''a'', w_status = Ready,
     w_handler = ''channel_send'', w_effect = ExternalWrite, w_input = JObj [], w_max_attempts = 2,
     w_backoff_secs = 5, w_ordinal = 0, w_lease_token = None, w_lease_until = None, w_fencing = 0,
     w_next_attempt_at = None, w_last_error = None, w_progress = None, w_created_at = 102,
     w_updated_at = 102\<rparr>"

definition ex_b :: work_item_row where
  "ex_b = \<lparr>w_id = ''wb'', w_goal_id = ''g'', w_workflow_id = ''p'', w_step_id = ''b'', w_status = Pending,
     w_handler = ''provider_analysis'', w_effect = Read, w_input = JObj [], w_max_attempts = 1,
     w_backoff_secs = 0, w_ordinal = 1, w_lease_token = None, w_lease_until = None, w_fencing = 0,
     w_next_attempt_at = None, w_last_error = None, w_progress = None, w_created_at = 102,
     w_updated_at = 102\<rparr>"

definition ex_a_running :: work_item_row where
  "ex_a_running = ex_a\<lparr>w_status := Running, w_lease_token := Some ''l'', w_lease_until := Some 163,
     w_fencing := 1, w_updated_at := 103\<rparr>"

definition ex_attempt :: attempt_row where
  "ex_attempt = \<lparr>a_id = ''t'', a_goal_id = ''g'', a_work_item_id = ''wa'', a_number = 1,
     a_status = AttemptRunning, a_worker_id = ''w'', a_lease_token = ''l'', a_fencing = 1,
     a_started_at = 103, a_finished_at = None, a_error = None\<rparr>"

definition ex_item :: work_item_record where
  "ex_item = \<lparr>wr_id = ''wa'', wr_goal_id = ''g'', wr_status = Ready, wr_step_id = ''a'',
     wr_handler = ''channel_send'', wr_effect = ExternalWrite, wr_input = JObj [],
     wr_max_attempts = 2, wr_ordinal = 0, wr_dependency_ids = [], wr_created_at = 102,
     wr_progress = None\<rparr>"

definition ex_claim :: work_claim where
  "ex_claim = \<lparr>cl_work_item = ex_item\<lparr>wr_status := Running\<rparr>,
     cl_attempt = \<lparr>ar_id = ''t'', ar_goal_id = ''g'', ar_work_item_id = ''wa'', ar_attempt_number = 1,
       ar_status = AttemptRunning, ar_worker_id = ''w'', ar_lease_token = ''l'', ar_fencing_token = 1,
       ar_started_at = 103, ar_finished_at = None, ar_error = None\<rparr>,
     cl_lease_until = 163, cl_budget = wf_budget ex_workflow\<rparr>"

definition ex_checkpoint :: checkpoint_row where
  "ex_checkpoint = \<lparr>c_id = ''c'', c_goal_id = ''g'', c_work_item_id = ''wa'', c_attempt_id = ''t'',
     c_phase = Prepared, c_idempotency_key = ''k'', c_replay_safe = False, c_outcome = None,
     c_created_at = 104, c_updated_at = 104\<rparr>"

definition ex_outcome :: work_outcome where
  "ex_outcome = \<lparr>wo_summary = ''sent'', wo_artifact_ids = [], wo_evidence = JObj [],
     wo_sleep_until = None, wo_continuation = None\<rparr>"

definition ex_attempt2 :: attempt_row where
  "ex_attempt2 = \<lparr>a_id = ''t2'', a_goal_id = ''g'', a_work_item_id = ''wb'', a_number = 1,
     a_status = AttemptRunning, a_worker_id = ''w'', a_lease_token = ''l2'', a_fencing = 1,
     a_started_at = 107, a_finished_at = None, a_error = None\<rparr>"

definition ex_item2 :: work_item_record where
  "ex_item2 = \<lparr>wr_id = ''wb'', wr_goal_id = ''g'', wr_status = Ready, wr_step_id = ''b'',
     wr_handler = ''provider_analysis'', wr_effect = Read, wr_input = JObj [], wr_max_attempts = 1,
     wr_ordinal = 1, wr_dependency_ids = [], wr_created_at = 102, wr_progress = None\<rparr>"

definition ex_claim2 :: work_claim where
  "ex_claim2 = \<lparr>cl_work_item = ex_item2\<lparr>wr_status := Running\<rparr>,
     cl_attempt = \<lparr>ar_id = ''t2'', ar_goal_id = ''g'', ar_work_item_id = ''wb'', ar_attempt_number = 1,
       ar_status = AttemptRunning, ar_worker_id = ''w'', ar_lease_token = ''l2'', ar_fencing_token = 1,
       ar_started_at = 107, ar_finished_at = None, ar_error = None\<rparr>,
     cl_lease_until = 167, cl_budget = wf_budget ex_workflow\<rparr>"

definition ex_checkpoint2 :: checkpoint_row where
  "ex_checkpoint2 = \<lparr>c_id = ''c2'', c_goal_id = ''g'', c_work_item_id = ''wb'', c_attempt_id = ''t2'',
     c_phase = Prepared, c_idempotency_key = ''k'', c_replay_safe = True, c_outcome = None,
     c_created_at = 108, c_updated_at = 108\<rparr>"

definition ex_log :: "event_row list" where
  "ex_log =
     [ex_event 1 ''goal.created'' [] 100,
      ex_event 2 ''goal.planned'' [(''goal_revision'', JInt 2), (''plan_hash'', JStr ''sha256:'')] 101,
      ex_event 3 ''goal.approved'' [(''approval_id'', JStr ''ap''), (''plan_hash'', JStr ''sha256:'')] 102,
      ex_event 4 ''work.claimed'' [(''attempt_id'', JStr ''t''), (''fencing_token'', JInt 1),
        (''work_item_id'', JStr ''wa''), (''worker_id'', JStr ''w'')] 103,
      ex_event 5 ''checkpoint.prepared'' [(''attempt_id'', JStr ''t''), (''checkpoint_id'', JStr ''c'')] 104,
      ex_event 6 ''checkpoint.committed'' [(''checkpoint_id'', JStr ''c'')] 105,
      ex_event 7 ''attempt.finished'' [(''attempt_id'', JStr ''t''), (''checkpoint_id'', JStr ''c'')] 106,
      ex_event 8 ''work.claimed'' [(''attempt_id'', JStr ''t2''), (''fencing_token'', JInt 1),
        (''work_item_id'', JStr ''wb''), (''worker_id'', JStr ''w'')] 107,
      ex_event 9 ''checkpoint.prepared'' [(''attempt_id'', JStr ''t2''), (''checkpoint_id'', JStr ''c2'')] 108,
      ex_event 10 ''checkpoint.committed'' [(''checkpoint_id'', JStr ''c2'')] 109,
      ex_event 11 ''attempt.finished'' [(''attempt_id'', JStr ''t2''), (''checkpoint_id'', JStr ''c2'')] 110,
      ex_event 12 ''goal.manual_verified'' [(''label'', JStr ''ok'')] 111]"

definition ex_created :: db where
  "ex_created = empty_db\<lparr>goals := [ex_goal Proposed 1 100], events := take 1 ex_log\<rparr>"

definition ex_planned :: db where
  "ex_planned = empty_db\<lparr>goals := [ex_goal ReviewReady 2 101], workflows := [ex_plan_row],
     events := take 2 ex_log\<rparr>"

text \<open>A state after approval, with the first \<open>n\<close> events of the log.\<close>

definition ex_state ::
  "goal_row \<Rightarrow> work_item_row list \<Rightarrow> attempt_row list \<Rightarrow> checkpoint_row list \<Rightarrow> nat \<Rightarrow> db" where
  "ex_state g ws ats cs n = empty_db\<lparr>goals := [g], workflows := [ex_plan_row], approvals := [ex_approval],
     budgets := [ex_budget], work_items := ws, deps := [\<lparr>d_work_item = ''wb'', d_depends_on = ''wa''\<rparr>],
     attempts := ats, checkpoints := cs, events := take n ex_log\<rparr>"

definition ex_approved :: db where
  "ex_approved = ex_state (ex_goal Approved 3 102) [ex_a, ex_b] [] [] 3"

definition ex_claimed :: db where
  "ex_claimed = ex_state (ex_goal Active 3 103) [ex_a_running, ex_b] [ex_attempt] [] 4"

definition ex_prepared :: db where
  "ex_prepared = ex_state (ex_goal Active 3 103) [ex_a_running, ex_b] [ex_attempt] [ex_checkpoint] 5"

definition ex_committed :: db where
  "ex_committed = ex_state (ex_goal Active 3 103) [ex_a_running, ex_b] [ex_attempt\<lparr>a_status := Committing\<rparr>]
     [ex_checkpoint\<lparr>c_phase := Committed, c_outcome := Some ex_outcome, c_updated_at := 105\<rparr>] 6"

definition ex_a_done :: work_item_row where
  "ex_a_done = ex_a\<lparr>w_status := Succeeded, w_fencing := 1, w_updated_at := 106\<rparr>"

definition ex_attempt_done :: attempt_row where
  "ex_attempt_done = ex_attempt\<lparr>a_status := AttemptSucceeded, a_finished_at := Some 106\<rparr>"

definition ex_checkpoint_done :: checkpoint_row where
  "ex_checkpoint_done = ex_checkpoint\<lparr>c_phase := Reconciled, c_outcome := Some ex_outcome, c_updated_at := 106\<rparr>"

definition ex_finished :: db where
  "ex_finished = ex_state (ex_goal Active 3 106) [ex_a_done, ex_b\<lparr>w_status := Ready, w_updated_at := 106\<rparr>]
     [ex_attempt_done] [ex_checkpoint_done] 7"

text \<open>Step \<open>b\<close> runs to its end and the goal waits for verification, then gets its manual sign-off.\<close>

definition ex_b_running :: work_item_row where
  "ex_b_running = ex_b\<lparr>w_status := Running, w_lease_token := Some ''l2'', w_lease_until := Some 167,
     w_fencing := 1, w_updated_at := 107\<rparr>"

definition ex_claimed2 :: db where
  "ex_claimed2 = ex_state (ex_goal Active 3 106) [ex_a_done, ex_b_running] [ex_attempt_done, ex_attempt2]
     [ex_checkpoint_done] 8"

definition ex_prepared2 :: db where
  "ex_prepared2 = ex_state (ex_goal Active 3 106) [ex_a_done, ex_b_running] [ex_attempt_done, ex_attempt2]
     [ex_checkpoint_done, ex_checkpoint2] 9"

definition ex_committed2 :: db where
  "ex_committed2 = ex_state (ex_goal Active 3 106) [ex_a_done, ex_b_running]
     [ex_attempt_done, ex_attempt2\<lparr>a_status := Committing\<rparr>]
     [ex_checkpoint_done, ex_checkpoint2\<lparr>c_phase := Committed, c_outcome := Some ex_outcome, c_updated_at := 109\<rparr>] 10"

definition ex_verifying :: db where
  "ex_verifying = ex_state (ex_goal Verifying 4 110)
     [ex_a_done, ex_b\<lparr>w_status := Succeeded, w_fencing := 1, w_updated_at := 110\<rparr>]
     [ex_attempt_done, ex_attempt2\<lparr>a_status := AttemptSucceeded, a_finished_at := Some 110\<rparr>]
     [ex_checkpoint_done, ex_checkpoint2\<lparr>c_phase := Reconciled, c_outcome := Some ex_outcome, c_updated_at := 110\<rparr>] 11"

definition ex_signed :: db where
  "ex_signed = ex_verifying\<lparr>events := take 12 ex_log,
     manuals := [\<lparr>m_goal_id = ''g'', m_label = ''ok'', m_actor = ''op'', m_created_at = 111\<rparr>]\<rparr>"

text \<open>The other branch: the worker dies after preparing its checkpoint, and its lease expires.\<close>

definition ex_a_parked :: work_item_row where
  "ex_a_parked = ex_a\<lparr>w_status := WaitingConfirmation, w_fencing := 1,
     w_last_error := Some ''ambiguous effect outcome requires confirmation'', w_updated_at := 200\<rparr>"

definition ex_attempt_parked :: attempt_row where
  "ex_attempt_parked = ex_attempt\<lparr>a_status := AttemptWaiting, a_finished_at := Some 200,
     a_error := Some ''ambiguous effect outcome requires confirmation''\<rparr>"

definition ex_parked :: db where
  "ex_parked = (ex_state (ex_goal Active 3 200) [ex_a_parked, ex_b] [ex_attempt_parked] [ex_checkpoint] 5)
     \<lparr>events := take 5 ex_log @ [ex_event 6 ''goal.recovered''
       [(''reconciled_or_expired'', JInt 1), (''unlocked_work_items'', JInt 0)] 200]\<rparr>"

named_theorems run_defs \<open>the operations, for evaluating them\<close>

lemmas [run_defs] = trim_def trim_start.simps trim_end.simps ws_prefix_len_def ws_suffix_len_def
  ws_encodings_def text_ok_def ensure_valid_id_def insert_event_def next_sequence_def
  find_goal_def find_item_def find_checkpoint_def Let_def list_all_iff
  create_goal_admission_def admitted_def find_goal_by_request_def new_goal_row_def empty_db_def
  ex_request_def ex_plan_def ex_workflow_def ex_env_def ex_approve_def ex_ids_def
  plan_goal_tx_def goal_status_as_str.simps plan_hash_def hash_serializable_def effect_manifest_def
  upd_goals_def upd_items_def upd_attempts_def upd_checkpoints_def less_eq_effect_class_def
  effect_rank.simps approve_tx_def starts_with_def select_ordered_def last_row_def first_row_def
  ew_allows_def internal_auto_actor_def plan_items_def plan_deps_def work_id_of_def
  new_approval_row_def replace_budget_def insert_item_def insert_dep_def new_item_row_def
  claim_tx_def select_claim_def claimable_def attempt_count_def decode_work_item_def
  new_attempt_row_def prepare_checkpoint_def ensure_claim_current_def try_i64_def i64_max_def
  i64_min_def try_u_def live_attempt_def load_checkpoint_tx_def decode_checkpoint_def
  commit_checkpoint_def finish_tx_def reconcile_checkpoint_tx_def unlock_ready_work_tx_def
  unlockable_def refresh_goal_status_tx_def next_goal_status_def current_items_def
  approved_workflow_id_def recover_tx_def committed_checkpoints_def expired_rows_def
  lease_expired_def prepared_by_live_def parks_def expiry_verdict_def expire_item_def
  live_attempt_ids_def build_claim_def enumerate_eq_zip
  ex_goal_def ex_event_def ex_plan_row_def ex_approval_def ex_budget_def
  ex_a_def ex_b_def ex_a_running_def ex_attempt_def ex_item_def
  ex_claim_def ex_checkpoint_def ex_outcome_def ex_attempt2_def ex_item2_def
  ex_claim2_def ex_checkpoint2_def ex_log_def ex_created_def ex_planned_def
  ex_state_def ex_approved_def ex_claimed_def ex_prepared_def ex_committed_def
  ex_a_done_def ex_attempt_done_def ex_checkpoint_done_def ex_finished_def ex_b_running_def
  ex_claimed2_def ex_prepared2_def ex_committed2_def ex_verifying_def ex_signed_def
  ex_a_parked_def ex_attempt_parked_def ex_parked_def
  latest_workflow_def record_manual_verification_def commit_goal_def

section \<open>The run\<close>

lemma ex_create: "create_goal_admission 100 ''g'' ex_request ''op'' empty_db =
    (fst (create_goal_admission 100 ''g'' ex_request ''op'' empty_db), ex_created)"
  by (simp add: run_defs prod_eq_iff)

lemma ex_texts: "text_ok 96 ''a''" "text_ok 96 ''b''" "text_ok 160 ''ok''"
  by (simp_all add: run_defs)

lemma ex_steps_ok: "\<forall>x \<in> set (wf_steps ex_workflow). step_ok (env_crates ex_env) (env_external_write ex_env) x"
  using ex_texts
  by (simp add: ex_workflow_def step_ok_def ex_env_def ew_allows_def allowed_workflow_handlers_def)

lemma ex_graph_ok: "graph_ok ex_workflow"
proof -
  have "acyclic {(''a'', ''b'')}" unfolding acyclic_insert by (simp add: acyclic_def)
  then show ?thesis by (simp add: graph_ok_def edge_pairs_def ex_workflow_def)
qed

lemma ex_validate: "validate_plan (env_crates ex_env) (env_external_write ex_env) ex_plan = Inr ()"
proof -
  have "workflow_ok (env_crates ex_env) (env_external_write ex_env) ex_workflow"
    using ex_steps_ok ex_graph_ok
    by (simp add: workflow_ok_def) (simp add: ex_workflow_def ex_env_def)
  with ex_texts(3) show ?thesis
    by (simp add: validate_plan_def validate_workflow_Inr criterion_validate_def ex_plan_def)
qed

lemma ex_plan: "plan_goal_tx (env_crates ex_env) 101 ''p'' ''g'' ex_plan ''op'' ex_created = Inr ((), ex_planned)"
  by (simp add: run_defs)

lemma ex_approve: "approve_tx ex_env 102 ''ap'' ex_ids ''g'' ex_approve ''op'' ex_planned = Inr ((), ex_approved)"
  by (simp add: run_defs)

lemma ex_claim: "claim_tx 103 ''l'' ''t'' ''g'' None ''w'' 60 ''op'' ex_approved =
    Inr (Won ex_item 1 1 (wf_budget ex_workflow), ex_claimed)"
  by (simp add: run_defs)

lemma ex_prepare: "prepare_checkpoint 104 ''c'' ex_claim ''k'' False ''op'' ex_claimed =
    Inr (decode_checkpoint ex_checkpoint, ex_prepared)"
  by (simp add: run_defs)

lemma ex_commit: "commit_checkpoint 105 ex_claim ''c'' ex_outcome ''op'' ex_prepared =
    Inr (decode_checkpoint (ex_checkpoint\<lparr>c_phase := Committed, c_outcome := Some ex_outcome, c_updated_at := 105\<rparr>), ex_committed)"
  by (simp add: run_defs)

lemma ex_finish: "finish_tx 106 ex_claim ''c'' ''op'' ex_committed = Inr ((), ex_finished)"
  by (simp add: run_defs)

lemma ex_park: "recover_tx 200 ''g'' ''op'' ex_prepared = Inr ([''wa''], ex_parked)"
  by (simp add: run_defs)

lemma ex_reachable_created: "reachable ex_env ex_created"
  unfolding reachable_def by (rule r_into_rtranclp) (rule loop_step.create [OF ex_create])

lemma reachable_step: "reachable E s \<Longrightarrow> loop_step E s t \<Longrightarrow> reachable E t"
  unfolding reachable_def by simp

lemma ex_reachable:
  "reachable ex_env ex_planned" "reachable ex_env ex_approved" "reachable ex_env ex_claimed"
  "reachable ex_env ex_prepared" "reachable ex_env ex_committed" "reachable ex_env ex_finished"
  "reachable ex_env ex_parked"
proof -
  show 1: "reachable ex_env ex_planned"
    by (rule reachable_step [OF ex_reachable_created loop_step.plan [OF ex_validate ex_plan]])
  show 2: "reachable ex_env ex_approved"
    by (rule reachable_step [OF 1 loop_step.approve [OF ex_approve]])
  show 3: "reachable ex_env ex_claimed"
    by (rule reachable_step [OF 2 loop_step.claim [OF ex_claim]])
  show 4: "reachable ex_env ex_prepared"
    by (rule reachable_step [OF 3 loop_step.prepare [OF ex_prepare]])
  show 5: "reachable ex_env ex_committed"
    by (rule reachable_step [OF 4 loop_step.commit [OF ex_commit]])
  show "reachable ex_env ex_finished"
    by (rule reachable_step [OF 5 loop_step.finish [OF ex_finish]])
  show "reachable ex_env ex_parked"
    by (rule reachable_step [OF 4 loop_step.recover [OF ex_park]])
qed

lemma ex_claim2: "claim_tx 107 ''l2'' ''t2'' ''g'' None ''w'' 60 ''op'' ex_finished =
    Inr (Won ex_item2 1 1 (wf_budget ex_workflow), ex_claimed2)"
  by (simp add: run_defs)

lemma ex_prepare2: "prepare_checkpoint 108 ''c2'' ex_claim2 ''k'' True ''op'' ex_claimed2 =
    Inr (decode_checkpoint ex_checkpoint2, ex_prepared2)"
  by (simp add: run_defs)

lemma ex_commit2: "commit_checkpoint 109 ex_claim2 ''c2'' ex_outcome ''op'' ex_prepared2 =
    Inr (decode_checkpoint (ex_checkpoint2\<lparr>c_phase := Committed, c_outcome := Some ex_outcome, c_updated_at := 109\<rparr>), ex_committed2)"
  by (simp add: run_defs)

lemma ex_finish2: "finish_tx 110 ex_claim2 ''c2'' ''op'' ex_committed2 = Inr ((), ex_verifying)"
  by (simp add: run_defs)

lemma ex_sign: "record_manual_verification 111 ''g'' ''ok'' ''op'' ex_verifying = (reload_goal ex_signed ''g'', ex_signed)"
  by (simp add: run_defs)

lemma ex_reachable_verifying: "reachable ex_env ex_verifying" "reachable ex_env ex_signed"
proof -
  show 1: "reachable ex_env ex_verifying"
    by (rule reachable_step [OF reachable_step [OF reachable_step [OF reachable_step [OF ex_reachable(6)
        loop_step.claim [OF ex_claim2]] loop_step.prepare [OF ex_prepare2]]
        loop_step.commit [OF ex_commit2]] loop_step.finish [OF ex_finish2]])
  show "reachable ex_env ex_signed"
    by (rule reachable_step [OF 1 loop_step.manual [OF ex_sign]])
qed

lemma ex_claim_current: "ensure_claim_current 104 ex_claim ex_claimed = Inr ()"
  by (simp add: run_defs)

end
