(* ===== verification/Loop_Safety.thy ===== *)
theory Loop_Safety
  imports Loop_Example
begin

text \<open>
  What holds in every state the engine can reach, whatever the interleaving of workers,
  operators and restarts: claims exclude each other, fencing shuts out superseded workers,
  attempts and budgets respect their ceilings, dependencies stay acyclic, terminal statuses are
  final, outcomes are durable, the event log only grows, and the core self-tests pass.
\<close>

section \<open>Claims\<close>

lemma fencing_unique:
  "inv c s \<Longrightarrow> a \<in> set (attempts s) \<Longrightarrow> b \<in> set (attempts s) \<Longrightarrow>
   a_work_item_id a = a_work_item_id b \<Longrightarrow> a_fencing a = a_fencing b \<Longrightarrow> a = b"
  by (auto simp: inv_def fencing_ok_def distinct_map inj_on_def)

text \<open>
  C1: mutual exclusion of claims. Two claims on the same work item that both pass the store's
  currency check in a reachable state are the same claim: same attempt, same fencing token and
  same lease token.
\<close>

theorem claim_exclusive:
  assumes "reachable E s"
    and "ensure_claim_current n1 c1 s = Inr ()" "ensure_claim_current n2 c2 s = Inr ()"
    and "wr_id (cl_work_item c1) = wr_id (cl_work_item c2)"
  shows "ar_id (cl_attempt c1) = ar_id (cl_attempt c2) \<and>
    ar_fencing_token (cl_attempt c1) = ar_fencing_token (cl_attempt c2) \<and>
    ar_lease_token (cl_attempt c1) = ar_lease_token (cl_attempt c2)"
proof -
  note inv = reachable_inv [OF assms(1)]
  from assms(2) obtain w1 a1 where w1: "w1 \<in> set (work_items s)" "w_id w1 = wr_id (cl_work_item c1)"
      "w_lease_token w1 = Some (ar_lease_token (cl_attempt c1))" "w_fencing w1 = ar_fencing_token (cl_attempt c1)"
    and a1: "a1 \<in> set (attempts s)" "a_id a1 = ar_id (cl_attempt c1)" "a_work_item_id a1 = w_id w1"
      "a_fencing a1 = w_fencing w1"
    by (rule claim_currentE)
  from assms(3) obtain w2 a2 where w2: "w2 \<in> set (work_items s)" "w_id w2 = wr_id (cl_work_item c2)"
      "w_lease_token w2 = Some (ar_lease_token (cl_attempt c2))" "w_fencing w2 = ar_fencing_token (cl_attempt c2)"
    and a2: "a2 \<in> set (attempts s)" "a_id a2 = ar_id (cl_attempt c2)" "a_work_item_id a2 = w_id w2"
      "a_fencing a2 = w_fencing w2"
    by (rule claim_currentE)
  have "w1 = w2" using item_unique [OF inv w1(1) w2(1)] w1(2) w2(2) assms(4) by simp
  moreover from this have "a1 = a2" using fencing_unique [OF inv a1(1) a2(1)] a1 a2 by simp
  ultimately show ?thesis using w1 w2 a1 a2 by simp
qed

theorem claim_exclusive_witness:
  "ensure_claim_current 104 ex_claim ex_claimed = Inr () \<and>
   ar_id (cl_attempt ex_claim) = ar_id (cl_attempt ex_claim)"
  using claim_exclusive [OF ex_reachable(3) ex_claim_current ex_claim_current refl] ex_claim_current by simp

text \<open>
  C2: fencing. Once a work item's fencing token has passed the token of a claim, the claim is
  refused in that state and in every later one, by every operation that checks it.
\<close>

theorem superseded_claim_refused:
  assumes "reachable E s" and "w \<in> set (work_items s)" and "w_id w = wr_id (cl_work_item cl)"
    and "ar_fencing_token (cl_attempt cl) < w_fencing w" and "loop_steps E s t"
  shows "ensure_claim_current now cl t \<noteq> Inr ()"
proof -
  note inv = reachable_inv [OF assms(1)]
  have "ar_fencing_token (cl_attempt cl) < fencing_of s (wr_id (cl_work_item cl))"
    using fencing_of_item [OF inv assms(2)] assms(3,4) by simp
  from claims.superseded_never_current [OF this safe_steps [OF assms(5) inv]]
  have "\<not> claim_current t cl"
    using reachable_inv [OF reachable_steps [OF assms(1,5)]] by blast
  then show ?thesis by (auto simp: claim_current_def)
qed

definition ex_old_claim :: work_claim where
  "ex_old_claim = ex_claim\<lparr>cl_attempt := (cl_attempt ex_claim)\<lparr>ar_fencing_token := 0\<rparr>\<rparr>"

theorem superseded_claim_refused_witness:
  "ensure_claim_current 104 ex_old_claim ex_prepared \<noteq> Inr ()"
proof (rule superseded_claim_refused [OF ex_reachable(3)])
  show "ex_a_running \<in> set (work_items ex_claimed)" by (simp add: ex_claimed_def ex_state_def)
  show "loop_steps ex_env ex_claimed ex_prepared"
    by (rule r_into_rtranclp) (rule loop_step.prepare [OF ex_prepare])
qed (simp_all add: ex_old_claim_def run_defs)

lemma attempt_ended_stays:
  assumes "attempt_edge\<^sup>*\<^sup>* x y" and "x \<notin> {AttemptRunning, Committing}"
  shows "y \<notin> {AttemptRunning, Committing}"
  using assms
proof (induction rule: rtranclp_induct)
  case (step y z)
  then show ?case by (cases y) auto
qed simp

text \<open>
  an attempt that has ended (finished, failed, abandoned, voided or parked) never holds a
  current claim again: a worker cannot commit, finish, fail or extend work after it lost its claim.
\<close>

theorem ended_attempt_refused:
  assumes "reachable E s" and "a \<in> set (attempts s)" and "a_id a = ar_id (cl_attempt cl)"
    and "\<not> live_attempt a" and "loop_steps E s t"
  shows "ensure_claim_current now cl t \<noteq> Inr ()"
proof
  assume "ensure_claim_current now cl t = Inr ()"
  then obtain b where b: "b \<in> set (attempts t)" "a_id b = ar_id (cl_attempt cl)" "live_attempt b"
    by (rule claim_currentE)
  from reachable_evolve [OF assms(1,5)] have "rows_evolve attempt_evolves (attempts s) (attempts t)"
    by (simp add: evolves_def)
  then obtain a' where a': "a' \<in> set (attempts t)" "attempt_evolves a a'"
    using assms(2) by (rule rows_evolve_member)
  then have "a_id a' = a_id b"
    using b(2) assms(3) by (simp add: attempt_evolves_def attempt_static_def)
  then have "a' = b"
    using attempt_unique [OF reachable_inv [OF reachable_steps [OF assms(1,5)]] a'(1) b(1)] by simp
  with a'(2) b(3) assms(4) attempt_ended_stays show False
    by (auto simp: attempt_evolves_def live_attempt_def)
qed

theorem ended_attempt_refused_witness: "ensure_claim_current 107 ex_claim ex_finished \<noteq> Inr ()"
  by (rule ended_attempt_refused [OF ex_reachable(6), of "ex_attempt\<lparr>a_status := AttemptSucceeded, a_finished_at := Some 106\<rparr>"])
    (simp_all add: run_defs)

text \<open>
  C9: a work item runs exactly while it is leased: it has a lease token exactly in status
  \<open>running\<close>, a lease deadline exactly when it has a token, and the deadline goes with the claim.
\<close>

theorem running_iff_leased:
  assumes "reachable E s" and "w \<in> set (work_items s)"
  shows "(w_status w = Running \<longleftrightarrow> w_lease_token w \<noteq> None) \<and>
    (w_lease_token w \<noteq> None \<longleftrightarrow> w_lease_until w \<noteq> None)"
  using inv_rows(1) [OF reachable_inv [OF assms(1)] assms(2)] by (auto simp: item_wf_def)

theorem running_iff_leased_witness: "w_lease_until ex_a_running \<noteq> None"
  using running_iff_leased [OF ex_reachable(3), of ex_a_running] by (simp add: run_defs)

section \<open>Ceilings\<close>

text \<open>
  C7: attempt budget. The attempts that count against a work item (all but the voided ones)
  never exceed its \<open>max_attempts\<close>, which lies between 1 and 10.
\<close>

theorem attempts_within_budget:
  assumes "reachable E s" and "w \<in> set (work_items s)"
  shows "int (attempt_count s (w_id w)) \<le> w_max_attempts w \<and> 1 \<le> w_max_attempts w \<and> w_max_attempts w \<le> 10"
  using inv_rows(1) [OF reachable_inv [OF assms(1)] assms(2)]
    inv_attempt_count [OF reachable_inv [OF assms(1)] assms(2)]
  by (auto simp: item_wf_def)

theorem attempts_within_budget_witness: "int (attempt_count ex_claimed ''wa'') \<le> 2"
  using attempts_within_budget [OF ex_reachable(3), of ex_a_running] by (simp add: run_defs)

text \<open>
  C8: provider budget. A goal's recorded provider calls and response bytes never exceed the
  ceilings of its approved plan, which never exceed 64 calls and 10 MiB; the clock of the
  deadline starts with the first reserved call.
\<close>

theorem provider_budget_respected:
  assumes "reachable E s" and "b \<in> set (budgets s)"
  shows "0 \<le> b_provider_calls b \<and> b_provider_calls b \<le> b_max_provider_calls b \<and>
    b_max_provider_calls b \<le> 64 \<and> b_response_bytes b \<le> b_max_response_bytes b \<and>
    b_max_response_bytes b \<le> 10485760 \<and> (b_started_at b = None \<longleftrightarrow> b_provider_calls b = 0)"
  using inv_rows(4) [OF reachable_inv [OF assms(1)] assms(2)] by (simp add: budget_wf_def)

theorem provider_budget_respected_witness: "b_provider_calls ex_budget \<le> 4"
  using provider_budget_respected [OF ex_reachable(2), of ex_budget] by (simp add: run_defs)

section \<open>Structure\<close>

text \<open>
  C10: the dependency graph of all work items, across approvals and dynamic extensions, is
  acyclic, and both ends of every dependency exist.
\<close>

theorem dependencies_acyclic:
  assumes "reachable E s"
  shows "acyclic (dep_rel (deps s)) \<and>
    (\<forall>d \<in> set (deps s). (\<exists>w \<in> set (work_items s). w_id w = d_work_item d) \<and>
       (\<exists>w \<in> set (work_items s). w_id w = d_depends_on d))"
proof -
  note inv = reachable_inv [OF assms]
  have "d_work_item ` set (deps s) \<subseteq> w_id ` set (work_items s)"
    "d_depends_on ` set (deps s) \<subseteq> w_id ` set (work_items s)" "acyclic (dep_rel (deps s))"
    using inv by (simp_all add: inv_def refs_ok_def)
  then show ?thesis by (fastforce simp: subset_iff image_iff)
qed

theorem dependencies_acyclic_witness: "acyclic (dep_rel (deps ex_approved))"
  using dependencies_acyclic [OF ex_reachable(2)] by simp



lemma reachable_self_tests:
  assumes inv: "inv c s"
  shows "list_all tc_passed (core_cases duration s)"
proof -
  have refs: "p_goal_id ` set (workflows s) \<subseteq> g_id ` set (goals s)"
    "(\<lambda>w. (w_workflow_id w, w_goal_id w)) ` set (work_items s) \<subseteq> (\<lambda>p. (p_id p, p_goal_id p)) ` set (workflows s)"
    "se_signal_id ` set (signal_events s) \<subseteq> s_id ` set (signals s)"
    using inv by (simp_all add: inv_def refs_ok_def)
  have "dangling_work_items s = 0"
    using refs(1,2) by (fastforce simp: dangling_work_items_def list_ex_iff subset_iff image_iff)
  moreover have "dangling_signal_events s = 0"
    using refs(3) by (fastforce simp: dangling_signal_events_def list_ex_iff subset_iff image_iff)
  moreover have "outcomeless_checkpoints s = 0"
    using inv_rows(3) [OF inv] by (auto simp: outcomeless_checkpoints_def checkpoint_wf_def)
  moreover have "unbound_approvals s = 0"
  proof -
    have uniq: "p = q" if "p \<in> set (workflows s)" "q \<in> set (workflows s)"
        "p_goal_id p = p_goal_id q" "p_goal_revision p = p_goal_revision q" for p q
      using inv that by (auto simp: inv_def keys_ok_def distinct_map dest: inj_onD)
    have "\<exists>p \<in> set (workflows s). approval_binds c a p" if "a \<in> set (approvals s)" for a
      using inv that by (simp add: inv_def rows_ok_def)
    with uniq show ?thesis
      by (auto simp: unbound_approvals_def approval_binds_def filter_empty_conv Let_def sum_list_eq_0_iff) metis+
  qed
  ultimately show ?thesis by (simp add: core_cases_passed)
qed

text \<open>
  The core self-test suite passes in every reachable state: running it under a fresh run id
  persists a run with status \<open>passed\<close> (no dangling work item or signal event, no committed
  checkpoint without outcome, no approval without its reviewed plan).
\<close>

theorem core_self_tests_pass:
  assumes "reachable E s" and "\<forall>r \<in> set (self_tests s). t_id r \<noteq> rid"
  shows "\<exists>run t. run_self_tests started finished duration rid ''core'' actor s = Inr (run, t) \<and>
    t_status run = TestPassed \<and> self_tests t = self_tests s @ [run]"
  using reachable_self_tests [OF reachable_inv [OF assms(1)], of duration] assms(2)
  by (simp add: run_self_tests_def Let_def list_all_iff)

theorem core_self_tests_pass_witness:
  "\<exists>run t. run_self_tests 300 301 (\<lambda>_. 0) ''st'' ''core'' ''op'' ex_finished = Inr (run, t) \<and> t_status run = TestPassed"
  using core_self_tests_pass [OF ex_reachable(6), of "''st''" 300 301 "\<lambda>_. 0" "''op''"]
  by (auto simp: run_defs)

section \<open>Durability\<close>

text \<open>
  The event log is append-only and numbered 1, 2, 3, ... without gaps: later states extend
  it at the end and never change or drop an event.
\<close>

theorem event_log_append_only:
  assumes "reachable E s" and "loop_steps E s t"
  shows "(\<exists>new. events t = events s @ new) \<and>
    map ev_sequence (events t) = map (\<lambda>i. int i + 1) [0..<length (events t)]"
  using reachable_evolve [OF assms] reachable_inv [OF reachable_steps [OF assms]]
  by (simp add: evolves_def rows_evolve_eq_append inv_def rows_ok_def)

theorem event_log_append_only_witness: "\<exists>new. events ex_prepared = events ex_claimed @ new"
  using event_log_append_only [OF ex_reachable(3)
      r_into_rtranclp [of "loop_step ex_env", OF loop_step.prepare [OF ex_prepare]]] by simp

lemma item_succeeded_final: "item_edge\<^sup>*\<^sup>* Succeeded x \<Longrightarrow> x = Succeeded"
  by (erule converse_rtranclpE) auto

text \<open>
  C5: success is durable and evidenced. A work item with status \<open>succeeded\<close> has a reconciled
  checkpoint holding an outcome, and in every later state the item is still there with the same
  step and still succeeded.
\<close>

theorem success_is_durable:
  assumes "reachable E s" and "w \<in> set (work_items s)" and "w_status w = Succeeded"
    and "loop_steps E s t"
  shows "(\<exists>x \<in> set (checkpoints s). c_work_item_id x = w_id w \<and> c_phase x = Reconciled \<and> c_outcome x \<noteq> None) \<and>
    (\<exists>v \<in> set (work_items t). w_id v = w_id w \<and> w_step_id v = w_step_id w \<and> w_status v = Succeeded)"
proof
  from reachable_success [OF assms(1)] assms(2,3) have "reconciled_item s (w_id w)"
    by (simp add: success_ok_def)
  then show "\<exists>x \<in> set (checkpoints s). c_work_item_id x = w_id w \<and> c_phase x = Reconciled \<and> c_outcome x \<noteq> None"
    using inv_rows(3) [OF reachable_inv [OF assms(1)]] by (auto simp: reconciled_item_def checkpoint_wf_def)
  from reachable_evolve [OF assms(1,4)] have "rows_evolve item_evolves (work_items s) (work_items t)"
    by (simp add: evolves_def)
  then obtain v where "v \<in> set (work_items t)" "item_evolves w v"
    using assms(2) by (rule rows_evolve_member)
  then show "\<exists>v \<in> set (work_items t). w_id v = w_id w \<and> w_step_id v = w_step_id w \<and> w_status v = Succeeded"
    using assms(3) item_succeeded_final by (auto simp: item_evolves_def item_static_def)
qed

theorem success_is_durable_witness:
  "\<exists>x \<in> set (checkpoints ex_finished). c_work_item_id x = ''wa'' \<and> c_outcome x \<noteq> None"
  using success_is_durable [OF ex_reachable(6), of "ex_a\<lparr>w_status := Succeeded, w_fencing := 1, w_updated_at := 106\<rparr>" ex_finished]
  by (auto simp: run_defs)

text \<open>
  C6: a committed outcome is never lost or rewritten: a checkpoint that is committed (or already
  reconciled) is in every later state committed or reconciled with the same idempotency key and
  the same outcome.
\<close>

theorem committed_outcome_kept:
  assumes "reachable E s" and "x \<in> set (checkpoints s)" and "c_phase x \<in> {Committed, Reconciled}"
    and "loop_steps E s t"
  shows "\<exists>y \<in> set (checkpoints t). c_id y = c_id x \<and> c_idempotency_key y = c_idempotency_key x \<and>
    c_phase y \<in> {Committed, Reconciled} \<and> c_outcome y = c_outcome x \<and> c_outcome y \<noteq> None"
proof -
  from reachable_evolve [OF assms(1,4)] have "rows_evolve checkpoint_evolves (checkpoints s) (checkpoints t)"
    by (simp add: evolves_def)
  then obtain y where y: "y \<in> set (checkpoints t)" "checkpoint_evolves x y"
    using assms(2) by (rule rows_evolve_member)
  have "c_phase y \<in> {Committed, Reconciled}"
    using y(2) assms(3) phase_from_reconciled phase_from_committed
    unfolding checkpoint_evolves_def by fastforce
  moreover have "c_outcome x \<noteq> None"
    using inv_rows(3) [OF reachable_inv [OF assms(1)] assms(2)] assms(3) by (simp add: checkpoint_wf_def)
  ultimately show ?thesis
    using y assms(3) by (intro bexI [of _ y]) (auto simp: checkpoint_evolves_def checkpoint_static_def)
qed

theorem committed_outcome_kept_witness:
  "\<exists>y \<in> set (checkpoints ex_finished). c_id y = ''c'' \<and> c_outcome y = Some ex_outcome"
proof -
  let ?x = "ex_checkpoint\<lparr>c_phase := Committed, c_outcome := Some ex_outcome, c_updated_at := 105\<rparr>"
  have "?x \<in> set (checkpoints ex_committed)" "c_phase ?x \<in> {Committed, Reconciled}"
    by (simp_all add: ex_committed_def ex_state_def)
  from committed_outcome_kept [OF ex_reachable(5) this
      r_into_rtranclp [of "loop_step ex_env", OF loop_step.finish [OF ex_finish]]]
  show ?thesis by (auto simp: ex_checkpoint_def)
qed

lemma goal_achieved_final: "goal_edge\<^sup>*\<^sup>* Achieved x \<Longrightarrow> x = Achieved"
  by (erule converse_rtranclpE) auto

text \<open>
  C14: an achieved goal stays achieved, and neither its objective nor the signals it came from
  ever change.
\<close>

theorem achieved_goal_final:
  assumes "reachable E s" and "g \<in> set (goals s)" and "loop_steps E s t"
  shows "\<exists>h \<in> set (goals t). g_id h = g_id g \<and> g_objective h = g_objective g \<and>
    g_source_signal_ids h = g_source_signal_ids g \<and> g_revision g \<le> g_revision h \<and>
    (g_status g = Achieved \<longrightarrow> g_status h = Achieved)"
proof -
  from reachable_evolve [OF assms(1,3)] have "rows_evolve goal_evolves (goals s) (goals t)"
    by (simp add: evolves_def)
  then obtain h where "h \<in> set (goals t)" "goal_evolves g h"
    using assms(2) by (rule rows_evolve_member)
  then show ?thesis using goal_achieved_final
    by (intro bexI [of _ h]) (auto simp: goal_evolves_def goal_static_def)
qed

theorem achieved_goal_final_witness:
  "\<exists>h \<in> set (goals ex_finished). g_id h = ''g'' \<and> g_objective h = ''send'' \<and> 3 \<le> g_revision h"
proof -
  have "ex_goal Active 3 103 \<in> set (goals ex_committed)" by (simp add: run_defs)
  from achieved_goal_final [OF ex_reachable(5) this
      r_into_rtranclp [of "loop_step ex_env", OF loop_step.finish [OF ex_finish]]]
  show ?thesis by (auto simp: ex_goal_def)
qed



end
