(* ===== verification/Loop_Admission.thy ===== *)
theory Loop_Admission
  imports Loop_Safety
begin

text \<open>
  Behaviour of the goal side: idempotent admission, workflow validation, approval of exactly
  what was reviewed and within policy, verification, and provider budgets.
\<close>

section \<open>Admission\<close>

lemma get_goal_key:
  assumes "inv c s" and "g \<in> set (goals s)"
  shows "find_goal s (g_id g) = Some g"
  unfolding find_goal_def by (rule find_key) (use assms in \<open>simp_all add: inv_def keys_ok_def\<close>)

lemma request_key:
  assumes inv: "inv c s" and "g \<in> set (goals s)" and "g_request_id g = Some rid"
  shows "find_goal_by_request s rid = Some g"
proof -
  have uniq: "h = g" if "h \<in> set (goals s)" "g_request_id h = Some rid" for h
  proof -
    have "distinct (map g_request_id (filter (\<lambda>x. g_request_id x \<noteq> None) (goals s)))"
      using inv by (simp add: inv_def keys_ok_def filter_map o_def)
    with that assms(2,3) show ?thesis by (auto simp: distinct_map inj_on_def)
  qed
  obtain h where "find (\<lambda>x. g_request_id x = Some rid) (goals s) = Some h"
    using assms(2,3) find_NoneD by (cases "find (\<lambda>x. g_request_id x = Some rid) (goals s)") fastforce+
  with uniq find_SomeD [OF this] show ?thesis by (simp add: find_goal_by_request_def)
qed

text \<open>
  Admission is idempotent. After a request with an idempotency key was admitted, admitting
  any request with that key again changes nothing, creates nothing and returns the same goal.
\<close>

theorem admission_idempotent:
  assumes "reachable E s" and "create_goal_admission now gid r actor s = (Inr (rec, created), t)"
    and "cg_request_id r = Some rid" and "cg_request_id r' = Some rid"
  shows "create_goal_admission now' gid' r' actor' t = (Inr (rec, False), t)"
proof -
  have inv: "inv (env_crates E) t"
    using reachable_inv [OF reachable_steps [OF assms(1)]] loop_step.create [OF assms(2)] by blast
  obtain g where g: "g \<in> set (goals t)" "g_request_id g = Some rid"
    and rec: "read_admitted t (g_id g) created = Inr (rec, created)"
  proof (cases "admitted s r")
    case None
    with assms(2) have new: "list_all (\<lambda>g. g_id g \<noteq> gid) (goals s)"
      and t: "t = insert_event now gid ''goal.created'' actor (JObj []) (s\<lparr>goals := goals s @ [new_goal_row now gid r actor]\<rparr>)"
      and rd: "read_admitted t gid True = Inr (rec, created)"
      by (auto simp: create_goal_admission_def Let_def split: if_splits)
    show thesis
      by (rule that [of "new_goal_row now gid r actor"])
        (use t rd assms(3) in \<open>auto simp: new_goal_row_def read_admitted_def\<close>)
  next
    case (Some g)
    with assms(2) have "t = s" and rd: "read_admitted s (g_id g) False = Inr (rec, created)"
      by (auto simp: create_goal_admission_def)
    moreover have "g \<in> set (goals s)" "g_request_id g = Some rid"
      using Some assms(3) find_SomeD by (fastforce simp: admitted_def find_goal_by_request_def)+
    ultimately show thesis using that [of g] by (auto simp: read_admitted_def)
  qed
  have "admitted t r' = Some g"
    using request_key [OF inv g] assms(4) by (simp add: admitted_def)
  moreover have "read_admitted t (g_id g) False = Inr (rec, False)"
    using rec by (auto simp: read_admitted_def)
  ultimately show ?thesis by (simp add: create_goal_admission_def)
qed

lemma empty_reachable: "reachable E empty_db"
  by (simp add: reachable_def)

theorem admission_idempotent_witness:
  "fst (create_goal_admission 999 ''other'' ex_request ''op2'' ex_created) =
   Inr (\<lparr>gr_id = ''g'', gr_objective = ''send'', gr_status = Proposed, gr_revision = 1,
     gr_source_signal_ids = [], gr_created_by = ''op'', gr_created_at = 100, gr_updated_at = 100,
     gr_internal_only = False\<rparr>, False)"
proof -
  let ?rec = "\<lparr>gr_id = ''g'', gr_objective = ''send'', gr_status = Proposed, gr_revision = 1,
     gr_source_signal_ids = [], gr_created_by = ''op'', gr_created_at = 100, gr_updated_at = 100,
     gr_internal_only = False\<rparr>"
  have "create_goal_admission 100 ''g'' ex_request ''op'' empty_db = (Inr (?rec, True), ex_created)"
    by (simp add: run_defs read_admitted_def get_goal_def decode_goal_def)
  from admission_idempotent [OF empty_reachable this, of "''r''" ex_request 999 "''other''" "''op2''"]
  show ?thesis by (simp add: ex_request_def)
qed

section \<open>Workflow validation\<close>

text \<open>
  C4: validation of a workflow accepts exactly the well-formed ones: the sizes, budgets, handlers,
  retry policies and effect gate of every step are within bounds, step ids are unique, edges join
  existing steps without duplicates, and the graph has no cycle. In particular the queue-based
  traversal of the code terminates, never panics, and decides acyclicity.
\<close>

theorem validate_workflow_exact:
  "validate_workflow c p w = Inr () \<longleftrightarrow>
     1 \<le> length (wf_steps w) \<and> length (wf_steps w) \<le> 32 \<and> length (wf_edges w) \<le> 64 \<and>
     max_provider_calls (wf_budget w) \<le> 64 \<and> deadline_secs (wf_budget w) \<in> {1..86400} \<and>
     max_response_bytes (wf_budget w) \<in> {1..10485760} \<and>
     (\<forall>s \<in> set (wf_steps w). step_ok c p s) \<and>
     distinct (map step_id (wf_steps w)) \<and> distinct (edge_pairs w) \<and>
     (\<forall>(a, b) \<in> set (edge_pairs w). a \<in> step_id ` set (wf_steps w) \<and> b \<in> step_id ` set (wf_steps w)) \<and>
     acyclic (set (edge_pairs w)) \<and> length (json_text c (workflow_to_json w)) \<le> 32768"
  unfolding validate_workflow_Inr workflow_ok_def graph_ok_def by auto

theorem validate_workflow_exact_witness:
  "validate_workflow (env_crates ex_env) (env_external_write ex_env) ex_workflow = Inr () \<and>
   acyclic (set (edge_pairs ex_workflow))"
proof -
  have "validate_workflow (env_crates ex_env) (env_external_write ex_env) ex_workflow = Inr ()"
    using ex_validate by (simp add: validate_plan_def ex_plan_def)
  then show ?thesis using validate_workflow_exact by blast
qed

section \<open>Approval\<close>

lemma approve_txE:
  assumes "approve_tx E now aid wid gid r actor s = Inr (u, t)"
  obtains g p s2 ds s3 where "find_goal s gid = Some g" "g_status g = ReviewReady"
    "g_revision g = int (expected_goal_revision r)"
    "p \<in> set (workflows s)" "p_goal_id p = gid" "p_goal_revision p = g_revision g"
    "p_plan_hash p = expected_plan_hash r"
    "recheck_external (env_external_write E) (wf_steps (p_workflow p)) = Inr ()"
    "actor = internal_auto_actor \<Longrightarrow> check_plan (env_internal_policy E) (p_workflow p) (p_effects p) = Inr ()"
    "insert_items (plan_items now wid gid (p_id p) (p_workflow p))
        (replace_budget now gid (wf_budget (p_workflow p))
          (s\<lparr>approvals := approvals s @ [new_approval_row (env_crates E) now aid gid p actor]\<rparr>)) = Inr s2"
    "insert_deps ds s2 = Inr s3"
    "t = insert_event now gid ''goal.approved'' actor
           (JObj [(''approval_id'', JStr aid), (''plan_hash'', JStr (p_plan_hash p))])
        (upd_goals (\<lambda>x. g_id x = gid \<and> g_status x = ReviewReady \<and> g_revision x = g_revision g)
           (\<lambda>x. x\<lparr>g_status := Approved, g_revision := g_revision x + 1, g_updated_at := now\<rparr>) s3)"
proof -
  from assms obtain g p s2 ds s3 where
    *: "find_goal s gid = Some g" "g_status g = ReviewReady" "g_revision g = int (expected_goal_revision r)"
      "last_row (select_ordered p_created_at
        (\<lambda>p. p_goal_id p = gid \<and> p_goal_revision p = g_revision g) (workflows s)) = Some p"
      "p_plan_hash p = expected_plan_hash r"
      "recheck_external (env_external_write E) (wf_steps (p_workflow p)) = Inr ()"
      "actor = internal_auto_actor \<longrightarrow> check_plan (env_internal_policy E) (p_workflow p) (p_effects p) = Inr ()"
      "insert_items (plan_items now wid gid (p_id p) (p_workflow p))
        (replace_budget now gid (wf_budget (p_workflow p))
          (s\<lparr>approvals := approvals s @ [new_approval_row (env_crates E) now aid gid p actor]\<rparr>)) = Inr s2"
      "insert_deps ds s2 = Inr s3"
      "t = insert_event now gid ''goal.approved'' actor
           (JObj [(''approval_id'', JStr aid), (''plan_hash'', JStr (p_plan_hash p))])
        (upd_goals (\<lambda>x. g_id x = gid \<and> g_status x = ReviewReady \<and> g_revision x = g_revision g)
           (\<lambda>x. x\<lparr>g_status := Approved, g_revision := g_revision x + 1, g_updated_at := now\<rparr>) s3)"
    unfolding approve_tx_def ensure_valid_id_def Let_def
    by (cases "actor = internal_auto_actor") clarsimp+
  from last_row_SomeD [OF *(4)] have "p \<in> set (workflows s)" "p_goal_id p = gid" "p_goal_revision p = g_revision g"
    by auto
  with * that show thesis by blast
qed

lemma recheck_external_Inr:
  "recheck_external p ss = Inr u \<longleftrightarrow> (\<forall>s \<in> set ss. step_effect s = ExternalWrite \<longrightarrow> ew_allows p (step_handler s))"
  by (induction ss) auto

text \<open>
  C3: approval executes exactly what was reviewed. It succeeds only for a goal in review at the
  expected revision with a stored plan whose hash is the expected one; it then materializes
  precisely that plan's steps as work items, records one approval bound to the plan's hashes, and
  every external write among the steps passes the gate of the running engine.
\<close>

theorem approval_materializes_reviewed_plan:
  assumes "approve_tx E now aid wid gid r actor s = Inr (u, t)"
  shows "\<exists>g p. find_goal s gid = Some g \<and> g_status g = ReviewReady \<and>
    g_revision g = int (expected_goal_revision r) \<and>
    p \<in> set (workflows s) \<and> p_goal_id p = gid \<and> p_goal_revision p = g_revision g \<and>
    p_plan_hash p = expected_plan_hash r \<and>
    work_items t = work_items s @ plan_items now wid gid (p_id p) (p_workflow p) \<and>
    approvals t = approvals s @ [new_approval_row (env_crates E) now aid gid p actor] \<and>
    (\<forall>st \<in> set (wf_steps (p_workflow p)). step_effect st = ExternalWrite \<longrightarrow>
       ew_allows (env_external_write E) (step_handler st))"
  using assms
proof (rule approve_txE)
  fix g p s2 ds s3
  assume *: "find_goal s gid = Some g" "g_status g = ReviewReady" "g_revision g = int (expected_goal_revision r)"
    "p \<in> set (workflows s)" "p_goal_id p = gid" "p_goal_revision p = g_revision g"
    "p_plan_hash p = expected_plan_hash r"
    and ext: "recheck_external (env_external_write E) (wf_steps (p_workflow p)) = Inr ()"
    and items: "insert_items (plan_items now wid gid (p_id p) (p_workflow p))
        (replace_budget now gid (wf_budget (p_workflow p))
          (s\<lparr>approvals := approvals s @ [new_approval_row (env_crates E) now aid gid p actor]\<rparr>)) = Inr s2"
    and deps: "insert_deps ds s2 = Inr s3"
    and t: "t = insert_event now gid ''goal.approved'' actor
           (JObj [(''approval_id'', JStr aid), (''plan_hash'', JStr (p_plan_hash p))])
        (upd_goals (\<lambda>x. g_id x = gid \<and> g_status x = ReviewReady \<and> g_revision x = g_revision g)
           (\<lambda>x. x\<lparr>g_status := Approved, g_revision := g_revision x + 1, g_updated_at := now\<rparr>) s3)"
  have "work_items t = work_items s @ plan_items now wid gid (p_id p) (p_workflow p)"
    "approvals t = approvals s @ [new_approval_row (env_crates E) now aid gid p actor]"
    using insert_items_Inr(1) [OF items] insert_deps_Inr [OF deps] by (simp_all add: t replace_budget_def)
  with * ext show ?thesis by (auto simp: recheck_external_Inr)
qed

theorem approval_materializes_reviewed_plan_witness:
  "\<exists>p \<in> set (workflows ex_planned). work_items ex_approved =
     work_items ex_planned @ plan_items 102 ex_ids ''g'' (p_id p) (p_workflow p)"
  using approval_materializes_reviewed_plan [OF ex_approve] by blast

text \<open>
  C12: the internal actor cannot approve past its policy. When \<open>internal:auto\<close> approves, every
  work item it materializes has an effect class at most the policy's ceiling, and the plan's
  provider-call budget is within the policy's.
\<close>

theorem auto_approval_within_policy:
  assumes "reachable E s" and "approve_tx E now aid wid gid r internal_auto_actor s = Inr (u, t)"
  shows "\<exists>items. work_items t = work_items s @ items \<and>
    (\<forall>w \<in> set items. w_effect w \<le> ip_max_effect (env_internal_policy E)) \<and>
    (\<exists>b \<in> set (budgets t). b_goal_id b = gid \<and>
       b_max_provider_calls b \<le> int (ip_max_provider_calls (env_internal_policy E)))"
  using assms(2)
proof (rule approve_txE)
  fix g p s2 ds s3
  assume p: "p \<in> set (workflows s)"
    and pol: "internal_auto_actor = internal_auto_actor \<Longrightarrow>
        check_plan (env_internal_policy E) (p_workflow p) (p_effects p) = Inr ()"
    and items: "insert_items (plan_items now wid gid (p_id p) (p_workflow p))
        (replace_budget now gid (wf_budget (p_workflow p))
          (s\<lparr>approvals := approvals s @ [new_approval_row (env_crates E) now aid gid p internal_auto_actor]\<rparr>)) = Inr s2"
    and deps: "insert_deps ds s2 = Inr s3"
    and t: "t = insert_event now gid ''goal.approved'' internal_auto_actor
           (JObj [(''approval_id'', JStr aid), (''plan_hash'', JStr (p_plan_hash p))])
        (upd_goals (\<lambda>x. g_id x = gid \<and> g_status x = ReviewReady \<and> g_revision x = g_revision g)
           (\<lambda>x. x\<lparr>g_status := Approved, g_revision := g_revision x + 1, g_updated_at := now\<rparr>) s3)"
  let ?items = "plan_items now wid gid (p_id p) (p_workflow p)"
  have man: "p_effects p = effect_manifest \<lparr>pg_workflow = p_workflow p, pg_acceptance = p_acceptance p\<rparr>"
    using inv_rows(5) [OF reachable_inv [OF assms(1)] p] by (simp add: plan_wf_def)
  have "w_effect w \<le> ip_max_effect (env_internal_policy E)" if "w \<in> set ?items" for w
  proof -
    from that obtain i step st where "step \<in> set (wf_steps (p_workflow p))"
        "w = new_item_row now (wid i) gid (p_id p) st step (int i)" by (rule plan_items_rows)
    then show ?thesis
      using pol [OF refl] by (auto simp: check_plan_Inr man set_effect_manifest new_item_row_def)
  qed
  moreover have "work_items t = work_items s @ ?items"
    "budgets t = budgets (replace_budget now gid (wf_budget (p_workflow p)) s)"
    using insert_items_Inr(1) [OF items] insert_deps_Inr [OF deps] by (simp_all add: t replace_budget_def)
  ultimately show ?thesis
    using pol [OF refl] by (intro exI [of _ ?items]) (auto simp: check_plan_Inr replace_budget_def)
qed

definition ex_auto_env :: env where
  "ex_auto_env = ex_env\<lparr>env_internal_policy := \<lparr>ip_max_effect = ExternalWrite, ip_max_provider_calls = 4\<rparr>\<rparr>"

lemma ex_auto_planned: "reachable ex_auto_env ex_planned"
proof -
  have crates: "env_crates ex_auto_env = env_crates ex_env" "env_external_write ex_auto_env = env_external_write ex_env"
    by (simp_all add: ex_auto_env_def)
  have "reachable ex_auto_env ex_created"
    using reachable_step [OF empty_reachable loop_step.create [OF ex_create]] .
  then show ?thesis
    using reachable_step loop_step.plan [of ex_auto_env] ex_validate ex_plan unfolding crates by blast
qed

theorem auto_approval_within_policy_witness:
  "\<exists>t. approve_tx ex_auto_env 102 ''ap'' ex_ids ''g'' ex_approve internal_auto_actor ex_planned = Inr ((), t) \<and>
     (\<exists>b \<in> set (budgets t). b_max_provider_calls b \<le> 4)"
proof -
  have "\<exists>t. approve_tx ex_auto_env 102 ''ap'' ex_ids ''g'' ex_approve internal_auto_actor ex_planned = Inr ((), t)"
    by (simp add: ex_auto_env_def run_defs check_plan_def)
  then obtain t where t: "approve_tx ex_auto_env 102 ''ap'' ex_ids ''g'' ex_approve internal_auto_actor ex_planned = Inr ((), t)" ..
  from auto_approval_within_policy [OF ex_auto_planned t] t show ?thesis
    by (auto simp: ex_auto_env_def)
qed

section \<open>Verification\<close>

lemma find_goal_event [simp]: "find_goal (insert_event now g ty actor d s) gid = find_goal s gid"
  by (simp add: find_goal_def)




section \<open>Provider calls\<close>

lemma find_budget_key:
  assumes "inv c s" and "find_budget s gid = Some b" and "x \<in> set (budgets s)" and "b_goal_id x = gid"
  shows "x = b"
proof -
  have "b \<in> set (budgets s)" "b_goal_id b = gid"
    using assms(2) find_SomeD by (fastforce simp: find_budget_def)+
  with assms(1,3,4) show ?thesis by (auto simp: inv_def keys_ok_def distinct_map dest: inj_onD)
qed

text \<open>
  Reserving a provider call answers on every path. Within the deadline and below the
  ceiling it succeeds, counts the call and reports the calls that remain; past the deadline, or
  with the ceiling reached, it refuses with that error and changes nothing.
\<close>

theorem reservation_exact:
  assumes "reachable E s" and "find_budget s gid = Some b" and "text_ok 160 gid"
    and deadline: "deadline = (case b_started_at b of None \<Rightarrow> now | Some t \<Rightarrow> t) + b_deadline_secs b"
  shows "(deadline < now \<longrightarrow> reserve_provider_call now gid s = (Inl (Goal DeadlineExhausted), s)) \<and>
    (now \<le> deadline \<and> b_provider_calls b = b_max_provider_calls b \<longrightarrow>
       reserve_provider_call now gid s = (Inl (Goal CallBudgetExhausted), s)) \<and>
    (now \<le> deadline \<and> b_provider_calls b < b_max_provider_calls b \<longrightarrow>
       (\<exists>res t. reserve_provider_call now gid s = (Inr res, t) \<and> pb_deadline_at res = deadline \<and>
          pb_remaining_calls res = b_max_provider_calls b - b_provider_calls b - 1 \<and>
          map_option b_provider_calls (find_budget t gid) = Some (b_provider_calls b + 1)))"
proof -
  have b: "b \<in> set (budgets s)" "b_goal_id b = gid"
    using assms(2) find_SomeD by (fastforce simp: find_budget_def)+
  then have wf: "budget_wf b" using inv_rows(4) [OF reachable_inv [OF assms(1)]] by blast
  have "find (\<lambda>x. b_goal_id x = gid) (update_where
      (\<lambda>x. b_goal_id x = gid \<and> b_provider_calls x < b_max_provider_calls x)
      (\<lambda>x. x\<lparr>b_provider_calls := b_provider_calls x + 1,
             b_started_at := Some (case b_started_at x of None \<Rightarrow> now | Some t \<Rightarrow> t), b_updated_at := now\<rparr>)
      (budgets s)) = map_option (\<lambda>x. if b_goal_id x = gid \<and> b_provider_calls x < b_max_provider_calls x
        then x\<lparr>b_provider_calls := b_provider_calls x + 1,
             b_started_at := Some (case b_started_at x of None \<Rightarrow> now | Some t \<Rightarrow> t), b_updated_at := now\<rparr> else x)
      (find (\<lambda>x. b_goal_id x = gid) (budgets s))"
    by (rule find_update_where) simp
  with assms(2,3) b wf show ?thesis
    unfolding deadline reserve_provider_call_def ensure_valid_id_def
    by (auto simp: find_budget_def ensure_def budget_wf_def try_u_def Let_def)
qed

theorem reservation_exact_witness:
  "\<exists>res t. reserve_provider_call 120 ''g'' ex_claimed = (Inr res, t) \<and> pb_remaining_calls res = 3"
proof -
  have "find_budget ex_claimed ''g'' = Some ex_budget" "text_ok 160 ''g''"
    by (simp_all add: run_defs find_budget_def)
  from reservation_exact [OF ex_reachable(3) this refl, of 120] show ?thesis by (auto simp: ex_budget_def)
qed

end
