(* ===== verification/Loop_Claims.thy ===== *)
theory Loop_Claims
  imports Loop_Example
begin

text \<open>
  What a worker gets from the store: a claim on the first eligible work item that is current
  until its lease ends, a protocol of prepare, commit and finish that a current claim always
  completes, and commits that can be repeated.
\<close>

section \<open>The claim check as a predicate\<close>

lemma inv_distinct:
  assumes "inv c s"
  shows "distinct (work_items s)" "distinct (attempts s)" "distinct (checkpoints s)" "distinct (goals s)"
  using assms by (auto simp: inv_def keys_ok_def distinct_map)

definition holds_claim :: "work_claim \<Rightarrow> int \<Rightarrow> work_item_row \<Rightarrow> attempt_row \<Rightarrow> bool" where
  "holds_claim cl until w a \<longleftrightarrow>
     w_id w = wr_id (cl_work_item cl) \<and> w_goal_id w = ar_goal_id (cl_attempt cl) \<and>
     w_status w = Running \<and> w_lease_token w = Some (ar_lease_token (cl_attempt cl)) \<and>
     w_fencing w = ar_fencing_token (cl_attempt cl) \<and> w_lease_until w = Some until \<and>
     a_id a = ar_id (cl_attempt cl) \<and> a_work_item_id a = w_id w \<and>
     a_lease_token a = ar_lease_token (cl_attempt cl) \<and> a_fencing a = w_fencing w \<and> live_attempt a"

lemma claim_currentI:
  assumes inv: "inv c s" and w: "w \<in> set (work_items s)" and a: "a \<in> set (attempts s)"
    and h: "holds_claim cl until w a" and "now \<le> until" and fen: "ar_fencing_token (cl_attempt cl) \<le> i64_max"
  shows "ensure_claim_current now cl s = Inr ()"
proof -
  have "0 \<le> ar_fencing_token (cl_attempt cl)"
    using inv_rows(1) [OF inv w] h by (simp add: item_wf_def holds_claim_def)
  then have "try_i64 (ar_fencing_token (cl_attempt cl)) = Some (ar_fencing_token (cl_attempt cl))"
    using fen by (simp add: try_i64_def i64_min_def)
  moreover have "count_where (\<lambda>(w, a).
      a_work_item_id a = w_id w \<and>
      w_id w = wr_id (cl_work_item cl) \<and> w_goal_id w = ar_goal_id (cl_attempt cl) \<and>
      w_status w = Running \<and> w_lease_token w = Some (ar_lease_token (cl_attempt cl)) \<and>
      w_fencing w = ar_fencing_token (cl_attempt cl) \<and>
      (case w_lease_until w of None \<Rightarrow> False | Some u \<Rightarrow> now \<le> u) \<and>
      a_id a = ar_id (cl_attempt cl) \<and>
      a_lease_token a = ar_lease_token (cl_attempt cl) \<and> a_fencing a = ar_fencing_token (cl_attempt cl) \<and>
      live_attempt a) (List.product (work_items s) (attempts s)) = 1"
  proof (rule count_where_unique [of _ "(w, a)"])
    show "distinct (List.product (work_items s) (attempts s))"
      using inv_distinct [OF inv] by (simp add: distinct_product)
  qed (use assms in \<open>auto simp: holds_claim_def dest: item_unique [OF inv] attempt_unique [OF inv]\<close>)
  ultimately show ?thesis by (simp add: ensure_claim_current_def)
qed

lemma claim_current_holds:
  assumes "ensure_claim_current now cl s = Inr u"
  obtains w a until where "w \<in> set (work_items s)" "a \<in> set (attempts s)" "holds_claim cl until w a"
    "now \<le> until" "ar_fencing_token (cl_attempt cl) \<le> i64_max"
proof -
  have "ar_fencing_token (cl_attempt cl) \<le> i64_max"
    using assms by (auto simp: ensure_claim_current_def try_i64_def split: if_splits)
  with assms that show thesis by (elim claim_currentE) (simp add: holds_claim_def)
qed

text \<open>A claim that is current stays so at any earlier clock reading and in any state in which
  its work item is unchanged and its attempt still live.\<close>

lemma claim_current_kept:
  assumes cur: "ensure_claim_current now cl s = Inr u" and inv: "inv c t" and "now' \<le> now"
    and "work_items t = work_items s"
    and at: "\<And>a. a \<in> set (attempts s) \<Longrightarrow> live_attempt a \<Longrightarrow>
       \<exists>b \<in> set (attempts t). attempt_static b = attempt_static a \<and> live_attempt b"
  shows "ensure_claim_current now' cl t = Inr ()"
proof -
  from cur obtain w a until where h: "w \<in> set (work_items s)" "a \<in> set (attempts s)"
      "holds_claim cl until w a" "now \<le> until" "ar_fencing_token (cl_attempt cl) \<le> i64_max"
    by (rule claim_current_holds)
  from h(3) have "live_attempt a" by (simp add: holds_claim_def)
  with at [OF h(2)] obtain b where "b \<in> set (attempts t)" "attempt_static b = attempt_static a" "live_attempt b"
    by blast
  moreover from this have "holds_claim cl until w b"
    using h(3) by (simp add: holds_claim_def attempt_static_def)
  ultimately show ?thesis
    using claim_currentI [OF inv] h assms(3,4) by auto
qed

lemma update_where_hit: "r \<in> set rs \<Longrightarrow> p r \<Longrightarrow> f r \<in> set (update_where p f rs)"
  using update_where_mem [of r rs p f] by simp

section \<open>Claiming\<close>

lemma claimable_row_unique:
  assumes "inv c s" and "row \<in> set (work_items s)" and "w_status row = Ready"
  shows "count_where (\<lambda>w. w_id w = w_id row \<and> w_status w = Ready) (work_items s) = 1"
  by (rule count_where_unique [of _ row])
    (use assms in \<open>auto simp: inv_distinct dest: item_unique [OF assms(1)]\<close>)

text \<open>A round that finds a row wins it: the update cannot lose the race inside its transaction.\<close>

lemma claim_tx_won:
  assumes inv: "inv c s" and sel: "select_claim now gid step s = Some row"
    and tx: "claim_tx now lease aid gid step worker lease_secs actor s = Inr (r, t)"
  obtains item number fencing budget where "r = Won item number fencing budget"
    "decode_work_item row = Inr item" "fencing = w_fencing row + 1"
    "number = int (count_where (\<lambda>a. a_work_item_id a = w_id row) (attempts s)) + 1"
    "row\<lparr>w_status := Running, w_lease_token := Some lease, w_lease_until := Some (now + int lease_secs),
       w_fencing := fencing, w_updated_at := now\<rparr> \<in> set (work_items t)"
    "new_attempt_row now aid gid (w_id row) number worker lease fencing \<in> set (attempts t)"
proof -
  note row = select_claimD [OF sel]
  then have ready: "w_status row = Ready" "w_goal_id row = gid" by (simp_all add: claimable_def)
  define s1 where "s1 = upd_items (\<lambda>w. w_id w = w_id row \<and> w_status w = Ready)
      (\<lambda>w. w\<lparr>w_status := Running, w_lease_token := Some lease, w_lease_until := Some (now + int lease_secs),
             w_fencing := w_fencing w + 1, w_updated_at := now\<rparr>) s"
  let ?w = "row\<lparr>w_status := Running, w_lease_token := Some lease, w_lease_until := Some (now + int lease_secs),
       w_fencing := w_fencing row + 1, w_updated_at := now\<rparr>"
  have mem: "?w \<in> set (work_items s1)"
    unfolding s1_def using row ready by (auto simp: set_update_where intro!: image_eqI [of _ _ row])
  have "changes c s s1" unfolding s1_def by (auto intro!: change_intros claimed_legal)
  from find_item_key [OF changes_inv [OF this inv] mem] have w: "find_item s1 (w_id row) = Some ?w" by simp
  from tx [unfolded claim_tx_def sel option.case Let_def, folded s1_def] w
    claimable_row_unique [OF inv row(1) ready(1)]
  obtain item budget where "decode_work_item row = Inr item"
    "r = Won item (int (count_where (\<lambda>a. a_work_item_id a = w_id row) (attempts s)) + 1) (w_fencing row + 1) budget"
    "work_items t = work_items s1"
    "attempts t = attempts s1 @ [new_attempt_row now aid gid (w_id row)
           (int (count_where (\<lambda>a. a_work_item_id a = w_id row) (attempts s)) + 1) worker lease (w_fencing row + 1)]"
    by clarsimp
  with that mem show thesis by simp
qed

lemma claim_tx_idle:
  "select_claim now gid step s = None \<Longrightarrow>
   claim_tx now lease aid gid step worker lease_secs actor s = Inr (r, t) \<Longrightarrow> r = NoWork \<and> t = s"
  by (auto simp: claim_tx_def)

lemma select_ordered_empty: "select_ordered k p rs = [] \<longleftrightarrow> (\<forall>r \<in> set rs. \<not> p r)"
  using set_select_ordered [of k p rs] by (auto simp del: set_select_ordered simp flip: set_empty)

lemma select_claim_least:
  assumes "select_claim now gid None s = Some row" and "v \<in> set (work_items s)" and "claimable now gid None s v"
  shows "(w_ordinal row, w_id row) \<le> (w_ordinal v, w_id v)"
  using assms first_row_least [of "\<lambda>w. (w_ordinal w, w_id w)"] by (simp add: select_claim_def)

text \<open>
  A claim handed to a worker is current until its lease ends. The claimed item was eligible
  (ready, due, below its attempt budget), and without a named step it is the eligible item with
  the least ordinal, ties broken by id.
\<close>

theorem claim_current_until_lease_end:
  assumes "reachable E s"
    and rounds: "claim_rounds ((now, lease, aid) # rounds) gid step worker lease_secs actor s = (Inr (Some cl), t)"
    and "ar_fencing_token (cl_attempt cl) \<le> i64_max" and "now' \<le> now + int lease_secs"
  shows "ensure_claim_current now' cl t = Inr () \<and>
    (\<exists>row \<in> set (work_items s). w_id row = wr_id (cl_work_item cl) \<and> claimable now gid step s row \<and>
       (step = None \<longrightarrow> (\<forall>v \<in> set (work_items s). claimable now gid None s v \<longrightarrow>
          (w_ordinal row, w_id row) \<le> (w_ordinal v, w_id v))))"
proof -
  note inv = reachable_inv [OF assms(1)]
  obtain row where row: "select_claim now gid step s = Some row"
    using rounds by (cases "select_claim now gid step s") (auto dest!: claim_tx_idle split: sum.splits)
  obtain r where tx: "claim_tx now lease aid gid step worker lease_secs actor s = Inr (r, t)"
    and built: "\<And>item number fencing budget. r = Won item number fencing budget \<Longrightarrow>
      build_claim now lease aid gid worker lease_secs item number fencing budget = Inr cl"
    using rounds
    by (cases "claim_tx now lease aid gid step worker lease_secs actor s")
      (auto elim: claim_tx_won [OF inv row] split: claim_round.splits)
  from claim_tx_won [OF inv row tx] obtain item number fencing budget where
    won: "r = Won item number fencing budget" "decode_work_item row = Inr item" "fencing = w_fencing row + 1"
      "row\<lparr>w_status := Running, w_lease_token := Some lease, w_lease_until := Some (now + int lease_secs),
         w_fencing := fencing, w_updated_at := now\<rparr> \<in> set (work_items t)" (is "?w \<in> _")
      "new_attempt_row now aid gid (w_id row) number worker lease fencing \<in> set (attempts t)" (is "?a \<in> _")
    by metis
  note cl = built [OF won(1)]
  have item: "wr_id item = w_id row" using won(2) by (auto simp: decode_work_item_def)
  note elig = select_claimD [OF row]
  have "holds_claim cl (now + int lease_secs) ?w ?a"
    using cl item elig by (auto simp: holds_claim_def build_claim_def new_attempt_row_def live_attempt_def claimable_def)
  moreover have "inv (env_crates E) t"
    using changes_inv [OF claim_changes [OF inv tx] inv] .
  ultimately have "ensure_claim_current now' cl t = Inr ()"
    using claim_currentI won(4,5) assms(3,4) by blast
  moreover have "w_id row = wr_id (cl_work_item cl)" using cl item by (auto simp: build_claim_def)
  ultimately show ?thesis using elig row select_claim_least by blast
qed

theorem claim_current_until_lease_end_witness:
  "ensure_claim_current 163 ex_claim ex_claimed = Inr ()"
proof -
  have "claim_rounds [(103, ''l'', ''t'')] ''g'' None ''w'' 60 ''op'' ex_approved = (Inr (Some ex_claim), ex_claimed)"
    by (simp add: ex_claim) (simp add: build_claim_def ex_claim_def ex_item_def)
  from claim_current_until_lease_end [OF ex_reachable(2) this, of 163] show ?thesis
    by (simp add: ex_claim_def i64_max_def)
qed

lemma claim_tx_succeeds:
  assumes reach: "reachable E s" and g: "find_goal s gid = Some g" "g_status g \<in> {Approved, Active}" "\<not> g_internal_only g"
    and sel: "select_claim now gid None s = Some row" and ord: "w_ordinal row \<in> {0..<2 ^ 32}"
    and fresh: "\<forall>a \<in> set (attempts s). a_id a \<noteq> aid"
  shows "\<exists>r t. claim_tx now lease aid gid None worker lease_secs actor s = Inr (r, t)"
proof -
  note inv = reachable_inv [OF reach]
  note row = select_claimD [OF sel]
  have "w_max_attempts row \<in> {1..10}" using inv_rows(1) [OF inv row(1)] by (simp add: item_wf_def)
  then obtain item where item: "decode_work_item row = Inr item"
    using ord by (simp add: decode_work_item_def fetch_def try_u_def)
  have "(w_workflow_id row, w_goal_id row) \<in> (\<lambda>p. (p_id p, p_goal_id p)) ` set (workflows s)"
    using inv row(1) by (fastforce simp: inv_def refs_ok_def)
  then obtain p where p: "find (\<lambda>p. p_id p = w_workflow_id row) (workflows s) = Some p"
    by (cases "find (\<lambda>p. p_id p = w_workflow_id row) (workflows s)") (auto dest: find_NoneD)
  define s1 where "s1 = upd_items (\<lambda>w. w_id w = w_id row \<and> w_status w = Ready)
      (\<lambda>w. w\<lparr>w_status := Running, w_lease_token := Some lease, w_lease_until := Some (now + int lease_secs),
             w_fencing := w_fencing w + 1, w_updated_at := now\<rparr>) s"
  have "find_item s1 (w_id row) \<noteq> None"
    using find_item_key [OF inv row(1)] unfolding find_item_def s1_def upd_items_simps
    by (subst find_update_where) simp_all
  then obtain w where w: "find_item s1 (w_id row) = Some w" by blast
  have "a_number a \<noteq> int (count_where (\<lambda>b. a_work_item_id b = w_id row) (attempts s)) + 1"
    if "a \<in> set (attempts s)" "a_work_item_id a = w_id row" for a
    using reachable_numbers [OF reach] that by (fastforce simp: numbers_ok_def)
  with item p w g fresh claimable_row_unique [OF inv row(1)] row(2) show ?thesis
    unfolding claim_tx_def sel option.case Let_def s1_def [symmetric]
    by (auto simp: claimable_def list_all_iff)
qed

text \<open>
  C35: eligible work is always handed out. For a goal in execution with an eligible work item and
  fresh ids, the first round of the claim loop leases the eligible item with the least ordinal
  and returns a claim on it. The one exception is an item with 255 recorded attempts: its claim
  is committed and then reported as an error, since the attempt number no longer fits a byte.
\<close>

theorem eligible_work_is_claimed:
  assumes "reachable E s" and "find_goal s gid = Some g" and "g_status g \<in> {Approved, Active}"
    and "\<not> g_internal_only g" and "w \<in> set (work_items s)" and "claimable now gid None s w"
    and bounds: "\<forall>v \<in> set (work_items s). w_ordinal v \<in> {0..<2 ^ 32} \<and> w_fencing v < i64_max"
    and "\<forall>a \<in> set (attempts s). a_id a \<noteq> aid"
  shows "\<exists>row t. row \<in> set (work_items s) \<and> claimable now gid None s row \<and>
    (\<exists>v \<in> set (work_items t). w_id v = w_id row \<and> w_status v = Running \<and> w_lease_token v = Some lease) \<and>
    (if count_where (\<lambda>a. a_work_item_id a = w_id row) (attempts s) < 255
     then \<exists>cl. claim_rounds ((now, lease, aid) # rounds) gid None worker lease_secs actor s = (Inr (Some cl), t) \<and>
            wr_id (cl_work_item cl) = w_id row
     else claim_rounds ((now, lease, aid) # rounds) gid None worker lease_secs actor s =
            (Inl (Work AttemptNumberRange), t))"
proof -
  note inv = reachable_inv [OF assms(1)]
  have "select_claim now gid None s \<noteq> None"
    using assms(5,6) select_ordered_empty [of "\<lambda>w. (w_ordinal w, w_id w)" "claimable now gid None s" "work_items s"]
    by (auto simp: select_claim_def)
  then obtain row where sel: "select_claim now gid None s = Some row" by blast
  note row = select_claimD [OF sel]
  have ord: "w_ordinal row \<in> {0..<2 ^ 32}" using bounds row(1) by blast
  from claim_tx_succeeds [OF assms(1-4) sel ord assms(8)]
  obtain r t where tx: "claim_tx now lease aid gid None worker lease_secs actor s = Inr (r, t)" by blast
  from claim_tx_won [OF inv sel tx] obtain item number fencing budget where
    won: "r = Won item number fencing budget" "decode_work_item row = Inr item" "fencing = w_fencing row + 1"
      "number = int (count_where (\<lambda>a. a_work_item_id a = w_id row) (attempts s)) + 1"
      "row\<lparr>w_status := Running, w_lease_token := Some lease, w_lease_until := Some (now + int lease_secs),
         w_fencing := fencing, w_updated_at := now\<rparr> \<in> set (work_items t)"
    by metis
  have "0 \<le> fencing" "fencing < 2 ^ 64"
    using inv_rows(1) [OF inv row(1)] bounds row(1) by (auto simp: won(3) item_wf_def i64_max_def)
  moreover have "wr_id item = w_id row" using won(2) by (auto simp: decode_work_item_def)
  ultimately have "if count_where (\<lambda>a. a_work_item_id a = w_id row) (attempts s) < 255
     then \<exists>cl. claim_rounds ((now, lease, aid) # rounds) gid None worker lease_secs actor s = (Inr (Some cl), t) \<and>
            wr_id (cl_work_item cl) = w_id row
     else claim_rounds ((now, lease, aid) # rounds) gid None worker lease_secs actor s =
            (Inl (Work AttemptNumberRange), t)"
    by (simp add: tx won(1) build_claim_def fetch_def try_u_def) (simp add: won(4))
  moreover have "\<exists>v \<in> set (work_items t). w_id v = w_id row \<and> w_status v = Running \<and> w_lease_token v = Some lease"
    by (rule bexI [OF _ won(5)]) simp
  ultimately show ?thesis using row by blast
qed

theorem eligible_work_is_claimed_witness:
  "\<exists>row cl t. row \<in> set (work_items ex_approved) \<and> wr_id (cl_work_item cl) = w_id row \<and>
     claim_rounds [(103, ''l'', ''t'')] ''g'' None ''w'' 60 ''op'' ex_approved = (Inr (Some cl), t)"
proof -
  have g: "find_goal ex_approved ''g'' = Some (ex_goal Approved 3 102)"
    "g_status (ex_goal Approved 3 102) \<in> {Approved, Active}" "\<not> g_internal_only (ex_goal Approved 3 102)"
    by (simp_all add: run_defs)
  have w: "ex_a \<in> set (work_items ex_approved)" "claimable 103 ''g'' None ex_approved ex_a"
    "\<forall>v \<in> set (work_items ex_approved). w_ordinal v \<in> {0..<2 ^ 32} \<and> w_fencing v < i64_max"
    "\<forall>a \<in> set (attempts ex_approved). a_id a \<noteq> ''t''"
    by (simp_all add: run_defs)
  have none: "attempts ex_approved = []" by (simp add: ex_approved_def ex_state_def)
  from eligible_work_is_claimed [OF ex_reachable(2) g w, of "''l''" "[]" "''w''" 60 "''op''"]
  show ?thesis unfolding none by auto
qed

section \<open>Completing a claim\<close>

lemma prepare_fresh:
  assumes cur: "ensure_claim_current now cl s = Inr ()" and "text_ok 200 key"
    and "\<forall>x \<in> set (checkpoints s). c_id x \<noteq> cid \<and>
      \<not> (c_work_item_id x = wr_id (cl_work_item cl) \<and> c_idempotency_key x = key)"
  shows "\<exists>rec t row. prepare_checkpoint now cid cl key safe actor s = Inr (rec, t) \<and>
    checkpoints t = checkpoints s @ [row] \<and> c_id row = cid \<and> c_phase row = Prepared \<and>
    c_attempt_id row = ar_id (cl_attempt cl) \<and> c_work_item_id row = wr_id (cl_work_item cl) \<and>
    work_items t = work_items s \<and> attempts t = attempts s"
proof -
  have none: "find (\<lambda>c. c_work_item_id c = wr_id (cl_work_item cl) \<and> c_idempotency_key c = key) (checkpoints s) = None"
    "find (\<lambda>c. c_id c = cid) (checkpoints s) = None"
    using assms(3) by (auto simp: find_None_iff)
  then show ?thesis
    using assms by (simp add: prepare_checkpoint_def Let_def list_all_iff load_checkpoint_tx_def
      find_checkpoint_def find_append)
qed

lemma commit_prepared:
  assumes inv: "inv c s" and cur: "ensure_claim_current now cl s = Inr ()" and "text_ok 160 cid"
    and x: "x \<in> set (checkpoints s)" "c_id x = cid" "c_phase x = Prepared" "c_attempt_id x = ar_id (cl_attempt cl)"
  shows "\<exists>rec t. commit_checkpoint now cl cid outcome actor s = Inr (rec, t) \<and>
    find_checkpoint t cid = Some (x\<lparr>c_phase := Committed, c_outcome := Some outcome, c_updated_at := now\<rparr>) \<and>
    work_items t = work_items s \<and>
    attempts t = update_where (\<lambda>a. a_id a = ar_id (cl_attempt cl) \<and> a_status a = AttemptRunning)
      (\<lambda>a. a\<lparr>a_status := Committing\<rparr>) (attempts s)"
proof -
  let ?same = "\<lambda>c. c_id c = cid \<and> c_phase c = Prepared \<and> c_attempt_id c = ar_id (cl_attempt cl)"
  have one: "count_where ?same (checkpoints s) = 1"
    by (rule count_where_unique [of _ x]) (use x in \<open>auto simp: inv_distinct [OF inv] dest: checkpoint_unique [OF inv]\<close>)
  have fx: "find_checkpoint s cid = Some x"
    using find_key [of c_id "checkpoints s" x] x(1,2) inv by (simp add: find_checkpoint_def inv_def keys_ok_def)
  have ft: "find (\<lambda>c. c_id c = cid) (update_where ?same
      (\<lambda>c. c\<lparr>c_phase := Committed, c_outcome := Some outcome, c_updated_at := now\<rparr>) (checkpoints s)) =
    Some (x\<lparr>c_phase := Committed, c_outcome := Some outcome, c_updated_at := now\<rparr>)"
    using fx x by (subst find_update_where) (simp_all add: find_checkpoint_def)
  show ?thesis
    using assms fx one ft
    by (simp add: commit_checkpoint_def ensure_valid_id_def load_checkpoint_tx_def decode_checkpoint_def
        find_checkpoint_def Let_def)
qed

lemma finish_committed:
  assumes cur: "ensure_claim_current now cl s = Inr ()"
    and x: "find_checkpoint s cid = Some x" "c_phase x = Committed" "c_attempt_id x = ar_id (cl_attempt cl)"
      "c_work_item_id x = wr_id (cl_work_item cl)"
  shows "\<exists>t. finish_tx now cl cid actor s = Inr ((), t) \<and>
    (\<exists>v \<in> set (work_items t). w_id v = wr_id (cl_work_item cl) \<and> w_status v = Succeeded)"
proof -
  from cur obtain w where w: "w \<in> set (work_items s)" "w_id w = wr_id (cl_work_item cl)" "w_status w = Running"
    by (rule claim_currentE)
  define s1 where "s1 = upd_items (\<lambda>w. w_id w = wr_id (cl_work_item cl) \<and> w_status w = Running)
      (\<lambda>w. w\<lparr>w_status := Succeeded, w_lease_token := None, w_lease_until := None,
             w_next_attempt_at := None, w_progress := None, w_last_error := None, w_updated_at := now\<rparr>)
      (upd_attempts (\<lambda>a. a_id a = c_attempt_id x \<and> live_attempt a)
        (\<lambda>a. a\<lparr>a_status := AttemptSucceeded, a_finished_at := Some now, a_error := None\<rparr>)
      (upd_checkpoints (\<lambda>y. c_id y = c_id x \<and> c_phase y = Committed)
        (\<lambda>x. x\<lparr>c_phase := Reconciled, c_updated_at := now\<rparr>) s))"
  have "\<exists>v \<in> set (work_items s1). w_id v = wr_id (cl_work_item cl) \<and> w_status v = Succeeded"
    unfolding s1_def upd_items_simps upd_attempts_simps upd_checkpoints_simps
    by (rule bexI [OF _ update_where_hit [OF w(1)]]) (use w(2,3) in simp_all)
  then obtain v where v: "v \<in> set (work_items s1)" "w_id v = wr_id (cl_work_item cl)" "w_status v = Succeeded" by blast
  have "v \<in> set (work_items (refresh_goal_status_tx now gid (snd (unlock_ready_work_tx now gid s1))))" for gid
    using update_where_mem [OF v(1), of "unlockable s1 gid"] v(3)
    by (auto simp: refresh_goal_status_tx_def unlock_ready_work_tx_def unlockable_def split: option.split)
  moreover have "reconcile_checkpoint_tx now (decode_checkpoint x) s = Inr s1"
    using x by (simp add: reconcile_checkpoint_tx_def decode_checkpoint_def s1_def)
  ultimately show ?thesis
    using cur x v by (auto simp: finish_tx_def load_checkpoint_tx_def Let_def decode_checkpoint_def)
qed

text \<open>
  C34: a worker whose claim is still current can always complete its work. With a fresh
  checkpoint id and an unused idempotency key, preparing, committing any outcome and finishing
  all succeed in this order, and the work item has then succeeded.
\<close>

theorem current_claim_completes:
  assumes "reachable E s" and cur: "ensure_claim_current now cl s = Inr ()"
    and "now1 \<le> now" and "now2 \<le> now" and "text_ok 200 key" and "text_ok 160 cid"
    and fresh: "\<forall>x \<in> set (checkpoints s). c_id x \<noteq> cid \<and>
      \<not> (c_work_item_id x = wr_id (cl_work_item cl) \<and> c_idempotency_key x = key)"
  shows "\<exists>r1 s1 r2 s2 s3. prepare_checkpoint now1 cid cl key safe actor s = Inr (r1, s1) \<and>
    commit_checkpoint now2 cl cid outcome actor s1 = Inr (r2, s2) \<and>
    finish_tx now cl cid actor s2 = Inr ((), s3) \<and>
    (\<exists>v \<in> set (work_items s3). w_id v = wr_id (cl_work_item cl) \<and> w_status v = Succeeded)"
proof -
  note inv = reachable_inv [OF assms(1)]
  have cur1: "ensure_claim_current now1 cl s = Inr ()"
    by (rule claim_current_kept [OF cur inv assms(3)]) auto
  from prepare_fresh [OF cur1 assms(5) fresh, of safe actor] obtain r1 s1 row where
    prep: "prepare_checkpoint now1 cid cl key safe actor s = Inr (r1, s1)" and
    s1: "checkpoints s1 = checkpoints s @ [row]" "work_items s1 = work_items s" "attempts s1 = attempts s" and
    row: "c_id row = cid" "c_phase row = Prepared" "c_attempt_id row = ar_id (cl_attempt cl)"
      "c_work_item_id row = wr_id (cl_work_item cl)"
    by blast
  have inv1: "inv (env_crates E) s1" by (rule changes_inv [OF prepare_changes [OF inv prep] inv])
  have cur2: "ensure_claim_current now2 cl s1 = Inr ()"
    by (rule claim_current_kept [OF cur inv1 assms(4) s1(2)]) (auto simp: s1(3))
  have mem: "row \<in> set (checkpoints s1)" by (simp add: s1(1))
  from commit_prepared [OF inv1 cur2 assms(6) mem row(1-3), of outcome actor] obtain r2 s2 where
    com: "commit_checkpoint now2 cl cid outcome actor s1 = Inr (r2, s2)" and
    f: "find_checkpoint s2 cid = Some (row\<lparr>c_phase := Committed, c_outcome := Some outcome, c_updated_at := now2\<rparr>)" and
    s2: "work_items s2 = work_items s1" "attempts s2 = update_where
      (\<lambda>a. a_id a = ar_id (cl_attempt cl) \<and> a_status a = AttemptRunning) (\<lambda>a. a\<lparr>a_status := Committing\<rparr>) (attempts s1)"
    by blast
  have inv2: "inv (env_crates E) s2" by (rule changes_inv [OF commit_changes [OF com] inv1])
  have cur3: "ensure_claim_current now cl s2 = Inr ()"
  proof (rule claim_current_kept [OF cur inv2 order_refl])
    fix a assume a: "a \<in> set (attempts s)" "live_attempt a"
    show "\<exists>b \<in> set (attempts s2). attempt_static b = attempt_static a \<and> live_attempt b"
      unfolding s2(2) s1(3)
      by (rule bexI [OF _ update_where_mem [OF a(1)]]) (use a(2) in \<open>auto simp: attempt_static_def live_attempt_def\<close>)
  qed (simp add: s1 s2)
  from finish_committed [OF cur3 f, of actor] row obtain s3 where "finish_tx now cl cid actor s2 = Inr ((), s3)"
    "\<exists>v \<in> set (work_items s3). w_id v = wr_id (cl_work_item cl) \<and> w_status v = Succeeded"
    by auto
  with prep com show ?thesis by blast
qed

theorem current_claim_completes_witness:
  "\<exists>r1 s1 r2 s2 s3. prepare_checkpoint 104 ''c'' ex_claim ''k'' False ''op'' ex_claimed = Inr (r1, s1) \<and>
    commit_checkpoint 104 ex_claim ''c'' ex_outcome ''op'' s1 = Inr (r2, s2) \<and>
    finish_tx 104 ex_claim ''c'' ''op'' s2 = Inr ((), s3) \<and>
    (\<exists>v \<in> set (work_items s3). w_id v = ''wa'' \<and> w_status v = Succeeded)"
proof -
  have keys: "text_ok 200 ''k''" "text_ok 160 ''c''" by (simp_all add: run_defs)
  have fresh: "\<forall>x \<in> set (checkpoints ex_claimed). c_id x \<noteq> ''c'' \<and>
      \<not> (c_work_item_id x = wr_id (cl_work_item ex_claim) \<and> c_idempotency_key x = ''k'')"
    by (simp add: ex_claimed_def ex_state_def)
  have wid: "wr_id (cl_work_item ex_claim) = ''wa''" by (simp add: ex_claim_def ex_item_def)
  from current_claim_completes [OF ex_reachable(3) ex_claim_current order_refl order_refl keys fresh]
  show ?thesis unfolding wid .
qed

text \<open>
  Committing is safe to repeat. After a commit, the same call by the same worker returns the
  same checkpoint and changes nothing, while any other outcome for the checkpoint is refused.
\<close>

theorem commit_repeatable:
  assumes tx: "commit_checkpoint now cl cid outcome actor s = Inr (rec, t)"
    and cur: "ensure_claim_current now' cl t = Inr ()"
  shows "commit_checkpoint now' cl cid outcome actor' t = Inr (rec, t) \<and>
    (\<forall>other. other \<noteq> outcome \<longrightarrow>
       commit_checkpoint now' cl cid other actor' t = Inl (Work CommittedDifferently))"
proof -
  from tx obtain x where x: "text_ok 160 cid" "find_checkpoint s cid = Some x" "c_attempt_id x = ar_id (cl_attempt cl)"
    by (auto simp: commit_checkpoint_def ensure_valid_id_def load_checkpoint_tx_def decode_checkpoint_def)
  have "\<exists>y. find_checkpoint t cid = Some y \<and> rec = decode_checkpoint y \<and> c_phase y = Committed \<and>
      c_outcome y = Some outcome \<and> c_attempt_id y = ar_id (cl_attempt cl)"
  proof (cases "c_phase x = Committed")
    case True
    with tx x show ?thesis
      by (simp add: commit_checkpoint_def ensure_valid_id_def load_checkpoint_tx_def) (auto simp: decode_checkpoint_def)
  next
    case False
    let ?f = "\<lambda>c. c\<lparr>c_phase := Committed, c_outcome := Some outcome, c_updated_at := now\<rparr>"
    from False tx x have p: "c_phase x = Prepared" and load: "load_checkpoint_tx t cid = Inr rec"
      and t: "checkpoints t = update_where
        (\<lambda>c. c_id c = cid \<and> c_phase c = Prepared \<and> c_attempt_id c = ar_id (cl_attempt cl)) ?f (checkpoints s)"
      unfolding commit_checkpoint_def ensure_valid_id_def load_checkpoint_tx_def Let_def
      by (clarsimp simp: decode_checkpoint_def)+
    have "find_checkpoint t cid = Some (?f x)"
      using x p find_checkpointD(2) [OF x(2)] unfolding find_checkpoint_def t
      by (subst find_update_where) simp_all
    with load x show ?thesis by (simp add: load_checkpoint_tx_def)
  qed
  with x(1) cur show ?thesis
    by (auto simp: commit_checkpoint_def ensure_valid_id_def load_checkpoint_tx_def) (auto simp: decode_checkpoint_def)
qed

theorem commit_repeatable_witness:
  "commit_checkpoint 106 ex_claim ''c'' ex_outcome ''w'' ex_committed =
     Inr (decode_checkpoint (ex_checkpoint\<lparr>c_phase := Committed, c_outcome := Some ex_outcome, c_updated_at := 105\<rparr>), ex_committed)"
proof -
  have "ensure_claim_current 106 ex_claim ex_committed = Inr ()" by (simp add: run_defs)
  from commit_repeatable [OF ex_commit this] show ?thesis by simp
qed

end
