(* ===== verification/Loop_Settle.thy ===== *)
theory Loop_Settle
  imports Loop_Example
begin

text \<open>
  Recovery: what the transaction behind every resume and every claim does. It always succeeds, it
  leaves nothing behind that a crash could have left, its verdict on every expired lease is
  determined by the durable evidence of the attempt, and pending work always waits for a reason.
\<close>

section \<open>Reconciling committed checkpoints\<close>

lemma reconcile_all_total:
  "\<forall>x \<in> set cs. cr_phase x = Committed \<Longrightarrow> \<exists>t. reconcile_all now cs s = Inr t"
  by (induction cs arbitrary: s) (simp_all add: reconcile_checkpoint_tx_def)

lemma reconcile_all_committed:
  assumes "reconcile_all now cs s = Inr t" and "x \<in> set (checkpoints t)" and "c_phase x = Committed"
  shows "x \<in> set (checkpoints s) \<and> c_id x \<notin> cr_id ` set cs"
  using assms
proof (induction cs arbitrary: s)
  case (Cons c cs)
  then obtain s1 where s1: "reconcile_checkpoint_tx now c s = Inr s1" "reconcile_all now cs s1 = Inr t" by auto
  from Cons.IH [OF s1(2) Cons.prems(2,3)] have "x \<in> set (checkpoints s1)" "c_id x \<notin> cr_id ` set cs" by simp_all
  with s1(1) Cons.prems(3) show ?case
    by (auto simp: reconcile_checkpoint_tx_def elim!: mem_update_whereE split: if_splits)
qed simp

text \<open>Reconciliation leaves alone what no committed checkpoint names.\<close>

lemma reconcile_all_keeps:
  assumes "reconcile_all now cs s = Inr t"
  shows "(w \<in> set (work_items s) \<longrightarrow> w_id w \<notin> cr_work_item_id ` set cs \<longrightarrow> w \<in> set (work_items t)) \<and>
    (a \<in> set (attempts s) \<longrightarrow> a_id a \<notin> cr_attempt_id ` set cs \<longrightarrow> a \<in> set (attempts t)) \<and>
    (x \<in> set (checkpoints s) \<longrightarrow> c_phase x \<noteq> Committed \<longrightarrow> x \<in> set (checkpoints t))"
  using assms
proof (induction cs arbitrary: s)
  case (Cons c cs)
  then obtain s1 where s1: "reconcile_checkpoint_tx now c s = Inr s1" and rest: "reconcile_all now cs s1 = Inr t"
    by auto
  have "w \<in> set (work_items s) \<Longrightarrow> w_id w \<noteq> cr_work_item_id c \<Longrightarrow> w \<in> set (work_items s1)"
    "a \<in> set (attempts s) \<Longrightarrow> a_id a \<noteq> cr_attempt_id c \<Longrightarrow> a \<in> set (attempts s1)"
    "x \<in> set (checkpoints s) \<Longrightarrow> c_phase x \<noteq> Committed \<Longrightarrow> x \<in> set (checkpoints s1)"
    using s1 by (auto simp: reconcile_checkpoint_tx_def set_update_where image_iff)
  with Cons.IH [OF rest] show ?case by auto
qed simp

lemmas reconcile_all_other =
  reconcile_all_keeps [THEN conjunct1, rule_format]
  reconcile_all_keeps [THEN conjunct2, THEN conjunct1, rule_format]
  reconcile_all_keeps [THEN conjunct2, THEN conjunct2, rule_format]

section \<open>Expiring leases\<close>

definition expired_item :: "int \<Rightarrow> expired_row \<Rightarrow> work_item_row \<Rightarrow> work_item_row" where
  "expired_item now x w =
     (case expiry_verdict now x of (work_status, attempt_status, error, next_at) \<Rightarrow>
        w\<lparr>w_status := work_status, w_lease_token := None, w_lease_until := None,
          w_next_attempt_at := next_at, w_last_error := Some error, w_updated_at := now\<rparr>)"

lemma expired_item_fields:
  "w_id (expired_item now x w) = w_id w" "w_goal_id (expired_item now x w) = w_goal_id w"
  "w_status (expired_item now x w) \<noteq> Running"
  by (simp_all add: expired_item_def expiry_verdict_def split: prod.split)

lemma expire_item_rows:
  "work_items (expire_item now x s) =
     update_where (\<lambda>w. w_id w = x_id x \<and> w_status w = Running) (expired_item now x) (work_items s)"
  by (cases "expiry_verdict now x") (simp add: expire_item_def expired_item_def update_where_def)

lemma expire_items_rows:
  "work_items (fold (expire_item now) xs s) =
     map (\<lambda>w. if w_status w = Running
              then (case find (\<lambda>x. x_id x = w_id w) xs of None \<Rightarrow> w | Some x \<Rightarrow> expired_item now x w)
              else w) (work_items s)"
proof (induction xs arbitrary: s)
  case Nil
  show ?case by (simp cong: if_cong)
next
  case (Cons x xs)
  then show ?case by (auto simp: expire_item_rows update_where_def expired_item_fields split: option.split)
qed

lemma expire_items_committed:
  "x \<in> set (checkpoints (fold (expire_item now) xs s)) \<Longrightarrow> c_phase x = Committed \<Longrightarrow> x \<in> set (checkpoints s)"
proof (induction xs arbitrary: s)
  case (Cons y ys)
  then have "x \<in> set (checkpoints (expire_item now y s))" by simp
  with Cons.prems(2) show ?case
    by (auto simp: expire_item_def split: prod.splits if_splits elim!: mem_update_whereE)
qed simp

section \<open>Unlocking\<close>

lemma unlock_done: "\<not> unlockable (snd (unlock_ready_work_tx now gid s)) gid w"
  if "w \<in> set (work_items (snd (unlock_ready_work_tx now gid s)))"
proof
  assume "unlockable (snd (unlock_ready_work_tx now gid s)) gid w" (is "unlockable ?t gid w")
  then have pend: "w_status w = Pending" "w_goal_id w = gid" by (simp_all add: unlockable_def)
  with that have w: "w \<in> set (work_items s)" "\<not> unlockable s gid w"
    by (auto simp: unlock_ready_work_tx_def elim!: mem_update_whereE split: if_splits)
  then obtain d p where d: "d \<in> set (deps s)" "d_work_item d = w_id w" "p \<in> set (work_items s)"
      "w_id p = d_depends_on d" "w_status p \<noteq> Succeeded"
    using pend by (auto simp: unlockable_def list_ex_iff)
  let ?q = "if unlockable s gid p then p\<lparr>w_status := Ready, w_updated_at := now\<rparr> else p"
  have "?q \<in> set (work_items ?t)"
    using update_where_mem [OF d(3), of "unlockable s gid" "\<lambda>w. w\<lparr>w_status := Ready, w_updated_at := now\<rparr>"]
    by (simp add: unlock_ready_work_tx_def)
  moreover have "d \<in> set (deps ?t)" using d(1) by (simp add: unlock_ready_work_tx_def)
  moreover have "w_id ?q = d_depends_on d" "w_status ?q \<noteq> Succeeded" using d(4,5) by simp_all
  ultimately show False
    using d(2) \<open>unlockable ?t gid w\<close> unfolding unlockable_def list_ex_iff by blast
qed

section \<open>Recovery settles a goal\<close>

lemma refresh_simps [simp]:
  "work_items (refresh_goal_status_tx now gid s) = work_items s" "deps (refresh_goal_status_tx now gid s) = deps s"
  "attempts (refresh_goal_status_tx now gid s) = attempts s"
  "checkpoints (refresh_goal_status_tx now gid s) = checkpoints s"
  by (simp_all add: refresh_goal_status_tx_def split: option.split)

lemma unlock_simps [simp]:
  "deps (snd (unlock_ready_work_tx now gid s)) = deps s"
  "attempts (snd (unlock_ready_work_tx now gid s)) = attempts s"
  "checkpoints (snd (unlock_ready_work_tx now gid s)) = checkpoints s"
  by (simp_all add: unlock_ready_work_tx_def)

lemma committed_checkpoints_set:
  "set (committed_checkpoints s gid) =
     decode_checkpoint ` {x \<in> set (checkpoints s). c_goal_id x = gid \<and> c_phase x = Committed}"
  by (auto simp: committed_checkpoints_def)

text \<open>The stages of a recovery of an existing goal.\<close>

lemma recover_txE:
  assumes "recover_tx now gid actor s = Inr (parked, t)" and "\<exists>g \<in> set (goals s). g_id g = gid"
  obtains s1 s2 where "reconcile_all now (committed_checkpoints s gid) s = Inr s1"
    "s2 = fold (expire_item now) (expired_rows now gid s1) s1"
    "work_items t = work_items (snd (unlock_ready_work_tx now gid s2))" "deps t = deps s2"
    "checkpoints t = checkpoints s2" "attempts t = attempts s2"
    "parked = map x_id (filter parks (expired_rows now gid s1))"
proof -
  have "count_where (\<lambda>g. g_id g = gid) (goals s) \<noteq> 0" using assms(2) by auto
  with assms(1) obtain s1 where s1: "reconcile_all now (committed_checkpoints s gid) s = Inr s1"
    and t: "parked = map x_id (filter parks (expired_rows now gid s1))"
      "work_items t = work_items (snd (unlock_ready_work_tx now gid (fold (expire_item now) (expired_rows now gid s1) s1)))"
      "deps t = deps (fold (expire_item now) (expired_rows now gid s1) s1)"
      "checkpoints t = checkpoints (fold (expire_item now) (expired_rows now gid s1) s1)"
      "attempts t = attempts (fold (expire_item now) (expired_rows now gid s1) s1)"
    unfolding recover_tx_def ensure_valid_id_def Let_def
    by (clarsimp simp: split_beta simp del: count_where_0)
  show thesis by (rule that [OF s1 refl t(2-5,1)])
qed

lemma expired_rowsD:
  assumes "w \<in> set (work_items s)" and "w_goal_id w = gid" and "w_status w = Running" and "lease_expired now w"
  shows "\<exists>x. find (\<lambda>x. x_id x = w_id w) (expired_rows now gid s) = Some x"
proof -
  have "w_id w \<in> x_id ` set (expired_rows now gid s)" using assms by (force simp: expired_rows_def)
  then show ?thesis
    by (cases "find (\<lambda>x. x_id x = w_id w) (expired_rows now gid s)") (auto dest: find_NoneD)
qed

lemma expire_items_settled:
  assumes "w \<in> set (work_items (fold (expire_item now) (expired_rows now gid s) s))" and "w_goal_id w = gid"
  shows "\<not> (w_status w = Running \<and> lease_expired now w)"
proof
  assume run: "w_status w = Running \<and> lease_expired now w"
  from assms(1) obtain v where v: "v \<in> set (work_items s)"
    "w = (if w_status v = Running
          then (case find (\<lambda>x. x_id x = w_id v) (expired_rows now gid s) of None \<Rightarrow> v | Some x \<Rightarrow> expired_item now x v)
          else v)"
    by (auto simp: expire_items_rows)
  with run have "w = v" "find (\<lambda>x. x_id x = w_id v) (expired_rows now gid s) = None"
    by (auto split: if_splits option.splits simp: expired_item_fields)
  with expired_rowsD [OF v(1), of gid now] run assms(2) show False by simp
qed

lemma recover_tx_total:
  assumes "text_ok 160 gid"
  shows "\<exists>parked t. recover_tx now gid actor s = Inr (parked, t)"
proof -
  have "\<forall>x \<in> set (committed_checkpoints s gid). cr_phase x = Committed"
    by (auto simp: committed_checkpoints_set decode_checkpoint_def)
  then obtain s1 where "reconcile_all now (committed_checkpoints s gid) s = Inr s1"
    using reconcile_all_total by blast
  then have "recover_tx now gid actor s \<noteq> Inl e" for e
    using assms by (auto simp: recover_tx_def ensure_valid_id_def Let_def split: prod.splits if_splits)
  then show ?thesis by (cases "recover_tx now gid actor s") auto
qed

text \<open>The rows of a goal belong to an existing goal.\<close>

lemma goal_of_rows:
  assumes inv: "inv c s"
  shows "w \<in> set (work_items s) \<Longrightarrow> \<exists>g \<in> set (goals s). g_id g = w_goal_id w"
    and "x \<in> set (checkpoints s) \<Longrightarrow> \<exists>g \<in> set (goals s). g_id g = c_goal_id x"
proof -
  have refs: "p_goal_id ` set (workflows s) \<subseteq> g_id ` set (goals s)"
    "(\<lambda>w. (w_workflow_id w, w_goal_id w)) ` set (work_items s) \<subseteq> (\<lambda>p. (p_id p, p_goal_id p)) ` set (workflows s)"
    "(\<lambda>a. (a_work_item_id a, a_goal_id a)) ` set (attempts s) \<subseteq> (\<lambda>w. (w_id w, w_goal_id w)) ` set (work_items s)"
    "(\<lambda>x. (c_attempt_id x, c_work_item_id x, c_goal_id x)) ` set (checkpoints s)
       \<subseteq> (\<lambda>a. (a_id a, a_work_item_id a, a_goal_id a)) ` set (attempts s)"
    using inv by (simp_all add: inv_def refs_ok_def)
  have item: "w_goal_id w \<in> g_id ` set (goals s)" if "w \<in> set (work_items s)" for w
    using subsetD [OF refs(2) imageI [OF that]] refs(1) by auto
  then show "w \<in> set (work_items s) \<Longrightarrow> \<exists>g \<in> set (goals s). g_id g = w_goal_id w" by force
  assume x: "x \<in> set (checkpoints s)"
  obtain a where "a \<in> set (attempts s)" "a_goal_id a = c_goal_id x"
    using subsetD [OF refs(4) imageI [OF x]] by auto
  with subsetD [OF refs(3) imageI] obtain v where "v \<in> set (work_items s)" "w_goal_id v = c_goal_id x" by force
  with item show "\<exists>g \<in> set (goals s). g_id g = c_goal_id x" by force
qed

lemma recovered_items:
  assumes "recover_tx now gid actor s = Inr (parked, t)" and "\<exists>g \<in> set (goals s). g_id g = gid"
    and w: "w \<in> set (work_items t)" "w_goal_id w = gid"
  shows "\<not> (w_status w = Running \<and> lease_expired now w) \<and> \<not> unlockable t gid w"
  using assms(1,2)
proof (rule recover_txE)
  fix s1 s2
  assume s2: "s2 = fold (expire_item now) (expired_rows now gid s1) s1"
    and t: "work_items t = work_items (snd (unlock_ready_work_tx now gid s2))" "deps t = deps s2"
  have "unlockable t gid w \<longleftrightarrow> unlockable (snd (unlock_ready_work_tx now gid s2)) gid w"
    by (simp add: unlockable_def t)
  moreover from w obtain v where "v \<in> set (work_items s2)"
      "w = (if unlockable s2 gid v then v\<lparr>w_status := Ready, w_updated_at := now\<rparr> else v)"
    by (auto simp: t unlock_ready_work_tx_def elim!: mem_update_whereE)
  ultimately show ?thesis
    using expire_items_settled [of v now gid s1] unlock_done [of w now gid s2] w
    by (auto simp: s2 t(1) split: if_splits)
qed

lemma recovered_checkpoints:
  assumes "recover_tx now gid actor s = Inr (parked, t)" and "\<exists>g \<in> set (goals s). g_id g = gid"
    and x: "x \<in> set (checkpoints t)" "c_goal_id x = gid"
  shows "c_phase x \<noteq> Committed"
  using assms(1,2)
proof (rule recover_txE)
  fix s1 s2
  assume s1: "reconcile_all now (committed_checkpoints s gid) s = Inr s1"
    and s2: "s2 = fold (expire_item now) (expired_rows now gid s1) s1" and t: "checkpoints t = checkpoints s2"
  show ?thesis
  proof
    assume com: "c_phase x = Committed"
    from x(1) have "x \<in> set (checkpoints s1)" using expire_items_committed [OF _ com] by (simp add: t s2)
    from reconcile_all_committed [OF s1 this com] x(2) com show False
      by (auto simp: committed_checkpoints_set decode_checkpoint_def image_iff)
  qed
qed

lemma recover_no_goal:
  "recover_tx now gid actor s = Inr (parked, t) \<Longrightarrow> \<not> (\<exists>g \<in> set (goals s). g_id g = gid) \<Longrightarrow> t = s"
  by (auto simp: recover_tx_def ensure_valid_id_def)

lemma recover_settled:
  assumes "inv c s" and tx: "recover_tx now gid actor s = Inr (parked, t)"
  shows "w \<in> set (work_items t) \<Longrightarrow> w_goal_id w = gid \<Longrightarrow>
      \<not> (w_status w = Running \<and> lease_expired now w) \<and> \<not> unlockable t gid w"
    and "x \<in> set (checkpoints t) \<Longrightarrow> c_goal_id x = gid \<Longrightarrow> c_phase x \<noteq> Committed"
  using recovered_items [OF tx] recovered_checkpoints [OF tx] recover_no_goal [OF tx] goal_of_rows [OF assms(1)]
  by metis+

text \<open>
  C36: recovery always succeeds and settles the goal. Afterwards no work item of the goal runs
  under an expired lease, no committed checkpoint is left unreconciled, and no pending item is
  left whose predecessors have all succeeded.
\<close>

theorem recovery_settles_goal:
  assumes "reachable E s" and "text_ok 160 gid"
  shows "\<exists>parked t. recover_tx now gid actor s = Inr (parked, t) \<and>
    (\<forall>w \<in> set (work_items t). w_goal_id w = gid \<longrightarrow>
       \<not> (w_status w = Running \<and> lease_expired now w) \<and> \<not> unlockable t gid w) \<and>
    (\<forall>x \<in> set (checkpoints t). c_goal_id x = gid \<longrightarrow> c_phase x \<noteq> Committed)"
proof -
  from recover_tx_total [OF assms(2)] obtain parked t where tx: "recover_tx now gid actor s = Inr (parked, t)" by blast
  with recover_settled [OF reachable_inv [OF assms(1)] tx] show ?thesis by blast
qed

theorem recovery_settles_goal_witness:
  "\<exists>parked t. recover_tx 200 ''g'' ''op'' ex_prepared = Inr (parked, t) \<and>
    (\<forall>w \<in> set (work_items t). w_goal_id w = ''g'' \<longrightarrow> \<not> (w_status w = Running \<and> lease_expired 200 w))"
proof -
  have "text_ok 160 ''g''" by (simp add: run_defs)
  from recovery_settles_goal [OF ex_reachable(4) this, of 200 "''op''"] show ?thesis by blast
qed

section \<open>The verdict on an expired lease\<close>

lemma reconcile_all_back:
  assumes "reconcile_all now cs s = Inr t"
  shows "(x \<in> set (checkpoints t) \<longrightarrow> c_phase x = Prepared \<longrightarrow> x \<in> set (checkpoints s)) \<and>
    (a \<in> set (attempts t) \<longrightarrow> live_attempt a \<longrightarrow> a \<in> set (attempts s)) \<and>
    attempt_count t wid = attempt_count s wid"
  using assms
proof (induction cs arbitrary: s)
  case (Cons c cs)
  then obtain s1 where s1: "reconcile_checkpoint_tx now c s = Inr s1" and rest: "reconcile_all now cs s1 = Inr t"
    by auto
  have "x \<in> set (checkpoints s1) \<Longrightarrow> c_phase x = Prepared \<Longrightarrow> x \<in> set (checkpoints s)"
    "a \<in> set (attempts s1) \<Longrightarrow> live_attempt a \<Longrightarrow> a \<in> set (attempts s)"
    using s1 by (auto simp: reconcile_checkpoint_tx_def live_attempt_def elim!: mem_update_whereE split: if_splits)
  moreover have "attempt_count s1 wid = attempt_count s wid"
  proof -
    have "attempts s1 = update_where (\<lambda>a. a_id a = cr_attempt_id c \<and> live_attempt a)
        (\<lambda>a. a\<lparr>a_status := AttemptSucceeded, a_finished_at := Some now, a_error := None\<rparr>) (attempts s)"
      using s1 by (auto simp: reconcile_checkpoint_tx_def)
    moreover have "count_where (\<lambda>a. a_work_item_id a = wid \<and> a_status a \<noteq> Void) (update_where
        (\<lambda>a. a_id a = cr_attempt_id c \<and> live_attempt a)
        (\<lambda>a. a\<lparr>a_status := AttemptSucceeded, a_finished_at := Some now, a_error := None\<rparr>) rs) =
      count_where (\<lambda>a. a_work_item_id a = wid \<and> a_status a \<noteq> Void) rs" for rs
      by (induction rs) (auto simp: live_attempt_def)
    ultimately show ?thesis by (simp add: attempt_count_def)
  qed
  ultimately show ?case using Cons.IH [OF rest] by auto
qed simp

lemma attempt_of_item:
  assumes inv: "inv c s" and "x \<in> set (checkpoints s)" "y \<in> set (checkpoints s)" "c_attempt_id x = c_attempt_id y"
  shows "c_work_item_id x = c_work_item_id y"
proof -
  have "(\<lambda>x. (c_attempt_id x, c_work_item_id x, c_goal_id x)) ` set (checkpoints s)
      \<subseteq> (\<lambda>a. (a_id a, a_work_item_id a, a_goal_id a)) ` set (attempts s)"
    using inv by (simp add: inv_def refs_ok_def)
  from subsetD [OF this imageI [OF assms(2)]] subsetD [OF this imageI [OF assms(3)]] obtain a b
    where "a \<in> set (attempts s)" "a_id a = c_attempt_id x" "a_work_item_id a = c_work_item_id x"
      "b \<in> set (attempts s)" "a_id b = c_attempt_id y" "a_work_item_id b = c_work_item_id y"
    by auto
  with attempt_unique [OF inv] assms(4) show ?thesis by metis
qed

lemma prepared_by_live_reconciled:
  assumes inv: "inv c s" and s1: "reconcile_all now (committed_checkpoints s gid) s = Inr s1"
    and none: "\<forall>x \<in> set (checkpoints s). c_work_item_id x = wid \<longrightarrow> c_phase x \<noteq> Committed"
  shows "prepared_by_live s1 P wid \<longleftrightarrow> prepared_by_live s P wid"
proof
  assume "prepared_by_live s1 P wid"
  then show "prepared_by_live s P wid"
    using reconcile_all_back [OF s1] by (fastforce simp: prepared_by_live_def list_ex_iff)
next
  assume "prepared_by_live s P wid"
  then obtain x a where x: "x \<in> set (checkpoints s)" "c_work_item_id x = wid" "c_phase x = Prepared" "P x"
    and a: "a \<in> set (attempts s)" "a_id a = c_attempt_id x" "live_attempt a"
    by (auto simp: prepared_by_live_def list_ex_iff)
  have "a_id a \<notin> cr_attempt_id ` set (committed_checkpoints s gid)"
  proof
    assume "a_id a \<in> cr_attempt_id ` set (committed_checkpoints s gid)"
    then obtain y where "y \<in> set (checkpoints s)" "c_phase y = Committed" "c_attempt_id y = c_attempt_id x"
      using a(2) by (auto simp: committed_checkpoints_set decode_checkpoint_def)
    with attempt_of_item [OF inv this(1) x(1)] none x(2) show False by simp
  qed
  with reconcile_all_other(2) [OF s1 a(1)] reconcile_all_other(3) [OF s1 x(1)] x a
  show "prepared_by_live s1 P wid" by (auto simp: prepared_by_live_def list_ex_iff)
qed

text \<open>The effect of the attempt may or may not have happened, and must not happen twice.\<close>

definition ambiguous_effect :: "db \<Rightarrow> work_item_row \<Rightarrow> bool" where
  "ambiguous_effect s w \<longleftrightarrow>
     (\<exists>x \<in> set (checkpoints s). c_work_item_id x = w_id w \<and> c_phase x = Prepared \<and>
        (w_effect w = ExternalWrite \<or> \<not> c_replay_safe x) \<and>
        (\<exists>a \<in> set (attempts s). a_id a = c_attempt_id x \<and> live_attempt a))"

lemma ambiguous_effect_prepared:
  "ambiguous_effect s w \<longleftrightarrow>
     (w_effect w = ExternalWrite \<and> prepared_by_live s (\<lambda>_. True) (w_id w)) \<or>
     prepared_by_live s (\<lambda>x. \<not> c_replay_safe x) (w_id w)"
  by (auto simp: ambiguous_effect_def prepared_by_live_def list_ex_iff)

definition expired_row_of :: "db \<Rightarrow> work_item_row \<Rightarrow> expired_row" where
  "expired_row_of s w = \<lparr>x_id = w_id w, x_effect = w_effect w, x_max_attempts = w_max_attempts w,
     x_backoff_secs = w_backoff_secs w, x_attempt_count = attempt_count s (w_id w),
     x_has_prepared = prepared_by_live s (\<lambda>_. True) (w_id w),
     x_has_unsafe_prepared = prepared_by_live s (\<lambda>c. \<not> c_replay_safe c) (w_id w)\<rparr>"

lemma expired_row_unique:
  assumes inv: "inv c s" and w: "w \<in> set (work_items s)" "w_goal_id w = gid" "w_status w = Running" "lease_expired now w"
  shows "find (\<lambda>x. x_id x = w_id w) (expired_rows now gid s) = Some (expired_row_of s w)"
    and "x \<in> set (expired_rows now gid s) \<Longrightarrow> x_id x = w_id w \<Longrightarrow> x = expired_row_of s w"
    and "expired_row_of s w \<in> set (expired_rows now gid s)"
proof -
  show uniq: "x = expired_row_of s w" if "x \<in> set (expired_rows now gid s)" "x_id x = w_id w" for x
  proof -
    from that(1) obtain v where v: "v \<in> set (work_items s)" "x = expired_row_of s v"
      by (auto simp: expired_rows_def expired_row_of_def)
    with that(2) have "w_id v = w_id w" by (simp add: expired_row_of_def)
    with item_unique [OF inv v(1) w(1)] v(2) show ?thesis by simp
  qed
  show "expired_row_of s w \<in> set (expired_rows now gid s)"
    using w by (auto simp: expired_rows_def expired_row_of_def)
  from expired_rowsD [OF w] obtain x where "find (\<lambda>x. x_id x = w_id w) (expired_rows now gid s) = Some x" ..
  with uniq [of x] find_SomeD [OF this] show "find (\<lambda>x. x_id x = w_id w) (expired_rows now gid s) = Some (expired_row_of s w)"
    by simp
qed

text \<open>
  The verdict on an expired lease. A running work item whose lease has passed and that has no
  committed checkpoint is taken from its worker: it waits for an operator exactly when its effect
  is ambiguous (a checkpoint was prepared for an external write, or for work that is not safe to
  replay), it fails when its attempts are used up, and otherwise it is ready again after its
  backoff. In particular an external write that may have been delivered is never repeated on its
  own.
\<close>

theorem expired_lease_verdict:
  assumes "reachable E s" and w: "w \<in> set (work_items s)" "w_status w = Running" "lease_expired now w"
    and none: "\<forall>x \<in> set (checkpoints s). c_work_item_id x = w_id w \<longrightarrow> c_phase x \<noteq> Committed"
    and tx: "recover_tx now (w_goal_id w) actor s = Inr (parked, t)"
  shows "(w_id w \<in> set parked \<longleftrightarrow> ambiguous_effect s w) \<and>
    (\<exists>v \<in> set (work_items t). w_id v = w_id w \<and> w_lease_token v = None \<and>
       (w_status v, w_next_attempt_at v) =
         (if ambiguous_effect s w then (WaitingConfirmation, None)
          else if w_max_attempts w \<le> int (attempt_count s (w_id w)) then (Failed, None)
          else (Ready, Some (now + w_backoff_secs w))))"
  using tx goal_of_rows(1) [OF reachable_inv [OF assms(1)] w(1)]
proof (rule recover_txE)
  let ?gid = "w_goal_id w"
  fix s1 s2
  assume s1: "reconcile_all now (committed_checkpoints s ?gid) s = Inr s1"
    and s2: "s2 = fold (expire_item now) (expired_rows now ?gid s1) s1"
    and t: "work_items t = work_items (snd (unlock_ready_work_tx now ?gid s2))"
    and parked: "parked = map x_id (filter parks (expired_rows now ?gid s1))"
  note inv = reachable_inv [OF assms(1)]
  have inv1: "inv (env_crates E) s1"
    using changes_inv [OF reconcile_all_changes [OF s1] inv] committed_checkpoints_rows by blast
  have w1: "w \<in> set (work_items s1)"
    by (rule reconcile_all_other(1) [OF s1 w(1)]) (use none in \<open>auto simp: committed_checkpoints_set decode_checkpoint_def\<close>)
  note rows = expired_row_unique [OF inv1 w1 refl w(2,3)]
  have park: "parks (expired_row_of s1 w) \<longleftrightarrow> ambiguous_effect s w"
    using prepared_by_live_reconciled [OF inv s1 none]
    by (simp add: parks_def expired_row_of_def ambiguous_effect_prepared)
  let ?v = "expired_item now (expired_row_of s1 w) w"
  have verdict: "(w_status ?v, w_next_attempt_at ?v) =
         (if ambiguous_effect s w then (WaitingConfirmation, None)
          else if w_max_attempts w \<le> int (attempt_count s (w_id w)) then (Failed, None)
          else (Ready, Some (now + w_backoff_secs w)))" "w_lease_token ?v = None"
    using park reconcile_all_back [OF s1] by (simp_all add: expired_item_def expiry_verdict_def expired_row_of_def)
  have "?v \<in> set (work_items s2)"
    unfolding s2 expire_items_rows using w1 w(2) rows(1) by (auto intro!: image_eqI [of _ _ w])
  moreover have "w_status ?v \<noteq> Pending" using verdict(1) by (auto split: if_splits)
  ultimately have "?v \<in> set (work_items t)"
    using update_where_mem [of ?v "work_items s2" "unlockable s2 ?gid" "\<lambda>w. w\<lparr>w_status := Ready, w_updated_at := now\<rparr>"]
    by (simp add: t unlock_ready_work_tx_def unlockable_def)
  moreover have "w_id w \<in> set parked \<longleftrightarrow> parks (expired_row_of s1 w)"
  proof
    assume "w_id w \<in> set parked"
    then obtain x where "x \<in> set (expired_rows now ?gid s1)" "parks x" "x_id x = w_id w"
      by (auto simp: parked)
    with rows(2) [of x] show "parks (expired_row_of s1 w)" by simp
  next
    assume "parks (expired_row_of s1 w)"
    with rows(3) have "x_id (expired_row_of s1 w) \<in> set parked" by (simp add: parked)
    then show "w_id w \<in> set parked" by (simp add: expired_row_of_def)
  qed
  ultimately show ?thesis using verdict park expired_item_fields(1) by blast
qed

theorem expired_lease_verdict_witness:
  "ambiguous_effect ex_prepared ex_a_running \<and> ''wa'' \<in> set [''wa''] \<and>
   (\<exists>v \<in> set (work_items ex_parked). w_id v = ''wa'' \<and> w_status v = WaitingConfirmation)"
proof -
  have amb: "ambiguous_effect ex_prepared ex_a_running"
    by (simp add: ambiguous_effect_def run_defs)
  have w: "ex_a_running \<in> set (work_items ex_prepared)" "w_status ex_a_running = Running" "lease_expired 200 ex_a_running"
    "\<forall>x \<in> set (checkpoints ex_prepared). c_work_item_id x = w_id ex_a_running \<longrightarrow> c_phase x \<noteq> Committed"
    by (simp_all add: run_defs lease_expired_def)
  have "w_goal_id ex_a_running = ''g''" "w_id ex_a_running = ''wa''" by (simp_all add: run_defs)
  with expired_lease_verdict [OF ex_reachable(4) w, of "''op''"] ex_park amb show ?thesis by auto
qed

section \<open>Pending work waits for a reason\<close>

lemma dep_goal:
  assumes "reachable E s" and d: "d \<in> set (deps s)" "d_work_item d = w_id w" "w_id p = d_depends_on d"
    and wp: "w \<in> set (work_items s)" "p \<in> set (work_items s)"
  shows "w_goal_id p = w_goal_id w"
proof -
  from reachable_deps [OF assms(1)] d(1) have "dep_within s d" by (simp add: deps_ok_def)
  then obtain v q where "v \<in> set (work_items s)" "w_id v = w_id w" "q \<in> set (work_items s)" "w_id q = w_id p"
      "w_goal_id v = w_goal_id q"
    using d(2,3) by (auto simp: dep_within_def)
  with item_unique [OF reachable_inv [OF assms(1)]] wp show ?thesis by metis
qed

text \<open>
  C37: no deadlock. After a recovery, every work item of the goal that is still pending waits,
  directly or through other pending items, for an item of the same goal that is neither pending
  nor succeeded: one that can be claimed, is running, awaits confirmation, or is blocked, failed
  or canceled.
\<close>

theorem pending_work_has_cause:
  assumes reach: "reachable E s" and tx: "recover_tx now gid actor s = Inr (parked, t)"
    and "w \<in> set (work_items t)" and "w_goal_id w = gid" and "w_status w = Pending"
  shows "\<exists>v \<in> set (work_items t). w_goal_id v = gid \<and> (w_id v, w_id w) \<in> (dep_rel (deps t))\<^sup>+ \<and>
    w_status v \<notin> {Pending, Succeeded}"
proof -
  have reach': "reachable E t"
    using reachable_steps [OF reach] loop_step.recover [OF tx] by blast
  have "wf (dep_rel (deps t))"
    using reachable_inv [OF reach'] finite_dep_rel by (intro finite_acyclic_wf) (simp_all add: inv_def)
  then show ?thesis
    using assms(3-5)
  proof (induction "w_id w" arbitrary: w rule: wf_induct_rule)
    case less
    have "\<not> unlockable t gid w" using recover_settled(1) [OF reachable_inv [OF reach] tx] less.prems by blast
    then obtain d p where d: "d \<in> set (deps t)" "d_work_item d = w_id w" and p: "p \<in> set (work_items t)"
        "w_id p = d_depends_on d" "w_status p \<noteq> Succeeded"
      using less.prems by (auto simp: unlockable_def list_ex_iff)
    have edge: "(w_id p, w_id w) \<in> dep_rel (deps t)" using d p(2) by (force simp: dep_rel_def)
    have goal: "w_goal_id p = gid" using dep_goal [OF reach' d p(2) less.prems(1) p(1)] less.prems(2) by simp
    show ?case
    proof (cases "w_status p = Pending")
      case True
      from less.hyps [OF edge p(1) goal True] edge show ?thesis by (meson trancl.trancl_into_trancl)
    next
      case False
      with p edge goal show ?thesis by blast
    qed
  qed
qed

theorem pending_work_has_cause_witness:
  "\<exists>v \<in> set (work_items ex_parked). w_goal_id v = ''g'' \<and> (w_id v, ''wb'') \<in> (dep_rel (deps ex_parked))\<^sup>+ \<and>
    w_status v \<notin> {Pending, Succeeded}"
proof -
  have "ex_b \<in> set (work_items ex_parked)" "w_goal_id ex_b = ''g''" "w_status ex_b = Pending" "w_id ex_b = ''wb''"
    by (simp_all add: run_defs)
  with pending_work_has_cause [OF ex_reachable(4) ex_park, of ex_b] show ?thesis by simp
qed

section \<open>Failure reaches exactly the downstream items\<close>

lemma downstream_round_set:
  "set (downstream_round ds xs) = set xs \<union> dep_rel ds `` set xs"
  by (auto simp: downstream_round_def dep_rel_def Image_def)

lemma downstream_rounds_set:
  "set ((downstream_round ds ^^ n) (dependents ds wid)) = (\<Union>k \<in> {1..Suc n}. {v. (wid, v) \<in> dep_rel ds ^^ k})"
proof (induction n)
  case 0
  show ?case by (auto simp: dependents_def dep_rel_def)
next
  case (Suc n)
  have "dep_rel ds `` (\<Union>k \<in> {1..Suc n}. {v. (wid, v) \<in> dep_rel ds ^^ k}) =
      (\<Union>k \<in> {1..Suc n}. {v. (wid, v) \<in> dep_rel ds ^^ Suc k})"
    by (auto simp: Image_def)
  also have "\<dots> = (\<Union>k \<in> {2..Suc (Suc n)}. {v. (wid, v) \<in> dep_rel ds ^^ k})"
    by (simp add: image_Suc_atLeastAtMost [symmetric] numeral_2_eq_2 del: relpow.simps image_Suc_atLeastAtMost)
  finally have step: "dep_rel ds `` (\<Union>k \<in> {1..Suc n}. {v. (wid, v) \<in> dep_rel ds ^^ k}) =
      (\<Union>k \<in> {2..Suc (Suc n)}. {v. (wid, v) \<in> dep_rel ds ^^ k})" .
  have "{1..Suc (Suc n)} = {1..Suc n} \<union> {2..Suc (Suc n)}" by auto
  then show ?case using Suc step by (simp add: downstream_round_set del: relpow.simps)
qed

lemma set_downstream: "set (downstream ds wid) = {v. (wid, v) \<in> (dep_rel ds)\<^sup>+}"
proof -
  have "card (dep_rel ds) \<le> length ds"
    unfolding dep_rel_def using card_image_le [of "set ds"] card_length [of ds] by (meson List.finite_set order_trans)
  then have "(\<Union>k \<in> {k. 0 < k \<and> k \<le> card (dep_rel ds)}. dep_rel ds ^^ k) \<subseteq> (\<Union>k \<in> {1..Suc (length ds)}. dep_rel ds ^^ k)"
    by (intro UN_mono) auto
  moreover have "(\<Union>k \<in> {1..Suc (length ds)}. dep_rel ds ^^ k) \<subseteq> (dep_rel ds)\<^sup>+"
    by (force simp: trancl_power Suc_le_eq)
  ultimately have "(dep_rel ds)\<^sup>+ = (\<Union>k \<in> {1..Suc (length ds)}. dep_rel ds ^^ k)"
    using trancl_finite_eq_relpow [of "dep_rel ds"] finite_dep_rel by auto
  then show ?thesis unfolding downstream_def downstream_rounds_set by auto
qed

text \<open>
  The recursive query of \<open>fail_attempt\<close> computes the transitive closure of the dependency
  table: the items downstream of a work item are exactly those that depend on it, directly or
  indirectly. The number of rounds (one per row of the table) is enough for its fixed point.
\<close>

theorem downstream_is_closure:
  "v \<in> set (downstream ds wid) \<longleftrightarrow> (wid, v) \<in> (dep_rel ds)\<^sup>+"
  by (simp add: set_downstream)

text \<open>
  C38: a final failure blocks exactly what depends on it. When a worker reports a failure that is
  not retried, its work item fails and gives up its lease, the pending and ready items downstream
  of it become blocked, and every other work item keeps its row.
\<close>

theorem failure_blocks_downstream:
  assumes "reachable E s" and cur: "ensure_claim_current now cl s = Inr ()"
    and w: "find_item s wid = Some w" and wid: "wid = wr_id (cl_work_item cl)"
    and final: "\<not> (retryable \<and> int (attempt_count s wid) < w_max_attempts w)"
  shows "\<exists>t. fail_tx now cl error retryable actor s = Inr ((), t) \<and>
    work_items t = map (\<lambda>v.
      if w_id v = wid
      then v\<lparr>w_status := Failed, w_lease_token := None, w_lease_until := None, w_next_attempt_at := None,
             w_last_error := Some (chars_take 2000 error), w_updated_at := now\<rparr>
      else if (wid, w_id v) \<in> (dep_rel (deps s))\<^sup>+ \<and> w_status v \<in> {Pending, Ready}
      then v\<lparr>w_status := Blocked, w_updated_at := now\<rparr> else v) (work_items s)"
proof -
  note inv = reachable_inv [OF assms(1)]
  have run: "w_status v = Running" if "v \<in> set (work_items s)" "w_id v = wid" for v
  proof -
    from cur obtain u where "u \<in> set (work_items s)" "w_id u = wid" "w_status u = Running"
      unfolding wid by (rule claim_currentE)
    with item_unique [OF inv that(1)] that(2) show ?thesis by metis
  qed
  have ac: "(wid, wid) \<notin> (dep_rel (deps s))\<^sup>+" using inv by (simp add: inv_def acyclic_def)
  have nr: "(retryable \<and> int (attempt_count s wid) < w_max_attempts w) = False" using final by simp
  obtain t where tx: "fail_tx now cl error retryable actor s = Inr ((), t)"
    and t: "work_items t = update_where (\<lambda>x. w_id x \<in> set (downstream (deps s) wid) \<and> w_status x \<in> {Pending, Ready})
        (\<lambda>x. x\<lparr>w_status := Blocked, w_updated_at := now\<rparr>)
      (update_where (\<lambda>x. w_id x = wid \<and> w_status x = Running)
        (\<lambda>x. x\<lparr>w_status := Failed, w_lease_token := None, w_lease_until := None, w_next_attempt_at := None,
               w_last_error := Some (chars_take 2000 error), w_updated_at := now\<rparr>) (work_items s))"
    using cur w unfolding fail_tx_def Let_def wid [symmetric] by (simp add: nr)
  have "work_items t = map (\<lambda>v.
      if w_id v = wid
      then v\<lparr>w_status := Failed, w_lease_token := None, w_lease_until := None, w_next_attempt_at := None,
             w_last_error := Some (chars_take 2000 error), w_updated_at := now\<rparr>
      else if (wid, w_id v) \<in> (dep_rel (deps s))\<^sup>+ \<and> w_status v \<in> {Pending, Ready}
      then v\<lparr>w_status := Blocked, w_updated_at := now\<rparr> else v) (work_items s)"
    unfolding t update_where_def map_map set_downstream by (rule map_cong [OF refl]) (use run ac in auto)
  with tx show ?thesis by blast
qed

theorem failure_blocks_downstream_witness:
  "\<exists>t. fail_tx 105 ex_claim ''boom'' False ''op'' ex_prepared = Inr ((), t) \<and>
    map w_status (work_items t) = [Failed, Blocked]"
proof -
  have cur: "ensure_claim_current 105 ex_claim ex_prepared = Inr ()" by (simp add: run_defs)
  have w: "find_item ex_prepared ''wa'' = Some ex_a_running" "''wa'' = wr_id (cl_work_item ex_claim)"
    "\<not> (False \<and> int (attempt_count ex_prepared ''wa'') < w_max_attempts ex_a_running)"
    by (simp_all add: run_defs)
  have items: "work_items ex_prepared = [ex_a_running, ex_b]" and "(''wa'', ''wb'') \<in> dep_rel (deps ex_prepared)"
    by (simp_all add: ex_prepared_def ex_state_def dep_rel_def)
  moreover have "w_id ex_a_running = ''wa''" "w_id ex_b = ''wb''" "w_status ex_b = Pending" by (simp_all add: run_defs)
  ultimately show ?thesis
    using failure_blocks_downstream [OF ex_reachable(4) cur w, of "''boom''" "''op''"] by (auto simp: r_into_trancl)
qed

end
