(* ===== verification/Loop_Control.thy ===== *)
theory Loop_Control
  imports Loop_Settle
begin

text \<open>
  How a goal in execution is steered: extensions stay within what was reviewed, the operator's
  verdict on parked work decides its fate, and the goal's status follows its work items.
\<close>

section \<open>Extension\<close>








section \<open>The operator's verdict\<close>

lemma resolve_attempt_count: "attempt_count (resolve_attempt now res reason aid s) wid = attempt_count s wid"
proof -
  have cnt: "count_where (\<lambda>a. a_work_item_id a = wid \<and> a_status a \<noteq> Void) (update_where p
      (\<lambda>a. a\<lparr>a_status := (case res of Confirmed \<Rightarrow> AttemptSucceeded | Retry \<Rightarrow> Abandoned | ResolveAbandoned \<Rightarrow> AttemptFailed),
             a_finished_at := f, a_error := e\<rparr>) rs) =
    count_where (\<lambda>a. a_work_item_id a = wid \<and> a_status a \<noteq> Void) rs" if "\<And>a. p a \<Longrightarrow> a_status a = AttemptWaiting" for p f e rs
    by (induction rs) (auto simp: that split: confirmation_resolution.split)
  show ?thesis
    unfolding attempt_count_def resolve_attempt_def upd_attempts_simps by (rule cnt) simp
qed

lemma resolve_checkpoint_simps [simp]:
  "work_items (resolve_checkpoint now res reason cid s) = work_items s"
  "attempts (resolve_checkpoint now res reason cid s) = attempts s"
  by (simp_all add: resolve_checkpoint_def split: confirmation_resolution.split)

lemma resolve_rows_simps [simp]:
  "checkpoints (resolve_item now res reason exhausted wid s) = checkpoints s"
  "checkpoints (resolve_attempt now res reason aid s) = checkpoints s"
  "work_items (resolve_attempt now res reason aid s) = work_items s"
  by (simp_all add: resolve_item_def resolve_attempt_def split_beta)

text \<open>
  The operator decides parked work. A confirmation can be resolved only for a work item of
  the goal that awaits it. Confirming makes the item succeed, with a reconciled checkpoint that
  records the operator's attestation; authorizing a retry makes it ready, or fails it when its
  attempts are used up; abandoning fails it.
\<close>

theorem confirmation_verdict:
  assumes "resolve_tx now gid wid res reason actor s = Inr (u, t)"
  shows "\<exists>w \<in> set (work_items s). w_id w = wid \<and> w_goal_id w = gid \<and> w_status w = WaitingConfirmation \<and>
    (\<exists>v \<in> set (work_items t). w_id v = wid \<and> w_status v =
       (case res of Confirmed \<Rightarrow> Succeeded
        | Retry \<Rightarrow> if w_max_attempts w \<le> int (attempt_count s wid) then Failed else Ready
        | ResolveAbandoned \<Rightarrow> Failed)) \<and>
    (res = Confirmed \<longrightarrow> (\<exists>x \<in> set (checkpoints t). c_phase x = Reconciled \<and>
       c_outcome x = Some (confirmed_outcome (trim reason))))"
proof -
  from assms obtain w arow crow item attempt where
    w: "find (\<lambda>w. w_id w = wid \<and> w_goal_id w = gid) (work_items s) = Some w" "decode_work_item w = Inr item"
      "wr_status item = WaitingConfirmation"
    and "last_row (select_ordered a_number (\<lambda>a. a_work_item_id a = wid \<and> a_status a = AttemptWaiting) (attempts s)) = Some arow"
      "decode_attempt arow = Inr attempt"
    and c: "last_row (filter (\<lambda>c. c_attempt_id c = ar_id attempt \<and> c_phase c = Prepared) (checkpoints s)) = Some crow"
    and t: "work_items t = work_items (snd (unlock_ready_work_tx now gid (resolve_item now res (trim reason)
        (wr_max_attempts item \<le> int (attempt_count (resolve_attempt now res (trim reason) (ar_id attempt)
           (resolve_checkpoint now res (trim reason) (c_id crow) s)) wid)) wid
        (resolve_attempt now res (trim reason) (ar_id attempt) (resolve_checkpoint now res (trim reason) (c_id crow) s)))))"
      "checkpoints t = checkpoints (resolve_checkpoint now res (trim reason) (c_id crow) s)"
    unfolding resolve_tx_def ensure_valid_id_def Let_def
    by clarsimp
  have wm: "w \<in> set (work_items s)" "w_id w = wid" "w_goal_id w = gid" using find_SomeD [OF w(1)] by simp_all
  have st: "w_status w = WaitingConfirmation" "wr_max_attempts item = w_max_attempts w"
    using w(2,3) by (auto simp: decode_work_item_def)
  define ex where "ex = (w_max_attempts w \<le> int (attempt_count s wid))"
  define s1 where "s1 = resolve_attempt now res (trim reason) (ar_id attempt) (resolve_checkpoint now res (trim reason) (c_id crow) s)"
  define s2 where "s2 = resolve_item now res (trim reason) ex wid s1"
  have "attempt_count s1 wid = attempt_count s wid"
    by (simp add: s1_def resolve_attempt_count) (simp add: attempt_count_def)
  then have t2: "work_items t = work_items (snd (unlock_ready_work_tx now gid s2))"
    using t(1) by (simp add: st ex_def s1_def s2_def)
  have w1: "w \<in> set (work_items s1)" using wm(1) by (simp add: s1_def resolve_attempt_def)
  obtain status na le where f: "resolve_item_fields now res (trim reason) ex = (status, na, le)" by (metis prod_cases3)
  let ?v = "w\<lparr>w_status := status, w_lease_token := None, w_lease_until := None, w_next_attempt_at := na,
      w_last_error := le, w_updated_at := now\<rparr>"
  have "?v \<in> set (work_items s2)"
    using update_where_mem [OF w1, of "\<lambda>w. w_id w = wid \<and> w_status w = WaitingConfirmation"
      "\<lambda>w. w\<lparr>w_status := status, w_lease_token := None, w_lease_until := None, w_next_attempt_at := na,
         w_last_error := le, w_updated_at := now\<rparr>"] wm(2) st(1)
    by (simp add: s2_def resolve_item_def f)
  moreover have status: "status = (case res of Confirmed \<Rightarrow> Succeeded | Retry \<Rightarrow> if ex then Failed else Ready
      | ResolveAbandoned \<Rightarrow> Failed)"
    using f by (auto simp: resolve_item_fields_def split: confirmation_resolution.splits if_splits)
  moreover from status have "status \<noteq> Pending" by (auto split: confirmation_resolution.splits if_splits)
  ultimately have v: "?v \<in> set (work_items t)"
    using update_where_mem [of ?v "work_items s2" "unlockable s2 gid" "\<lambda>w. w\<lparr>w_status := Ready, w_updated_at := now\<rparr>"]
    by (simp add: t2 unlock_ready_work_tx_def unlockable_def)
  have cm: "crow \<in> set (checkpoints s)" "c_phase crow = Prepared" using last_row_SomeD [OF c] by simp_all
  have "\<exists>x \<in> set (checkpoints t). c_phase x = Reconciled \<and> c_outcome x = Some (confirmed_outcome (trim reason))"
    if "res = Confirmed"
    unfolding t(2) resolve_checkpoint_def that confirmation_resolution.case upd_checkpoints_simps
    by (rule bexI [OF _ update_where_mem [OF update_where_mem [OF cm(1)]]]) (simp add: cm(2))
  with v wm st status show ?thesis
    by (intro bexI [of _ w] conjI bexI [of _ ?v]) (auto simp: ex_def)
qed

theorem confirmation_verdict_witness:
  "\<exists>t. resolve_tx 210 ''g'' ''wa'' Retry ''lost'' ''op'' ex_parked = Inr ((), t) \<and>
     (\<exists>v \<in> set (work_items t). w_id v = ''wa'')"
proof -
  have texts: "text_ok 160 ''g''" "text_ok 160 ''wa''" "trim ''lost'' = ''lost''" by (simp_all add: run_defs)
  have "\<exists>t. resolve_tx 210 ''g'' ''wa'' Retry ''lost'' ''op'' ex_parked = Inr ((), t)"
    by (simp add: resolve_tx_def ensure_valid_id_def texts ex_parked_def ex_state_def ex_a_parked_def ex_a_def
        ex_b_def ex_attempt_parked_def ex_attempt_def ex_checkpoint_def decode_work_item_def decode_attempt_def
        select_ordered_def last_row_def Let_def)
  then obtain t where tx: "resolve_tx 210 ''g'' ''wa'' Retry ''lost'' ''op'' ex_parked = Inr ((), t)" by blast
  from confirmation_verdict [OF tx] tx show ?thesis by blast
qed

section \<open>The status of a goal\<close>



end
