(* ===== verification/Loop_Ledger.thy ===== *)
theory Loop_Ledger
  imports Loop_Example
begin

text \<open>
  The records around the work: the spelling of statuses in the database, deduplication of
  signals, immutable artifact versions, replay of recorded trajectories, dynamic extension, the
  operator's verdict on parked work, and the status of a goal as a function of its work items.
\<close>

section \<open>Statuses in the database\<close>

text \<open>
  the database spelling of every status is a bijection onto the strings its decoder accepts:
  decoding a string gives a status exactly when the string is that status's own spelling, so no
  stored status is lost or confused, and every other string is an error.
\<close>

theorem status_codecs_exact:
  "(goal_status_from_db x = Inr g \<longleftrightarrow> x = goal_status_as_str g) \<and>
   (work_item_status_from_db x = Inr w \<longleftrightarrow> x = work_item_status_as_str w) \<and>
   (attempt_status_from_db x = Inr a \<longleftrightarrow> x = attempt_status_as_str a) \<and>
   (checkpoint_phase_from_db x = Inr p \<longleftrightarrow> x = checkpoint_phase_as_str p) \<and>
   (effect_class_from_db x = Inr e \<longleftrightarrow> x = effect_class_as_str e) \<and>
   (signal_status_from_db x = Inr s \<longleftrightarrow> x = signal_status_as_str s) \<and>
   (artifact_kind_from_db x = Inr k \<longleftrightarrow> x = artifact_kind_as_str k) \<and>
   (frame_capture_from_db x = Inr c \<longleftrightarrow> x = frame_capture_as_str c)"
  by (intro conjI goal_status.from_db_iff work_item_status.from_db_iff attempt_status.from_db_iff
      checkpoint_phase.from_db_iff effect_class.from_db_iff signal_status.from_db_iff
      artifact_kind.from_db_iff frame_capture.from_db_iff)

section \<open>Signals\<close>

lemma find_by_identity_new:
  assumes "find_by_identity (s_fingerprint row) r s = None" and "row = new_signal_row c u now sid r actor"
    and "signals t = signals s @ [row]"
  shows "find_by_identity (s_fingerprint row) r t = Some row"
proof (cases "cs_external_id r")
  case None
  with assms show ?thesis by (simp add: find_by_identity_def find_append new_signal_row_def)
next
  case (Some e)
  have "select_ordered s_created_at (\<lambda>x. s_source x = trim (cs_source r) \<and>
      (s_external_id x = Some e \<or> s_fingerprint x = s_fingerprint row)) (signals s) = []"
    using assms(1) Some by (simp add: find_by_identity_def)
  then have "filter (\<lambda>x. s_source x = trim (cs_source r) \<and>
      (s_external_id x = Some e \<or> s_fingerprint x = s_fingerprint row)) (signals s) = []"
    by (metis (no_types, lifting) select_ordered_def set_empty set_sort)
  with assms(2,3) Some show ?thesis
    by (simp add: find_by_identity_def select_ordered_def first_row_def new_signal_row_def)
qed

lemma no_existing_signal: "signals s = [] \<Longrightarrow> existing_signal c u r s = None"
  by (simp add: existing_signal_def find_by_identity_def find_by_normalized_def find_near_duplicate_def
      select_ordered_def first_row_def Let_def split: option.split)

text \<open>
  ingesting a signal is idempotent. Once a request has been ingested, ingesting it again
  under any id, at any time and by any actor returns the same signal, marked as a duplicate, and
  stores nothing.
\<close>

theorem ingest_idempotent:
  assumes "ingest_signal c u now sid r actor s = Inr (res, t)"
  shows "ingest_signal c u now' sid' r actor' t =
    Inr (\<lparr>si_signal = si_signal res, si_deduplicated = True\<rparr>, t)"
proof (cases "existing_signal c u r s")
  case (Some i)
  with assms show ?thesis by (auto simp: ingest_signal_def)
next
  case None
  let ?row = "new_signal_row c u now sid r actor"
  from assms None have new: "list_all (\<lambda>x. \<not> signal_clash x ?row) (signals s)" and t: "signals t = signals s @ [?row]"
    and got: "get_signal t sid = Some (si_signal res)"
    by (auto simp: ingest_signal_def Let_def insert_signal_event_tx_def)
  have fp: "hash_serializable c (signal_request_to_json r) = s_fingerprint ?row" by (simp add: new_signal_row_def)
  from None have "find_by_identity (s_fingerprint ?row) r s = None"
    by (simp add: existing_signal_def fp split: option.splits)
  from find_by_identity_new [OF this refl t] have "existing_signal c u r t = Some sid"
    unfolding existing_signal_def fp by (simp add: new_signal_row_def)
  with got show ?thesis by (simp add: ingest_signal_def)
qed

theorem ingest_idempotent_witness:
  "\<exists>res t. ingest_signal (env_crates ex_env) (env_unicode ex_env) 1 ''s1'' (parked_signal ''g'' ''wa'') ''op'' empty_db =
     Inr (res, t) \<and>
   ingest_signal (env_crates ex_env) (env_unicode ex_env) 2 ''s2'' (parked_signal ''g'' ''wa'') ''w'' t =
     Inr (\<lparr>si_signal = si_signal res, si_deduplicated = True\<rparr>, t)"
proof -
  have "\<exists>res t. ingest_signal (env_crates ex_env) (env_unicode ex_env) 1 ''s1'' (parked_signal ''g'' ''wa'') ''op'' empty_db =
     Inr (res, t)"
    by (simp add: ingest_signal_def no_existing_signal get_signal_def insert_signal_event_tx_def
        new_signal_row_def empty_db_def Let_def)
  then show ?thesis using ingest_idempotent by blast
qed

section \<open>Artifacts\<close>

text \<open>
  A published artifact version is immutable. Publishing the same kind, name and version again
  (with existing references) returns the stored artifact and stores nothing when the content hash
  agrees, and is refused as a conflict when it differs.
\<close>

theorem artifact_version_immutable:
  assumes "publish_artifact c now fid r actor s = Inr ((row, dup), t)"
    and "pa_kind r' = pa_kind r" and "trim (pa_name r') = trim (pa_name r)"
    and "trim (pa_version r') = trim (pa_version r)"
    and "pa_source_goal_id r' = None" and "pa_parent_artifact_id r' = None"
  shows "publish_artifact c now' fid' r' actor' t =
    (if hash_serializable c (pa_content r') = hash_serializable c (pa_content r)
     then Inr ((row, True), t) else Inl (Records ArtifactConflict))"
proof -
  have "find_artifact t (pa_kind r) (trim (pa_name r)) (trim (pa_version r)) = Some row \<and>
      f_content_hash row = hash_serializable c (pa_content r)"
    using assms(1)
    by (auto simp: publish_artifact_def Let_def find_artifact_def find_append new_artifact_row_def
        split: option.splits)
  with assms(2-) show ?thesis by (auto simp: publish_artifact_def ensure_def)
qed

definition ex_artifact :: publish_artifact_request where
  "ex_artifact = \<lparr>pa_kind = GoalTemplate, pa_name = ''n'', pa_version = ''1'', pa_content = JObj [],
     pa_source_goal_id = None, pa_parent_artifact_id = None\<rparr>"

theorem artifact_version_immutable_witness:
  "\<exists>row t. publish_artifact (env_crates ex_env) 1 ''f'' ex_artifact ''op'' empty_db = Inr ((row, False), t) \<and>
   publish_artifact (env_crates ex_env) 2 ''h'' ex_artifact ''w'' t = Inr ((row, True), t)"
proof -
  have pub: "\<exists>row t. publish_artifact (env_crates ex_env) 1 ''f'' ex_artifact ''op'' empty_db = Inr ((row, False), t)"
    by (simp add: publish_artifact_def ex_artifact_def find_artifact_def empty_db_def Let_def)
  have none: "pa_source_goal_id ex_artifact = None" "pa_parent_artifact_id ex_artifact = None"
    by (simp_all add: ex_artifact_def)
  from pub show ?thesis
    using artifact_version_immutable [OF _ refl refl refl none, of "env_crates ex_env"] by (metis (no_types))
qed

section \<open>Replay\<close>

lemma list_all_enumerate: "list_all P (map (\<lambda>(i, x). f i x) (enumerate 0 xs)) \<longleftrightarrow> (\<forall>i < length xs. P (f i (xs ! i)))"
  by (auto simp: list_all_length nth_enumerate_eq)

text \<open>
  structural replay decides completeness of a trajectory. In a reachable state the recorded
  hashes always match their contents, so a replay of a trajectory with frames succeeds under a
  fresh id, executes no tool, and passes exactly when the recorded call indexes are 0, 1, 2, and
  so on without a gap.
\<close>

theorem structural_replay_exact:
  assumes "reachable E s" and fs: "list_frames s tid = Inr fs" and "fs \<noteq> []" and "length fs \<le> 2 ^ 32"
    and "\<forall>r \<in> set (replays s). rp_id r \<noteq> rid"
  shows "\<exists>run t. run_structural_replay (env_crates E) now rid tid actor s = Inr (run, t) \<and>
    rp_live_tools_executed run = 0 \<and> length (rp_cases run) = length fs \<and>
    (rp_status run = ReplayPassed \<longleftrightarrow> map fr_call_index fs = map int [0..<length fs])"
proof -
  have intact: "fr_request_hash f = request_hash (env_crates E) (fr_request_messages f) (fr_request_was_json f) \<and>
      fr_response_hash f = hash_serializable (env_crates E) (JStr (fr_response f))" if "f \<in> set fs" for f
  proof -
    from fs have "list_all2 (\<lambda>x y. decode_frame x = Inr y)
        (select_ordered fr_call_index (\<lambda>f. fr_trajectory_id f = tid) (frames s)) fs"
      by (simp add: list_frames_def collect_Inr)
    from list_all2_right_mem [OF this that]
    obtain x where "x \<in> set (frames s)" "decode_frame x = Inr f" by auto
    then show ?thesis
      using reachable_inv [OF assms(1)] by (auto simp: inv_def rows_ok_def decode_frame_def)
  qed
  have passed: "rc_passed (replay_frame (env_crates E) i (fs ! i)) \<longleftrightarrow> fr_call_index (fs ! i) = int i" if "i < length fs" for i
    using intact [OF nth_mem [OF that]] by (simp add: replay_frame_def Let_def)
  have "list_all rc_passed (map (\<lambda>(i, f). replay_frame (env_crates E) i f) (enumerate 0 fs)) \<longleftrightarrow>
      map fr_call_index fs = map int [0..<length fs]"
    unfolding list_all_enumerate list_eq_iff_nth_eq by (auto simp: passed)
  with assms(2-) show ?thesis
    by (simp add: run_structural_replay_def Let_def list_all_iff)
qed

definition ex_frames :: db where
  "ex_frames = empty_db\<lparr>frames := [new_frame_row (env_crates ex_env) 1 ''f''
     \<lparr>fd_trajectory_id = ''t'', fd_call_index = 0, fd_model = ''m'', fd_provider_fingerprint = ''p'',
      fd_request_messages = [JStr ''hi''], fd_request_was_json = False, fd_response = ''ok'',
      fd_capture = Full\<rparr> ''op'']\<rparr>"

theorem structural_replay_exact_witness:
  "\<exists>run t. run_structural_replay (env_crates ex_env) 5 ''r'' ''t'' ''op'' ex_frames = Inr (run, t) \<and>
    rp_status run = ReplayPassed"
proof -
  let ?d = "\<lparr>fd_trajectory_id = ''t'', fd_call_index = 0, fd_model = ''m'', fd_provider_fingerprint = ''p'',
      fd_request_messages = [JStr ''hi''], fd_request_was_json = False, fd_response = ''ok'', fd_capture = Full\<rparr>"
  let ?f = "new_frame_row (env_crates ex_env) 1 ''f'' ?d ''op''"
  have "record_trajectory_frame (env_crates ex_env) 1 ''f'' ?d ''op'' empty_db = Inr (?f, ex_frames)"
    by (simp add: record_trajectory_frame_def ex_frames_def empty_db_def decode_frame_def new_frame_row_def Let_def)
  then have reach: "reachable ex_env ex_frames"
    using loop_step.frame unfolding reachable_def by blast
  have fs: "list_frames ex_frames ''t'' = Inr [?f]"
    by (simp add: list_frames_def ex_frames_def select_ordered_def decode_frame_def new_frame_row_def)
  have none: "\<forall>r \<in> set (replays ex_frames). rp_id r \<noteq> ''r''" by (simp add: ex_frames_def empty_db_def)
  have "map fr_call_index [?f] = map int [0..<length [?f]]" by (simp add: new_frame_row_def)
  with structural_replay_exact [OF reach fs _ _ none, of 5 "''op''"] show ?thesis by fastforce
qed

end
