(* ===== verification/Spec2Isabelle.thy ===== *)
theory Spec2Isabelle
  imports Evolution_Safety Evolution_Scores Evolution_Abandon Evolution_Settle
    Scheduler_Runs Scheduler_Dialog Loop_Safety Loop_Admission Loop_Claims Loop_Control Loop_Ledger
begin

text \<open>
  \<^bold>\<open>The loop engine, the scheduler and the self-evolution harness of a chat agent.\<close>

  The program (a Rust chat agent) keeps a durable work engine under
  \<open>src/src/harness/loop_engine/\<close>. Goals are admitted, planned as a workflow of steps, reviewed,
  approved, and executed by workers that claim one work item at a time under a lease. A worker
  prepares a checkpoint, does its work, commits the outcome and finishes; crashes, expired
  leases, retries, confirmations and dynamic extensions are handled by transactions over a
  SQLite database. Everything a caller can rely on is a property of that database. This
  development models the transactions and proves those properties.

  Beside it runs the scheduler of chat jobs (\<open>src/src/scheduler.rs\<close>, the scheduler tables of
  \<open>src/src/memory.rs\<close>, and the commands and the worker under \<open>src/src/channel/\<close>): users create
  reminders and agent tasks with a once or cron trigger, a worker claims due jobs in batches under a
  lease, delivers them, and settles each run by a plan made from the job's policy. It is modelled in
  the same way, with its own tables \<open>sched_db\<close>.

  The third part is the self-evolution harness (\<open>src/src/harness/evolution.rs\<close>, the evolution half of
  \<open>src/src/harness/store.rs\<close> and its tables in \<open>src/src/memory.rs\<close>): candidates for a system-prompt
  patch are scored in shadow evaluations against the active policy, pass a promotion gate, are
  approved, activated and rolled back. Its tables are \<open>evo_db\<close>. The three parts share no tables.

  \<^bold>\<open>Model.\<close> The database is the record \<open>db\<close> (\<open>Loop_Tables\<close>): one list of row records per table
  of the schema in \<open>store.rs\<close>, in insertion order. SQL statements are list functions of the
  prelude: \<open>update_where\<close> for UPDATE, \<open>filter\<close> and \<open>sort_key\<close> for SELECT with ORDER BY, and the
  keys and CHECK constraints that an INSERT can violate are guards of the transaction. A
  transaction is a function into \<open>loop_error + 'a \<times> db\<close>: on \<open>Inl\<close> the caller keeps the old
  database, which is the rollback. A method that commits and afterwards reads or fails has type
  \<open>(loop_error + 'a) \<times> db\<close>, so the state that survives an error is part of its value. Clock readings,
  fresh ids and elapsed times are arguments; one reading stands for the \<open>unix_now()\<close> and
  \<open>unixepoch()\<close> of one transaction. Signed and unsigned columns are unbounded integers guarded by
  the conversions the code performs (\<open>try_i64\<close>, \<open>try_u\<close>). The serializer, the digest and the Unicode
  tables are third-party code: fields of \<open>crates\<close> and \<open>unicode\<close>, nothing is assumed of them.

  \<^item> \<open>Prelude\<close>: result combinators, list and table lemmas, and interfaces as locales, among them
    \<open>transition_system\<close> (an invariant of reachable states) and \<open>fenced_resource\<close> (a resource whose
    token only grows and whose holder must present it). \<open>Json\<close>: JSON values.
  \<^item> \<open>Workflow_Graph\<close>: the queue-based topological traversal of \<open>validate_with_policy\<close>, its
    termination and its equivalence with acyclicity.
  \<^item> \<open>Loop_Status\<close>, \<open>Loop_Domain\<close> (\<open>domain.rs\<close>): status enums and codecs, errors, workflows,
    requests, outcomes, policies and their validation.
  \<^item> \<open>Loop_Tables\<close>, \<open>Loop_Recovery\<close>, \<open>Loop_Goals\<close>, \<open>Loop_Attempts\<close>, \<open>Loop_Extend\<close> (\<open>store.rs\<close>): the
    tables and decoders; recovery of expired leases, unlocking and status refresh; admission to
    verification; claims, checkpoints, attempts, confirmation; dynamic extension.
  \<^item> \<open>Loop_Signals\<close>, \<open>Loop_Artifacts\<close>, \<open>Loop_SelfTest\<close>, \<open>Loop_Replay\<close>: the files of the same names.
  \<^item> \<open>Loop_Engine\<close> (\<open>engine.rs\<close>): the validating interface over the store.
  \<^item> \<open>Loop_Step\<close>: the system as a transition relation, one rule per committed transaction, with
    arbitrary clocks and ids, so a run interleaves any number of workers, operators and crashes.
    Every engine call is a finite sequence of steps.
  \<^item> \<open>Scheduler\<close> (\<open>scheduler.rs\<close>): policies, their validation, normalization, next runs, back-off,
    the state machine of a job and the plans of a finished run. \<open>chrono-tz\<close>, \<open>cron\<close> and
    \<open>serde_json\<close> are the fields of \<open>schedule_lib\<close>; a property that needs documented behaviour of
    them has it as a hypothesis. \<open>i64\<close> additions wrap (\<open>wrap_i64\<close>), saturating ones saturate.
  \<^item> \<open>Scheduler_Store\<close> (\<open>memory.rs\<close>): jobs, runs and pending drafts; a total enum codec as the
    locale \<open>total_codec\<close>. \<open>Scheduler_Jobs\<close>, \<open>Scheduler_Texts\<close>, \<open>Scheduler_Dialog\<close>
    (\<open>scheduler_helpers.rs\<close>, \<open>telegram_commands.rs\<close>): drafts and jobs, text recognition, the
    conversation with its confirmations. \<open>Scheduler_Worker\<close> (\<open>workers.rs\<close>): one run and one round.
  \<^item> \<open>Scheduler_Actions\<close>: the store transactions as actions that interleave freely, what one
    action may do to one job, the invariant (an interpretation of \<open>transition_system\<close>).

  \<^item> \<open>Float64\<close>: Rust's \<open>f64\<close> as rationals with IEEE rounding, which is monotone and keeps
    representable values. \<open>Evolution_Domain\<close>, \<open>Evolution_Store\<close>, \<open>Evolution_Engine\<close>: patches, eval
    cases, scorer, gate and drafts; the tables and their transactions; the engine with its evaluation
    in one go and case by case (over a durable cursor), approval, abandoning, activation and rollback
    with the policy cache. An operation that reads back what it committed has type \<open>'a evo\<close>, tables
    and result, because it can fail after the commit. Parameters are the printer of \<open>serde_json\<close>,
    SHA-256, whether a text parses as JSON (\<open>evo_lib\<close>), the answers of the provider (\<open>provider\<close>, a
    failed request or a passed deadline being an error), the clocks, and the stamps that ids are made
    of. JSON columns are kept as values, with object keys in the sorted order \<open>serde_json\<close> gives them.
  \<^item> \<open>Evolution_Actions\<close>, \<open>Evolution_Calls\<close>: the evolution transactions as actions and the engine's
    calls as sequences of them; \<open>Evolution_Invariant\<close>: the invariant of the tables, again an
    interpretation of \<open>transition_system\<close>.

  \<^bold>\<open>Proofs.\<close> \<open>Loop_Evolution\<close> states how rows may change over time (status graphs, immutable
  columns, growing counters). \<open>Loop_Change\<close> lists the primitive changes of the database that
  transactions are made of, \<open>Loop_Invariant\<close> the invariant (keys, references, row shapes, fencing,
  attempt counts, bindings of approvals) and that every primitive change keeps it and evolves the
  rows legally. \<open>Loop_Transactions\<close>, \<open>Loop_Goal_Changes\<close>, \<open>Loop_Work_Changes\<close> and
  \<open>Loop_Record_Changes\<close> decompose each transaction into primitive changes. \<open>Loop_System\<close> interprets
  the two locales on the engine. \<open>Loop_Example\<close> is a run of a two-step workflow on which the
  properties are instantiated. \<open>Loop_Safety\<close> holds what is true in every reachable state;
  \<open>Loop_Admission\<close> what admission, validation, approval, verification and provider budgets decide;
  \<open>Loop_Claims\<close> what a worker can rely on (claims are current, eligible work is handed out, a current
  claim completes, commits repeat); \<open>Loop_Settle\<close> what recovery does (it is total, its verdicts, no
  deadlock, failures reach exactly the downstream items); \<open>Loop_Control\<close> extensions, the operator's
  verdict and the status of a goal; \<open>Loop_Ledger\<close> codecs, signals, artifacts and replays.
  Of the scheduler, \<open>Scheduler_Safety\<close> shows the state machine, leases and what pausing after
  failures means, \<open>Scheduler_Runs\<close> plans, policies and settled runs, and that commands and worker
  rounds are sequences of actions, \<open>Scheduler_Dialog\<close> that nothing is scheduled without the
  confirmation asked for. \<open>Scheduler_Example\<close> instantiates the properties.
  Of the evolution harness, \<open>Evolution_Safety\<close> shows that deployments implement a stack of policies,
  that a rollback undoes an activation, that a served policy was vetted, and what the policy cache
  holds when activation and rollback do and do not overlap; \<open>Evolution_Scores\<close> the range of scores and
  the verdict of the gate; \<open>Evolution_Resume\<close> that the evaluation case by case is equivalent to the
  one in one go; \<open>Evolution_Abandon\<close> that an abandoned evaluation leaves a cursor behind which blocks
  the next; \<open>Evolution_Settle\<close> the typing of the tables and that every evaluation settles its
  candidate. \<open>Evolution_Example\<close> follows one candidate on which the properties are instantiated.

  \<^bold>\<open>Bounds.\<close> The claim loop runs for the rounds the code allows; loops over rows and messages recurse
  on their lists. Driving an evaluation has the number of its cases as fuel: every step finishes one
  case, and the property on stepwise evaluation shows that this completes whatever one go completes.
  At most 50 eval cases are enabled and 16 belong to a benchmark suite.

  \<^bold>\<open>Not modelled.\<close> Migrations of old databases; the notification channel of the engine; I/O
  failures of SQLite itself (a failed statement is a rollback and leaves the state unchanged); the
  background worker around the engine; the \<open>/task\<close> command parser and the rendering of job lists; of
  the evolution harness the proposals from trajectories, the cycles around them, the review of a
  deployment and the signal of a feedback spike; and
  the other parts of the program: trajectories, chat transport, chat memory, HTTP, providers, MCP, skills,
  configuration.
\<close>

end
